(* ===== verification/Prelude.thy ===== *)
theory Prelude
  imports Complex_Main "HOL-Library.AList"
begin

text \<open>
  Shared vocabulary of the development: the program type every handler is written in
  (explicit state passing, an error as the left value of a sum), its weakest-precondition
  calculus, JSON documents as the services read and build them, machine integers,
  relational tables as lists of rows, and the identifiers \<open>format!("SUB-{n:04}")\<close> mints.
\<close>

named_theorems wp_simps
named_theorems tbl_simps

section \<open>Programs: explicit state, errors as values\<close>

text \<open>
  A Rust function \<open>async fn f(..) -> Result<A, E>\<close> that reads and writes a state is a
  function of the state into \<open>(E + A) \<times> state\<close>. \<open>bindp\<close> is the \<open>?\<close> operator:
  the first error ends the function, and the state reached so far is kept.
\<close>

type_synonym ('s, 'e, 'a) prog = "'s \<Rightarrow> ('e + 'a) \<times> 's"

definition ret :: "'a \<Rightarrow> ('s, 'e, 'a) prog" where
  "ret x s = (Inr x, s)"

definition throw :: "'e \<Rightarrow> ('s, 'e, 'a) prog" where
  "throw e s = (Inl e, s)"

definition bindp :: "('s, 'e, 'a) prog \<Rightarrow> ('a \<Rightarrow> ('s, 'e, 'b) prog) \<Rightarrow> ('s, 'e, 'b) prog" where
  "bindp m f s = (case m s of (Inl e, t) \<Rightarrow> (Inl e, t) | (Inr x, t) \<Rightarrow> f x t)"

definition gets :: "('s \<Rightarrow> 'a) \<Rightarrow> ('s, 'e, 'a) prog" where
  "gets f s = (Inr (f s), s)"

definition modify :: "('s \<Rightarrow> 's) \<Rightarrow> ('s, 'e, unit) prog" where
  "modify f s = (Inr (), f s)"

definition of_result :: "'e + 'a \<Rightarrow> ('s, 'e, 'a) prog" where
  "of_result r s = (r, s)"

text \<open>\<open>map_err\<close> of a \<open>Result\<close>, and a program whose error is only logged.\<close>

definition map_err :: "('e \<Rightarrow> 'f) \<Rightarrow> ('s, 'e, 'a) prog \<Rightarrow> ('s, 'f, 'a) prog" where
  "map_err f m s = (case m s of (Inl e, t) \<Rightarrow> (Inl (f e), t) | (Inr x, t) \<Rightarrow> (Inr x, t))"

definition ignore_err :: "('s, 'e, 'a) prog \<Rightarrow> ('s, 'f, unit) prog" where
  "ignore_err m s = (Inr (), snd (m s))"

fun for_each :: "'x list \<Rightarrow> ('x \<Rightarrow> ('s, 'e, unit) prog) \<Rightarrow> ('s, 'e, unit) prog" where
  "for_each [] f = ret ()"
| "for_each (x # xs) f = bindp (f x) (\<lambda>_. for_each xs f)"

text \<open>
  The weakest precondition of a program: \<open>Q\<close> for a returned value, \<open>E\<close> for an error.
  Its rules let the simplifier compute what a handler does, one statement at a time.
\<close>

definition wp :: "('s, 'e, 'a) prog \<Rightarrow> ('a \<Rightarrow> 's \<Rightarrow> bool) \<Rightarrow> ('e \<Rightarrow> 's \<Rightarrow> bool) \<Rightarrow> 's \<Rightarrow> bool" where
  "wp m Q E s = (case m s of (Inl e, t) \<Rightarrow> E e t | (Inr x, t) \<Rightarrow> Q x t)"

lemma wp_ret [wp_simps]: "wp (ret x) Q E = (\<lambda>s. Q x s)"
  by (rule ext) (simp add: wp_def ret_def)

lemma wp_throw [wp_simps]: "wp (throw e) Q E = (\<lambda>s. E e s)"
  by (rule ext) (simp add: wp_def throw_def)

lemma wp_bindp [wp_simps]: "wp (bindp m f) Q E = (\<lambda>s. wp m (\<lambda>x. wp (f x) Q E) E s)"
  by (rule ext) (auto simp: wp_def bindp_def split: prod.splits sum.splits)

lemma wp_gets [wp_simps]: "wp (gets f) Q E = (\<lambda>s. Q (f s) s)"
  by (rule ext) (simp add: wp_def gets_def)

lemma wp_modify [wp_simps]: "wp (modify f) Q E = (\<lambda>s. Q () (f s))"
  by (rule ext) (simp add: wp_def modify_def)

lemma wp_of_result [wp_simps]: "wp (of_result r) Q E = (\<lambda>s. (case r of Inl e \<Rightarrow> E e s | Inr x \<Rightarrow> Q x s))"
  by (rule ext) (simp add: wp_def of_result_def)

lemma wp_map_err [wp_simps]: "wp (map_err f m) Q E = (\<lambda>s. wp m Q (\<lambda>e. E (f e)) s)"
  by (rule ext) (auto simp: wp_def map_err_def split: prod.splits sum.splits)

lemma wp_ignore_err [wp_simps]: "wp (ignore_err m) Q E = (\<lambda>s. wp m (\<lambda>_. Q ()) (\<lambda>_. Q ()) s)"
  by (rule ext) (auto simp: wp_def ignore_err_def split: prod.splits sum.splits)

lemma wp_if [wp_simps]: "wp (if b then m else n) Q E = (\<lambda>s. (if b then wp m Q E s else wp n Q E s))"
  by simp

lemma wp_case_option [wp_simps]:
  "wp (case v of None \<Rightarrow> m | Some x \<Rightarrow> n x) Q E = (\<lambda>s. (case v of None \<Rightarrow> wp m Q E s | Some x \<Rightarrow> wp (n x) Q E s))"
  by (rule ext) (simp split: option.splits)

lemma wp_case_sum [wp_simps]:
  "wp (case r of Inl e \<Rightarrow> m e | Inr x \<Rightarrow> n x) Q E = (\<lambda>s. (case r of Inl e \<Rightarrow> wp (m e) Q E s | Inr x \<Rightarrow> wp (n x) Q E s))"
  by (rule ext) (simp split: sum.splits)

lemma wp_case_prod [wp_simps]:
  "wp (case p of (a, b) \<Rightarrow> m a b) Q E = (\<lambda>s. (case p of (a, b) \<Rightarrow> wp (m a b) Q E s))"
  by (rule ext) (simp split: prod.splits)

lemma wp_mono:
  assumes "wp m Q E s" "\<And>x t. Q x t \<Longrightarrow> Q' x t" "\<And>e t. E e t \<Longrightarrow> E' e t"
  shows "wp m Q' E' s"
  using assms by (auto simp: wp_def split: prod.splits sum.splits)

text \<open>\<open>wp\<close> holds of a run's actual outcome; the two directions properties use.\<close>

lemma wp_okD: "wp m Q E s \<Longrightarrow> m s = (Inr x, t) \<Longrightarrow> Q x t"
  by (simp add: wp_def)

lemma wp_errD: "wp m Q E s \<Longrightarrow> m s = (Inl e, t) \<Longrightarrow> E e t"
  by (simp add: wp_def)

lemma wp_I: "(\<And>x t. m s = (Inr x, t) \<Longrightarrow> Q x t) \<Longrightarrow> (\<And>e t. m s = (Inl e, t) \<Longrightarrow> E e t) \<Longrightarrow> wp m Q E s"
  by (auto simp: wp_def split: prod.splits sum.splits)

lemma wp_total: "wp m (\<lambda>_. Q) (\<lambda>_ _. False) s \<Longrightarrow> Q (snd (m s))"
  by (auto simp: wp_def split: prod.splits sum.splits)

lemma wp_same: "wp m (\<lambda>_. P) (\<lambda>_. P) s \<longleftrightarrow> P (snd (m s))"
  by (auto simp: wp_def split: prod.splits sum.splits)

text \<open>A loop keeps what each of its bodies keeps.\<close>

lemma wp_for_each:
  assumes "\<And>x t. x \<in> set xs \<Longrightarrow> I t \<Longrightarrow> wp (f x) (\<lambda>_. I) E t" and "I s"
  shows "wp (for_each xs f) (\<lambda>_. I) E s"
  using assms
proof (induction xs arbitrary: s)
  case Nil
  then show ?case by (simp add: wp_simps)
next
  case (Cons x xs)
  have "wp (f x) (\<lambda>_. I) E s" using Cons.prems by simp
  then have "wp (f x) (\<lambda>_. wp (for_each xs f) (\<lambda>_. I) E) E s"
    by (rule wp_mono) (use Cons in auto)
  then show ?case by (simp add: wp_simps)
qed

text \<open>\<open>keeps P m\<close>: the program preserves \<open>P\<close>, whether it returns or fails.\<close>

definition keeps :: "('s \<Rightarrow> bool) \<Rightarrow> ('s, 'e, 'a) prog \<Rightarrow> bool" where
  "keeps P m \<longleftrightarrow> (\<forall>s. P s \<longrightarrow> P (snd (m s)))"

lemma keepsI: "(\<And>s. P s \<Longrightarrow> wp m (\<lambda>_. P) (\<lambda>_. P) s) \<Longrightarrow> keeps P m"
  by (simp add: keeps_def wp_same)

lemma keepsD: "keeps P m \<Longrightarrow> P s \<Longrightarrow> P (snd (m s))"
  by (simp add: keeps_def)

lemma keeps_wp: "keeps P m \<Longrightarrow> P s \<Longrightarrow> wp m (\<lambda>_. P) (\<lambda>_. P) s"
  by (simp add: keeps_def wp_same)

lemma keeps_ret [intro, simp]: "keeps P (ret x)"
  by (simp add: keeps_def ret_def)

lemma keeps_throw [intro, simp]: "keeps P (throw e)"
  by (simp add: keeps_def throw_def)

lemma keeps_gets [intro, simp]: "keeps P (gets f)"
  by (simp add: keeps_def gets_def)

lemma keeps_of_result [intro, simp]: "keeps P (of_result r)"
  by (simp add: keeps_def of_result_def)

lemma keeps_bindp [intro]: "keeps P m \<Longrightarrow> (\<And>x. keeps P (f x)) \<Longrightarrow> keeps P (bindp m f)"
  by (rule keepsI) (simp add: wp_simps, rule wp_mono [OF keeps_wp [of P m]], auto intro: keeps_wp)

lemma keeps_map_err [intro]: "keeps P m \<Longrightarrow> keeps P (map_err f m)"
  by (rule keepsI) (simp add: wp_simps keeps_wp)

lemma keeps_ignore_err [intro]: "keeps P m \<Longrightarrow> keeps P (ignore_err m)"
  by (simp add: keeps_def ignore_err_def)

lemma keeps_modify: "(\<And>s. P s \<Longrightarrow> P (f s)) \<Longrightarrow> keeps P (modify f)"
  by (simp add: keeps_def modify_def)

lemma keeps_for_each [intro]: "(\<And>x. x \<in> set xs \<Longrightarrow> keeps P (f x)) \<Longrightarrow> keeps P (for_each xs f)"
  by (induction xs) auto

lemma keeps_if [intro]: "(b \<Longrightarrow> keeps P m) \<Longrightarrow> (\<not> b \<Longrightarrow> keeps P n) \<Longrightarrow> keeps P (if b then m else n)"
  by simp

lemma keeps_case_option [intro]:
  "(v = None \<Longrightarrow> keeps P m) \<Longrightarrow> (\<And>x. v = Some x \<Longrightarrow> keeps P (n x)) \<Longrightarrow> keeps P (case v of None \<Rightarrow> m | Some x \<Rightarrow> n x)"
  by (simp split: option.splits)

lemma keeps_case_sum [intro]:
  "(\<And>e. keeps P (m e)) \<Longrightarrow> (\<And>x. keeps P (n x)) \<Longrightarrow> keeps P (case r of Inl e \<Rightarrow> m e | Inr x \<Rightarrow> n x)"
  by (simp split: sum.splits)

lemma keeps_case_prod [intro]: "(\<And>a b. keeps P (m a b)) \<Longrightarrow> keeps P (case p of (a, b) \<Rightarrow> m a b)"
  by (simp split: prod.splits)

section \<open>Machine integers\<close>

text \<open>
  \<open>i64\<close> arithmetic of a release build (the workspace sets no \<open>overflow-checks\<close>): the
  two's complement value of the result. \<open>as i16\<close> truncates the same way.
\<close>

definition i64_max :: int where "i64_max = 9223372036854775807"
definition i64_min :: int where "i64_min = - 9223372036854775808"

definition in_i64 :: "int \<Rightarrow> bool" where
  "in_i64 x \<longleftrightarrow> i64_min \<le> x \<and> x \<le> i64_max"

definition wrap64 :: "int \<Rightarrow> int" where
  "wrap64 x = (x + 9223372036854775808) mod 18446744073709551616 - 9223372036854775808"

definition wrap16 :: "int \<Rightarrow> int" where
  "wrap16 x = (x + 32768) mod 65536 - 32768"

lemma wrap64_id: "in_i64 x \<Longrightarrow> wrap64 x = x"
  by (simp add: wrap64_def in_i64_def i64_max_def i64_min_def)

lemma wrap64_range: "in_i64 (wrap64 x)"
proof -
  have "0 \<le> (x + 9223372036854775808) mod 18446744073709551616"
    and "(x + 9223372036854775808) mod 18446744073709551616 < 18446744073709551616" by simp_all
  then show ?thesis by (simp add: wrap64_def in_i64_def i64_max_def i64_min_def)
qed

lemma wrap16_id: "- 32768 \<le> x \<Longrightarrow> x \<le> 32767 \<Longrightarrow> wrap16 x = x"
  by (simp add: wrap16_def)

text \<open>\<open>f64 as i64\<close> truncates towards zero and saturates.\<close>

definition sat64 :: "int \<Rightarrow> int" where
  "sat64 x = max i64_min (min i64_max x)"

definition trunc_rat :: "rat \<Rightarrow> int" where
  "trunc_rat q = (if q < 0 then - \<lfloor>- q\<rfloor> else \<lfloor>q\<rfloor>)"

section \<open>JSON documents\<close>

text \<open>
  \<open>serde_json::Value\<close>. A number is an integer (\<open>JInt\<close>) or one written with a fraction
  (\<open>JDec\<close>, by its decimal value). Decimal amounts that the code renders with
  \<open>Decimal::to_string\<close> are \<open>JDec\<close> values too, and timestamps that it renders with
  \<open>isoformat\<close> are \<open>JTime\<close> instants: the digits of the text are not modelled.
\<close>

datatype json =
    JNull
  | JBool bool
  | JInt int
  | JDec rat
  | JStr string
  | JTime int
  | JArr "json list"
  | JObj "(string \<times> json) list"

fun jget :: "json \<Rightarrow> string \<Rightarrow> json option" where
  "jget (JObj kvs) k = map_of kvs k"
| "jget _ k = None"

fun jidx :: "json \<Rightarrow> string \<Rightarrow> json" where
  "jidx (JObj kvs) k = (case map_of kvs k of None \<Rightarrow> JNull | Some v \<Rightarrow> v)"
| "jidx _ k = JNull"

fun as_str :: "json \<Rightarrow> string option" where
  "as_str (JStr s) = Some s"
| "as_str _ = None"

fun as_bool :: "json \<Rightarrow> bool option" where
  "as_bool (JBool b) = Some b"
| "as_bool _ = None"

fun as_array :: "json \<Rightarrow> json list option" where
  "as_array (JArr vs) = Some vs"
| "as_array _ = None"

fun as_object :: "json \<Rightarrow> (string \<times> json) list option" where
  "as_object (JObj kvs) = Some kvs"
| "as_object _ = None"

fun as_i64 :: "json \<Rightarrow> int option" where
  "as_i64 (JInt i) = (if in_i64 i then Some i else None)"
| "as_i64 _ = None"

fun jinsert :: "string \<Rightarrow> json \<Rightarrow> json \<Rightarrow> json" where
  "jinsert k v (JObj kvs) = JObj (AList.update k v kvs)"
| "jinsert k v j = j"

fun is_null :: "json \<Rightarrow> bool" where
  "is_null JNull = True"
| "is_null _ = False"

text \<open>\<open>v.get(k).and_then(Value::as_str)\<close> and its kin.\<close>

definition get_str :: "json \<Rightarrow> string \<Rightarrow> string option" where
  "get_str v k = Option.bind (jget v k) as_str"

definition get_str_or :: "json \<Rightarrow> string \<Rightarrow> string \<Rightarrow> string" where
  "get_str_or v k d = (case get_str v k of None \<Rightarrow> d | Some x \<Rightarrow> x)"

definition get_i64 :: "json \<Rightarrow> string \<Rightarrow> int option" where
  "get_i64 v k = Option.bind (jget v k) as_i64"

definition get_bool :: "json \<Rightarrow> string \<Rightarrow> bool option" where
  "get_bool v k = Option.bind (jget v k) as_bool"

definition get_array :: "json \<Rightarrow> string \<Rightarrow> json list option" where
  "get_array v k = Option.bind (jget v k) as_array"

definition unwrap_or :: "'a \<Rightarrow> 'a option \<Rightarrow> 'a" where
  "unwrap_or d v = (case v of None \<Rightarrow> d | Some x \<Rightarrow> x)"

definition opt_json :: "('a \<Rightarrow> json) \<Rightarrow> 'a option \<Rightarrow> json" where
  "opt_json f v = (case v of None \<Rightarrow> JNull | Some x \<Rightarrow> f x)"

lemma unwrap_or_simps [simp]: "unwrap_or d None = d" "unwrap_or d (Some x) = x"
  by (simp_all add: unwrap_or_def)

lemma opt_json_simps [simp]: "opt_json f None = JNull" "opt_json f (Some x) = f x"
  by (simp_all add: opt_json_def)

lemma jget_jinsert [simp]:
  "jget (jinsert k v (JObj kvs)) k' = (if k' = k then Some v else map_of kvs k')"
  by (simp add: update_conv')

text \<open>
  \<open>Decimal::from_str(&money_str(v))\<close>: a string goes to \<open>rust_decimal\<close>'s parser (a
  parameter), a number is its own decimal value, anything else does not parse.
\<close>

fun json_decimal :: "(string \<Rightarrow> rat option) \<Rightarrow> json \<Rightarrow> rat option" where
  "json_decimal parse (JStr s) = parse s"
| "json_decimal parse (JInt i) = Some (of_int i)"
| "json_decimal parse (JDec q) = Some q"
| "json_decimal parse _ = None"

section \<open>Text\<close>

definition digit_char :: "nat \<Rightarrow> char" where
  "digit_char d = char_of (48 + d)"

definition digit_val :: "char \<Rightarrow> nat option" where
  "digit_val c = (let n = of_char c :: nat in if 48 \<le> n \<and> n \<le> 57 then Some (n - 48) else None)"

fun show_nat :: "nat \<Rightarrow> string" where
  "show_nat n = (if n < 10 then [digit_char n] else show_nat (n div 10) @ [digit_char (n mod 10)])"

declare show_nat.simps [simp del]

text \<open>\<open>{n:04}\<close>, \<open>{n:06}\<close>: at least that many digits, padded with zeros on the left.\<close>

definition pad_to :: "nat \<Rightarrow> nat \<Rightarrow> string" where
  "pad_to w n = replicate (w - length (show_nat n)) CHR ''0'' @ show_nat n"

abbreviation pad4 :: "nat \<Rightarrow> string" where "pad4 \<equiv> pad_to 4"
abbreviation pad6 :: "nat \<Rightarrow> string" where "pad6 \<equiv> pad_to 6"

fun read_digits :: "string \<Rightarrow> nat \<Rightarrow> nat option" where
  "read_digits [] acc = Some acc"
| "read_digits (c # cs) acc = (case digit_val c of None \<Rightarrow> None | Some d \<Rightarrow> read_digits cs (10 * acc + d))"

lemma digit_val_char [simp]: "d < 10 \<Longrightarrow> digit_val (digit_char d) = Some d"
  by (simp add: digit_val_def digit_char_def)

lemma read_digits_append:
  "read_digits (xs @ ys) acc = Option.bind (read_digits xs acc) (read_digits ys)"
  by (induction xs arbitrary: acc) (auto split: option.splits)

lemma read_show_nat: "read_digits (show_nat n) 0 = Some n"
proof (induction n rule: show_nat.induct)
  case (1 n)
  show ?case
  proof (cases "n < 10")
    case True
    then show ?thesis by (simp add: show_nat.simps [of n])
  next
    case False
    then show ?thesis using "1" by (simp add: show_nat.simps [of n] read_digits_append)
  qed
qed

lemma read_zeros: "read_digits (replicate k CHR ''0'' @ s) 0 = read_digits s 0"
proof (induction k)
  case (Suc k)
  have "digit_val CHR ''0'' = Some 0" by (simp add: digit_val_def)
  then show ?case using Suc by simp
qed simp

lemma read_pad: "read_digits (pad_to w n) 0 = Some n"
  by (simp add: pad_to_def read_zeros read_show_nat)

lemma pad_inject [simp]: "pad_to w m = pad_to w n \<longleftrightarrow> m = n"
  by (metis option.inject read_pad)

text \<open>\<open>str::parse::<i64>\<close>: an optional sign, at least one digit, and the value in range.\<close>

definition parse_i64 :: "string \<Rightarrow> int option" where
  "parse_i64 s =
     (let (neg, ds) = (case s of [] \<Rightarrow> (False, [])
                       | c # cs \<Rightarrow> if c = CHR ''-'' then (True, cs)
                                   else if c = CHR ''+'' then (False, cs) else (False, s))
      in if ds = [] then None
         else case read_digits ds 0 of None \<Rightarrow> None
              | Some n \<Rightarrow> (let v = (if neg then - int n else int n) in if in_i64 v then Some v else None))"

text \<open>\<open>to_uppercase\<close> on the ASCII letters allowance types are written in.\<close>

definition upper_char :: "char \<Rightarrow> char" where
  "upper_char c = (let n = of_char c :: nat in if 97 \<le> n \<and> n \<le> 122 then char_of (n - 32) else c)"

definition to_uppercase :: "string \<Rightarrow> string" where
  "to_uppercase = map upper_char"

section \<open>Tables\<close>

text \<open>
  A table is the list of its rows in physical order. \<open>SELECT .. WHERE key = k\<close> is
  \<open>tbl_find\<close>, \<open>UPDATE .. WHERE key = k\<close> is \<open>tbl_update\<close> (every matching row, the
  others untouched).
\<close>

definition tbl_find :: "('r \<Rightarrow> 'k) \<Rightarrow> 'k \<Rightarrow> 'r list \<Rightarrow> 'r option" where
  "tbl_find key k rows = find (\<lambda>r. key r = k) rows"

definition tbl_update :: "('r \<Rightarrow> 'k) \<Rightarrow> 'k \<Rightarrow> ('r \<Rightarrow> 'r) \<Rightarrow> 'r list \<Rightarrow> 'r list" where
  "tbl_update key k f rows = map (\<lambda>r. if key r = k then f r else r) rows"

lemma tbl_find_Nil [simp]: "tbl_find key k [] = None"
  by (simp add: tbl_find_def)

lemma tbl_find_Cons [simp]:
  "tbl_find key k (r # rs) = (if key r = k then Some r else tbl_find key k rs)"
  by (simp add: tbl_find_def)

lemma tbl_find_append:
  "tbl_find key k (xs @ ys) = (case tbl_find key k xs of None \<Rightarrow> tbl_find key k ys | Some r \<Rightarrow> Some r)"
  by (induction xs) auto

lemma tbl_find_SomeD: "tbl_find key k rows = Some r \<Longrightarrow> r \<in> set rows \<and> key r = k"
  by (induction rows) (auto split: if_splits)

lemma tbl_find_key: "tbl_find key k rows = Some r \<Longrightarrow> tbl_find key (key r) rows = Some r"
  using tbl_find_SomeD by metis

lemma tbl_find_None_iff: "tbl_find key k rows = None \<longleftrightarrow> k \<notin> key ` set rows"
  by (induction rows) auto

lemma tbl_find_map: "(\<And>r. key (f r) = key r) \<Longrightarrow> tbl_find key k (map f rows) = map_option f (tbl_find key k rows)"
  by (induction rows) auto

lemma tbl_find_update [tbl_simps]:
  assumes "\<And>r. key (f r) = key r"
  shows "tbl_find key k' (tbl_update key k f rows)
       = (if k' = k then map_option f (tbl_find key k rows) else tbl_find key k' rows)"
  by (induction rows) (auto simp: tbl_update_def assms)

lemma tbl_update_Nil [simp]: "tbl_update key k f [] = []"
  by (simp add: tbl_update_def)

lemma tbl_update_Cons [simp]:
  "tbl_update key k f (r # rs) = (if key r = k then f r else r) # tbl_update key k f rs"
  by (simp add: tbl_update_def)

lemma tbl_update_append [simp]: "tbl_update key k f (xs @ ys) = tbl_update key k f xs @ tbl_update key k f ys"
  by (simp add: tbl_update_def)

lemma map_tbl_update [tbl_simps]:
  "(\<And>r. g (f r) = g r) \<Longrightarrow> map g (tbl_update key k f rows) = map g rows"
  by (simp add: tbl_update_def)

lemma length_tbl_update [simp]: "length (tbl_update key k f rows) = length rows"
  by (simp add: tbl_update_def)

lemma tbl_update_other: "k \<notin> key ` set rows \<Longrightarrow> tbl_update key k f rows = rows"
  by (induction rows) (auto simp: tbl_update_def)

lemma tbl_update_twice:
  "(\<And>r. key (f r) = key r) \<Longrightarrow> tbl_update key k g (tbl_update key k f rows) = tbl_update key k (\<lambda>r. g (f r)) rows"
  by (simp add: tbl_update_def)

lemma list_all_tbl_update: "list_all P (tbl_update key k f rows) \<longleftrightarrow> list_all (\<lambda>r. P (if key r = k then f r else r)) rows"
  by (induction rows) auto

lemma set_tbl_update:
  "r \<in> set (tbl_update key k f rows) \<longleftrightarrow> (\<exists>r0 \<in> set rows. r = (if key r0 = k then f r0 else r0))"
  by (force simp: tbl_update_def)

end
