(* ===== verification/Events.thy ===== *)
theory Events
  imports Prelude "HOL-Library.Multiset"
begin

text \<open>
  The shared crates: request context (\<open>crates/bss-context\<close>), policy violations
  (\<open>crates/bss-db\<close>), typed client errors (\<open>crates/bss-clients\<close>), event staging, the
  transactional-outbox relay and the safe consumer (\<open>crates/bss-events\<close>).
\<close>

section \<open>Errors\<close>

text \<open>The human-readable message is derived from the rule and its context and is not modelled.\<close>

datatype violation = Violation (rule: string) (vcontext: json)

datatype client_error =
    NotFoundErr
  | PolicyErr violation
  | ServerErr int
  | HttpErr int
  | TimeoutErr
  | TransportErr

definition status_code :: "client_error \<Rightarrow> int" where
  "status_code e = (case e of NotFoundErr \<Rightarrow> 404 | PolicyErr _ \<Rightarrow> 422 | ServerErr n \<Rightarrow> n | HttpErr n \<Rightarrow> n
                    | TimeoutErr \<Rightarrow> 504 | TransportErr \<Rightarrow> 0)"

datatype api_error =
    PolicyE violation
  | NotFoundE string
  | BadRequestE string
  | ForbiddenE json
  | InternalE string

definition upstream :: "client_error \<Rightarrow> api_error" where
  "upstream e = InternalE ''upstream error''"

definition violate :: "string \<Rightarrow> (string \<times> json) list \<Rightarrow> api_error" where
  "violate r kvs = PolicyE (Violation r (JObj kvs))"

text \<open>The 422 body a violation travels in, and how a caller reads it back.\<close>

definition reference_error :: "violation \<Rightarrow> string" where
  "reference_error v = ''https://docs.bss-cli.dev/policies/'' @ rule v"

definition to_wire :: "string \<Rightarrow> violation \<Rightarrow> json" where
  "to_wire message v = JObj [(''code'', JStr ''POLICY_VIOLATION''), (''reason'', JStr (rule v)),
     (''message'', JStr message), (''referenceError'', JStr (reference_error v)), (''context'', vcontext v)]"

definition from_wire :: "json \<Rightarrow> violation option" where
  "from_wire body =
     (if get_str body ''code'' \<noteq> Some ''POLICY_VIOLATION'' then None
      else case get_str body ''reason'' of None \<Rightarrow> None
           | Some r \<Rightarrow> (case get_str body ''message'' of None \<Rightarrow> None
              | Some _ \<Rightarrow> Some (Violation r (unwrap_or (JObj []) (jget body ''context'')))))"

lemma from_wire_to_wire: "from_wire (to_wire message v) = Some v"
  by (cases v) (simp add: from_wire_def to_wire_def get_str_def)

text \<open>
  The response a service renders for an error, and what \<open>BssClient\<close> makes of a response:
  status and body, \<open>None\<close> for a body that is not JSON.
\<close>

definition into_response :: "string \<Rightarrow> api_error \<Rightarrow> int \<times> json option" where
  "into_response message e = (case e of
      PolicyE v \<Rightarrow> (422, Some (to_wire message v))
    | NotFoundE detail \<Rightarrow> (404, Some (JObj [(''detail'', JStr detail)]))
    | BadRequestE detail \<Rightarrow> (400, Some (JObj [(''detail'', JStr detail)]))
    | ForbiddenE detail \<Rightarrow> (403, Some (JObj [(''detail'', detail)]))
    | InternalE detail \<Rightarrow> (500, Some (JObj [(''detail'', JStr detail)])))"

definition handle_response :: "int \<times> json option \<Rightarrow> client_error + json option" where
  "handle_response resp = (case resp of (status, body) \<Rightarrow>
     if status = 404 then Inl NotFoundErr
     else if status = 422 then
       (case Option.bind body from_wire of Some v \<Rightarrow> Inl (PolicyErr v) | None \<Rightarrow> Inl (HttpErr 422))
     else if status \<ge> 500 then Inl (ServerErr status)
     else if status \<ge> 400 then Inl (HttpErr status)
     else Inr body)"

section \<open>Request context\<close>

record request_ctx =
  rc_request_id :: string
  rc_actor :: string
  rc_tenant :: string
  rc_channel :: string
  rc_identity :: string
  rc_roles :: "string list"
  rc_permissions :: "string list"

definition default_ctx :: request_ctx where
  "default_ctx = \<lparr>rc_request_id = [], rc_actor = ''system'', rc_tenant = ''DEFAULT'', rc_channel = ''system'',
     rc_identity = ''default'', rc_roles = [''admin''], rc_permissions = [''*'']\<rparr>"

definition has_permission :: "request_ctx \<Rightarrow> string \<Rightarrow> bool" where
  "has_permission ctx p \<longleftrightarrow> list_ex (\<lambda>q. q = ''*'' \<or> q = p) (rc_permissions ctx)"

section \<open>Staging\<close>

text \<open>
  A row of \<open>audit.domain_event\<close>. \<open>ev_id\<close> stands for both the serial \<open>id\<close> and the
  random \<open>event_id\<close>: it is the row's position in the log, so it is unique as both are.
  Trace ids are telemetry and left out.
\<close>

record event =
  ev_id :: nat
  ev_type :: string
  ev_agg_type :: string
  ev_agg_id :: string
  ev_occurred_at :: int
  ev_actor :: string
  ev_channel :: string
  ev_tenant :: string
  ev_identity :: string
  ev_payload :: json
  ev_schema_version :: int
  ev_published :: bool
  ev_attempts :: nat
  ev_error :: "string option"

text \<open>
  What every service database has: the audit log (append-only, also the outbox), the inbox
  of claimed deliveries, and, outside the transaction, the calls made to other services.
\<close>

record 'c base =
  outbox :: "event list"
  inbox :: "(nat \<times> string) list"
  calls :: "'c list"

definition stage_event :: "request_ctx \<Rightarrow> int \<Rightarrow> nat \<Rightarrow> string \<Rightarrow> string \<Rightarrow> string \<Rightarrow> json option \<Rightarrow> event" where
  "stage_event ctx now uuid etype atype aid payload =
     \<lparr>ev_id = uuid, ev_type = etype, ev_agg_type = atype, ev_agg_id = aid, ev_occurred_at = now,
      ev_actor = rc_actor ctx, ev_channel = rc_channel ctx, ev_tenant = rc_tenant ctx,
      ev_identity = rc_identity ctx, ev_payload = unwrap_or (JObj []) payload,
      ev_schema_version = 1, ev_published = False, ev_attempts = 0, ev_error = None\<rparr>"

definition stage :: "request_ctx \<Rightarrow> int \<Rightarrow> string \<Rightarrow> string \<Rightarrow> string \<Rightarrow> json
    \<Rightarrow> (('c, 'z) base_scheme, 'e, unit) prog" where
  "stage ctx now etype atype aid payload =
     modify (\<lambda>s. s\<lparr>outbox := outbox s @ [stage_event ctx now (length (outbox s)) etype atype aid (Some payload)]\<rparr>)"

text \<open>A call to another service: recorded, and its answer returned as a value.\<close>

definition call_ext :: "'c \<Rightarrow> 'r \<Rightarrow> (('c, 'z) base_scheme, 'e, 'r) prog" where
  "call_ext c r s = (Inr r, s\<lparr>calls := calls s @ [c]\<rparr>)"

text \<open>\<open>pool.begin() .. commit()\<close>: an error undoes every row written since, but no call.\<close>

definition rollback :: "('c, 'z) base_scheme \<Rightarrow> ('c, 'z) base_scheme \<Rightarrow> ('c, 'z) base_scheme" where
  "rollback s t = s\<lparr>calls := calls t\<rparr>"

definition in_tx :: "(('c, 'z) base_scheme, 'e, 'a) prog \<Rightarrow> (('c, 'z) base_scheme, 'e, 'a) prog" where
  "in_tx m s = (case m s of (Inl e, t) \<Rightarrow> (Inl e, rollback s t) | (Inr x, t) \<Rightarrow> (Inr x, t))"

lemma stage_event_simps [simp]:
  "ev_id (stage_event ctx now u a b c p) = u" "ev_type (stage_event ctx now u a b c p) = a"
  "ev_agg_type (stage_event ctx now u a b c p) = b" "ev_agg_id (stage_event ctx now u a b c p) = c"
  "ev_payload (stage_event ctx now u a b c (Some q)) = q" "ev_published (stage_event ctx now u a b c p) = False"
  by (simp_all add: stage_event_def)

lemma wp_stage [wp_simps]:
  "wp (stage ctx now etype atype aid payload) Q E = (\<lambda>s.
   Q () (s\<lparr>outbox := outbox s @ [stage_event ctx now (length (outbox s)) etype atype aid (Some payload)]\<rparr>))"
  by (rule ext) (simp add: stage_def wp_simps)

lemma wp_call_ext [wp_simps]: "wp (call_ext c r) Q E = (\<lambda>s. Q r (s\<lparr>calls := calls s @ [c]\<rparr>))"
  by (rule ext) (simp add: wp_def call_ext_def)

lemma wp_in_tx [wp_simps]: "wp (in_tx m) Q E = (\<lambda>s. wp m Q (\<lambda>e t. E e (rollback s t)) s)"
  by (rule ext) (auto simp: wp_def in_tx_def split: prod.splits sum.splits)

lemma rollback_simps [simp]:
  "outbox (rollback s t) = outbox s" "inbox (rollback s t) = inbox s" "calls (rollback s t) = calls t"
  by (simp_all add: rollback_def)

lemma keeps_stage: "(\<And>s x. P s \<Longrightarrow> P (s\<lparr>outbox := x\<rparr>)) \<Longrightarrow> keeps P (stage ctx now a b c p)"
  unfolding stage_def by (rule keeps_modify)

lemma keeps_call_ext: "(\<And>s k. P s \<Longrightarrow> P (s\<lparr>calls := k\<rparr>)) \<Longrightarrow> keeps P (call_ext c r)"
  by (simp add: keeps_def call_ext_def)

lemma keeps_in_tx [intro]:
  "keeps P m \<Longrightarrow> (\<And>s k. P s \<Longrightarrow> P (s\<lparr>calls := k\<rparr>)) \<Longrightarrow> keeps P (in_tx m)"
  by (rule keepsI) (auto simp: wp_simps rollback_def dest!: keeps_wp elim!: wp_mono)

text \<open>No program below touches the inbox; the consumer alone writes it.\<close>

lemma keeps_inbox [intro, simp]:
  "keeps (\<lambda>t. inbox t = i) (stage ctx now a b c p)" "keeps (\<lambda>t. inbox t = i) (call_ext x r)"
  by (auto intro: keeps_stage keeps_call_ext)

section \<open>The outbox relay\<close>

text \<open>
  The broker is the sequence of messages it accepted: routing key, message id, body.
  Whether it accepts a message is its own choice (the parameter \<open>accept\<close>).
\<close>

record message =
  msg_key :: string
  msg_id :: nat
  msg_body :: json

datatype row_outcome = PublishedRow nat | FailedRow nat string

text \<open>
  \<open>DRAIN_SQL\<close>: the unpublished rows by \<open>occurred_at\<close>, ties by \<open>id\<close> (the log is in
  \<open>id\<close> order and the sort is stable), the first \<open>limit\<close> of them.
\<close>

definition unpublished :: "event list \<Rightarrow> event list" where
  "unpublished rows = filter (\<lambda>e. \<not> ev_published e) rows"

definition drain_select :: "nat \<Rightarrow> event list \<Rightarrow> event list" where
  "drain_select limit rows = take limit (sort_key ev_occurred_at (unpublished rows))"

definition message_of :: "event \<Rightarrow> message" where
  "message_of e = \<lparr>msg_key = ev_type e, msg_id = ev_id e,
                   msg_body = (if is_null (ev_payload e) then JObj [] else ev_payload e)\<rparr>"

fun drain_batch :: "(message \<Rightarrow> string + unit) \<Rightarrow> event list \<Rightarrow> row_outcome list \<times> message list" where
  "drain_batch accept [] = ([], [])"
| "drain_batch accept (e # es) =
     (let (outs, sent) = drain_batch accept es in
      case accept (message_of e) of
        Inr _ \<Rightarrow> (PublishedRow (ev_id e) # outs, message_of e # sent)
      | Inl err \<Rightarrow> (FailedRow (ev_id e) (take 500 err) # outs, sent))"

definition mark_ok :: "event \<Rightarrow> event" where
  "mark_ok e = e\<lparr>ev_published := True, ev_attempts := ev_attempts e + 1\<rparr>"

definition mark_fail :: "string \<Rightarrow> event \<Rightarrow> event" where
  "mark_fail err e = e\<lparr>ev_attempts := ev_attempts e + 1, ev_error := Some err\<rparr>"

fun apply_outcome :: "row_outcome \<Rightarrow> event list \<Rightarrow> event list" where
  "apply_outcome (PublishedRow i) rows = tbl_update ev_id i mark_ok rows"
| "apply_outcome (FailedRow i err) rows = tbl_update ev_id i (mark_fail err) rows"

text \<open>
  One tick: the rows are published first and marked after, in one transaction whose commit
  may fail (\<open>committed = False\<close>): then the messages are out and no row is marked.
\<close>

definition drain_once :: "(message \<Rightarrow> string + unit) \<Rightarrow> bool \<Rightarrow> nat \<Rightarrow> event list \<times> message list
    \<Rightarrow> event list \<times> message list" where
  "drain_once accept committed limit st =
     (let (rows, broker) = st;
          (outs, sent) = drain_batch accept (drain_select limit rows)
      in (if committed then fold apply_outcome outs rows else rows, broker @ sent))"

datatype relay_mode = RelayOn | RelayOff

definition relay_mode :: "string option \<Rightarrow> relay_mode" where
  "relay_mode url = (case url of Some u \<Rightarrow> (if u \<noteq> [] then RelayOn else RelayOff) | None \<Rightarrow> RelayOff)"

subsection \<open>What a tick does\<close>

lemma ev_id_marks [simp]: "ev_id (mark_ok e) = ev_id e" "ev_id (mark_fail err e) = ev_id e"
  by (simp_all add: mark_ok_def mark_fail_def)

lemma message_of_marks [simp]: "message_of (mark_ok e) = message_of e" "message_of (mark_fail err e) = message_of e"
  by (simp_all add: message_of_def mark_ok_def mark_fail_def)

lemma length_apply_outcome [simp]: "length (apply_outcome out rows) = length rows"
  by (cases out) simp_all

lemma map_id_apply_outcome [simp]: "map ev_id (apply_outcome out rows) = map ev_id rows"
  by (cases out) (simp_all add: map_tbl_update)

lemma map_msg_apply_outcome [simp]: "map message_of (apply_outcome out rows) = map message_of rows"
  by (cases out) (simp_all add: map_tbl_update)

lemma map_fold_apply [simp]:
  "map ev_id (fold apply_outcome outs rows) = map ev_id rows"
  "map message_of (fold apply_outcome outs rows) = map message_of rows"
  by (induction outs arbitrary: rows) simp_all

text \<open>The ids a batch reports as published are the ids of the messages the broker took.\<close>

fun ok_ids :: "row_outcome list \<Rightarrow> nat list" where
  "ok_ids [] = []"
| "ok_ids (PublishedRow i # outs) = i # ok_ids outs"
| "ok_ids (FailedRow i err # outs) = ok_ids outs"

definition accepted :: "(message \<Rightarrow> string + unit) \<Rightarrow> event list \<Rightarrow> event list" where
  "accepted accept es = filter (\<lambda>e. \<not> isl (accept (message_of e))) es"

lemma drain_batch_sent: "snd (drain_batch accept es) = map message_of (accepted accept es)"
  by (induction es) (simp_all add: accepted_def case_prod_unfold Let_def split: sum.splits)

lemma drain_batch_ok_ids: "ok_ids (fst (drain_batch accept es)) = map ev_id (accepted accept es)"
  by (induction es) (simp_all add: accepted_def case_prod_unfold Let_def split: sum.splits)

lemma drain_once_eq:
  "drain_once accept committed limit (rows, broker) =
     (if committed then fold apply_outcome (fst (drain_batch accept (drain_select limit rows))) rows else rows,
      broker @ map message_of (accepted accept (drain_select limit rows)))"
  by (simp add: drain_once_def case_prod_unfold Let_def drain_batch_sent)

lemma published_fold:
  "ev_id e \<in> set (ok_ids outs) \<or> ev_published e \<longleftrightarrow> ev_published e'"
  if "(e, e') \<in> set (zip rows (fold apply_outcome outs rows))"
  using that
proof (induction outs arbitrary: rows e)
  case Nil
  then show ?case by (auto simp: in_set_zip)
next
  case (Cons out outs)
  let ?rows1 = "apply_outcome out rows"
  from Cons.prems obtain i where i: "i < length rows" "e = rows ! i" "e' = fold apply_outcome outs ?rows1 ! i"
    by (auto simp: in_set_zip)
  have len: "length (fold apply_outcome outs ?rows1) = length rows"
    by (metis length_apply_outcome length_map map_fold_apply(1))
  have "(?rows1 ! i, e') \<in> set (zip ?rows1 (fold apply_outcome outs ?rows1))"
    using i len by (auto simp: in_set_zip)
  from Cons.IH [OF this] have "ev_published e' \<longleftrightarrow> ev_id (?rows1 ! i) \<in> set (ok_ids outs) \<or> ev_published (?rows1 ! i)" by blast
  moreover have "ev_id (?rows1 ! i) = ev_id e \<and> (ev_published (?rows1 ! i) \<longleftrightarrow> ev_published e \<or> out = PublishedRow (ev_id e))"
    using i by (cases out) (auto simp: tbl_update_def mark_ok_def mark_fail_def)
  ultimately show ?case by (cases out) auto
qed

text \<open>After a fold of outcomes a row is published iff it was, or its id is among the published ones.\<close>

lemma filter_published_fold:
  "map ev_id (filter (\<lambda>e. \<not> ev_published e) (fold apply_outcome outs rows)) =
   filter (\<lambda>i. i \<notin> set (ok_ids outs)) (map ev_id (unpublished rows))"
proof (induction outs arbitrary: rows)
  case Nil
  then show ?case by (simp add: unpublished_def)
next
  case (Cons out outs)
  have step: "map ev_id (unpublished (apply_outcome out rows)) =
     filter (\<lambda>i. out \<noteq> PublishedRow i) (map ev_id (unpublished rows))"
  proof (cases out)
    case (PublishedRow i)
    then show ?thesis by (induction rows) (auto simp: unpublished_def mark_ok_def)
  next
    case (FailedRow i err)
    then show ?thesis by (induction rows) (auto simp: unpublished_def mark_fail_def)
  qed
  have "filter (\<lambda>i. i \<notin> set (ok_ids outs)) (filter (\<lambda>i. out \<noteq> PublishedRow i) ids) =
        filter (\<lambda>i. i \<notin> set (ok_ids (out # outs))) ids" for ids
    by (cases out) (auto intro: filter_cong)
  then show ?case using Cons.IH [of "apply_outcome out rows"] step by simp
qed

subsection \<open>At-least-once delivery\<close>

text \<open>
  The relay's invariant: ids are unique, a row marked published has its message at the
  broker, and the broker holds only messages of staged rows.
\<close>

definition relay_inv :: "event list \<times> message list \<Rightarrow> bool" where
  "relay_inv st \<longleftrightarrow> (let (rows, broker) = st in
     distinct (map ev_id rows) \<and> (\<forall>e \<in> set rows. ev_published e \<longrightarrow> message_of e \<in> set broker) \<and>
     set broker \<subseteq> message_of ` set rows)"

lemma relay_invI:
  "distinct (map ev_id rows) \<Longrightarrow> (\<And>e. e \<in> set rows \<Longrightarrow> ev_published e \<Longrightarrow> message_of e \<in> set broker) \<Longrightarrow>
   set broker \<subseteq> message_of ` set rows \<Longrightarrow> relay_inv (rows, broker)"
  by (simp add: relay_inv_def)

lemma relay_invD:
  assumes "relay_inv (rows, broker)"
  shows "distinct (map ev_id rows)" "e \<in> set rows \<Longrightarrow> ev_published e \<Longrightarrow> message_of e \<in> set broker"
    "set broker \<subseteq> message_of ` set rows"
  using assms by (auto simp: relay_inv_def)

lemma set_drain_select: "set (drain_select limit rows) \<subseteq> set rows"
  using set_take_subset [of limit "sort_key ev_occurred_at (unpublished rows)"]
  by (auto simp: drain_select_def unpublished_def)

lemma message_of_fold: "message_of ` set (fold apply_outcome outs rows) = message_of ` set rows"
  by (metis list.set_map map_fold_apply(2))

lemma published_was_sent:
  assumes dist: "distinct (map ev_id rows)" and sub: "set es \<subseteq> set rows"
    and e': "e' \<in> set (fold apply_outcome (fst (drain_batch accept es)) rows)" "ev_published e'"
  shows "(\<exists>e \<in> set rows. ev_published e \<and> message_of e = message_of e') \<or> message_of e' \<in> message_of ` set (accepted accept es)"
proof -
  let ?new = "fold apply_outcome (fst (drain_batch accept es)) rows"
  have len: "length ?new = length rows" by (metis length_map map_fold_apply(1))
  obtain i where i: "i < length rows" "e' = ?new ! i" using e'(1) len by (metis in_set_conv_nth)
  have e: "(rows ! i, e') \<in> set (zip rows ?new)" using i len by (auto simp: in_set_zip)
  have msg: "message_of (rows ! i) = message_of e'"
    by (metis i len map_fold_apply(2) nth_map)
  have mem: "rows ! i \<in> set rows" using i by simp
  show ?thesis
  proof (cases "ev_published (rows ! i)")
    case True
    then show ?thesis using msg mem by blast
  next
    case False
    then have "ev_id (rows ! i) \<in> ev_id ` set (accepted accept es)"
      using published_fold [OF e] e'(2) by (simp add: drain_batch_ok_ids)
    then obtain e2 where e2: "e2 \<in> set (accepted accept es)" "ev_id e2 = ev_id (rows ! i)" by auto
    then have "e2 \<in> set rows" using sub by (auto simp: accepted_def)
    then have "e2 = rows ! i" using dist e2(2) mem by (metis distinct_map inj_onD)
    then show ?thesis using e2(1) msg by (metis imageI)
  qed
qed

lemma drain_once_inv:
  assumes "relay_inv st"
  shows "relay_inv (drain_once accept committed limit st)"
proof -
  obtain rows broker where st: "st = (rows, broker)" by (cases st)
  let ?es = "drain_select limit rows"
  let ?new = "if committed then fold apply_outcome (fst (drain_batch accept ?es)) rows else rows"
  note inv = relay_invD [OF assms [unfolded st]]
  have acc: "set (accepted accept ?es) \<subseteq> set rows"
    using set_drain_select by (force simp: accepted_def)
  have "relay_inv (?new, broker @ map message_of (accepted accept ?es))"
  proof (rule relay_invI)
    show "distinct (map ev_id ?new)" using inv(1) by simp
  next
    fix e assume e: "e \<in> set ?new" "ev_published e"
    show "message_of e \<in> set (broker @ map message_of (accepted accept ?es))"
    proof (cases committed)
      case True
      then show ?thesis using published_was_sent [OF inv(1) set_drain_select, of e] e inv(2) by fastforce
    next
      case False
      then show ?thesis using e inv(2) by simp
    qed
  next
    show "set (broker @ map message_of (accepted accept ?es)) \<subseteq> message_of ` set ?new"
      using inv(3) acc by (auto simp: message_of_fold)
  qed
  then show ?thesis by (simp add: st drain_once_eq)
qed

text \<open>\<open>start_relay\<close>: ticks, each with the broker's answers and the fate of its commit.\<close>

fun relay_run :: "((message \<Rightarrow> string + unit) \<times> bool) list \<Rightarrow> nat \<Rightarrow> event list \<times> message list \<Rightarrow> event list \<times> message list" where
  "relay_run [] limit st = st"
| "relay_run ((accept, committed) # ticks) limit st = relay_run ticks limit (drain_once accept committed limit st)"

lemma relay_run_inv: "relay_inv st \<Longrightarrow> relay_inv (relay_run ticks limit st)"
  by (induction ticks limit st rule: relay_run.induct) (simp_all add: drain_once_inv)

text \<open>A healthy tick publishes the whole selected batch.\<close>

lemma accepted_all: "(\<And>m. accept m = Inr ()) \<Longrightarrow> accepted accept es = es"
  by (simp add: accepted_def)

lemma unpublished_fold_ids:
  "map ev_id (unpublished (fold apply_outcome outs rows)) = filter (\<lambda>i. i \<notin> set (ok_ids outs)) (map ev_id (unpublished rows))"
  using filter_published_fold [of outs rows] by (simp add: unpublished_def)

lemma length_filter_notin:
  "distinct xs \<Longrightarrow> set ys \<subseteq> set xs \<Longrightarrow> distinct ys \<Longrightarrow> length (filter (\<lambda>x. x \<notin> set ys) xs) = length xs - length ys"
proof -
  assume d: "distinct xs" "set ys \<subseteq> set xs" "distinct ys"
  have "length (filter (\<lambda>x. x \<notin> set ys) xs) = card (set xs - set ys)"
    using distinct_card [OF distinct_filter [OF d(1)], of "\<lambda>x. x \<notin> set ys"] by (simp add: set_diff_eq)
  also have "\<dots> = card (set xs) - card (set ys)" using d(2) by (simp add: card_Diff_subset)
  finally show ?thesis using d by (simp add: distinct_card)
qed

lemma drain_once_progress:
  assumes ok: "\<And>m. accept m = Inr ()" and dist: "distinct (map ev_id rows)"
  shows "length (unpublished (fst (drain_once accept True limit (rows, broker)))) = length (unpublished rows) - limit"
proof -
  let ?es = "drain_select limit rows"
  let ?unp = "map ev_id (unpublished rows)"
  have dunp: "distinct ?unp" using dist by (simp add: unpublished_def distinct_map_filter)
  have mset: "mset (map ev_id (sort_key ev_occurred_at (unpublished rows))) = mset ?unp" by simp
  have dsort: "distinct (map ev_id (sort_key ev_occurred_at (unpublished rows)))"
    using dunp mset by (metis mset_eq_imp_distinct_iff)
  have sub: "set (map ev_id ?es) \<subseteq> set ?unp"
    using set_take_subset [of limit "sort_key ev_occurred_at (unpublished rows)"] by (auto simp: drain_select_def)
  have des: "distinct (map ev_id ?es)" using dsort by (simp add: drain_select_def take_map [symmetric])
  have "length (unpublished (fst (drain_once accept True limit (rows, broker))))
      = length (filter (\<lambda>i. i \<notin> set (map ev_id ?es)) ?unp)"
  proof -
    have "map ev_id (unpublished (fst (drain_once accept True limit (rows, broker))))
        = filter (\<lambda>i. i \<notin> set (map ev_id ?es)) ?unp"
      by (simp only: drain_once_eq if_True fst_conv unpublished_fold_ids drain_batch_ok_ids accepted_all [OF ok])
    then show ?thesis by (metis length_map)
  qed
  also have "\<dots> = length ?unp - length (map ev_id ?es)"
    by (rule length_filter_notin [OF dunp sub des])
  finally show ?thesis by (auto simp: drain_select_def min_def)
qed

end
