(* ===== verification/Lifecycle.thy ===== *)
theory Lifecycle
  imports Prelude
begin

text \<open>
  The contract every stateful aggregate of the system shares (subscription, commercial
  order, service order, service): a row's state moves only along the transitions of its
  state machine, and each move leaves a row in a history table. The locales state the
  machine's laws; \<open>audited\<close> ties the rows of the aggregate to its history.
\<close>

section \<open>Legal histories\<close>

fun legal_path :: "('st \<Rightarrow> 'st \<Rightarrow> bool) \<Rightarrow> 'st \<Rightarrow> ('st \<times> 'st) list \<Rightarrow> 'st \<Rightarrow> bool" where
  "legal_path allowed a [] b \<longleftrightarrow> a = b"
| "legal_path allowed a ((x, y) # hs) b \<longleftrightarrow> x = a \<and> allowed x y \<and> legal_path allowed y hs b"

lemma legal_path_append:
  "legal_path allowed a (hs @ ks) b \<longleftrightarrow> (\<exists>m. legal_path allowed a hs m \<and> legal_path allowed m ks b)"
  by (induction allowed a hs b rule: legal_path.induct) auto

lemma legal_path_snoc [simp]:
  "legal_path allowed a (hs @ [(x, y)]) b \<longleftrightarrow> legal_path allowed a hs x \<and> allowed x y \<and> y = b"
  by (auto simp: legal_path_append)

text \<open>The history of one aggregate, in the order its rows were written.\<close>

definition trail :: "'i \<Rightarrow> ('i \<times> 'st \<times> 'st) list \<Rightarrow> ('st \<times> 'st) list" where
  "trail i hist = map snd (filter (\<lambda>h. fst h = i) hist)"

lemma trail_Nil [simp]: "trail i [] = []"
  by (simp add: trail_def)

lemma trail_snoc [simp]: "trail i (hist @ [(j, x, y)]) = (if j = i then trail i hist @ [(x, y)] else trail i hist)"
  by (simp add: trail_def)

lemma trail_unknown: "i \<notin> fst ` set hist \<Longrightarrow> trail i hist = []"
  by (auto simp: trail_def filter_empty_conv)

text \<open>
  \<open>audited\<close>: identifiers are unique, every history row belongs to a row of the table, and
  the history of every row is a legal path from the initial state to its current one.
\<close>

definition audited :: "('st \<Rightarrow> 'st \<Rightarrow> bool) \<Rightarrow> 'st \<Rightarrow> ('i \<times> 'st) list \<Rightarrow> ('i \<times> 'st \<times> 'st) list \<Rightarrow> bool" where
  "audited allowed init rows hist \<longleftrightarrow>
     distinct (map fst rows) \<and> fst ` set hist \<subseteq> fst ` set rows \<and>
     (\<forall>(i, st) \<in> set rows. legal_path allowed init (trail i hist) st)"

lemma audited_empty [simp]: "audited allowed init [] []"
  by (simp add: audited_def)

lemma audited_path: "audited allowed init rows hist \<Longrightarrow> (i, st) \<in> set rows \<Longrightarrow> legal_path allowed init (trail i hist) st"
  by (auto simp: audited_def)

lemma auditedI:
  "distinct (map fst rows) \<Longrightarrow> (\<And>h. h \<in> set hist \<Longrightarrow> fst h \<in> fst ` set rows) \<Longrightarrow>
   (\<And>i st. (i, st) \<in> set rows \<Longrightarrow> legal_path allowed init (trail i hist) st) \<Longrightarrow> audited allowed init rows hist"
  by (auto simp: audited_def)

lemma audited_distinct: "audited allowed init rows hist \<Longrightarrow> distinct (map fst rows)"
  by (simp add: audited_def)

lemma audited_known: "audited allowed init rows hist \<Longrightarrow> h \<in> set hist \<Longrightarrow> fst h \<in> fst ` set rows"
  by (auto simp: audited_def)

lemma audited_insert:
  assumes "audited allowed init rows hist" "i \<notin> fst ` set rows" "allowed init st"
  shows "audited allowed init (rows @ [(i, st)]) (hist @ [(i, init, st)])"
proof (rule auditedI)
  show "distinct (map fst (rows @ [(i, st)]))"
    using audited_distinct [OF assms(1)] assms(2) by simp
next
  fix h assume "h \<in> set (hist @ [(i, init, st)])"
  then show "fst h \<in> fst ` set (rows @ [(i, st)])" using audited_known [OF assms(1), of h] by auto
next
  fix j st' assume j: "(j, st') \<in> set (rows @ [(i, st)])"
  show "legal_path allowed init (trail j (hist @ [(i, init, st)])) st'"
  proof (cases "(j, st') \<in> set rows")
    case True
    then have "j \<noteq> i" using assms(2) by force
    then show ?thesis using audited_path [OF assms(1) True] by simp
  next
    case False
    have "i \<notin> fst ` set hist" using audited_known [OF assms(1)] assms(2) by blast
    then show ?thesis using False j assms(3) by (simp add: trail_unknown)
  qed
qed

definition set_st :: "'i \<Rightarrow> 'st \<Rightarrow> ('i \<times> 'st) list \<Rightarrow> ('i \<times> 'st) list" where
  "set_st i st rows = map (\<lambda>(j, old). if j = i then (j, st) else (j, old)) rows"

lemma map_fst_set_st [simp]: "map fst (set_st i st rows) = map fst rows"
  by (auto simp: set_st_def)

lemma image_fst_set_st [simp]: "fst ` set (set_st i st rows) = fst ` set rows"
  by (metis list.set_map map_fst_set_st)

lemma in_set_st: "(j, st) \<in> set (set_st i b rows) \<Longrightarrow> j = i \<and> st = b \<or> j \<noteq> i \<and> (j, st) \<in> set rows"
  by (auto simp: set_st_def split: if_splits)

lemma audited_move:
  assumes "audited allowed init rows hist" "(i, a) \<in> set rows" "allowed a b"
  shows "audited allowed init (set_st i b rows) (hist @ [(i, a, b)])"
proof (rule auditedI)
  show "distinct (map fst (set_st i b rows))"
    using audited_distinct [OF assms(1)] by simp
next
  fix h assume "h \<in> set (hist @ [(i, a, b)])"
  moreover have "i \<in> fst ` set rows" using assms(2) by force
  ultimately show "fst h \<in> fst ` set (set_st i b rows)" using audited_known [OF assms(1), of h] by (cases "h \<in> set hist") simp_all
next
  fix j st assume j: "(j, st) \<in> set (set_st i b rows)"
  show "legal_path allowed init (trail j (hist @ [(i, a, b)])) st"
    using in_set_st [OF j] audited_path [OF assms(1)] assms(2,3) by auto
qed

text \<open>A move to the state the row already has is the table left as it is.\<close>

lemma set_st_same:
  assumes "distinct (map fst rows)" "(i, a) \<in> set rows"
  shows "set_st i a rows = rows"
  unfolding set_st_def
proof (rule map_idI)
  fix r assume r: "r \<in> set rows"
  obtain j st where p: "r = (j, st)" by (cases r)
  have "st = a" if "j = i" using eq_key_imp_eq_value [OF assms(1)] assms(2) r p that by blast
  with p show "(case r of (j, old) \<Rightarrow> if j = i then (j, a) else (j, old)) = r" by auto
qed

lemma audited_stay:
  assumes "audited allowed init rows hist" "(i, a) \<in> set rows" "allowed a a"
  shows "audited allowed init rows (hist @ [(i, a, a)])"
  using audited_move [OF assms] assms by (simp add: set_st_same audited_def)

lemma set_st_append [simp]: "set_st i b (xs @ ys) = set_st i b xs @ set_st i b ys"
  by (simp add: set_st_def)

lemma set_st_other: "i \<notin> fst ` set rows \<Longrightarrow> set_st i b rows = rows"
  unfolding set_st_def by (rule map_idI) force

lemma set_st_Cons [simp]: "set_st i b ((j, a) # rows) = (j, if j = i then b else a) # set_st i b rows" "set_st i b [] = []"
  by (simp_all add: set_st_def)

text \<open>The same for the rows of a table, keyed by \<open>key\<close> and in state \<open>st\<close>.\<close>

definition keyed :: "('r \<Rightarrow> 'i) \<Rightarrow> ('r \<Rightarrow> 'st) \<Rightarrow> 'r list \<Rightarrow> ('i \<times> 'st) list" where
  "keyed key st rows = map (\<lambda>r. (key r, st r)) rows"

lemma keyed_simps [simp]:
  "keyed key st [] = []" "keyed key st (r # rs) = (key r, st r) # keyed key st rs"
  "keyed key st (xs @ ys) = keyed key st xs @ keyed key st ys"
  "fst ` set (keyed key st rows) = key ` set rows" "map fst (keyed key st rows) = map key rows"
  by (simp_all add: keyed_def image_image comp_def)

lemma keyed_mem: "r \<in> set rows \<Longrightarrow> (key r, st r) \<in> set (keyed key st rows)"
  by (simp add: keyed_def)

lemma find_unique:
  assumes "distinct (map key rows)" "tbl_find key i rows = Some r" "x \<in> set rows" "key x = i"
  shows "x = r"
proof -
  have "inj_on key (set rows)" using assms(1) by (simp add: distinct_map)
  then show ?thesis using assms tbl_find_SomeD [OF assms(2)] by (auto dest: inj_onD)
qed

lemma tbl_update_find:
  assumes "distinct (map key rows)" "tbl_find key i rows = Some r"
  shows "tbl_update key i f rows = map (\<lambda>x. if x = r then f r else x) rows"
  unfolding tbl_update_def
proof (rule map_cong)
  fix x assume x: "x \<in> set rows"
  show "(if key x = i then f x else x) = (if x = r then f r else x)"
    using find_unique [OF assms x] tbl_find_SomeD [OF assms(2)] by (cases "key x = i") auto
qed simp

lemma keyed_update:
  assumes "distinct (map key rows)" "tbl_find key i rows = Some r" "\<And>x. key (f x) = key x"
  shows "keyed key st (tbl_update key i f rows) = set_st i (st (f r)) (keyed key st rows)"
  unfolding tbl_update_def set_st_def keyed_def map_map
proof (rule map_cong)
  fix x assume x: "x \<in> set rows"
  show "((\<lambda>r. (key r, st r)) \<circ> (\<lambda>r. if key r = i then f r else r)) x =
        ((\<lambda>(j, old). if j = i then (j, st (f r)) else (j, old)) \<circ> (\<lambda>r. (key r, st r))) x"
    using find_unique [OF assms(1,2) x] assms(3) by auto
qed simp

lemma keyed_frame: "(\<And>x. key (f x) = key x) \<Longrightarrow> (\<And>x. st (f x) = st x) \<Longrightarrow> keyed key st (tbl_update key i f rows) = keyed key st rows"
  unfolding keyed_def by (intro map_tbl_update) simp

lemma audited_update:
  assumes inv: "audited allowed init (keyed key st rows) hist" and r: "tbl_find key i rows = Some r"
    and ok: "allowed (st r) b" and f: "\<And>x. key (f x) = key x" "st (f r) = b"
  shows "audited allowed init (keyed key st (tbl_update key i f rows)) (hist @ [(i, st r, b)])"
proof -
  have "distinct (map key rows)" using audited_distinct [OF inv] by simp
  then have "keyed key st (tbl_update key i f rows) = set_st i b (keyed key st rows)"
    using keyed_update [OF _ r, of f st] f by simp
  moreover have "(i, st r) \<in> set (keyed key st rows)"
    using tbl_find_SomeD [OF r] keyed_mem [of r rows key st] by simp
  note audited_move [where allowed = allowed and a = "st r" and b = b, OF inv this ok]
  ultimately show ?thesis by simp
qed

section \<open>The state-machine contract\<close>

locale lifecycle =
  fixes allowed :: "'st \<Rightarrow> 'st \<Rightarrow> bool"
    and terminal :: "'st \<Rightarrow> bool"
  assumes terminal_dead: "terminal a \<Longrightarrow> \<not> allowed a b"
begin

lemma terminal_stays: "legal_path allowed a hs b \<Longrightarrow> terminal a \<Longrightarrow> hs = [] \<and> b = a"
  by (cases hs) (auto dest: terminal_dead)

text \<open>Nothing follows a terminal state in a legal history.\<close>

lemma terminal_is_last:
  assumes "legal_path allowed a (hs @ (x, y) # ks) b" "terminal y"
  shows "ks = [] \<and> b = y"
proof -
  from assms(1) obtain m where "legal_path allowed m ((x, y) # ks) b"
    by (auto simp: legal_path_append)
  then have "legal_path allowed y ks b" by simp
  then show ?thesis using assms(2) by (rule terminal_stays)
qed

lemma terminal_once:
  "legal_path allowed a hs b \<Longrightarrow> length (filter (\<lambda>h. terminal (snd h)) hs) \<le> 1"
proof (induction hs arbitrary: a)
  case (Cons h hs)
  obtain x y where h: "h = (x, y)" by (cases h)
  with Cons.prems have rest: "legal_path allowed y hs b" by simp
  show ?case
  proof (cases "terminal y")
    case True
    then show ?thesis using terminal_stays [OF rest] h by simp
  next
    case False
    then show ?thesis using Cons.IH [OF rest] h by simp
  qed
qed simp

lemma audited_terminal_stuck:
  "audited allowed init rows hist \<Longrightarrow> (i, a) \<in> set rows \<Longrightarrow> terminal a \<Longrightarrow>
   length (filter (\<lambda>h. terminal (snd h)) (trail i hist)) \<le> 1 \<and> \<not> allowed a b"
  using terminal_once terminal_dead by (blast dest: audited_path)

end

text \<open>
  Machines without cycles: a rank grows with every transition, so a history is never
  longer than the rank of the state it reached, and no state is entered twice.
\<close>

locale acyclic_lifecycle = lifecycle +
  fixes rank :: "'st \<Rightarrow> nat"
  assumes rank_up: "allowed a b \<Longrightarrow> rank a < rank b"
begin

lemma path_rank: "legal_path allowed a hs b \<Longrightarrow> rank a + length hs \<le> rank b"
proof (induction hs arbitrary: a)
  case (Cons h hs)
  obtain x y where "h = (x, y)" by (cases h)
  with Cons.prems have "legal_path allowed y hs b" "rank a < rank y" using rank_up by auto
  then show ?case using Cons.IH [of y] by simp
qed simp

lemma path_no_return: "legal_path allowed a hs b \<Longrightarrow> hs \<noteq> [] \<Longrightarrow> a \<noteq> b"
  using path_rank by fastforce

lemma audited_length: "audited allowed init rows hist \<Longrightarrow> (i, a) \<in> set rows \<Longrightarrow> length (trail i hist) \<le> rank a"
  using path_rank by (fastforce dest: audited_path)

end

end
