(* ===== verification/Mediation.thy ===== *)
theory Mediation
  imports Events Lifecycle
begin

text \<open>
  \<open>services/mediation\<close>: the block-at-edge ingest of usage events (\<open>domain.rs\<close>,
  \<open>service.rs\<close>, \<open>repo.rs\<close>). An accepted event leaves one \<open>usage_event\<close> row and one
  \<open>usage.recorded\<close> event; a rejected one leaves no row.
\<close>

section \<open>Policies\<close>

definition VALID_EVENT_TYPES :: "string list" where
  "VALID_EVENT_TYPES = [''data'', ''voice'', ''voice_minutes'', ''sms'']"

definition check_positive_quantity :: "int \<Rightarrow> violation + unit" where
  "check_positive_quantity quantity =
     (if quantity \<le> 0 then Inl (Violation ''usage.record.positive_quantity'' (JObj [(''quantity'', JInt quantity)]))
      else Inr ())"

definition check_valid_event_type :: "string \<Rightarrow> violation + unit" where
  "check_valid_event_type event_type =
     (if event_type \<notin> set VALID_EVENT_TYPES
      then Inl (Violation ''usage.record.valid_event_type'' (JObj [(''event_type'', JStr event_type),
             (''valid_types'', JArr (map JStr [''data'', ''sms'', ''voice'', ''voice_minutes'']))]))
      else Inr ())"

definition subscription_not_found :: "string \<Rightarrow> violation" where
  "subscription_not_found msisdn =
     Violation ''usage.record.subscription_must_exist'' (JObj [(''msisdn'', JStr msisdn)])"

definition check_msisdn_matches :: "json \<Rightarrow> string \<Rightarrow> violation + unit" where
  "check_msisdn_matches subscription msisdn =
     (if get_str subscription ''msisdn'' \<noteq> Some msisdn
      then Inl (Violation ''usage.record.msisdn_belongs_to_subscription'' (JObj
             [(''request_msisdn'', JStr msisdn),
              (''subscription_msisdn'', unwrap_or JNull (jget subscription ''msisdn'')),
              (''subscription_id'', unwrap_or JNull (jget subscription ''id''))]))
      else Inr ())"

definition check_subscription_active :: "json \<Rightarrow> violation + unit" where
  "check_subscription_active subscription =
     (if get_str subscription ''state'' \<noteq> Some ''active''
      then Inl (Violation ''usage.record.subscription_must_be_active'' (JObj
             [(''subscription_id'', unwrap_or JNull (jget subscription ''id'')),
              (''state'', unwrap_or JNull (jget subscription ''state''))]))
      else Inr ())"

section \<open>Rows and payloads\<close>

record ingest_request =
  iq_msisdn :: string
  iq_type :: string
  iq_time :: int
  iq_quantity :: int
  iq_unit :: string
  iq_source :: "string option"
  iq_cdr :: "string option"
  iq_roaming :: bool

record usage_row =
  ue_id :: string
  ue_msisdn :: string
  ue_sub :: "string option"
  ue_type :: string
  ue_time :: int
  ue_quantity :: int
  ue_unit :: string
  ue_source :: "string option"
  ue_cdr :: "string option"
  ue_processed :: bool
  ue_error :: "string option"
  ue_roaming :: bool

definition usage_recorded_payload :: "usage_row \<Rightarrow> string option \<Rightarrow> json" where
  "usage_recorded_payload evt offering_id = JObj
     [(''usageEventId'', JStr (ue_id evt)), (''subscriptionId'', opt_json JStr (ue_sub evt)),
      (''msisdn'', JStr (ue_msisdn evt)), (''eventType'', JStr (ue_type evt)), (''eventTime'', JTime (ue_time evt)),
      (''quantity'', JInt (ue_quantity evt)), (''unit'', JStr (ue_unit evt)),
      (''source'', opt_json JStr (ue_source evt)), (''rawCdrRef'', opt_json JStr (ue_cdr evt)),
      (''roamingIndicator'', JBool (ue_roaming evt)), (''offeringId'', opt_json JStr offering_id)]"

definition rejection_payload :: "ingest_request \<Rightarrow> string option \<Rightarrow> string option \<Rightarrow> string \<Rightarrow> int \<Rightarrow> json" where
  "rejection_payload req subscription_id state reason now = JObj
     [(''msisdn'', JStr (iq_msisdn req)), (''subscriptionId'', opt_json JStr subscription_id),
      (''state'', opt_json JStr state), (''eventType'', JStr (iq_type req)), (''eventTime'', JTime (iq_time req)),
      (''quantity'', JInt (iq_quantity req)), (''unit'', JStr (iq_unit req)),
      (''source'', opt_json JStr (iq_source req)), (''rawCdrRef'', opt_json JStr (iq_cdr req)),
      (''reason'', JStr reason), (''rejectedAt'', JTime now)]"

definition to_usage_response :: "usage_row \<Rightarrow> json" where
  "to_usage_response r = JObj
     [(''id'', JStr (ue_id r)), (''href'', JStr (''/tmf-api/usageManagement/v4/usage/'' @ ue_id r)),
      (''msisdn'', JStr (ue_msisdn r)), (''subscriptionId'', opt_json JStr (ue_sub r)),
      (''eventType'', JStr (ue_type r)), (''eventTime'', JTime (ue_time r)), (''quantity'', JInt (ue_quantity r)),
      (''unit'', JStr (ue_unit r)), (''source'', opt_json JStr (ue_source r)), (''rawCdrRef'', opt_json JStr (ue_cdr r)),
      (''processed'', JBool (ue_processed r)), (''processingError'', opt_json JStr (ue_error r)),
      (''roamingIndicator'', JBool (ue_roaming r)), (''@type'', JStr ''Usage'')]"

section \<open>The database\<close>

text \<open>The messages the broker took are the service's external calls: routing key and body.\<close>

record med_db = "(string \<times> json) base" +
  md_seq :: nat
  md_rows :: "usage_row list"

datatype med_error = MedPolicy violation | MedNotFound string | MedUpstream

type_synonym 'a med_prog = "(med_db, med_error, 'a) prog"

definition usage_next_id :: "string med_prog" where
  "usage_next_id = bindp (gets md_seq) (\<lambda>n. bindp (modify (\<lambda>s. s\<lparr>md_seq := n + 1\<rparr>)) (\<lambda>_. ret (''UE-'' @ pad6 n)))"

definition usage_insert :: "usage_row \<Rightarrow> unit med_prog" where
  "usage_insert r =
     bindp (gets md_rows) (\<lambda>rows.
       if ue_id r \<in> ue_id ` set rows then throw MedUpstream
       else modify (\<lambda>s. s\<lparr>md_rows := md_rows s @ [r]\<rparr>))"

definition usage_get :: "med_db \<Rightarrow> string \<Rightarrow> usage_row option" where
  "usage_get s event_id = tbl_find ue_id event_id (md_rows s)"

record list_filters =
  lf_sub :: "string option"
  lf_msisdn :: "string option"
  lf_type :: "string option"
  lf_since :: "int option"
  lf_limit :: nat

definition filter_opt :: "'a option \<Rightarrow> ('a \<Rightarrow> bool) \<Rightarrow> bool" where
  "filter_opt v p = (case v of None \<Rightarrow> True | Some x \<Rightarrow> p x)"

definition list_by_filters :: "med_db \<Rightarrow> list_filters \<Rightarrow> usage_row list" where
  "list_by_filters s f =
     take (lf_limit f) (sort_key (\<lambda>r. - ue_time r) (filter (\<lambda>r.
       filter_opt (lf_sub f) (\<lambda>x. ue_sub r = Some x) \<and> filter_opt (lf_msisdn f) (\<lambda>x. ue_msisdn r = x) \<and>
       filter_opt (lf_type f) (\<lambda>x. ue_type r = x) \<and> filter_opt (lf_since f) (\<lambda>x. ue_time r \<ge> x)) (md_rows s)))"

section \<open>Ingest\<close>

text \<open>
  The event is published first (\<open>mq = None\<close>: not configured; otherwise the broker's answer)
  and the row inserted with the resolved flag.
\<close>

definition stage_publish_audit :: "(string \<Rightarrow> json \<Rightarrow> bool) option \<Rightarrow> request_ctx \<Rightarrow> int \<Rightarrow> string \<Rightarrow> string \<Rightarrow> string \<Rightarrow> json
    \<Rightarrow> ((string \<times> json, 'z) base_scheme, 'e, unit) prog" where
  "stage_publish_audit mq ctx now event_type aggregate_type aggregate_id payload =
     bindp (gets (\<lambda>s. stage_event ctx now (length (outbox s)) event_type aggregate_type aggregate_id (Some payload))) (\<lambda>ev.
     let published = (case mq of None \<Rightarrow> False | Some accept \<Rightarrow> accept event_type (ev_payload ev)) in
     bindp (if published then call_ext (event_type, ev_payload ev) () else ret ()) (\<lambda>_.
     modify (\<lambda>s. s\<lparr>outbox := outbox s @ [ev\<lparr>ev_published := published\<rparr>]\<rparr>)))"

definition record_rejection :: "(string \<Rightarrow> json \<Rightarrow> bool) option \<Rightarrow> request_ctx \<Rightarrow> int \<Rightarrow> ingest_request
    \<Rightarrow> string option \<Rightarrow> string option \<Rightarrow> string \<Rightarrow> unit med_prog" where
  "record_rejection mq ctx now req subscription_id sub_state reason =
     in_tx (stage_publish_audit mq ctx now ''usage.rejected'' ''usage'' (unwrap_or (iq_msisdn req) subscription_id)
              (rejection_payload req subscription_id sub_state reason now))"

definition policy :: "violation + unit \<Rightarrow> unit med_prog" where
  "policy r = of_result (case r of Inl v \<Rightarrow> Inl (MedPolicy v) | Inr u \<Rightarrow> Inr u)"

definition ingest_row :: "ingest_request \<Rightarrow> string \<Rightarrow> string option \<Rightarrow> usage_row" where
  "ingest_row req uid subscription_id =
     \<lparr>ue_id = uid, ue_msisdn = iq_msisdn req, ue_sub = subscription_id, ue_type = iq_type req, ue_time = iq_time req,
      ue_quantity = iq_quantity req, ue_unit = iq_unit req, ue_source = iq_source req, ue_cdr = iq_cdr req,
      ue_processed = False, ue_error = None, ue_roaming = iq_roaming req\<rparr>"

definition ingest :: "(string \<Rightarrow> client_error + json) \<Rightarrow> (string \<Rightarrow> json \<Rightarrow> bool) option \<Rightarrow> request_ctx \<Rightarrow> int
    \<Rightarrow> ingest_request \<Rightarrow> usage_row med_prog" where
  "ingest lookup mq ctx now req =
     bindp (policy (check_positive_quantity (iq_quantity req))) (\<lambda>_.
     bindp (policy (check_valid_event_type (iq_type req))) (\<lambda>_.
     case lookup (iq_msisdn req) of
       Inl NotFoundErr \<Rightarrow>
         (let v = subscription_not_found (iq_msisdn req) in
          bindp (record_rejection mq ctx now req None None (rule v)) (\<lambda>_. throw (MedPolicy v)))
     | Inl _ \<Rightarrow> throw MedUpstream
     | Inr sub \<Rightarrow>
         bindp (policy (check_msisdn_matches sub (iq_msisdn req))) (\<lambda>_.
         case check_subscription_active sub of
           Inl v \<Rightarrow> bindp (record_rejection mq ctx now req (get_str sub ''id'') (get_str sub ''state'') (rule v)) (\<lambda>_.
                    throw (MedPolicy v))
         | Inr _ \<Rightarrow>
             in_tx (
               bindp usage_next_id (\<lambda>uid.
               let evt = ingest_row req uid (get_str sub ''id'') in
               bindp (usage_insert evt) (\<lambda>_.
               bindp (stage_publish_audit mq ctx now ''usage.recorded'' ''usage'' uid
                        (usage_recorded_payload evt (get_str sub ''offeringId''))) (\<lambda>_.
               ret evt)))))))"

section \<open>Block at the edge\<close>

lemma ingest_row_simps [simp]:
  "ue_id (ingest_row req u i) = u" "ue_sub (ingest_row req u i) = i" "ue_type (ingest_row req u i) = iq_type req"
  "ue_quantity (ingest_row req u i) = iq_quantity req" "ue_unit (ingest_row req u i) = iq_unit req"
  "ue_roaming (ingest_row req u i) = iq_roaming req" "ue_msisdn (ingest_row req u i) = iq_msisdn req"
  by (simp_all add: ingest_row_def)

lemma wp_publish [wp_simps]:
  "wp (stage_publish_audit mq ctx now et aty aid p) Q E = (\<lambda>s.
     let ev = stage_event ctx now (length (outbox s)) et aty aid (Some p);
         published = (case mq of None \<Rightarrow> False | Some accept \<Rightarrow> accept et p)
     in Q () ((if published then s\<lparr>calls := calls s @ [(et, p)]\<rparr> else s)\<lparr>outbox := outbox s @ [ev\<lparr>ev_published := published\<rparr>]\<rparr>))"
  by (rule ext) (simp add: stage_publish_audit_def wp_simps Let_def split: option.split)

lemma wp_policy [wp_simps]:
  "wp (policy r) Q E = (\<lambda>s. case r of Inl v \<Rightarrow> E (MedPolicy v) s | Inr u \<Rightarrow> Q u s)"
  by (rule ext) (simp add: policy_def wp_simps split: sum.splits)

definition ingestible :: "(string \<Rightarrow> client_error + json) \<Rightarrow> ingest_request \<Rightarrow> json \<Rightarrow> bool" where
  "ingestible lookup req sub \<longleftrightarrow> lookup (iq_msisdn req) = Inr sub \<and> 0 < iq_quantity req \<and> iq_type req \<in> set VALID_EVENT_TYPES \<and>
     get_str sub ''msisdn'' = Some (iq_msisdn req) \<and> get_str sub ''state'' = Some ''active''"

text \<open>
  Block at the edge: an ingest succeeds only for a positive quantity of a valid type on the
  MSISDN of an active subscription, and then adds exactly one usage row and one
  \<open>usage.recorded\<close> event carrying it; any refusal adds no usage row and at most one event,
  a \<open>usage.rejected\<close>.
\<close>

theorem ingest_blocks_at_edge:
  "wp (ingest lookup mq ctx now req)
     (\<lambda>evt t. md_rows t = md_rows s @ [evt] \<and>
        (\<exists>sub e. ingestible lookup req sub \<and> evt = ingest_row req (''UE-'' @ pad6 (md_seq s)) (get_str sub ''id'') \<and>
           outbox t = outbox s @ [e] \<and> ev_type e = ''usage.recorded'' \<and>
           ev_payload e = usage_recorded_payload evt (get_str sub ''offeringId'')))
     (\<lambda>_ t. md_rows t = md_rows s \<and>
        (outbox t = outbox s \<or> (\<exists>e. outbox t = outbox s @ [e] \<and> ev_type e = ''usage.rejected''))) s"
  unfolding ingest_def record_rejection_def usage_next_id_def usage_insert_def Let_def
  by (auto simp: wp_simps Let_def rollback_def ingestible_def check_positive_quantity_def check_valid_event_type_def
      check_msisdn_matches_def check_subscription_active_def
      split: sum.splits client_error.splits if_splits)

end
