(* ===== verification/Rating.thy ===== *)
theory Rating
  imports Mediation
begin

text \<open>
  \<open>services/rating\<close>: the pure rating rules (\<open>domain.rs\<close>) and the \<open>usage.recorded\<close>
  consumer that applies them (\<open>consumer.rs\<close>).
\<close>

section \<open>Rating\<close>

datatype rating_error = RatingError string

record usage_input =
  us_event :: string
  us_sub :: string
  us_msisdn :: string
  us_type :: string
  us_quantity :: int
  us_unit :: string

record rating_result =
  rr_event :: string
  rr_sub :: string
  rr_allowance :: string
  rr_consumed :: int
  rr_unit :: string
  rr_charge :: string
  rr_currency :: string

definition event_type_to_allowance :: "string \<Rightarrow> string option" where
  "event_type_to_allowance event_type =
     (if event_type = ''data'' then Some ''data''
      else if event_type = ''voice'' \<or> event_type = ''voice_minutes'' then Some ''voice''
      else if event_type = ''sms'' then Some ''sms'' else None)"

definition allowance_unit :: "string \<Rightarrow> string option" where
  "allowance_unit allowance_type =
     (if allowance_type = ''data'' then Some ''mb'' else if allowance_type = ''voice'' then Some ''minutes''
      else if allowance_type = ''sms'' then Some ''count'' else None)"

definition allowances_of :: "json \<Rightarrow> json list" where
  "allowances_of tariff = unwrap_or [] (get_array tariff ''bundleAllowance'')"

definition has_allowance :: "json \<Rightarrow> string \<Rightarrow> bool" where
  "has_allowance tariff allowance_type \<longleftrightarrow>
     list_ex (\<lambda>a. get_str a ''allowanceType'' = Some allowance_type) (allowances_of tariff)"

definition price_unit :: "json \<Rightarrow> string option" where
  "price_unit p = Option.bind (Option.bind (jget p ''price'') (\<lambda>x. jget x ''taxIncludedAmount'')) (\<lambda>t. get_str t ''unit'')"

definition currency_of :: "json \<Rightarrow> string" where
  "currency_of tariff =
     (let entries = unwrap_or [] (get_array tariff ''productOfferingPrice'')
      in unwrap_or ''SGD'' (Option.bind (find (\<lambda>p. price_unit p \<noteq> None \<and> price_unit p \<noteq> Some []) entries) price_unit))"

definition rate_usage :: "usage_input \<Rightarrow> json \<Rightarrow> rating_error + rating_result" where
  "rate_usage usage tariff =
     (case event_type_to_allowance (us_type usage) of
        None \<Rightarrow> Inl (RatingError ''No allowance mapping'')
      | Some allowance_type \<Rightarrow>
          if \<not> has_allowance tariff allowance_type then Inl (RatingError ''Tariff has no allowance'')
          else (case allowance_unit allowance_type of
             None \<Rightarrow> Inl (RatingError ''No canonical unit'')
           | Some expected_unit \<Rightarrow>
               if us_unit usage \<noteq> expected_unit then Inl (RatingError ''Usage unit does not match'')
               else Inr \<lparr>rr_event = us_event usage, rr_sub = us_sub usage, rr_allowance = allowance_type,
                         rr_consumed = us_quantity usage, rr_unit = us_unit usage, rr_charge = ''0'',
                         rr_currency = currency_of tariff\<rparr>))"

section \<open>The outcome of a recorded event\<close>

record usage_outcome =
  uo_type :: string
  uo_agg_type :: string
  uo_agg_id :: string
  uo_payload :: json

definition require_offering_id :: "json \<Rightarrow> rating_error + string" where
  "require_offering_id body =
     (case get_str body ''offeringId'' of
        Some x \<Rightarrow> if x \<noteq> [] then Inr x else Inl (RatingError ''missing offeringId'')
      | None \<Rightarrow> Inl (RatingError ''missing offeringId''))"

definition str_field :: "json \<Rightarrow> string \<Rightarrow> rating_error + string" where
  "str_field body key = (case get_str body key of None \<Rightarrow> Inl (RatingError key) | Some v \<Rightarrow> Inr v)"

definition int_field :: "json \<Rightarrow> string \<Rightarrow> rating_error + int" where
  "int_field body key =
     (case jget body key of
        Some (JInt i) \<Rightarrow> (if in_i64 i then Inr i else Inl (RatingError key))
      | Some (JDec _) \<Rightarrow> Inl (RatingError key)
      | Some (JStr s) \<Rightarrow> (case parse_i64 s of None \<Rightarrow> Inl (RatingError key) | Some i \<Rightarrow> Inr i)
      | _ \<Rightarrow> Inl (RatingError key))"

fun truthy :: "json option \<Rightarrow> bool" where
  "truthy None = False"
| "truthy (Some JNull) = False"
| "truthy (Some (JBool b)) = b"
| "truthy (Some (JInt i)) = (i \<noteq> 0)"
| "truthy (Some (JDec q)) = (q \<noteq> 0)"
| "truthy (Some (JStr s)) = (s \<noteq> [])"
| "truthy (Some (JTime t)) = True"
| "truthy (Some (JArr a)) = (a \<noteq> [])"
| "truthy (Some (JObj kvs)) = (kvs \<noteq> [])"

definition usage_of_body :: "json \<Rightarrow> rating_error + usage_input" where
  "usage_of_body body =
     (case str_field body ''usageEventId'' of Inl e \<Rightarrow> Inl e | Inr ue \<Rightarrow>
     (case str_field body ''subscriptionId'' of Inl e \<Rightarrow> Inl e | Inr sub \<Rightarrow>
     (case str_field body ''msisdn'' of Inl e \<Rightarrow> Inl e | Inr msisdn \<Rightarrow>
     (case str_field body ''eventType'' of Inl e \<Rightarrow> Inl e | Inr et \<Rightarrow>
     (case int_field body ''quantity'' of Inl e \<Rightarrow> Inl e | Inr q \<Rightarrow>
     (case str_field body ''unit'' of Inl e \<Rightarrow> Inl e | Inr u \<Rightarrow>
        Inr \<lparr>us_event = ue, us_sub = sub, us_msisdn = msisdn, us_type = et, us_quantity = q, us_unit = u\<rparr>))))))"

definition decide_usage_outcome :: "json \<Rightarrow> json \<Rightarrow> string \<Rightarrow> rating_error + usage_outcome" where
  "decide_usage_outcome body tariff offering_id =
     (case usage_of_body body of Inl e \<Rightarrow> Inl e | Inr usage \<Rightarrow>
     (case rate_usage usage tariff of Inl e \<Rightarrow> Inl e | Inr r \<Rightarrow>
       (let roaming = truthy (jget body ''roamingIndicator'') \<and> rr_allowance r = ''data'' in
        if roaming \<and> \<not> has_allowance tariff ''data_roaming''
        then Inr \<lparr>uo_type = ''usage.rejected'', uo_agg_type = ''usage'', uo_agg_id = rr_event r,
               uo_payload = JObj [(''usageEventId'', JStr (rr_event r)), (''subscriptionId'', JStr (rr_sub r)),
                 (''msisdn'', JStr (us_msisdn usage)), (''eventType'', JStr (us_type usage)),
                 (''reason'', JStr ''rating.no_roaming_allowance''), (''offeringId'', JStr offering_id)]\<rparr>
        else Inr \<lparr>uo_type = ''usage.rated'', uo_agg_type = ''usage'', uo_agg_id = rr_event r,
               uo_payload = JObj [(''usageEventId'', JStr (rr_event r)), (''subscriptionId'', JStr (rr_sub r)),
                 (''allowanceType'', JStr (if roaming then ''data_roaming'' else rr_allowance r)),
                 (''consumedQuantity'', JInt (rr_consumed r)), (''unit'', JStr (rr_unit r)),
                 (''chargeAmount'', JStr (rr_charge r)), (''currency'', JStr (rr_currency r)),
                 (''offeringId'', JStr offering_id)]\<rparr>)))"

section \<open>The consumer\<close>

type_synonym rating_db = "(string \<times> json) base"

datatype handle_error = HRating rating_error | HCatalog client_error

text \<open>The row is staged from the default context; the message carries the payload itself.\<close>

definition stage_and_publish :: "(string \<Rightarrow> json \<Rightarrow> bool) option \<Rightarrow> int \<Rightarrow> usage_outcome \<Rightarrow> (rating_db, handle_error, unit) prog" where
  "stage_and_publish mq now outcome =
     stage_publish_audit mq default_ctx now (uo_type outcome) (uo_agg_type outcome) (uo_agg_id outcome) (uo_payload outcome)"

definition handle_usage_recorded :: "(string \<Rightarrow> client_error + json) \<Rightarrow> (string \<Rightarrow> json \<Rightarrow> bool) option \<Rightarrow> int \<Rightarrow> json
    \<Rightarrow> (rating_db, handle_error, unit) prog" where
  "handle_usage_recorded catalog mq now body =
     bindp (map_err HRating (of_result (require_offering_id body))) (\<lambda>offering_id.
     bindp (map_err HCatalog (of_result (catalog offering_id))) (\<lambda>tariff.
     bindp (map_err HRating (of_result (decide_usage_outcome body tariff offering_id))) (\<lambda>outcome.
     stage_and_publish mq now outcome)))"

text \<open>The loop's body: the error is logged and the delivery acked whatever happened.\<close>

definition rating_delivery :: "(string \<Rightarrow> client_error + json) \<Rightarrow> (string \<Rightarrow> json \<Rightarrow> bool) option \<Rightarrow> int \<Rightarrow> json
    \<Rightarrow> rating_db \<Rightarrow> rating_db" where
  "rating_delivery catalog mq now body s = snd (handle_usage_recorded catalog mq now body s)"

section \<open>What rating guarantees\<close>

lemma allowance_data_iff: "event_type_to_allowance t = Some ''data'' \<longleftrightarrow> t = ''data''"
  by (simp add: event_type_to_allowance_def)

text \<open>
  Rating never charges and never changes a quantity: whenever a usage event is rated, the
  instruction for the subscription carries the event's own quantity and a charge of \<open>0\<close>, and
  consumes an allowance the tariff has, in the unit of that allowance.
\<close>

theorem rating_passes_quantity_through:
  "case decide_usage_outcome body tariff off of
     Inl _ \<Rightarrow> True
   | Inr out \<Rightarrow>
       (\<exists>u. usage_of_body body = Inr u \<and> uo_agg_id out = us_event u \<and>
          (if uo_type out = ''usage.rated''
           then (\<exists>a. jget (uo_payload out) ''allowanceType'' = Some (JStr a) \<and> has_allowance tariff a) \<and>
                jget (uo_payload out) ''consumedQuantity'' = Some (JInt (us_quantity u)) \<and>
                jget (uo_payload out) ''chargeAmount'' = Some (JStr ''0'') \<and>
                Option.bind (event_type_to_allowance (us_type u)) allowance_unit = Some (us_unit u)
           else uo_type out = ''usage.rejected'' \<and> truthy (jget body ''roamingIndicator'') \<and> us_type u = ''data'' \<and>
                \<not> has_allowance tariff ''data_roaming''))"
  by (auto simp: decide_usage_outcome_def Let_def rate_usage_def allowance_data_iff split: sum.splits option.splits if_splits)

end
