(* ===== verification/SubDomain.thy ===== *)
theory SubDomain
  imports Lifecycle
begin

text \<open>
  \<open>services/subscription/src/domain.rs\<close> and \<open>money.rs\<close>: bundle balances, the
  subscription state machine, the discount counter and the discount arithmetic.
\<close>

section \<open>Balances\<close>

definition UNLIMITED :: int where "UNLIMITED = - 1"

record balance_snapshot =
  bs_type :: string
  bs_total :: int
  bs_consumed :: int
  bs_unit :: string

definition remaining :: "balance_snapshot \<Rightarrow> int" where
  "remaining b = (if bs_total b = UNLIMITED then UNLIMITED else wrap64 (bs_total b - bs_consumed b))"

record allowance_spec =
  as_type :: string
  as_quantity :: int
  as_unit :: string

definition consume :: "balance_snapshot \<Rightarrow> int \<Rightarrow> balance_snapshot" where
  "consume b quantity =
     (if quantity \<le> 0 \<or> bs_total b = UNLIMITED then b
      else b\<lparr>bs_consumed := min (wrap64 (bs_consumed b + quantity)) (bs_total b)\<rparr>)"

fun is_exhausted :: "balance_snapshot list \<Rightarrow> string \<Rightarrow> bool" where
  "is_exhausted [] primary = True"
| "is_exhausted (b # bs) primary =
     (if bs_type b = primary then (if bs_total b = UNLIMITED then False else remaining b \<le> 0)
      else is_exhausted bs primary)"

definition add_allowance :: "balance_snapshot \<Rightarrow> int \<Rightarrow> balance_snapshot" where
  "add_allowance b quantity =
     (if quantity \<le> 0 \<or> bs_total b = UNLIMITED then b
      else b\<lparr>bs_total := wrap64 (bs_total b + quantity)\<rparr>)"

definition reset_for_new_period :: "allowance_spec list \<Rightarrow> balance_snapshot list" where
  "reset_for_new_period specs =
     map (\<lambda>s. \<lparr>bs_type = as_type s, bs_total = as_quantity s, bs_consumed = 0, bs_unit = as_unit s\<rparr>) specs"

definition PRIMARY_ALLOWANCE_TYPE :: string where "PRIMARY_ALLOWANCE_TYPE = ''data''"

section \<open>State machine\<close>

definition TRANSITIONS :: "(string \<times> string \<times> string) list" where
  "TRANSITIONS =
    [(''activate'', ''pending'', ''active''),
     (''fail_activate'', ''pending'', ''terminated''),
     (''exhaust'', ''active'', ''blocked''),
     (''top_up'', ''blocked'', ''active''),
     (''top_up'', ''active'', ''active''),
     (''renew'', ''active'', ''active''),
     (''renew_fail'', ''active'', ''blocked''),
     (''terminate'', ''active'', ''terminated''),
     (''terminate'', ''blocked'', ''terminated'')]"

definition is_valid_transition :: "string \<Rightarrow> string \<Rightarrow> bool" where
  "is_valid_transition from_state trigger \<longleftrightarrow> list_ex (\<lambda>(t, src, _). t = trigger \<and> src = from_state) TRANSITIONS"

definition get_next_state :: "string \<Rightarrow> string \<Rightarrow> string option" where
  "get_next_state from_state trigger =
     map_option (\<lambda>(_, _, dest). dest) (find (\<lambda>(t, src, _). t = trigger \<and> src = from_state) TRANSITIONS)"

text \<open>One step of the machine under some trigger.\<close>

definition sub_allowed :: "string \<Rightarrow> string \<Rightarrow> bool" where
  "sub_allowed a b \<longleftrightarrow> list_ex (\<lambda>(_, src, dest). src = a \<and> dest = b) TRANSITIONS"

definition sub_terminal :: "string \<Rightarrow> bool" where
  "sub_terminal a \<longleftrightarrow> a = ''terminated''"

definition initial_discount_remaining :: "string option \<Rightarrow> int option \<Rightarrow> int" where
  "initial_discount_remaining discount_type periods_total =
     (case (discount_type, periods_total) of
        (Some _, Some n) \<Rightarrow> if n < 0 then - 1 else max (n - 1) 0
      | _ \<Rightarrow> 0)"

section \<open>Money\<close>

text \<open>
  \<open>rust_decimal\<close> amounts are their exact values; rounding is half away from zero to two
  decimal places.
\<close>

definition round2 :: "rat \<Rightarrow> rat" where
  "round2 q = (if q < 0 then - (of_int \<lfloor>- q * 100 + 1 / 2\<rfloor> / 100) else of_int \<lfloor>q * 100 + 1 / 2\<rfloor> / 100)"

definition apply_discount :: "string \<Rightarrow> rat \<Rightarrow> rat \<Rightarrow> string + rat" where
  "apply_discount discount_type discount_value base_amount =
     (if discount_type = ''percent'' then Inr (round2 (max 0 (base_amount * (100 - discount_value) / 100)))
      else if discount_type = ''absolute'' then Inr (round2 (max 0 (base_amount - discount_value)))
      else Inl ''unknown discount_type'')"

section \<open>Facts\<close>

lemma consume_frame [simp]:
  "bs_type (consume b q) = bs_type b" "bs_total (consume b q) = bs_total b" "bs_unit (consume b q) = bs_unit b"
  by (simp_all add: consume_def)

lemma add_allowance_frame [simp]:
  "bs_type (add_allowance b q) = bs_type b" "bs_consumed (add_allowance b q) = bs_consumed b"
  "bs_unit (add_allowance b q) = bs_unit b"
  by (simp_all add: add_allowance_def)

text \<open>Well-formed balance: unlimited, or \<open>0 \<le> consumed \<le> total\<close> in range.\<close>

definition balance_ok :: "balance_snapshot \<Rightarrow> bool" where
  "balance_ok b \<longleftrightarrow> bs_total b = UNLIMITED \<or> (0 \<le> bs_consumed b \<and> bs_consumed b \<le> bs_total b \<and> bs_total b \<le> i64_max)"

lemma balance_ok_remaining:
  "balance_ok b \<Longrightarrow> bs_total b \<noteq> UNLIMITED \<Longrightarrow> remaining b = bs_total b - bs_consumed b \<and> 0 \<le> remaining b"
  by (auto simp: balance_ok_def remaining_def wrap64_id in_i64_def i64_max_def i64_min_def)

lemma consume_small:
  assumes "balance_ok b" "bs_total b \<noteq> UNLIMITED" "0 < q" "bs_consumed b + q \<le> i64_max"
  shows "consume b q = b\<lparr>bs_consumed := min (bs_consumed b + q) (bs_total b)\<rparr>"
proof -
  have "in_i64 (bs_consumed b + q)" using assms by (auto simp: balance_ok_def in_i64_def i64_min_def)
  then show ?thesis using assms(2,3) by (simp add: consume_def wrap64_id)
qed

lemma consume_ok:
  assumes "balance_ok b" "bs_consumed b + q \<le> i64_max"
  shows "balance_ok (consume b q)"
proof (cases "q \<le> 0 \<or> bs_total b = UNLIMITED")
  case True
  then show ?thesis using assms by (simp add: consume_def)
next
  case False
  then show ?thesis using assms consume_small [of b q] by (auto simp: balance_ok_def)
qed

lemma consume_compose:
  assumes "balance_ok b" "0 \<le> p" "0 \<le> q" "bs_consumed b + p + q \<le> i64_max"
  shows "consume (consume b p) q = consume b (p + q)"
proof (cases "bs_total b = UNLIMITED \<or> p = 0 \<or> q = 0")
  case True
  then show ?thesis using assms by (auto simp: consume_def)
next
  case False
  then have *: "bs_total b \<noteq> UNLIMITED" "0 < p" "0 < q" using assms by auto
  have p: "consume b p = b\<lparr>bs_consumed := min (bs_consumed b + p) (bs_total b)\<rparr>"
    using assms * by (intro consume_small) auto
  have ok: "balance_ok (consume b p)" using assms * by (intro consume_ok) auto
  have "consume (consume b p) q = (consume b p)\<lparr>bs_consumed := min (bs_consumed (consume b p) + q) (bs_total b)\<rparr>"
    using ok * assms p by (subst consume_small) auto
  moreover have "consume b (p + q) = b\<lparr>bs_consumed := min (bs_consumed b + (p + q)) (bs_total b)\<rparr>"
    using assms * by (intro consume_small) auto
  ultimately show ?thesis using p * by simp
qed

lemma is_exhausted_iff:
  "is_exhausted bs primary \<longleftrightarrow>
     (case tbl_find bs_type primary bs of None \<Rightarrow> True | Some b \<Rightarrow> bs_total b \<noteq> UNLIMITED \<and> remaining b \<le> 0)"
  by (induction bs) auto

lemma get_next_state_iff: "get_next_state a t \<noteq> None \<longleftrightarrow> is_valid_transition a t"
  by (auto simp: get_next_state_def is_valid_transition_def find_None_iff list_ex_iff)

lemma get_next_state_allowed: "get_next_state a t = Some b \<Longrightarrow> sub_allowed a b"
  by (auto simp: get_next_state_def sub_allowed_def TRANSITIONS_def split: if_splits)

interpretation sub_fsm: lifecycle sub_allowed sub_terminal
  by unfold_locales (auto simp: sub_allowed_def sub_terminal_def TRANSITIONS_def)

subsection \<open>Rounding\<close>

lemma round2_nonneg: "0 \<le> q \<Longrightarrow> 0 \<le> round2 q"
  by (simp add: round2_def)

lemma round2_mono: "p \<le> q \<Longrightarrow> 0 \<le> p \<Longrightarrow> round2 p \<le> round2 q"
  by (simp add: round2_def floor_mono divide_right_mono)

lemma round2_cents: "round2 (of_int n / 100) = of_int n / 100"
proof -
  have "\<lfloor>(of_int m :: rat) + 1 / 2\<rfloor> = m" for m by linarith
  then show ?thesis by (simp add: round2_def)
qed

lemma round2_error: "\<bar>round2 q - q\<bar> \<le> 1 / 200"
proof -
  have bound: "\<bar>of_int \<lfloor>x * 100 + 1 / 2\<rfloor> / 100 - x\<bar> \<le> 1 / 200" for x :: rat
  proof -
    have "of_int \<lfloor>x * 100 + 1 / 2\<rfloor> \<le> x * 100 + 1 / 2" "x * 100 + 1 / 2 < of_int \<lfloor>x * 100 + 1 / 2\<rfloor> + 1"
      by linarith+
    then show ?thesis unfolding abs_le_iff by (simp add: field_simps)
  qed
  have "- of_int \<lfloor>- q * 100 + 1 / 2\<rfloor> / 100 - q = - (of_int \<lfloor>- q * 100 + 1 / 2\<rfloor> / 100 - (- q))"
    by simp
  then have neg: "\<bar>- of_int \<lfloor>- q * 100 + 1 / 2\<rfloor> / 100 - q\<bar> \<le> 1 / 200"
    using bound [of "- q"] by (simp only: abs_minus_cancel)
  show ?thesis
  proof (cases "q < 0")
    case True
    then show ?thesis using neg by (simp add: round2_def)
  next
    case False
    then show ?thesis using bound [of q] by (simp add: round2_def)
  qed
qed

end
