(* ===== verification/SubState.thy ===== *)
theory SubState
  imports SubDomain Events
begin

text \<open>
  The database of \<open>services/subscription\<close> (\<open>repo.rs\<close>): its rows, its queries and
  updates with the constraints of \<open>migrations/0001_baseline.sql\<close>, its request
  bodies and its responses (\<open>schemas.rs\<close>).
\<close>

section \<open>Rows\<close>

record sub_row =
  sb_id :: string
  sb_customer :: string
  sb_offering :: string
  sb_order :: "string option"
  sb_msisdn :: string
  sb_iccid :: string
  sb_cfs :: "string option"
  sb_state :: string
  sb_reason :: "string option"
  sb_activated_at :: "int option"
  sb_period_start :: "int option"
  sb_period_end :: "int option"
  sb_next_renewal_at :: "int option"
  sb_terminated_at :: "int option"
  sb_price :: rat
  sb_currency :: string
  sb_price_id :: string
  sb_pend_offering :: "string option"
  sb_pend_price_id :: "string option"
  sb_pend_at :: "int option"
  sb_disc_type :: "string option"
  sb_disc_value :: "rat option"
  sb_disc_left :: int
  sb_promo :: "string option"
  sb_promo_def :: "string option"
  sb_tenant :: string
  sb_attempted_at :: "int option"
  sb_reminder_at :: "int option"

record bal_row =
  bl_id :: string
  bl_sub :: string
  bl_type :: string
  bl_total :: int
  bl_consumed :: int
  bl_unit :: string
  bl_start :: "int option"
  bl_end :: "int option"

record hist_row =
  hs_sub :: string
  hs_from :: string
  hs_to :: string
  hs_reason :: string

record vas_row =
  vs_id :: string
  vs_sub :: string
  vs_offering :: string
  vs_attempt :: "string option"
  vs_applied_at :: int
  vs_expires_at :: "int option"
  vs_added :: int
  vs_type :: string

text \<open>The calls that change the state of another service.\<close>

datatype sub_call =
    Charge string string rat string string
  | ReleaseMsisdn string
  | RecycleEsim string
  | AssignMsisdn string
  | AssignEsim string string

record sub_db = "sub_call base" +
  sd_seq :: nat
  sd_subs :: "sub_row list"
  sd_bals :: "bal_row list"
  sd_hist :: "hist_row list"
  sd_vas :: "vas_row list"

type_synonym 'a sub_prog = "(sub_db, api_error, 'a) prog"
type_synonym sub_full = "sub_row \<times> bal_row list"

section \<open>Queries\<close>

definition bal_snapshot :: "bal_row \<Rightarrow> balance_snapshot" where
  "bal_snapshot b = \<lparr>bs_type = bl_type b, bs_total = bl_total b, bs_consumed = bl_consumed b, bs_unit = bl_unit b\<rparr>"

definition get_balances :: "sub_db \<Rightarrow> string \<Rightarrow> bal_row list" where
  "get_balances s sub_id = filter (\<lambda>b. bl_sub b = sub_id) (sd_bals s)"

definition hydrate :: "sub_db \<Rightarrow> sub_row \<Rightarrow> sub_full" where
  "hydrate s r = (r, get_balances s (sb_id r))"

definition get_sub :: "sub_db \<Rightarrow> string \<Rightarrow> sub_full option" where
  "get_sub s sub_id = map_option (hydrate s) (tbl_find sb_id sub_id (sd_subs s))"

definition get_by_msisdn :: "sub_db \<Rightarrow> string \<Rightarrow> sub_full option" where
  "get_by_msisdn s msisdn = map_option (hydrate s) (tbl_find sb_msisdn msisdn (sd_subs s))"

definition get_by_commercial_order :: "sub_db \<Rightarrow> string \<Rightarrow> sub_full option" where
  "get_by_commercial_order s order_id = map_option (hydrate s) (tbl_find sb_order (Some order_id) (sd_subs s))"

text \<open>\<open>ORDER BY created_at DESC\<close>: rows are kept in creation order.\<close>

definition list_for_customer :: "sub_db \<Rightarrow> string \<Rightarrow> sub_full list" where
  "list_for_customer s customer_id =
     map (hydrate s) (rev (filter (\<lambda>r. sb_customer r = customer_id) (sd_subs s)))"

text \<open>\<open>ORDER BY id\<close>: insertion by the code points of the id.\<close>

fun str_le :: "string \<Rightarrow> string \<Rightarrow> bool" where
  "str_le [] ys = True"
| "str_le (x # xs) [] = False"
| "str_le (x # xs) (y # ys) =
     (let a = of_char x :: nat; b = of_char y in a < b \<or> a = b \<and> str_le xs ys)"

fun insert_by_id :: "sub_row \<Rightarrow> sub_row list \<Rightarrow> sub_row list" where
  "insert_by_id r [] = [r]"
| "insert_by_id r (x # xs) = (if str_le (sb_id r) (sb_id x) then r # x # xs else x # insert_by_id r xs)"

definition list_active_for_offering :: "sub_db \<Rightarrow> string \<Rightarrow> sub_row list" where
  "list_active_for_offering s offering_id =
     foldr insert_by_id
       (filter (\<lambda>r. sb_offering r = offering_id \<and> (sb_state r = ''active'' \<or> sb_state r = ''blocked'')) (sd_subs s)) []"

definition get_balance :: "sub_db \<Rightarrow> string \<Rightarrow> string \<Rightarrow> bal_row option" where
  "get_balance s sub_id atype = find (\<lambda>b. bl_sub b = sub_id \<and> bl_type b = atype) (sd_bals s)"

subsection \<open>The renewal worker's sweeps\<close>

definition not_after :: "int option \<Rightarrow> int \<Rightarrow> bool" where
  "not_after t now = (case t of None \<Rightarrow> False | Some x \<Rightarrow> x \<le> now)"

definition unattempted :: "int option \<Rightarrow> int option \<Rightarrow> bool" where
  "unattempted attempted renewal =
     (case attempted of None \<Rightarrow> True
      | Some a \<Rightarrow> (case renewal of None \<Rightarrow> False | Some x \<Rightarrow> a < x))"

definition renewal_key :: "sub_row \<Rightarrow> int" where
  "renewal_key r = unwrap_or 0 (sb_next_renewal_at r)"

definition due_row :: "string \<Rightarrow> string \<Rightarrow> int \<Rightarrow> sub_row \<Rightarrow> bool" where
  "due_row state tenant now r \<longleftrightarrow>
     sb_state r = state \<and> not_after (sb_next_renewal_at r) now \<and>
     unattempted (sb_attempted_at r) (sb_next_renewal_at r) \<and> sb_tenant r = tenant"

definition due_for_renewal :: "sub_db \<Rightarrow> int \<Rightarrow> nat \<Rightarrow> string \<Rightarrow> string list" where
  "due_for_renewal s now limit tenant =
     map sb_id (take limit (sort_key renewal_key (filter (due_row ''active'' tenant now) (sd_subs s))))"

definition overdue_blocked :: "sub_db \<Rightarrow> int \<Rightarrow> nat \<Rightarrow> string \<Rightarrow> string list" where
  "overdue_blocked s now limit tenant =
     map sb_id (take limit (sort_key renewal_key (filter (due_row ''blocked'' tenant now) (sd_subs s))))"

definition mark_renewal_attempted :: "string list \<Rightarrow> int \<Rightarrow> unit sub_prog" where
  "mark_renewal_attempted ids ts =
     modify (\<lambda>s. s\<lparr>sd_subs := map (\<lambda>r. if sb_id r \<in> set ids then r\<lparr>sb_attempted_at := Some ts\<rparr> else r) (sd_subs s)\<rparr>)"

text \<open>The reminder queries (their sweep is not wired in the Rust service).\<close>

definition due_for_reminder :: "sub_db \<Rightarrow> int \<Rightarrow> int \<Rightarrow> nat \<Rightarrow> string \<Rightarrow> sub_row list" where
  "due_for_reminder s now lookahead_seconds limit tenant =
     take limit (sort_key renewal_key (filter (\<lambda>r.
       sb_state r = ''active'' \<and>
       (case sb_next_renewal_at r of None \<Rightarrow> False | Some x \<Rightarrow> now < x \<and> x \<le> now + lookahead_seconds * 1000000) \<and>
       unattempted (sb_reminder_at r) (sb_next_renewal_at r) \<and> sb_tenant r = tenant) (sd_subs s)))"

definition mark_reminder_sent :: "string list \<Rightarrow> int \<Rightarrow> unit sub_prog" where
  "mark_reminder_sent ids ts =
     modify (\<lambda>s. s\<lparr>sd_subs := map (\<lambda>r. if sb_id r \<in> set ids then r\<lparr>sb_reminder_at := Some ts\<rparr> else r) (sd_subs s)\<rparr>)"

section \<open>Updates\<close>

definition db_error :: "string \<Rightarrow> api_error" where
  "db_error constraint = InternalE constraint"

definition next_id :: "string sub_prog" where
  "next_id = bindp (gets sd_seq) (\<lambda>n. bindp (modify (\<lambda>s. s\<lparr>sd_seq := n + 1\<rparr>)) (\<lambda>_. ret (''SUB-'' @ pad4 n)))"

definition live :: "sub_row \<Rightarrow> bool" where
  "live r \<longleftrightarrow> sb_state r \<noteq> ''terminated''"

text \<open>
  \<open>INSERT INTO subscription.subscription\<close>, with its primary key and the unique indexes
  on the commercial order and on the MSISDN and ICCID of rows that are not terminated.
\<close>

definition insert_sub :: "sub_row \<Rightarrow> unit sub_prog" where
  "insert_sub r =
     bindp (gets sd_subs) (\<lambda>rows.
       if sb_id r \<in> sb_id ` set rows then throw (db_error ''pk_subscription'')
       else if sb_order r \<noteq> None \<and> sb_order r \<in> sb_order ` set rows then throw (db_error ''uq_subscription_commercial_order'')
       else if live r \<and> sb_iccid r \<in> sb_iccid ` set (filter live rows) then throw (db_error ''uq_subscription_iccid'')
       else if live r \<and> sb_msisdn r \<in> sb_msisdn ` set (filter live rows) then throw (db_error ''uq_subscription_msisdn'')
       else modify (\<lambda>s. s\<lparr>sd_subs := sd_subs s @ [r]\<rparr>))"

definition update_sub :: "string \<Rightarrow> (sub_row \<Rightarrow> sub_row) \<Rightarrow> unit sub_prog" where
  "update_sub sub_id f = modify (\<lambda>s. s\<lparr>sd_subs := tbl_update sb_id sub_id f (sd_subs s)\<rparr>)"

definition insert_bal :: "bal_row \<Rightarrow> unit sub_prog" where
  "insert_bal b =
     bindp (gets sd_bals) (\<lambda>rows.
       if bl_id b \<in> bl_id ` set rows then throw (db_error ''pk_bundle_balance'')
       else modify (\<lambda>s. s\<lparr>sd_bals := sd_bals s @ [b]\<rparr>))"

definition update_bal :: "string \<Rightarrow> (bal_row \<Rightarrow> bal_row) \<Rightarrow> unit sub_prog" where
  "update_bal bal_id f = modify (\<lambda>s. s\<lparr>sd_bals := tbl_update bl_id bal_id f (sd_bals s)\<rparr>)"

definition add_state_history :: "string \<Rightarrow> string \<Rightarrow> string \<Rightarrow> string \<Rightarrow> unit sub_prog" where
  "add_state_history sub_id from_state to_state reason =
     modify (\<lambda>s. s\<lparr>sd_hist := sd_hist s @ [\<lparr>hs_sub = sub_id, hs_from = from_state, hs_to = to_state, hs_reason = reason\<rparr>]\<rparr>)"

definition insert_vas :: "vas_row \<Rightarrow> unit sub_prog" where
  "insert_vas v =
     bindp (gets sd_vas) (\<lambda>rows.
       if vs_id v \<in> vs_id ` set rows then throw (db_error ''pk_vas_purchase'')
       else modify (\<lambda>s. s\<lparr>sd_vas := sd_vas s @ [v]\<rparr>))"

text \<open>\<open>CAST(x AS numeric(precision, 2))\<close>: rounded to cents, an error when it does not fit.\<close>

definition to_numeric :: "nat \<Rightarrow> rat \<Rightarrow> api_error + rat" where
  "to_numeric precision q =
     (let r = round2 q in if \<bar>r\<bar> < 10 ^ (precision - 2) then Inr r else Inl (db_error ''numeric field overflow''))"

section \<open>Requests and responses\<close>

record price_snapshot =
  pr_amount :: rat
  pr_currency :: string
  pr_price_id :: string
  pr_disc_type :: "string option"
  pr_disc_value :: "rat option"
  pr_disc_periods :: "int option"
  pr_promo :: "string option"
  pr_promo_def :: "string option"

record create_request =
  cr_customer :: string
  cr_offering :: string
  cr_msisdn :: string
  cr_iccid :: string
  cr_method :: string
  cr_price :: "price_snapshot option"
  cr_order :: "string option"

definition effective_amount :: "sub_row \<Rightarrow> rat" where
  "effective_amount r =
     (case (sb_disc_type r, sb_disc_value r) of
        (Some dt, Some dv) \<Rightarrow>
          if sb_disc_left r \<noteq> 0
          then (case apply_discount dt dv (sb_price r) of Inl _ \<Rightarrow> sb_price r | Inr a \<Rightarrow> a)
          else sb_price r
      | _ \<Rightarrow> sb_price r)"

definition to_balance_response :: "bal_row \<Rightarrow> json" where
  "to_balance_response b = JObj
     [(''id'', JStr (bl_id b)), (''subscriptionId'', JStr (bl_sub b)), (''allowanceType'', JStr (bl_type b)),
      (''total'', JInt (bl_total b)), (''consumed'', JInt (bl_consumed b)),
      (''remaining'', JInt (if bl_total b \<ge> 0 then wrap64 (bl_total b - bl_consumed b) else - 1)),
      (''unit'', JStr (bl_unit b)), (''periodStart'', opt_json JTime (bl_start b)),
      (''periodEnd'', opt_json JTime (bl_end b))]"

definition to_subscription_response :: "sub_full \<Rightarrow> json" where
  "to_subscription_response full = (case full of (r, bals) \<Rightarrow> JObj
     [(''id'', JStr (sb_id r)), (''href'', JStr (''/subscription-api/v1/subscription/'' @ sb_id r)),
      (''customerId'', JStr (sb_customer r)), (''offeringId'', JStr (sb_offering r)),
      (''msisdn'', JStr (sb_msisdn r)), (''iccid'', JStr (sb_iccid r)),
      (''cfsServiceId'', opt_json JStr (sb_cfs r)), (''state'', JStr (sb_state r)),
      (''stateReason'', opt_json JStr (sb_reason r)), (''activatedAt'', opt_json JTime (sb_activated_at r)),
      (''currentPeriodStart'', opt_json JTime (sb_period_start r)),
      (''currentPeriodEnd'', opt_json JTime (sb_period_end r)),
      (''nextRenewalAt'', opt_json JTime (sb_next_renewal_at r)),
      (''terminatedAt'', opt_json JTime (sb_terminated_at r)),
      (''balances'', JArr (map to_balance_response bals)),
      (''priceAmount'', JDec (sb_price r)), (''priceCurrency'', JStr (sb_currency r)),
      (''priceOfferingPriceId'', JStr (sb_price_id r)),
      (''pendingOfferingId'', opt_json JStr (sb_pend_offering r)),
      (''pendingOfferingPriceId'', opt_json JStr (sb_pend_price_id r)),
      (''pendingEffectiveAt'', opt_json JTime (sb_pend_at r)),
      (''discountType'', opt_json JStr (sb_disc_type r)),
      (''discountValue'', opt_json JDec (sb_disc_value r)),
      (''discountPeriodsRemaining'', JInt (sb_disc_left r)),
      (''effectiveAmount'', JDec (effective_amount r)),
      (''promoCode'', opt_json JStr (sb_promo r)),
      (''promoOfferDefinitionId'', opt_json JStr (sb_promo_def r)),
      (''@type'', JStr ''Subscription'')])"

end
