(* ===== verification/SubPolicies.thy ===== *)
theory SubPolicies
  imports SubState
begin

text \<open>
  \<open>services/subscription/src/policies.rs\<close>: the checks made before any write, and the
  answers of the other services they read (\<open>sub_env\<close>).
\<close>

section \<open>The other services\<close>

text \<open>
  Reads are functions of what is asked; \<open>charge\<close> also sees the calls made before it.
  \<open>env_decimal\<close> is \<open>rust_decimal\<close>'s parser and \<open>env_uuid8\<close> the random suffix of the
  next VAS purchase id.
\<close>

record sub_env =
  env_customer :: "string \<Rightarrow> client_error + json"
  env_msisdn :: "string \<Rightarrow> client_error + json"
  env_esim :: "string \<Rightarrow> client_error + json"
  env_offering :: "string \<Rightarrow> client_error + json"
  env_active_offerings :: "int \<Rightarrow> client_error + json"
  env_active_price :: "string \<Rightarrow> client_error + json"
  env_offering_price :: "string \<Rightarrow> client_error + json"
  env_vas :: "string \<Rightarrow> client_error + json"
  env_methods :: "string \<Rightarrow> client_error + json"
  env_charge :: "sub_call list \<Rightarrow> sub_call \<Rightarrow> client_error + json"
  env_decimal :: "string \<Rightarrow> rat option"
  env_uuid8 :: string

definition up :: "client_error + 'a \<Rightarrow> api_error + 'a" where
  "up r = (case r of Inl e \<Rightarrow> Inl (upstream e) | Inr x \<Rightarrow> Inr x)"

section \<open>Create\<close>

definition check_customer_exists :: "sub_env \<Rightarrow> string \<Rightarrow> api_error + unit" where
  "check_customer_exists env customer_id =
     (case env_customer env customer_id of
        Inl NotFoundErr \<Rightarrow> Inl (violate ''subscription.create.requires_customer'' [(''customer_id'', JStr customer_id)])
      | Inl e \<Rightarrow> Inl (upstream e)
      | Inr customer \<Rightarrow>
          (let status = get_str_or customer ''status'' [] in
           if status \<noteq> ''active'' \<and> status \<noteq> ''pending''
           then Inl (violate ''subscription.create.requires_customer''
                  [(''customer_id'', JStr customer_id), (''status'', JStr status)])
           else Inr ()))"

definition reserved_or_assigned :: "string option \<Rightarrow> bool" where
  "reserved_or_assigned st \<longleftrightarrow> st = Some ''reserved'' \<or> st = Some ''assigned''"

definition check_msisdn_and_esim_reserved :: "sub_env \<Rightarrow> string \<Rightarrow> string \<Rightarrow> api_error + unit" where
  "check_msisdn_and_esim_reserved env msisdn iccid =
     (let r = ''subscription.create.msisdn_and_esim_reserved'' in
      case env_msisdn env msisdn of
        Inl NotFoundErr \<Rightarrow> Inl (violate r [(''msisdn'', JStr msisdn)])
      | Inl e \<Rightarrow> Inl (upstream e)
      | Inr msisdn_info \<Rightarrow>
          (let m_status = get_str msisdn_info ''status'' in
           if \<not> reserved_or_assigned m_status
           then Inl (violate r [(''msisdn'', JStr msisdn), (''status'', opt_json JStr m_status)])
           else case env_esim env iccid of
              Inl NotFoundErr \<Rightarrow> Inl (violate r [(''iccid'', JStr iccid)])
            | Inl e \<Rightarrow> Inl (upstream e)
            | Inr esim_info \<Rightarrow>
                (let e_state = (case jget esim_info ''profileState'' of
                                  Some v \<Rightarrow> as_str v | None \<Rightarrow> get_str esim_info ''profile_state'') in
                 if \<not> reserved_or_assigned e_state then Inl (violate r [(''iccid'', JStr iccid)]) else Inr ())))"

section \<open>Renew and plan change\<close>

definition check_renew_allowed :: "string \<Rightarrow> api_error + unit" where
  "check_renew_allowed state =
     (if state \<noteq> ''active'' \<and> state \<noteq> ''blocked''
      then Inl (violate ''subscription.renew.only_if_active_or_blocked'' [(''state'', JStr state)]) else Inr ())"

definition check_subscription_active_or_pending_renewal :: "string \<Rightarrow> api_error + unit" where
  "check_subscription_active_or_pending_renewal state =
     (if state \<noteq> ''active''
      then Inl (violate ''subscription.plan_change.not_eligible_state'' [(''state'', JStr state)]) else Inr ())"

definition check_offering_sellable_now :: "sub_env \<Rightarrow> int \<Rightarrow> string \<Rightarrow> api_error + unit" where
  "check_offering_sellable_now env active_at new_offering_id =
     (case env_active_offerings env active_at of
        Inl e \<Rightarrow> Inl (upstream e)
      | Inr active \<Rightarrow>
          if (case as_array active of None \<Rightarrow> False
              | Some arr \<Rightarrow> list_ex (\<lambda>x. get_str x ''id'' = Some new_offering_id) arr)
          then Inr ()
          else Inl (violate ''subscription.plan_change.target_not_sellable_now''
                 [(''new_offering_id'', JStr new_offering_id)]))"

definition check_not_same_offering :: "string \<Rightarrow> string \<Rightarrow> api_error + unit" where
  "check_not_same_offering cur new =
     (if cur = new
      then Inl (violate ''subscription.plan_change.same_offering''
             [(''current_offering_id'', JStr cur), (''new_offering_id'', JStr new)])
      else Inr ())"

definition check_no_pending_change :: "string option \<Rightarrow> api_error + unit" where
  "check_no_pending_change pending_offering_id =
     (case pending_offering_id of
        Some pid \<Rightarrow> Inl (violate ''subscription.plan_change.already_pending'' [(''pending_offering_id'', JStr pid)])
      | None \<Rightarrow> Inr ())"

definition check_admin_role :: "request_ctx \<Rightarrow> api_error + unit" where
  "check_admin_role ctx =
     (if list_ex (\<lambda>r. r = ''admin'') (rc_roles ctx) then Inr ()
      else Inl (violate ''subscription.admin_only''
             [(''actor'', JStr (rc_actor ctx)), (''roles'', JArr (map JStr (rc_roles ctx)))]))"

definition fetch_active_price_for_target :: "sub_env \<Rightarrow> string \<Rightarrow> api_error + json" where
  "fetch_active_price_for_target env new_offering_id =
     (case env_active_price env new_offering_id of
        Inr v \<Rightarrow> Inr v
      | Inl (PolicyErr pv) \<Rightarrow> Inl (violate ''subscription.plan_change.target_no_active_price''
             [(''new_offering_id'', JStr new_offering_id), (''underlying'', JStr (rule pv))])
      | Inl e \<Rightarrow> Inl (upstream e))"

section \<open>Usage and VAS\<close>

definition check_roaming_balance_required :: "string \<Rightarrow> bal_row option \<Rightarrow> int \<Rightarrow> violation + unit" where
  "check_roaming_balance_required subscription_id balance consumed_quantity =
     (let r = ''subscription.usage_rated.roaming_balance_required'' in
      case balance of
        None \<Rightarrow> Inl (Violation r (JObj [(''subscription_id'', JStr subscription_id),
                                        (''consumed_quantity'', JInt consumed_quantity)]))
      | Some b \<Rightarrow>
          if bl_total b \<noteq> - 1 \<and> wrap64 (bl_total b - bl_consumed b) \<le> 0
          then Inl (Violation r (JObj [(''subscription_id'', JStr subscription_id),
                      (''remaining'', JInt (wrap64 (bl_total b - bl_consumed b))),
                      (''consumed_quantity'', JInt consumed_quantity)]))
          else Inr ())"

definition check_not_terminated :: "string \<Rightarrow> api_error + unit" where
  "check_not_terminated state =
     (if state = ''terminated''
      then Inl (violate ''subscription.vas_purchase.not_if_terminated'' [(''state'', JStr state)]) else Inr ())"

definition check_vas_offering_sellable :: "sub_env \<Rightarrow> string \<Rightarrow> api_error + json" where
  "check_vas_offering_sellable env vas_offering_id =
     (case env_vas env vas_offering_id of
        Inr v \<Rightarrow> Inr v
      | Inl NotFoundErr \<Rightarrow> Inl (violate ''subscription.vas_purchase.vas_offering_sellable''
             [(''vas_offering_id'', JStr vas_offering_id)])
      | Inl e \<Rightarrow> Inl (upstream e))"

end
