(* ===== verification/Consumer.thy ===== *)
theory Consumer
  imports Events
begin

text \<open>
  The safe consumer of \<open>crates/bss-events/src/consumer.rs\<close>: inbox deduplication, the
  retry/park decision, the life of a message across redeliveries, and the contract every
  service's event handler has with it.
\<close>

section \<open>Retry or park\<close>

datatype retry_action = Retry nat | Park

definition decide_retry :: "nat \<Rightarrow> nat \<Rightarrow> retry_action" where
  "decide_retry attempts max_retries = (if attempts \<ge> max_retries then Park else Retry (attempts + 1))"

definition as_u32 :: "int \<Rightarrow> nat" where
  "as_u32 n = nat (n mod 4294967296)"

text \<open>\<open>headers["x-death"][0]["count"]\<close>, 0 when absent or malformed; the count is a \<open>u64\<close> cut to 32 bits.\<close>

definition death_count :: "json \<Rightarrow> nat" where
  "death_count headers =
     (case get_array headers ''x-death'' of
        Some (first # _) \<Rightarrow> (case jget first ''count'' of
            Some (JInt n) \<Rightarrow> if 0 \<le> n \<and> n < 18446744073709551616 then as_u32 n else 0
          | _ \<Rightarrow> 0)
      | _ \<Rightarrow> 0)"

text \<open>The same read over the header as the broker library types it.\<close>

datatype amqp =
    LongLongInt int
  | LongInt int
  | ShortInt int
  | FieldArray "amqp list"
  | FieldTable "(string \<times> amqp) list"
  | OtherValue

definition lapin_death_count :: "(string \<times> amqp) list option \<Rightarrow> nat" where
  "lapin_death_count headers =
     (case headers of None \<Rightarrow> 0
      | Some kvs \<Rightarrow> (case map_of kvs ''x-death'' of
          Some (FieldArray (FieldTable first # _)) \<Rightarrow> (case map_of first ''count'' of
              Some (LongLongInt n) \<Rightarrow> as_u32 (max n 0)
            | Some (LongInt n) \<Rightarrow> as_u32 (max n 0)
            | Some (ShortInt n) \<Rightarrow> as_u32 (max n 0)
            | _ \<Rightarrow> 0)
        | _ \<Rightarrow> 0))"

text \<open>Re-subscription backoff, in seconds: doubled, capped at thirty.\<close>

definition initial_backoff :: nat where "initial_backoff = 1"
definition max_backoff :: nat where "max_backoff = 30"

definition next_backoff :: "nat \<Rightarrow> nat" where
  "next_backoff current = min (current * 2) max_backoff"

section \<open>One delivery\<close>

datatype processed = Handled | Duplicate

type_synonym ('c, 'z) handler = "json \<Rightarrow> ('c, 'z) base_scheme \<Rightarrow> (string + unit) \<times> ('c, 'z) base_scheme"

text \<open>
  \<open>process_one\<close>: claim the inbox row, run the handler, commit, all in one transaction. A
  message without a parseable id (\<open>None\<close>) is not deduplicated.
\<close>

definition claim :: "nat \<Rightarrow> string \<Rightarrow> (('c, 'z) base_scheme, 'e, bool) prog" where
  "claim eid consumer =
     bindp (gets (\<lambda>s. (eid, consumer) \<in> set (inbox s))) (\<lambda>dup.
       if dup then ret False
       else bindp (modify (\<lambda>s. s\<lparr>inbox := inbox s @ [(eid, consumer)]\<rparr>)) (\<lambda>_. ret True))"

definition process_one :: "string \<Rightarrow> ('c, 'z) handler \<Rightarrow> nat option \<Rightarrow> json
    \<Rightarrow> (('c, 'z) base_scheme, string, processed) prog" where
  "process_one consumer handler mid body =
     in_tx (bindp (case mid of None \<Rightarrow> ret True | Some eid \<Rightarrow> claim eid consumer) (\<lambda>fresh.
       if fresh then bindp (handler body) (\<lambda>_. ret Handled) else ret Duplicate))"

datatype disposition = Acked | Nacked nat | Parked

text \<open>The delivery loop's reaction to the outcome.\<close>

definition handle_delivery :: "string \<Rightarrow> nat \<Rightarrow> ('c, 'z) handler \<Rightarrow> nat \<Rightarrow> nat option \<Rightarrow> json
    \<Rightarrow> ('c, 'z) base_scheme \<Rightarrow> disposition \<times> ('c, 'z) base_scheme" where
  "handle_delivery consumer max_retries handler deaths mid body s =
     (case process_one consumer handler mid body s of
        (Inr _, t) \<Rightarrow> (Acked, t)
      | (Inl _, t) \<Rightarrow> (case decide_retry deaths max_retries of Retry a \<Rightarrow> (Nacked a, t) | Park \<Rightarrow> (Parked, t)))"

text \<open>
  A nacked message dead-letters to the retry queue and comes back with one more death
  counted (the broker's documented behaviour). Its life ends acked or parked; the number
  of deliveries it took is counted.
\<close>

function message_life :: "string \<Rightarrow> nat \<Rightarrow> ('c, 'z) handler \<Rightarrow> nat \<Rightarrow> nat option \<Rightarrow> json
    \<Rightarrow> ('c, 'z) base_scheme \<Rightarrow> disposition \<times> nat \<times> ('c, 'z) base_scheme" where
  "message_life consumer max_retries handler deaths mid body s =
     (case handle_delivery consumer max_retries handler deaths mid body s of
        (Nacked a, t) \<Rightarrow> (let (d, n, u) = message_life consumer max_retries handler a mid body t in (d, Suc n, u))
      | (d, t) \<Rightarrow> (d, 1, t))"
  by pat_completeness auto
termination
  by (relation "measure (\<lambda>(_, max_retries, _, deaths, _). max_retries - deaths)")
     (auto simp: handle_delivery_def decide_retry_def split: prod.splits sum.splits if_splits)

declare message_life.simps [simp del]

text \<open>The messages of a queue, one after the other.\<close>

fun consume_all :: "string \<Rightarrow> nat \<Rightarrow> ('c, 'z) handler \<Rightarrow> (nat option \<times> json) list
    \<Rightarrow> ('c, 'z) base_scheme \<Rightarrow> ('c, 'z) base_scheme" where
  "consume_all consumer max_retries handler [] s = s"
| "consume_all consumer max_retries handler ((mid, body) # ms) s =
     consume_all consumer max_retries handler ms (snd (snd (message_life consumer max_retries handler 0 mid body s)))"

subsection \<open>Facts that hold of every handler\<close>

lemma decide_retry_cases:
  "decide_retry a m = Park \<longleftrightarrow> m \<le> a" "decide_retry a m = Retry b \<longleftrightarrow> a < m \<and> b = a + 1"
  by (auto simp: decide_retry_def)

lemma handle_delivery_nack: "handle_delivery c m h deaths mid body s = (Nacked a, t) \<Longrightarrow> a = deaths + 1 \<and> deaths < m"
  by (auto simp: handle_delivery_def decide_retry_def split: prod.splits sum.splits if_splits)

lemma message_life_settles:
  "message_life c m h deaths mid body s = (d, n, t) \<Longrightarrow> (d = Acked \<or> d = Parked) \<and> 1 \<le> n \<and> n \<le> m - deaths + 1"
proof (induction c m h deaths mid body s arbitrary: d n t rule: message_life.induct)
  case (1 c m h deaths mid body s)
  obtain d0 t0 where hd: "handle_delivery c m h deaths mid body s = (d0, t0)" by fastforce
  show ?case
  proof (cases d0)
    case (Nacked a)
    obtain d1 n1 u where rec: "message_life c m h a mid body t0 = (d1, n1, u)" by (metis prod_cases3)
    have "a = deaths + 1" "deaths < m" using handle_delivery_nack hd Nacked by blast+
    moreover have "(d1 = Acked \<or> d1 = Parked) \<and> 1 \<le> n1 \<and> n1 \<le> m - a + 1"
      using "1.IH" [OF hd [symmetric] Nacked rec] .
    ultimately show ?thesis
      using "1.prems" hd Nacked rec by (auto simp: message_life.simps [of c m h deaths])
  qed (use "1.prems" hd in \<open>auto simp: message_life.simps [of c m h deaths]\<close>)
qed

lemma claimed_is_skipped:
  assumes "(eid, c) \<in> set (inbox s)"
  shows "process_one c h (Some eid) body s = (Inr Duplicate, s)"
  using assms by (simp add: process_one_def in_tx_def bindp_def claim_def gets_def ret_def)

lemma claimed_life:
  assumes "(eid, c) \<in> set (inbox s)"
  shows "message_life c m h deaths (Some eid) body s = (Acked, 1, s)"
  using claimed_is_skipped [OF assms] by (simp add: message_life.simps [of c m h] handle_delivery_def)

lemma failing_delivery:
  assumes fail: "\<And>s. isl (fst (h body s))" and fresh: "\<And>eid. mid = Some eid \<Longrightarrow> (eid, c) \<notin> set (inbox s)"
  shows "\<exists>e k. process_one c h mid body s = (Inl e, s\<lparr>calls := k\<rparr>)"
proof -
  have "wp (process_one c h mid body) (\<lambda>_ _. False) (\<lambda>e t. \<exists>k. t = s\<lparr>calls := k\<rparr>) s"
  proof (cases mid)
    case None
    have "wp (h body) (\<lambda>_ _. False) (\<lambda>e t. True) s" using fail [of s] by (auto simp: wp_def split: prod.splits sum.splits)
    then show ?thesis unfolding process_one_def None
      by (simp add: wp_simps) (erule wp_mono, auto simp: rollback_def)
  next
    case (Some eid)
    let ?s' = "s\<lparr>inbox := inbox s @ [(eid, c)]\<rparr>"
    have "wp (h body) (\<lambda>_ _. False) (\<lambda>e t. True) ?s'" using fail [of ?s'] by (auto simp: wp_def split: prod.splits sum.splits)
    then show ?thesis unfolding process_one_def claim_def Some
      using fresh [OF Some] by (simp add: wp_simps) (erule wp_mono, auto simp: rollback_def)
  qed
  then show ?thesis by (auto simp: wp_def split: prod.splits sum.splits)
qed

text \<open>A message whose handler always fails is delivered \<open>max_retries + 1\<close> times, then parked; no row changes.\<close>

lemma failing_life:
  assumes fail: "\<And>s. isl (fst (h body s))" and fresh: "\<And>eid. mid = Some eid \<Longrightarrow> (eid, c) \<notin> set (inbox s)"
  shows "\<exists>k. message_life c m h deaths mid body s = (Parked, m - deaths + 1, s\<lparr>calls := k\<rparr>)"
  using fresh
proof (induction "m - deaths" arbitrary: deaths s)
  case 0
  obtain e k where "process_one c h mid body s = (Inl e, s\<lparr>calls := k\<rparr>)"
    using failing_delivery [of h body mid c s] fail 0 by blast
  then have "handle_delivery c m h deaths mid body s = (Parked, s\<lparr>calls := k\<rparr>)"
    using 0 by (simp add: handle_delivery_def decide_retry_def)
  then show ?case using 0 by (auto simp: message_life.simps [of c m h deaths])
next
  case (Suc k)
  obtain e c1 where p: "process_one c h mid body s = (Inl e, s\<lparr>calls := c1\<rparr>)"
    using failing_delivery [of h body mid c s] fail Suc.prems by blast
  have hd: "handle_delivery c m h deaths mid body s = (Nacked (deaths + 1), s\<lparr>calls := c1\<rparr>)"
    using Suc.hyps(2) p by (simp add: handle_delivery_def decide_retry_def)
  have "\<exists>k. message_life c m h (deaths + 1) mid body (s\<lparr>calls := c1\<rparr>) = (Parked, m - (deaths + 1) + 1, s\<lparr>calls := c1\<rparr>\<lparr>calls := k\<rparr>)"
    using Suc.hyps Suc.prems by (intro Suc.hyps(1)) auto
  then obtain c2 where "message_life c m h (deaths + 1) mid body (s\<lparr>calls := c1\<rparr>) = (Parked, m - (deaths + 1) + 1, s\<lparr>calls := c2\<rparr>)"
    by auto
  then show ?case using hd Suc.hyps(2) by (auto simp: message_life.simps [of c m h deaths])
qed

text \<open>What every processing of the message keeps, its whole life keeps.\<close>

lemma life_rule:
  assumes step: "\<And>s. P s \<Longrightarrow> P (snd (process_one c h mid body s))"
  shows "P s \<Longrightarrow> P (snd (snd (message_life c m h deaths mid body s)))"
proof (induction "m - deaths" arbitrary: deaths s rule: less_induct)
  case less
  obtain r t where p: "process_one c h mid body s = (r, t)" by fastforce
  have t: "P t" using step [OF less.prems] p by simp
  show ?case
  proof (cases "isl r \<and> deaths < m")
    case True
    then have hd: "handle_delivery c m h deaths mid body s = (Nacked (deaths + 1), t)"
      using p by (auto simp: handle_delivery_def decide_retry_def split: sum.splits)
    have "P (snd (snd (message_life c m h (deaths + 1) mid body t)))"
      using True t by (intro less.hyps) auto
    then show ?thesis using hd by (simp add: message_life.simps [of c m h deaths] case_prod_unfold Let_def)
  next
    case False
    then have "handle_delivery c m h deaths mid body s \<in> {(Acked, t), (Parked, t)}"
      using p by (auto simp: handle_delivery_def decide_retry_def split: sum.splits)
    then show ?thesis using t by (auto simp: message_life.simps [of c m h deaths])
  qed
qed

text \<open>An acked life ends with a successful processing.\<close>

lemma acked_life:
  assumes "message_life c m h deaths mid body s = (Acked, n, t)"
  shows "\<exists>u x. process_one c h mid body u = (Inr x, t)"
  using assms
proof (induction "m - deaths" arbitrary: deaths s n rule: less_induct)
  case less
  obtain r t0 where p: "process_one c h mid body s = (r, t0)" by fastforce
  show ?case
  proof (cases r)
    case (Inr x)
    then have "handle_delivery c m h deaths mid body s = (Acked, t0)" using p by (simp add: handle_delivery_def)
    then show ?thesis using less.prems p Inr by (auto simp: message_life.simps [of c m h deaths])
  next
    case (Inl e)
    show ?thesis
    proof (cases "deaths < m")
      case True
      then have "handle_delivery c m h deaths mid body s = (Nacked (deaths + 1), t0)"
        using p Inl by (simp add: handle_delivery_def decide_retry_def)
      then obtain n' where "message_life c m h (deaths + 1) mid body t0 = (Acked, n', t)"
        using less.prems by (auto simp: message_life.simps [of c m h deaths] split: prod.splits)
      then show ?thesis using True by (intro less.hyps [of "deaths + 1"]) auto
    next
      case False
      then have "handle_delivery c m h deaths mid body s = (Parked, t0)"
        using p Inl by (simp add: handle_delivery_def decide_retry_def)
      then show ?thesis using less.prems by (simp add: message_life.simps [of c m h deaths])
    qed
  qed
qed

section \<open>The contract of an event handler\<close>

text \<open>
  What the consumer relies on: a handler never touches the inbox, and a successful run
  keeps the service's invariant, which does not mention the inbox or the outgoing calls.
\<close>

locale event_handler =
  fixes handler :: "('c, 'z) handler"
    and inv :: "('c, 'z) base_scheme \<Rightarrow> bool"
  assumes inbox_frame: "inbox (snd (handler body s)) = inbox s"
    and inv_keep: "inv s \<Longrightarrow> handler body s = (Inr (), t) \<Longrightarrow> inv t"
    and inv_frame: "inv (s\<lparr>inbox := i\<rparr>) = inv s" "inv (s\<lparr>calls := k\<rparr>) = inv s"
begin

lemma wp_handler: "inv s \<Longrightarrow> wp (handler body) (\<lambda>_ t. inv t \<and> inbox t = inbox s) (\<lambda>_ t. inbox t = inbox s) s"
  using inbox_frame [of body s] inv_keep [of s body] by (auto simp: wp_def split: prod.splits sum.splits)

lemma process_one_inv:
  assumes "inv s"
  shows "wp (process_one c handler mid body) (\<lambda>_. inv) (\<lambda>_. inv) s"
proof (cases mid)
  case None
  show ?thesis unfolding process_one_def None
    by (simp add: wp_simps, rule wp_mono [OF wp_handler [OF assms]]) (simp_all add: wp_simps rollback_def inv_frame assms)
next
  case (Some eid)
  have "inv (s\<lparr>inbox := inbox s @ [(eid, c)]\<rparr>)" using assms by (simp add: inv_frame)
  from wp_handler [OF this, of body] show ?thesis unfolding process_one_def claim_def Some
    by (simp add: wp_simps assms) (auto intro: wp_mono simp: wp_simps rollback_def inv_frame assms)
qed

lemma life_inv: "inv s \<Longrightarrow> inv (snd (snd (message_life c m handler deaths mid body s)))"
  by (rule life_rule) (simp_all add: process_one_inv [unfolded wp_same])

lemma consume_inv: "inv s \<Longrightarrow> inv (consume_all c m handler ms s)"
proof (induction ms arbitrary: s)
  case (Cons p ms)
  then show ?case by (cases p) (simp add: life_inv)
qed simp

text \<open>The inbox only grows, and a successful processing leaves its claim there.\<close>

lemma handler_inbox: "wp (handler body) (\<lambda>_ t. inbox t = inbox s) (\<lambda>_ t. inbox t = inbox s) s"
  using inbox_frame [of body s] by (simp add: wp_same)

lemma process_one_inbox:
  "wp (process_one c handler mid body)
     (\<lambda>_ t. set (inbox s) \<subseteq> set (inbox t) \<and> (\<forall>eid. mid = Some eid \<longrightarrow> (eid, c) \<in> set (inbox t)))
     (\<lambda>_ t. inbox t = inbox s) s"
proof (cases mid)
  case None
  show ?thesis unfolding process_one_def None
    by (simp add: wp_simps, rule wp_mono [OF handler_inbox]) (simp_all add: wp_simps)
next
  case (Some eid)
  show ?thesis unfolding process_one_def claim_def Some
    using handler_inbox [of body "s\<lparr>inbox := inbox s @ [(eid, c)]\<rparr>"]
    by (simp add: wp_simps) (auto intro: wp_mono simp: wp_simps)
qed

lemma life_inbox_mono: "set (inbox s) \<subseteq> set (inbox (snd (snd (message_life c m handler deaths mid body s))))"
proof (rule life_rule [where P = "\<lambda>t. set (inbox s) \<subseteq> set (inbox t)"])
  fix u :: "('c, 'z) base_scheme" assume "set (inbox s) \<subseteq> set (inbox u)"
  then show "set (inbox s) \<subseteq> set (inbox (snd (process_one c handler mid body u)))"
    using process_one_inbox [of c mid body u] by (auto simp: wp_def split: prod.splits sum.splits)
qed simp

lemma acked_is_claimed:
  assumes "message_life c m handler deaths (Some eid) body s = (Acked, n, t)"
  shows "(eid, c) \<in> set (inbox t)"
proof -
  obtain u x where "process_one c handler (Some eid) body u = (Inr x, t)" using acked_life [OF assms] by blast
  with wp_okD [OF process_one_inbox this] show ?thesis by simp
qed

lemma consume_inbox_mono: "set (inbox s) \<subseteq> set (inbox (consume_all c m handler ms s))"
proof (induction ms arbitrary: s)
  case (Cons p ms)
  obtain mid body where p: "p = (mid, body)" by (cases p)
  show ?case using life_inbox_mono [of s c m 0 mid body] Cons.IH p by (fastforce intro: subset_trans)
qed simp

text \<open>Exactly-once effect: after an acked delivery, redeliveries of it at any later time change nothing.\<close>

lemma redelivery_absorbed:
  assumes "message_life c m handler deaths (Some eid) body s = (Acked, n, t)"
  shows "message_life c m handler deaths' (Some eid) body' (consume_all c m handler ms t) = (Acked, 1, consume_all c m handler ms t)"
  using acked_is_claimed [OF assms] consume_inbox_mono [of t c m ms] by (intro claimed_life) blast

end

end
