(* ===== verification/SubService.thy ===== *)
theory SubService
  imports SubPolicies Consumer
begin

text \<open>
  \<open>services/subscription/src/service.rs\<close>: create, block-on-exhaust usage, VAS top-up,
  renewal, plan change, price migration and termination, as programs over the service's
  database; then the usage consumer and the renewal worker that drive them.
\<close>

section \<open>Shared helpers\<close>

definition PERIOD_DAYS :: int where "PERIOD_DAYS = 30"

definition days :: "int \<Rightarrow> int" where "days n = n * 86400000000"
definition hours :: "int \<Rightarrow> int" where "hours n = n * 3600000000"

definition not_found :: "string \<Rightarrow> api_error" where
  "not_found sub_id = violate ''subscription.not_found'' [(''subscription_id'', JStr sub_id)]"

definition allowance_specs :: "json \<Rightarrow> allowance_spec list" where
  "allowance_specs offering =
     (case get_array offering ''bundleAllowance'' of None \<Rightarrow> []
      | Some arr \<Rightarrow> map (\<lambda>a. \<lparr>as_type = get_str_or a ''allowanceType'' [],
            as_quantity = unwrap_or 0 (get_i64 a ''quantity''), as_unit = get_str_or a ''unit'' []\<rparr>) arr)"

definition next_state :: "string \<Rightarrow> string \<Rightarrow> api_error + string" where
  "next_state from_state trigger =
     (if \<not> is_valid_transition from_state trigger
      then Inl (violate ''subscription.transition.invalid''
             [(''state'', JStr from_state), (''trigger'', JStr trigger)])
      else case get_next_state from_state trigger of
             None \<Rightarrow> Inl (InternalE ''transition produced no state'') | Some to \<Rightarrow> Inr to)"

definition bal_id_of :: "string \<Rightarrow> string \<Rightarrow> string" where
  "bal_id_of sub_id atype = sub_id @ ''-'' @ to_uppercase atype"

definition require_sub :: "string \<Rightarrow> sub_full sub_prog" where
  "require_sub sub_id =
     bindp (gets (\<lambda>s. get_sub s sub_id)) (\<lambda>found.
       case found of None \<Rightarrow> throw (not_found sub_id) | Some full \<Rightarrow> ret full)"

definition reread :: "string \<Rightarrow> string \<Rightarrow> sub_full sub_prog" where
  "reread sub_id what =
     bindp (gets (\<lambda>s. get_sub s sub_id)) (\<lambda>found.
       case found of None \<Rightarrow> throw (InternalE what) | Some full \<Rightarrow> ret full)"

definition charge :: "sub_env \<Rightarrow> sub_call \<Rightarrow> json sub_prog" where
  "charge env c = bindp (gets calls) (\<lambda>made. bindp (call_ext c (env_charge env made c)) (\<lambda>r. of_result (up r)))"

definition approved :: "json \<Rightarrow> bool" where
  "approved payment_result \<longleftrightarrow> get_str payment_result ''status'' = Some ''approved''"

definition declined_context :: "json \<Rightarrow> (string \<times> json) list" where
  "declined_context payment_result =
     [(''payment_status'', unwrap_or JNull (jget payment_result ''status'')),
      (''decline_reason'', unwrap_or JNull (jget payment_result ''declineReason''))]"

text \<open>\<open>["price"]["taxIncludedAmount"]\<close>, its amount and its currency.\<close>

definition tax_included :: "json \<Rightarrow> json" where
  "tax_included price = jidx (jidx price ''price'') ''taxIncludedAmount''"

definition tia_amount :: "sub_env \<Rightarrow> json \<Rightarrow> api_error + rat" where
  "tia_amount env tia =
     (case json_decimal (env_decimal env) (jidx tia ''value'') of
        None \<Rightarrow> Inl (InternalE ''bad price value'') | Some a \<Rightarrow> Inr a)"

section \<open>Create\<close>

definition recurring_price :: "sub_env \<Rightarrow> json \<Rightarrow> string \<Rightarrow> api_error + (rat \<times> string \<times> string)" where
  "recurring_price env offering offering_id =
     (let missing = violate ''subscription.create.requires_active_price'' [(''offering_id'', JStr offering_id)];
          prices = get_array offering ''productOfferingPrice''
      in case Option.bind prices (find (\<lambda>p. get_str p ''priceType'' = Some ''recurring'')) of
           None \<Rightarrow> Inl missing
         | Some recurring \<Rightarrow>
             (let tia = tax_included recurring in
              case tia_amount env tia of Inl e \<Rightarrow> Inl e
              | Inr amount \<Rightarrow> (case get_str recurring ''id'' of
                    None \<Rightarrow> Inl missing
                  | Some price_id \<Rightarrow> Inr (amount, get_str_or tia ''unit'' ''SGD'', price_id))))"

definition create_price :: "sub_env \<Rightarrow> create_request \<Rightarrow> json \<Rightarrow> api_error + (rat \<times> string \<times> string)" where
  "create_price env req offering =
     (case cr_price req of
        Some ps \<Rightarrow> Inr (pr_amount ps, pr_currency ps, pr_price_id ps)
      | None \<Rightarrow> recurring_price env offering (cr_offering req))"

definition discount_math :: "string option \<Rightarrow> rat option \<Rightarrow> rat \<Rightarrow> api_error + rat" where
  "discount_math discount_type discount_value amount =
     (case (discount_type, discount_value) of
        (Some dt, Some dv) \<Rightarrow> (case apply_discount dt dv amount of
            Inl e \<Rightarrow> Inl (InternalE ''discount math'') | Inr a \<Rightarrow> Inr a)
      | _ \<Rightarrow> Inr amount)"

text \<open>The rows a successful create inserts.\<close>

definition new_sub_row :: "create_request \<Rightarrow> string \<Rightarrow> int \<Rightarrow> int \<Rightarrow> rat \<Rightarrow> string \<Rightarrow> string \<Rightarrow> rat option \<Rightarrow> sub_row" where
  "new_sub_row req sub_id now period_end amount currency price_id disc_value =
     (let ps = cr_price req in
      \<lparr>sb_id = sub_id, sb_customer = cr_customer req, sb_offering = cr_offering req, sb_order = cr_order req,
       sb_msisdn = cr_msisdn req, sb_iccid = cr_iccid req, sb_cfs = None, sb_state = ''active'',
       sb_reason = Some ''activation_payment_approved'', sb_activated_at = Some now,
       sb_period_start = Some now, sb_period_end = Some period_end, sb_next_renewal_at = Some period_end,
       sb_terminated_at = None, sb_price = amount, sb_currency = currency, sb_price_id = price_id,
       sb_pend_offering = None, sb_pend_price_id = None, sb_pend_at = None,
       sb_disc_type = Option.bind ps pr_disc_type, sb_disc_value = disc_value,
       sb_disc_left = wrap16 (initial_discount_remaining (Option.bind ps pr_disc_type) (Option.bind ps pr_disc_periods)),
       sb_promo = Option.bind ps pr_promo, sb_promo_def = Option.bind ps pr_promo_def,
       sb_tenant = ''DEFAULT'', sb_attempted_at = None, sb_reminder_at = None\<rparr>)"

definition new_bal_row :: "string \<Rightarrow> string \<Rightarrow> int \<Rightarrow> string \<Rightarrow> int \<Rightarrow> int option \<Rightarrow> bal_row" where
  "new_bal_row sub_id atype qty unit now period_end =
     \<lparr>bl_id = bal_id_of sub_id atype, bl_sub = sub_id, bl_type = atype, bl_total = qty, bl_consumed = 0,
      bl_unit = unit, bl_start = Some now, bl_end = period_end\<rparr>"

definition insert_bundle :: "string \<Rightarrow> allowance_spec list \<Rightarrow> int \<Rightarrow> int \<Rightarrow> unit sub_prog" where
  "insert_bundle sub_id specs now period_end =
     for_each specs (\<lambda>a. insert_bal (new_bal_row sub_id (as_type a) (as_quantity a) (as_unit a) now (Some period_end)))"

text \<open>The transaction of \<open>create\<close>.\<close>

definition create_tx :: "request_ctx \<Rightarrow> create_request \<Rightarrow> json \<Rightarrow> string \<Rightarrow> int
    \<Rightarrow> rat \<times> string \<times> string \<Rightarrow> rat \<Rightarrow> json \<Rightarrow> unit sub_prog" where
  "create_tx ctx req offering sub_id now price charge_amount payment_result =
     (case price of (amount, currency, price_id) \<Rightarrow>
      (let period_end = now + days PERIOD_DAYS; ps = cr_price req in
       in_tx (
         bindp (of_result (to_numeric 10 amount)) (\<lambda>stored.
         bindp (case Option.bind ps pr_disc_value of None \<Rightarrow> ret None
                | Some v \<Rightarrow> bindp (of_result (to_numeric 12 v)) (\<lambda>v. ret (Some v))) (\<lambda>disc_value.
         bindp (insert_sub (new_sub_row req sub_id now period_end stored currency price_id disc_value)) (\<lambda>_.
         bindp (insert_bundle sub_id (allowance_specs offering) now period_end) (\<lambda>_.
         bindp (add_state_history sub_id ''pending'' ''active'' ''activation_payment_approved'') (\<lambda>_.
         stage ctx now ''subscription.activated'' ''subscription'' sub_id (JObj
           [(''subscriptionId'', JStr sub_id), (''customerId'', JStr (cr_customer req)),
            (''offeringId'', JStr (cr_offering req)), (''msisdn'', JStr (cr_msisdn req)),
            (''iccid'', JStr (cr_iccid req)),
            (''paymentAttemptId'', JStr (get_str_or payment_result ''id'' [])),
            (''periodStart'', JTime now), (''periodEnd'', JTime period_end),
            (''amountCharged'', JDec charge_amount),
            (''promoCode'', opt_json JStr (Option.bind ps pr_promo))])))))))))"

definition create :: "sub_env \<Rightarrow> request_ctx \<Rightarrow> int \<Rightarrow> create_request \<Rightarrow> sub_full sub_prog" where
  "create env ctx now req =
     bindp (gets (\<lambda>s. Option.bind (cr_order req) (get_by_commercial_order s))) (\<lambda>existing.
     case existing of Some full \<Rightarrow> ret full
     | None \<Rightarrow>
       bindp (of_result (check_customer_exists env (cr_customer req))) (\<lambda>_.
       bindp (of_result (check_msisdn_and_esim_reserved env (cr_msisdn req) (cr_iccid req))) (\<lambda>_.
       bindp (of_result (up (env_offering env (cr_offering req)))) (\<lambda>offering.
       bindp (of_result (create_price env req offering)) (\<lambda>price.
       bindp (of_result (discount_math (Option.bind (cr_price req) pr_disc_type)
                 (Option.bind (cr_price req) pr_disc_value) (fst price))) (\<lambda>charge_amount.
       bindp (charge env (Charge (cr_customer req) (cr_method req) charge_amount ''SGD'' ''activation'')) (\<lambda>payment_result.
       if \<not> approved payment_result then
         bindp (call_ext (ReleaseMsisdn (cr_msisdn req)) ()) (\<lambda>_.
         bindp (call_ext (RecycleEsim (cr_iccid req)) ()) (\<lambda>_.
         throw (violate ''subscription.create.requires_payment_success'' (declined_context payment_result))))
       else
         bindp next_id (\<lambda>sub_id.
         bindp (call_ext (AssignMsisdn (cr_msisdn req)) ()) (\<lambda>_.
         bindp (call_ext (AssignEsim (cr_iccid req) (cr_msisdn req)) ()) (\<lambda>_.
         bindp (create_tx ctx req offering sub_id now price charge_amount payment_result) (\<lambda>_.
         reread sub_id ''subscription vanished after create'')))))))))))"

section \<open>Rated usage\<close>

definition reject_roaming :: "request_ctx \<Rightarrow> int \<Rightarrow> string \<Rightarrow> string \<Rightarrow> string \<Rightarrow> violation \<Rightarrow> unit sub_prog" where
  "reject_roaming ctx now subscription_id allowance_type usage_event_id pv =
     (let payload = [(''subscriptionId'', JStr subscription_id), (''allowanceType'', JStr allowance_type),
                     (''usageEventId'', JStr usage_event_id), (''reason'', JStr (rule pv))];
          extra = (case as_object (vcontext pv) of None \<Rightarrow> [] | Some kvs \<Rightarrow> kvs)
      in stage ctx now ''usage.rejected'' ''subscription'' subscription_id
           (fold (\<lambda>(k, v). jinsert k v) extra (JObj payload)))"

definition block_exhausted :: "request_ctx \<Rightarrow> int \<Rightarrow> string \<Rightarrow> string \<Rightarrow> string \<Rightarrow> string \<Rightarrow> balance_snapshot \<Rightarrow> unit sub_prog" where
  "block_exhausted ctx now subscription_id state allowance_type usage_event_id result =
     bindp (stage ctx now ''subscription.exhausted'' ''subscription'' subscription_id (JObj
       [(''subscriptionId'', JStr subscription_id), (''allowanceType'', JStr allowance_type),
        (''consumed'', JInt (bs_consumed result)), (''total'', JInt (bs_total result)),
        (''triggeringUsageEventId'', JStr usage_event_id)])) (\<lambda>_.
     bindp (of_result (next_state state ''exhaust'')) (\<lambda>to.
     bindp (update_sub subscription_id (\<lambda>r. r\<lparr>sb_state := to, sb_reason := Some ''primary_allowance_exhausted''\<rparr>)) (\<lambda>_.
     bindp (add_state_history subscription_id state to ''primary_allowance_exhausted'') (\<lambda>_.
     stage ctx now ''subscription.blocked'' ''subscription'' subscription_id (JObj
       [(''subscriptionId'', JStr subscription_id), (''reason'', JStr ''exhausted'')])))))"

definition handle_usage_rated :: "request_ctx \<Rightarrow> int \<Rightarrow> string \<Rightarrow> string \<Rightarrow> int \<Rightarrow> string \<Rightarrow> unit sub_prog" where
  "handle_usage_rated ctx now subscription_id allowance_type consumed_quantity usage_event_id =
     bindp (gets (\<lambda>s. tbl_find sb_id subscription_id (sd_subs s))) (\<lambda>found.
     case found of None \<Rightarrow> ret ()
     | Some r \<Rightarrow>
       if sb_state r \<noteq> ''active'' then ret ()
       else
       bindp (gets (\<lambda>s. get_balance s subscription_id allowance_type)) (\<lambda>target.
       case (if allowance_type = ''data_roaming''
             then check_roaming_balance_required subscription_id target consumed_quantity else Inr ()) of
         Inl pv \<Rightarrow> reject_roaming ctx now subscription_id allowance_type usage_event_id pv
       | Inr _ \<Rightarrow>
         (case target of None \<Rightarrow> ret ()
          | Some b \<Rightarrow>
            (let result = consume (bal_snapshot b) consumed_quantity in
             bindp (update_bal (bl_id b) (\<lambda>x. x\<lparr>bl_consumed := bs_consumed result\<rparr>)) (\<lambda>_.
             bindp (gets (\<lambda>s. get_balances s subscription_id)) (\<lambda>all.
             if is_exhausted (map bal_snapshot all) PRIMARY_ALLOWANCE_TYPE
             then block_exhausted ctx now subscription_id (sb_state r) allowance_type usage_event_id result
             else ret ()))))))"

section \<open>VAS purchase\<close>

definition pick_default_method :: "json \<Rightarrow> string option" where
  "pick_default_method methods =
     (case as_array methods of None \<Rightarrow> None
      | Some arr \<Rightarrow>
          (let chosen = (case find (\<lambda>m. get_bool m ''isDefault'' = Some True) arr of
                           Some m \<Rightarrow> Some m
                         | None \<Rightarrow> (case arr of [] \<Rightarrow> None | m # _ \<Rightarrow> Some m))
           in Option.bind chosen (\<lambda>m. get_str m ''id'')))"

definition default_method :: "sub_env \<Rightarrow> string \<Rightarrow> string \<Rightarrow> api_error + string" where
  "default_method env rule_name customer_id =
     (case up (env_methods env customer_id) of Inl e \<Rightarrow> Inl e
      | Inr methods \<Rightarrow> (case pick_default_method methods of
            None \<Rightarrow> Inl (violate rule_name [(''customer_id'', JStr customer_id)])
          | Some m \<Rightarrow> Inr m))"

definition vas_amount :: "sub_env \<Rightarrow> json \<Rightarrow> api_error + rat" where
  "vas_amount env vas =
     (case json_decimal (env_decimal env) (unwrap_or (JInt 0) (jget vas ''priceAmount'')) of
        None \<Rightarrow> Inl (InternalE ''bad vas price'') | Some a \<Rightarrow> Inr a)"

text \<open>Materialise a new balance, or top up a limited one.\<close>

definition apply_allowance :: "string \<Rightarrow> int \<Rightarrow> int option \<Rightarrow> string \<Rightarrow> int \<Rightarrow> string \<Rightarrow> unit sub_prog" where
  "apply_allowance sub_id now period_end allowance_type allowance_qty allowance_unit =
     bindp (gets (\<lambda>s. find (\<lambda>b. bl_type b = allowance_type) (get_balances s sub_id))) (\<lambda>target.
     case target of
       None \<Rightarrow> if allowance_qty > 0
               then insert_bal (new_bal_row sub_id allowance_type allowance_qty allowance_unit now period_end)
               else ret ()
     | Some b \<Rightarrow> if allowance_qty > 0 \<and> bl_total b \<noteq> - 1
                 then update_bal (bl_id b) (\<lambda>x. x\<lparr>bl_total := bs_total (add_allowance (bal_snapshot b) allowance_qty)\<rparr>)
                 else ret ())"

definition top_up :: "request_ctx \<Rightarrow> int \<Rightarrow> string \<Rightarrow> string \<Rightarrow> unit sub_prog" where
  "top_up ctx now sub_id state =
     (if state = ''blocked'' then
        bindp (of_result (next_state state ''top_up'')) (\<lambda>to.
        bindp (update_sub sub_id (\<lambda>r. r\<lparr>sb_state := to, sb_reason := Some ''vas_top_up''\<rparr>)) (\<lambda>_.
        bindp (add_state_history sub_id state to ''vas_top_up'') (\<lambda>_.
        stage ctx now ''subscription.unblocked'' ''subscription'' sub_id (JObj
          [(''subscriptionId'', JStr sub_id), (''reason'', JStr ''vas_top_up'')]))))
      else if state = ''active'' then
        bindp (of_result (next_state state ''top_up'')) (\<lambda>to.
        bindp (update_sub sub_id (\<lambda>r. r\<lparr>sb_reason := Some ''vas_top_up''\<rparr>)) (\<lambda>_.
        add_state_history sub_id state to ''vas_top_up''))
      else ret ())"

definition vas_tx :: "sub_env \<Rightarrow> request_ctx \<Rightarrow> int \<Rightarrow> sub_row \<Rightarrow> string \<Rightarrow> json \<Rightarrow> json \<Rightarrow> unit sub_prog" where
  "vas_tx env ctx now r vas_offering_id vas payment_result =
     (let sub_id = sb_id r;
          vas_id = sub_id @ ''-VAS-'' @ to_uppercase (env_uuid8 env);
          expires_at = map_option (\<lambda>h. now + hours h) (get_i64 vas ''expiryHours'');
          allowance_qty = unwrap_or 0 (get_i64 vas ''allowanceQuantity'');
          allowance_type = get_str_or vas ''allowanceType'' ''data'';
          allowance_unit = get_str_or vas ''allowanceUnit'' ''mb'';
          attempt = get_str payment_result ''id''
      in in_tx (
        bindp (insert_vas \<lparr>vs_id = vas_id, vs_sub = sub_id, vs_offering = vas_offering_id, vs_attempt = attempt,
                 vs_applied_at = now, vs_expires_at = expires_at, vs_added = allowance_qty, vs_type = allowance_type\<rparr>) (\<lambda>_.
        bindp (apply_allowance sub_id now (sb_period_end r) allowance_type allowance_qty allowance_unit) (\<lambda>_.
        bindp (stage ctx now ''subscription.vas_purchased'' ''subscription'' sub_id (JObj
          [(''subscriptionId'', JStr sub_id), (''vasOfferingId'', JStr vas_offering_id),
           (''paymentAttemptId'', JStr (unwrap_or [] attempt)), (''allowanceType'', JStr allowance_type),
           (''allowanceAdded'', JInt allowance_qty), (''previousState'', JStr (sb_state r))])) (\<lambda>_.
        top_up ctx now sub_id (sb_state r))))))"

definition purchase_vas :: "sub_env \<Rightarrow> request_ctx \<Rightarrow> int \<Rightarrow> string \<Rightarrow> string \<Rightarrow> sub_full sub_prog" where
  "purchase_vas env ctx now sub_id vas_offering_id =
     bindp (require_sub sub_id) (\<lambda>full. let r = fst full in
     bindp (of_result (check_not_terminated (sb_state r))) (\<lambda>_.
     bindp (of_result (check_vas_offering_sellable env vas_offering_id)) (\<lambda>vas.
     bindp (of_result (default_method env ''subscription.vas_purchase.requires_active_cof'' (sb_customer r))) (\<lambda>method_id.
     bindp (of_result (vas_amount env vas)) (\<lambda>amount.
     bindp (charge env (Charge (sb_customer r) method_id amount (get_str_or vas ''currency'' ''SGD'') ''vas'')) (\<lambda>payment_result.
     if \<not> approved payment_result
     then throw (violate ''subscription.vas_purchase.requires_active_cof'' (declined_context payment_result))
     else
       bindp (vas_tx env ctx now r vas_offering_id vas payment_result) (\<lambda>_.
       reread sub_id ''subscription vanished after vas'')))))))"

section \<open>Renewal\<close>

definition applying_pending :: "sub_row \<Rightarrow> int \<Rightarrow> bool" where
  "applying_pending r now \<longleftrightarrow>
     sb_pend_offering r \<noteq> None \<and> (case sb_pend_at r of None \<Rightarrow> False | Some e \<Rightarrow> e \<le> now)"

text \<open>The amount, currency and price row of this renewal, and the offering it is for.\<close>

definition renewal_terms :: "sub_env \<Rightarrow> sub_row \<Rightarrow> int \<Rightarrow> api_error + (rat \<times> string \<times> string \<times> string)" where
  "renewal_terms env r now =
     (if applying_pending r now then
        (let price_id = unwrap_or [] (sb_pend_price_id r) in
         case up (env_offering_price env price_id) of Inl e \<Rightarrow> Inl e
         | Inr new_price \<Rightarrow>
             (let tia = tax_included new_price in
              case tia_amount env tia of Inl e \<Rightarrow> Inl e
              | Inr amount \<Rightarrow> Inr (amount, get_str_or tia ''unit'' ''SGD'', price_id, unwrap_or [] (sb_pend_offering r))))
      else Inr (sb_price r, sb_currency r, sb_price_id r, sb_offering r))"

definition applying_discount :: "sub_row \<Rightarrow> int \<Rightarrow> bool" where
  "applying_discount r now \<longleftrightarrow>
     \<not> applying_pending r now \<and> sb_disc_type r \<noteq> None \<and> sb_disc_value r \<noteq> None \<and> sb_disc_left r \<noteq> 0"

definition renewal_charge :: "sub_row \<Rightarrow> int \<Rightarrow> rat \<Rightarrow> api_error + rat" where
  "renewal_charge r now amount =
     (if applying_discount r now
      then (case apply_discount (unwrap_or [] (sb_disc_type r)) (unwrap_or 0 (sb_disc_value r)) amount of
              Inl e \<Rightarrow> Inl (InternalE ''discount math'') | Inr a \<Rightarrow> Inr a)
      else Inr amount)"

text \<open>A declined card blocks the subscription and keeps the pending change.\<close>

definition renew_declined :: "request_ctx \<Rightarrow> int \<Rightarrow> sub_row \<Rightarrow> json \<Rightarrow> unit sub_prog" where
  "renew_declined ctx now r payment_result =
     (let sub_id = sb_id r; attempt_id = get_str_or payment_result ''id'' [] in
      in_tx (
        bindp (of_result (next_state (sb_state r) ''renew_fail'')) (\<lambda>to.
        bindp (update_sub sub_id (\<lambda>x. x\<lparr>sb_state := to, sb_reason := Some ''renewal_payment_declined''\<rparr>)) (\<lambda>_.
        bindp (add_state_history sub_id (sb_state r) to ''renewal_payment_declined'') (\<lambda>_.
        bindp (stage ctx now ''subscription.renew_failed'' ''subscription'' sub_id (JObj
          [(''subscriptionId'', JStr sub_id), (''reason'', JStr ''payment_declined''),
           (''paymentAttemptId'', JStr attempt_id)])) (\<lambda>_.
        bindp (if applying_pending r now
               then stage ctx now ''subscription.plan_change_payment_failed'' ''subscription'' sub_id (JObj
                 [(''subscriptionId'', JStr sub_id), (''currentOfferingId'', JStr (sb_offering r)),
                  (''pendingOfferingId'', opt_json JStr (sb_pend_offering r)), (''paymentAttemptId'', JStr attempt_id)])
               else ret ()) (\<lambda>_.
        stage ctx now ''subscription.blocked'' ''subscription'' sub_id (JObj
          [(''subscriptionId'', JStr sub_id), (''reason'', JStr ''renew_failed'')]))))))))"

text \<open>Balances of the new period: reset, zeroed when the new plan lacks the type, added when it is new.\<close>

definition reset_balance :: "bool \<Rightarrow> allowance_spec list \<Rightarrow> int \<Rightarrow> int \<Rightarrow> bal_row \<Rightarrow> unit sub_prog" where
  "reset_balance pending specs now period_end b =
     (case find (\<lambda>a. as_type a = bl_type b) specs of
        Some a \<Rightarrow> update_bal (bl_id b) (\<lambda>x. x\<lparr>bl_total := as_quantity a, bl_consumed := 0,
                                            bl_start := Some now, bl_end := Some period_end\<rparr>)
      | None \<Rightarrow> if pending
                then update_bal (bl_id b) (\<lambda>x. x\<lparr>bl_total := 0, bl_consumed := 0,
                                              bl_start := Some now, bl_end := Some period_end\<rparr>)
                else ret ())"

definition renew_balances :: "string \<Rightarrow> bool \<Rightarrow> allowance_spec list \<Rightarrow> int \<Rightarrow> int \<Rightarrow> unit sub_prog" where
  "renew_balances sub_id pending specs now period_end =
     bindp (gets (\<lambda>s. get_balances s sub_id)) (\<lambda>balances.
     bindp (for_each balances (reset_balance pending specs now period_end)) (\<lambda>_.
     if pending
     then for_each specs (\<lambda>a. if as_type a \<in> bl_type ` set balances then ret ()
            else insert_bal (new_bal_row sub_id (as_type a) (as_quantity a) (as_unit a) now (Some period_end)))
     else ret ()))"

definition pivot_row :: "string \<Rightarrow> string \<Rightarrow> rat \<Rightarrow> string \<Rightarrow> string \<Rightarrow> int \<Rightarrow> int \<Rightarrow> sub_row \<Rightarrow> sub_row" where
  "pivot_row to offering_id amount currency price_id now period_end x =
     x\<lparr>sb_state := to, sb_reason := Some ''renewal_payment_approved'', sb_offering := offering_id,
       sb_price := amount, sb_currency := currency, sb_price_id := price_id,
       sb_pend_offering := None, sb_pend_price_id := None, sb_pend_at := None,
       sb_disc_type := None, sb_disc_value := None, sb_disc_left := 0, sb_promo := None, sb_promo_def := None,
       sb_period_start := Some now, sb_period_end := Some period_end, sb_next_renewal_at := Some period_end\<rparr>"

definition vanilla_row :: "string \<Rightarrow> int \<Rightarrow> int \<Rightarrow> int \<Rightarrow> sub_row \<Rightarrow> sub_row" where
  "vanilla_row to new_remaining now period_end x =
     x\<lparr>sb_state := to, sb_reason := Some ''renewal_payment_approved'', sb_disc_left := new_remaining,
       sb_period_start := Some now, sb_period_end := Some period_end, sb_next_renewal_at := Some period_end\<rparr>"

definition renew_row :: "sub_row \<Rightarrow> int \<Rightarrow> string \<Rightarrow> rat \<Rightarrow> string \<Rightarrow> string \<Rightarrow> unit sub_prog" where
  "renew_row r now to amount currency price_id =
     (let period_end = now + days PERIOD_DAYS in
      if applying_pending r now then
        bindp (of_result (to_numeric 10 amount)) (\<lambda>stored.
        update_sub (sb_id r) (pivot_row to (unwrap_or (sb_offering r) (sb_pend_offering r)) stored currency price_id now period_end))
      else
        (let new_remaining = (if applying_discount r now \<and> sb_disc_left r > 0
                              then sb_disc_left r - 1 else sb_disc_left r)
         in update_sub (sb_id r) (vanilla_row to new_remaining now period_end)))"

definition stage_renewed :: "request_ctx \<Rightarrow> int \<Rightarrow> sub_row \<Rightarrow> rat \<Rightarrow> string \<Rightarrow> string \<Rightarrow> rat \<Rightarrow> json \<Rightarrow> unit sub_prog" where
  "stage_renewed ctx now r amount currency price_id charge_amount payment_result =
     (let sub_id = sb_id r; period_end = now + days PERIOD_DAYS; pending = applying_pending r now;
          new_offering_id = (if pending then unwrap_or (sb_offering r) (sb_pend_offering r) else sb_offering r)
      in bindp (stage ctx now ''subscription.renewed'' ''subscription'' sub_id (JObj
           [(''subscriptionId'', JStr sub_id), (''offeringId'', JStr new_offering_id),
            (''paymentAttemptId'', JStr (get_str_or payment_result ''id'' [])),
            (''periodStart'', JTime now), (''periodEnd'', JTime period_end),
            (''priceSnapshot'', JObj [(''priceAmount'', JDec amount), (''priceCurrency'', JStr currency),
                                      (''priceOfferingPriceId'', JStr price_id)]),
            (''amountCharged'', JDec charge_amount), (''discountApplied'', JBool (applying_discount r now))])) (\<lambda>_.
         if pending then
           stage ctx now (if sb_pend_offering r = Some (sb_offering r) then ''subscription.price_migrated''
                          else ''subscription.plan_changed'') ''subscription'' sub_id (JObj
             [(''subscriptionId'', JStr sub_id), (''previousOfferingId'', JStr (sb_offering r)),
              (''newOfferingId'', JStr new_offering_id), (''newPriceAmount'', JDec amount),
              (''newPriceCurrency'', JStr currency), (''newPriceOfferingPriceId'', JStr price_id)])
         else ret ()))"

definition renew_approved :: "request_ctx \<Rightarrow> int \<Rightarrow> sub_row \<Rightarrow> rat \<Rightarrow> string \<Rightarrow> string \<Rightarrow> json \<Rightarrow> rat \<Rightarrow> json \<Rightarrow> unit sub_prog" where
  "renew_approved ctx now r amount currency price_id offering charge_amount payment_result =
     in_tx (
       bindp (renew_balances (sb_id r) (applying_pending r now) (allowance_specs offering) now (now + days PERIOD_DAYS)) (\<lambda>_.
       bindp (of_result (next_state (sb_state r) ''renew'')) (\<lambda>to.
       bindp (renew_row r now to amount currency price_id) (\<lambda>_.
       bindp (add_state_history (sb_id r) (sb_state r) to ''renewal_payment_approved'') (\<lambda>_.
       stage_renewed ctx now r amount currency price_id charge_amount payment_result)))))"

definition renew :: "sub_env \<Rightarrow> request_ctx \<Rightarrow> int \<Rightarrow> string \<Rightarrow> sub_full sub_prog" where
  "renew env ctx now sub_id =
     bindp (require_sub sub_id) (\<lambda>full. let r = fst full in
     bindp (of_result (check_renew_allowed (sb_state r))) (\<lambda>_.
     bindp (of_result (renewal_terms env r now)) (\<lambda>terms. case terms of (amount, currency, price_id, target_offering_id) \<Rightarrow>
     bindp (of_result (up (env_offering env target_offering_id))) (\<lambda>offering.
     bindp (of_result (renewal_charge r now amount)) (\<lambda>charge_amount.
     bindp (of_result (default_method env ''subscription.renew.no_payment_method'' (sb_customer r))) (\<lambda>method_id.
     bindp (charge env (Charge (sb_customer r) method_id charge_amount currency ''renewal'')) (\<lambda>payment_result.
     if \<not> approved payment_result then
       bindp (renew_declined ctx now r payment_result) (\<lambda>_.
       reread sub_id ''subscription vanished after renew_fail'')
     else
       bindp (renew_approved ctx now r amount currency price_id offering charge_amount payment_result) (\<lambda>_.
       reread sub_id ''subscription vanished after renew''))))))))"

end
