(* ===== verification/SubWorker.thy ===== *)
theory SubWorker
  imports SubService
begin

text \<open>
  The rest of \<open>services/subscription\<close>: plan change, price migration and termination
  (\<open>service.rs\<close>), the usage consumer (\<open>consumer.rs\<close>) and the renewal worker
  (\<open>worker.rs\<close>).
\<close>

section \<open>Plan change\<close>

definition schedule_plan_change :: "sub_env \<Rightarrow> request_ctx \<Rightarrow> int \<Rightarrow> string \<Rightarrow> string \<Rightarrow> sub_full sub_prog" where
  "schedule_plan_change env ctx now sub_id new_offering_id =
     bindp (require_sub sub_id) (\<lambda>full. let r = fst full in
     bindp (of_result (check_subscription_active_or_pending_renewal (sb_state r))) (\<lambda>_.
     bindp (of_result (check_not_same_offering (sb_offering r) new_offering_id)) (\<lambda>_.
     bindp (of_result (check_no_pending_change (sb_pend_offering r))) (\<lambda>_.
     bindp (of_result (check_offering_sellable_now env now new_offering_id)) (\<lambda>_.
     bindp (of_result (fetch_active_price_for_target env new_offering_id)) (\<lambda>new_price.
     let effective_at = sb_next_renewal_at r; tia = tax_included new_price in
     bindp (in_tx (
       bindp (update_sub sub_id (\<lambda>x. x\<lparr>sb_pend_offering := Some new_offering_id,
                sb_pend_price_id := Some (get_str_or new_price ''id'' []), sb_pend_at := effective_at\<rparr>)) (\<lambda>_.
       stage ctx now ''subscription.plan_change_scheduled'' ''subscription'' sub_id (JObj
         [(''subscriptionId'', JStr sub_id), (''currentOfferingId'', JStr (sb_offering r)),
          (''newOfferingId'', JStr new_offering_id), (''newPriceAmount'', jidx tia ''value''),
          (''newPriceCurrency'', JStr (get_str_or tia ''unit'' ''SGD'')),
          (''effectiveAt'', opt_json JTime effective_at)])))) (\<lambda>_.
     reread sub_id ''subscription vanished after schedule'')))))))"

definition cancel_pending_plan_change :: "request_ctx \<Rightarrow> int \<Rightarrow> string \<Rightarrow> sub_full sub_prog" where
  "cancel_pending_plan_change ctx now sub_id =
     bindp (require_sub sub_id) (\<lambda>full. let r = fst full in
     if sb_pend_offering r = None then reread sub_id ''subscription vanished''
     else
     let previous_pending = JObj [(''offeringId'', opt_json JStr (sb_pend_offering r)),
            (''offeringPriceId'', opt_json JStr (sb_pend_price_id r)), (''effectiveAt'', opt_json JTime (sb_pend_at r))] in
     bindp (in_tx (
       bindp (update_sub sub_id (\<lambda>x. x\<lparr>sb_pend_offering := None, sb_pend_price_id := None, sb_pend_at := None\<rparr>)) (\<lambda>_.
       stage ctx now ''subscription.plan_change_cancelled'' ''subscription'' sub_id (JObj
         [(''subscriptionId'', JStr sub_id), (''previousPending'', previous_pending)])))) (\<lambda>_.
     reread sub_id ''subscription vanished after cancel''))"

section \<open>Price migration\<close>

definition migration_checks :: "sub_env \<Rightarrow> string \<Rightarrow> string \<Rightarrow> api_error + json" where
  "migration_checks env offering_id new_price_id =
     (case env_offering_price env new_price_id of
        Inl NotFoundErr \<Rightarrow> Inl (violate ''subscription.migrate_price.unknown_price'' [(''new_price_id'', JStr new_price_id)])
      | Inl e \<Rightarrow> Inl (upstream e)
      | Inr new_price \<Rightarrow> (case up (env_offering env offering_id) of Inl e \<Rightarrow> Inl e
          | Inr offering \<Rightarrow>
              if (case get_array offering ''productOfferingPrice'' of None \<Rightarrow> False
                  | Some arr \<Rightarrow> list_ex (\<lambda>p. get_str p ''id'' = Some new_price_id) arr)
              then Inr new_price
              else Inl (violate ''subscription.migrate_price.price_not_on_offering''
                     [(''new_price_id'', JStr new_price_id), (''offering_id'', JStr offering_id)])))"

definition migrate_one :: "request_ctx \<Rightarrow> int \<Rightarrow> string \<Rightarrow> json \<Rightarrow> int \<Rightarrow> string \<Rightarrow> sub_row \<Rightarrow> unit sub_prog" where
  "migrate_one ctx now new_price_id tia effective_at initiated_by r =
     (let sub_id = sb_id r; new_currency = get_str_or tia ''unit'' ''SGD'' in
      bindp (update_sub sub_id (\<lambda>x. x\<lparr>sb_pend_offering := Some (sb_offering r),
               sb_pend_price_id := Some new_price_id, sb_pend_at := Some effective_at\<rparr>)) (\<lambda>_.
      bindp (stage ctx now ''subscription.price_migration_scheduled'' ''subscription'' sub_id (JObj
        [(''subscriptionId'', JStr sub_id), (''offeringId'', JStr (sb_offering r)),
         (''oldAmount'', JDec (sb_price r)), (''newAmount'', jidx tia ''value''), (''newCurrency'', JStr new_currency),
         (''effectiveAt'', JTime effective_at), (''initiatedBy'', JStr initiated_by)])) (\<lambda>_.
      stage ctx now ''notification.requested'' ''subscription'' sub_id (JObj
        [(''customerId'', JStr (sb_customer r)), (''channel'', JStr ''email''),
         (''template'', JStr ''price_migration_notice''),
         (''templateArgs'', JObj [(''subscriptionId'', JStr sub_id), (''offeringId'', JStr (sb_offering r)),
            (''oldAmount'', JDec (sb_price r)), (''newAmount'', jidx tia ''value''), (''currency'', JStr new_currency),
            (''effectiveAt'', JTime effective_at)])]))))"

definition migrate_subscriptions_to_price :: "sub_env \<Rightarrow> request_ctx \<Rightarrow> int \<Rightarrow> string \<Rightarrow> string \<Rightarrow> int \<Rightarrow> int
    \<Rightarrow> string \<Rightarrow> (nat \<times> string list) sub_prog" where
  "migrate_subscriptions_to_price env ctx now offering_id new_price_id effective_from notice_days initiated_by =
     bindp (of_result (check_admin_role ctx)) (\<lambda>_.
     bindp (of_result (migration_checks env offering_id new_price_id)) (\<lambda>new_price.
     let tia = tax_included new_price; effective_at = effective_from + days notice_days in
     bindp (gets (\<lambda>s. list_active_for_offering s offering_id)) (\<lambda>affected.
     bindp (in_tx (for_each affected (migrate_one ctx now new_price_id tia effective_at initiated_by))) (\<lambda>_.
     ret (length affected, map sb_id affected)))))"

section \<open>Termination\<close>

definition terminate :: "request_ctx \<Rightarrow> int \<Rightarrow> string \<Rightarrow> string \<Rightarrow> bool \<Rightarrow> sub_full sub_prog" where
  "terminate ctx now sub_id reason release_inventory =
     bindp (require_sub sub_id) (\<lambda>full. let r = fst full in
     if \<not> is_valid_transition (sb_state r) ''terminate''
     then throw (violate ''subscription.terminate.invalid_state'' [(''state'', JStr (sb_state r))])
     else
     bindp (if release_inventory then call_ext (ReleaseMsisdn (sb_msisdn r)) () else ret ()) (\<lambda>_.
     bindp (call_ext (RecycleEsim (sb_iccid r)) ()) (\<lambda>_.
     bindp (in_tx (
       bindp (of_result (next_state (sb_state r) ''terminate'')) (\<lambda>to.
       bindp (update_sub sub_id (\<lambda>x. x\<lparr>sb_state := to, sb_reason := Some reason, sb_terminated_at := Some now\<rparr>)) (\<lambda>_.
       bindp (add_state_history sub_id (sb_state r) to reason) (\<lambda>_.
       stage ctx now ''subscription.terminated'' ''subscription'' sub_id (JObj
         [(''subscriptionId'', JStr sub_id), (''customerId'', JStr (sb_customer r)), (''msisdn'', JStr (sb_msisdn r)),
          (''iccid'', JStr (sb_iccid r)), (''terminatedAt'', JTime now), (''reason'', JStr reason)])))))) (\<lambda>_.
     reread sub_id ''subscription vanished after terminate''))))"

section \<open>The usage consumer\<close>

definition req_str :: "json \<Rightarrow> string \<Rightarrow> string + string" where
  "req_str body key = (case get_str body key of None \<Rightarrow> Inl ''missing required field'' | Some v \<Rightarrow> Inr v)"

text \<open>\<open>as_f64 as i64\<close> reads the exact value here; a float's rounding above \<open>2\<^sup>53\<close> is not modelled.\<close>

definition req_int :: "json \<Rightarrow> string \<Rightarrow> string + int" where
  "req_int body key =
     (case jget body key of
        Some (JInt i) \<Rightarrow> Inr (if in_i64 i then i else sat64 i)
      | Some (JDec q) \<Rightarrow> Inr (sat64 (trunc_rat q))
      | Some (JStr s) \<Rightarrow> (case parse_i64 s of None \<Rightarrow> Inl ''field not an integer'' | Some i \<Rightarrow> Inr i)
      | _ \<Rightarrow> Inl ''missing required field'')"

definition opt_str :: "json \<Rightarrow> string \<Rightarrow> string" where
  "opt_str body key = get_str_or body key []"

definition usage_rated_handler :: "int \<Rightarrow> json \<Rightarrow> (sub_db, string, unit) prog" where
  "usage_rated_handler now body =
     bindp (of_result (req_str body ''subscriptionId'')) (\<lambda>subscription_id.
     bindp (of_result (req_str body ''allowanceType'')) (\<lambda>allowance_type.
     bindp (of_result (req_int body ''consumedQuantity'')) (\<lambda>consumed_quantity.
     map_err (\<lambda>_. ''handler error'')
       (handle_usage_rated default_ctx now subscription_id allowance_type consumed_quantity (opt_str body ''usageEventId'')))))"

section \<open>The renewal worker\<close>

definition worker_ctx :: request_ctx where
  "worker_ctx = default_ctx\<lparr>rc_actor := ''system:renewal_worker'', rc_channel := ''system''\<rparr>"

definition BATCH_LIMIT :: nat where "BATCH_LIMIT = 100"

text \<open>Each renewal has its own answers from the other services: \<open>envs sub_id\<close>.\<close>

definition sweep_due :: "(string \<Rightarrow> sub_env) \<Rightarrow> int \<Rightarrow> string \<Rightarrow> unit sub_prog" where
  "sweep_due envs now tenant =
     bindp (gets (\<lambda>s. due_for_renewal s now BATCH_LIMIT tenant)) (\<lambda>ids.
     if ids = [] then ret ()
     else bindp (mark_renewal_attempted ids now) (\<lambda>_.
          for_each ids (\<lambda>sub_id. ignore_err (renew (envs sub_id) worker_ctx now sub_id))))"

definition sweep_skipped :: "int \<Rightarrow> string \<Rightarrow> unit sub_prog" where
  "sweep_skipped now tenant =
     in_tx (
       bindp (gets (\<lambda>s. overdue_blocked s now BATCH_LIMIT tenant)) (\<lambda>ids.
       if ids = [] then ret ()
       else bindp (for_each ids (\<lambda>sub_id. stage worker_ctx now ''subscription.renewal_skipped'' ''subscription'' sub_id (JObj
              [(''subscriptionId'', JStr sub_id), (''reason'', JStr ''blocked''), (''skippedAt'', JTime now)]))) (\<lambda>_.
            mark_renewal_attempted ids now)))"

definition tick_once :: "(string \<Rightarrow> sub_env) \<Rightarrow> int \<Rightarrow> int \<Rightarrow> string \<Rightarrow> unit sub_prog" where
  "tick_once envs now now' tenant =
     bindp (ignore_err (sweep_due envs now tenant)) (\<lambda>_. ignore_err (sweep_skipped now' tenant))"

end
