(* ===== verification/SubInv.thy ===== *)
theory SubInv
  imports SubWorker
begin

text \<open>
  The invariant of the subscription service and its preservation by every operation: the
  state history of each subscription is a legal path to its state, live MSISDNs, ICCIDs and
  commercial orders are unique, and balances are keyed by subscription and type.
\<close>

section \<open>The invariant\<close>

definition sub_key :: "sub_row \<Rightarrow> string \<times> string" where
  "sub_key r = (sb_id r, sb_state r)"

definition hist_key :: "hist_row \<Rightarrow> string \<times> string \<times> string" where
  "hist_key h = (hs_sub h, hs_from h, hs_to h)"

definition subs_unique :: "sub_row list \<Rightarrow> bool" where
  "subs_unique subs \<longleftrightarrow>
     distinct (map sb_msisdn (filter live subs)) \<and> distinct (map sb_iccid (filter live subs)) \<and>
     distinct (filter (\<lambda>x. x \<noteq> None) (map sb_order subs))"

definition bals_keyed :: "sub_row list \<Rightarrow> bal_row list \<Rightarrow> bool" where
  "bals_keyed subs bals \<longleftrightarrow>
     distinct (map bl_id bals) \<and>
     (\<forall>b \<in> set bals. bl_id b = bal_id_of (bl_sub b) (bl_type b) \<and> bl_sub b \<in> sb_id ` set subs)"

definition ids_minted :: "nat \<Rightarrow> sub_row list \<Rightarrow> bool" where
  "ids_minted n subs \<longleftrightarrow> (\<forall>r \<in> set subs. \<exists>k < n. sb_id r = ''SUB-'' @ pad4 k)"

definition sub_consistent :: "sub_row list \<Rightarrow> bal_row list \<Rightarrow> hist_row list \<Rightarrow> nat \<Rightarrow> bool" where
  "sub_consistent subs bals hist n \<longleftrightarrow>
     audited sub_allowed ''pending'' (map sub_key subs) (map hist_key hist) \<and>
     subs_unique subs \<and> bals_keyed subs bals \<and> ids_minted n subs"

definition sub_inv :: "sub_db \<Rightarrow> bool" where
  "sub_inv s \<longleftrightarrow> sub_consistent (sd_subs s) (sd_bals s) (sd_hist s) (sd_seq s)"

lemma sub_inv_empty: "sub_consistent [] [] [] n"
  by (simp add: sub_consistent_def subs_unique_def bals_keyed_def ids_minted_def)

section \<open>Rows\<close>

text \<open>What an update of a subscription row leaves alone.\<close>

definition keeps_keys :: "(sub_row \<Rightarrow> sub_row) \<Rightarrow> bool" where
  "keeps_keys f \<longleftrightarrow> (\<forall>x. sb_id (f x) = sb_id x \<and> sb_msisdn (f x) = sb_msisdn x \<and> sb_iccid (f x) = sb_iccid x \<and> sb_order (f x) = sb_order x)"

lemma keeps_keysD:
  assumes "keeps_keys f"
  shows "sb_id (f x) = sb_id x" "sb_msisdn (f x) = sb_msisdn x" "sb_iccid (f x) = sb_iccid x" "sb_order (f x) = sb_order x"
  using assms by (auto simp: keeps_keys_def)

lemma distinct_ids: "sub_consistent subs bals hist n \<Longrightarrow> distinct (map sb_id subs)"
  using audited_distinct [of sub_allowed "''pending''" "map sub_key subs" "map hist_key hist"]
  by (simp add: sub_consistent_def comp_def sub_key_def)

lemma map_sub_key: "map sub_key subs = keyed sb_id sb_state subs"
  by (simp add: keyed_def sub_key_def [abs_def])

lemma filter_live_map:
  "(\<And>x. live (g x) \<Longrightarrow> live x) \<Longrightarrow> (\<And>x. key (g x) = key x) \<Longrightarrow>
   distinct (map key (filter live xs)) \<Longrightarrow> distinct (map key (filter live (map g xs)))"
proof (induction xs)
  case (Cons x xs)
  have sub: "key ` (Set.filter live (g ` set xs)) \<subseteq> key ` (Set.filter live (set xs))"
    using Cons.prems(1,2) by (force simp: image_iff)
  have ih: "distinct (map key (filter live (map g xs)))"
    using Cons by (auto split: if_splits)
  show ?case
  proof (cases "live (g x)")
    case True
    then have "key x \<notin> key ` set (filter live xs)" using Cons.prems by (auto split: if_splits)
    then have "key (g x) \<notin> key ` set (filter live (map g xs))"
      using Cons.prems(1,2) by (force simp: image_iff)
    then show ?thesis using ih True by simp
  qed (use ih in simp)
qed simp

lemma unique_update:
  assumes "subs_unique subs" "distinct (map sb_id subs)" "tbl_find sb_id i subs = Some r" "keeps_keys f"
    and "live (f r) \<Longrightarrow> live r"
  shows "subs_unique (tbl_update sb_id i f subs)"
proof -
  let ?g = "\<lambda>x. if x = r then f r else x"
  have lv: "live (?g x) \<Longrightarrow> live x" for x using assms(5) by (auto split: if_splits)
  have m: "sb_msisdn (?g x) = sb_msisdn x" "sb_iccid (?g x) = sb_iccid x" "sb_order (?g x) = sb_order x" for x
    using keeps_keysD [OF assms(4), of r] by auto
  have "map sb_order (map ?g subs) = map sb_order subs" using m(3) by simp
  with assms(1) have "distinct (filter (\<lambda>x. x \<noteq> None) (map sb_order (map ?g subs)))"
    by (simp only: subs_unique_def)
  then show ?thesis
    using assms(1) filter_live_map [of ?g sb_msisdn subs, OF lv m(1)] filter_live_map [of ?g sb_iccid subs, OF lv m(2)]
    unfolding subs_unique_def tbl_update_find [OF assms(2,3)] by blast
qed

lemma ids_update: "keeps_keys f \<Longrightarrow> map sb_id (tbl_update sb_id i f subs) = map sb_id subs"
  by (intro map_tbl_update keeps_keysD)

lemma image_ids_update: "keeps_keys f \<Longrightarrow> sb_id ` set (tbl_update sb_id i f subs) = sb_id ` set subs"
  by (metis ids_update list.set_map)

lemma minted_update: "keeps_keys f \<Longrightarrow> ids_minted n (tbl_update sb_id i f subs) = ids_minted n subs"
proof -
  have *: "ids_minted n xs \<longleftrightarrow> (\<forall>j \<in> sb_id ` set xs. \<exists>k < n. j = ''SUB-'' @ pad4 k)" for xs
    by (simp add: ids_minted_def)
  show "keeps_keys f \<Longrightarrow> ?thesis" by (simp only: * image_ids_update)
qed

text \<open>A move along the state machine, with its history row.\<close>

lemma consistent_move:
  assumes inv: "sub_consistent subs bals hist n" and r: "tbl_find sb_id i subs = Some r"
    and ok: "sub_allowed (sb_state r) b" and f: "keeps_keys f" "sb_state (f r) = b"
  shows "sub_consistent (tbl_update sb_id i f subs) bals
           (hist @ [\<lparr>hs_sub = i, hs_from = sb_state r, hs_to = b, hs_reason = why\<rparr>]) n"
proof -
  have "live r" using ok sub_fsm.terminal_dead [of "sb_state r" b] by (auto simp: live_def sub_terminal_def)
  moreover have "map hist_key (hist @ [\<lparr>hs_sub = i, hs_from = sb_state r, hs_to = b, hs_reason = why\<rparr>])
      = map hist_key hist @ [(i, sb_state r, b)]" by (simp add: hist_key_def)
  moreover have "audited sub_allowed ''pending'' (keyed sb_id sb_state subs) (map hist_key hist)"
    using inv by (simp add: sub_consistent_def map_sub_key)
  note audited_update [where allowed = sub_allowed and st = sb_state, OF this r ok keeps_keysD(1) [OF f(1)] f(2)]
  ultimately show ?thesis
    using inv unique_update [OF _ distinct_ids [OF inv] r f(1)]
    unfolding sub_consistent_def map_sub_key minted_update [OF f(1)] bals_keyed_def image_ids_update [OF f(1)]
    by auto
qed

text \<open>An update that keeps the state.\<close>

lemma consistent_update:
  assumes inv: "sub_consistent subs bals hist n" and f: "keeps_keys f" "\<And>x. sb_state (f x) = sb_state x"
  shows "sub_consistent (tbl_update sb_id i f subs) bals hist n"
proof (cases "tbl_find sb_id i subs")
  case None
  then show ?thesis using inv by (simp add: tbl_find_None_iff tbl_update_other)
next
  case (Some r)
  have "map sub_key (tbl_update sb_id i f subs) = map sub_key subs"
    by (intro map_tbl_update) (simp add: sub_key_def f(2) keeps_keysD [OF f(1)])
  moreover have "live (f r) = live r" by (simp add: live_def f(2))
  ultimately show ?thesis
    using inv unique_update [OF _ distinct_ids [OF inv] Some f(1)]
    unfolding sub_consistent_def minted_update [OF f(1)] bals_keyed_def image_ids_update [OF f(1)] by auto
qed

lemma consistent_map:
  assumes "sub_consistent subs bals hist n" "keeps_keys f" "\<And>x. sb_state (f x) = sb_state x"
  shows "sub_consistent (map f subs) bals hist n"
proof -
  have k: "map sub_key (map f subs) = map sub_key subs" "sb_id ` set (map f subs) = sb_id ` set subs"
    "map sb_order (map f subs) = map sb_order subs"
    using keeps_keysD [OF assms(2)] assms(3) by (auto simp: sub_key_def image_iff)
  have lv: "live (f x) = live x" for x by (simp add: live_def assms(3))
  have m: "ids_minted n (map f subs) = ids_minted n subs" by (simp add: ids_minted_def keeps_keysD [OF assms(2)])
  have u: "subs_unique subs \<Longrightarrow> subs_unique (map f subs)"
    using filter_live_map [of f sb_msisdn subs] filter_live_map [of f sb_iccid subs] keeps_keysD [OF assms(2)] lv k(3)
    unfolding subs_unique_def by metis
  show ?thesis using assms(1) u unfolding sub_consistent_def k(1) m bals_keyed_def k(2) by auto
qed

text \<open>Balances.\<close>

lemma consistent_bal_insert:
  assumes "sub_consistent subs bals hist n" "bl_id b \<notin> bl_id ` set bals" "bl_sub b \<in> sb_id ` set subs"
    "bl_id b = bal_id_of (bl_sub b) (bl_type b)"
  shows "sub_consistent subs (bals @ [b]) hist n"
  using assms by (auto simp: sub_consistent_def bals_keyed_def)

lemma consistent_bal_update:
  assumes "sub_consistent subs bals hist n" "\<And>x. bl_id (f x) = bl_id x" "\<And>x. bl_sub (f x) = bl_sub x" "\<And>x. bl_type (f x) = bl_type x"
  shows "sub_consistent subs (tbl_update bl_id i f bals) hist n"
proof -
  have "map bl_id (tbl_update bl_id i f bals) = map bl_id bals" by (rule map_tbl_update) (rule assms)
  moreover have "\<forall>b \<in> set (tbl_update bl_id i f bals). bl_id b = bal_id_of (bl_sub b) (bl_type b) \<and> bl_sub b \<in> sb_id ` set subs"
    if "\<forall>b \<in> set bals. bl_id b = bal_id_of (bl_sub b) (bl_type b) \<and> bl_sub b \<in> sb_id ` set subs"
    using that assms(2-4) by (auto simp: set_tbl_update)
  ultimately show ?thesis using assms(1) by (auto simp: sub_consistent_def bals_keyed_def)
qed

lemma consistent_seq: "sub_consistent subs bals hist n \<Longrightarrow> n \<le> m \<Longrightarrow> sub_consistent subs bals hist m"
  unfolding sub_consistent_def ids_minted_def by (meson order_less_le_trans)

end
