(* ===== verification/SubKeep.thy ===== *)
theory SubKeep
  imports SubInv
begin

text \<open>
  Every operation of the subscription service keeps its invariant; the usage consumer
  meets the contract of an event handler.
\<close>

section \<open>Frames\<close>

lemma sub_inv_frame [simp]:
  "sub_inv (s\<lparr>outbox := x\<rparr>) = sub_inv s" "sub_inv (s\<lparr>inbox := i\<rparr>) = sub_inv s" "sub_inv (s\<lparr>calls := k\<rparr>) = sub_inv s"
  "sub_inv (s\<lparr>sd_vas := v\<rparr>) = sub_inv s"
  by (simp_all add: sub_inv_def)

lemma sub_inv_rollback [simp]: "sub_inv (rollback s t) = sub_inv s"
  by (simp add: rollback_def)

lemma next_state_allowed: "next_state a t = Inr b \<Longrightarrow> sub_allowed a b"
  by (auto simp: next_state_def get_next_state_allowed split: if_splits option.splits)

lemma keeps_keys_simps [simp]:
  "keeps_keys (\<lambda>x. x\<lparr>sb_state := a, sb_reason := b\<rparr>)"
  "keeps_keys (\<lambda>x. x\<lparr>sb_state := a, sb_reason := b, sb_terminated_at := c\<rparr>)"
  "keeps_keys (\<lambda>x. x\<lparr>sb_reason := b\<rparr>)"
  "keeps_keys (\<lambda>x. x\<lparr>sb_pend_offering := d, sb_pend_price_id := e, sb_pend_at := g\<rparr>)"
  "keeps_keys (pivot_row to off amt cur pid now pe)"
  "keeps_keys (vanilla_row to n now pe)"
  by (simp_all add: keeps_keys_def pivot_row_def vanilla_row_def)

lemma sub_inv_move:
  assumes "sub_inv s" "tbl_find sb_id i (sd_subs s) = Some r" "sub_allowed (sb_state r) b"
    "keeps_keys f" "sb_state (f r) = b"
  shows "sub_inv (s\<lparr>sd_subs := tbl_update sb_id i f (sd_subs s),
                    sd_hist := sd_hist s @ [\<lparr>hs_sub = i, hs_from = sb_state r, hs_to = b, hs_reason = why\<rparr>]\<rparr>)"
  using consistent_move [OF assms(1) [unfolded sub_inv_def] assms(2-5)] by (simp add: sub_inv_def)

lemma sub_inv_move_calls:
  assumes "sub_inv s" "tbl_find sb_id i (sd_subs s) = Some r" "sub_allowed (sb_state r) b"
    "keeps_keys f" "sb_state (f r) = b"
  shows "sub_inv (s\<lparr>calls := k, sd_subs := tbl_update sb_id i f (sd_subs s),
                    sd_hist := sd_hist s @ [\<lparr>hs_sub = i, hs_from = sb_state r, hs_to = b, hs_reason = why\<rparr>]\<rparr>)"
  using consistent_move [OF assms(1) [unfolded sub_inv_def] assms(2-5)] by (simp add: sub_inv_def)

lemma sub_inv_update:
  assumes "sub_inv s" "keeps_keys f" "\<And>x. sb_state (f x) = sb_state x"
  shows "sub_inv (s\<lparr>sd_subs := tbl_update sb_id i f (sd_subs s)\<rparr>)"
  using consistent_update [OF assms(1) [unfolded sub_inv_def] assms(2,3)] by (simp add: sub_inv_def)

text \<open>The programs that move a subscription: the update and the history row that follows it.\<close>

lemma wp_move:
  assumes "sub_inv s" "tbl_find sb_id i (sd_subs s) = Some r" "keeps_keys f"
    and "sub_allowed (sb_state r) b" "sb_state (f r) = b"
    and "\<And>t. sub_inv t \<Longrightarrow> wp (rest ()) Q E t"
  shows "wp (bindp (update_sub i f) (\<lambda>_. bindp (add_state_history i (sb_state r) b why) rest)) Q E s"
proof -
  have "sub_inv (s\<lparr>sd_subs := tbl_update sb_id i f (sd_subs s),
          sd_hist := sd_hist s @ [\<lparr>hs_sub = i, hs_from = sb_state r, hs_to = b, hs_reason = why\<rparr>]\<rparr>)"
    by (rule sub_inv_move) (use assms in auto)
  from assms(6) [OF this] show ?thesis
    by (simp add: wp_simps update_sub_def add_state_history_def)
qed

lemma wp_trigger:
  assumes "\<And>b. next_state a t = Inr b \<Longrightarrow> sub_allowed a b \<Longrightarrow> wp (m b) Q E s" "\<And>e. E e s"
  shows "wp (bindp (of_result (next_state a t)) m) Q E s"
  using assms next_state_allowed [of a t] by (auto simp: wp_simps split: sum.splits)

section \<open>Rated usage\<close>

lemma block_exhausted_inv:
  assumes "sub_inv s" "tbl_find sb_id i (sd_subs s) = Some r"
  shows "wp (block_exhausted ctx now i (sb_state r) atype ue res) (\<lambda>_. sub_inv) (\<lambda>_ _. True) s"
  unfolding block_exhausted_def wp_bindp [of "stage a b c d e f" for a b c d e f] wp_stage
  by (rule wp_trigger, rule wp_move) (use assms in \<open>auto simp: wp_simps\<close>)

lemma update_bal_consumed_inv: "sub_inv s \<Longrightarrow> sub_inv (s\<lparr>sd_bals := tbl_update bl_id i (\<lambda>x. x\<lparr>bl_consumed := c\<rparr>) (sd_bals s)\<rparr>)"
  by (auto simp: sub_inv_def intro: consistent_bal_update)

lemma handle_usage_rated_inv:
  assumes "sub_inv s"
  shows "wp (handle_usage_rated ctx now i atype q ue) (\<lambda>_. sub_inv) (\<lambda>_ _. True) s"
proof -
  have *: "wp (block_exhausted ctx now i st atype ue res) (\<lambda>_. sub_inv) (\<lambda>_ _. True)
      (s\<lparr>sd_bals := tbl_update bl_id j (\<lambda>x. x\<lparr>bl_consumed := c\<rparr>) (sd_bals s)\<rparr>)"
    if "tbl_find sb_id i (sd_subs s) = Some r" "sb_state r = st" for r st res j c
    unfolding that(2) [symmetric]
    by (rule block_exhausted_inv) (use that assms in \<open>auto simp: update_bal_consumed_inv\<close>)
  show ?thesis
    unfolding handle_usage_rated_def reject_roaming_def
    using assms * update_bal_consumed_inv [OF assms]
    by (auto simp: wp_simps update_bal_def Let_def split: option.splits sum.splits)
qed

section \<open>HTTP operations\<close>

lemma wp_require_sub [wp_simps]:
  "wp (require_sub i) Q E = (\<lambda>s. (case tbl_find sb_id i (sd_subs s) of None \<Rightarrow> E (not_found i) s | Some r \<Rightarrow> Q (r, get_balances s i) s))"
  by (rule ext) (auto simp: require_sub_def wp_simps get_sub_def hydrate_def split: option.splits dest: tbl_find_SomeD)

lemma wp_reread: "wp (reread i what) (\<lambda>_. P) (\<lambda>_. P) = P"
  by (rule ext) (auto simp: reread_def wp_simps split: option.splits)

lemma wp_charge: "wp (charge env c) Q E = (\<lambda>s.
   (case env_charge env (calls s) c of Inl e \<Rightarrow> E (upstream e) (s\<lparr>calls := calls s @ [c]\<rparr>) | Inr x \<Rightarrow> Q x (s\<lparr>calls := calls s @ [c]\<rparr>)))"
  by (rule ext) (auto simp: charge_def wp_simps up_def split: sum.splits)

lemma insert_bal_inv:
  assumes "sub_inv s" "bl_sub b \<in> sb_id ` set (sd_subs s)" "bl_id b = bal_id_of (bl_sub b) (bl_type b)"
  shows "wp (insert_bal b) (\<lambda>_ t. sub_inv t \<and> sd_subs t = sd_subs s) (\<lambda>_ _. True) s"
  using assms consistent_bal_insert [of "sd_subs s" "sd_bals s" "sd_hist s" "sd_seq s" b]
  by (auto simp: insert_bal_def wp_simps sub_inv_def)

lemma update_bal_inv:
  assumes "sub_inv s" "\<And>x. bl_id (f x) = bl_id x" "\<And>x. bl_sub (f x) = bl_sub x" "\<And>x. bl_type (f x) = bl_type x"
  shows "wp (update_bal i f) (\<lambda>_ t. sub_inv t \<and> sd_subs t = sd_subs s) E s"
  using assms consistent_bal_update [of "sd_subs s" "sd_bals s" "sd_hist s" "sd_seq s" f]
  by (auto simp: update_bal_def wp_simps sub_inv_def)

lemma bal_of_new_row [simp]:
  "bl_sub (new_bal_row i a q u now pe) = i" "bl_type (new_bal_row i a q u now pe) = a"
  "bl_id (new_bal_row i a q u now pe) = bal_id_of i a"
  by (simp_all add: new_bal_row_def)

lemma insert_new_bal_inv:
  "sub_inv s \<Longrightarrow> i \<in> sb_id ` set (sd_subs s) \<Longrightarrow>
   wp (insert_bal (new_bal_row i a q u now pe)) (\<lambda>_ t. sub_inv t \<and> sd_subs t = sd_subs s) (\<lambda>_ _. True) s"
  by (rule insert_bal_inv) auto

lemma wp_weaken_err: "wp m Q (\<lambda>_ _. True) s \<Longrightarrow> (\<And>e t. E e t) \<Longrightarrow> wp m Q E s"
  by (rule wp_mono) auto

lemma apply_allowance_inv:
  assumes "sub_inv s" "i \<in> sb_id ` set (sd_subs s)"
  shows "wp (apply_allowance i now pe atype qty unit) (\<lambda>_ t. sub_inv t \<and> sd_subs t = sd_subs s) (\<lambda>_ _. True) s"
  using assms insert_new_bal_inv [OF assms] update_bal_inv [OF assms(1)]
  by (auto simp: apply_allowance_def wp_simps split: option.splits)

lemma top_up_inv:
  assumes "sub_inv s" "tbl_find sb_id i (sd_subs s) = Some r"
  shows "wp (top_up ctx now i (sb_state r)) (\<lambda>_. sub_inv) (\<lambda>_ _. True) s"
proof (cases "sb_state r = ''blocked''")
  case True
  show ?thesis unfolding top_up_def if_P [OF True]
    by (rule wp_trigger, rule wp_move) (use assms in \<open>auto simp: wp_simps\<close>)
next
  case blk: False
  show ?thesis
  proof (cases "sb_state r = ''active''")
    case True
    have nxt: "next_state ''active'' ''top_up'' = Inr ''active''" by code_simp
    have "sub_inv (s\<lparr>sd_subs := tbl_update sb_id i (\<lambda>r. r\<lparr>sb_reason := Some ''vas_top_up''\<rparr>) (sd_subs s),
        sd_hist := sd_hist s @ [\<lparr>hs_sub = i, hs_from = sb_state r, hs_to = ''active'', hs_reason = ''vas_top_up''\<rparr>]\<rparr>)"
      by (rule sub_inv_move) (use assms True next_state_allowed [OF nxt] in auto)
    then show ?thesis using True nxt
      by (simp add: top_up_def wp_simps update_sub_def add_state_history_def)
  next
    case False
    then show ?thesis using blk assms by (simp add: top_up_def wp_simps)
  qed
qed

lemma vas_tx_inv:
  assumes "sub_inv s" "tbl_find sb_id (sb_id r) (sd_subs s) = Some r"
  shows "wp (vas_tx env ctx now r off vas pr) (\<lambda>_. sub_inv) (\<lambda>_. sub_inv) s"
proof -
  have mem: "sb_id r \<in> sb_id ` set (sd_subs s)" using tbl_find_SomeD [OF assms(2)] by auto
  have tail: "wp (top_up ctx now (sb_id r) (sb_state r)) (\<lambda>_. sub_inv) (\<lambda>_ _. True) u"
    if "sub_inv u" "sd_subs u = sd_subs s" for u
    using top_up_inv [of u "sb_id r" r ctx now] that assms by auto
  have body: "wp (apply_allowance (sb_id r) now pe aty q un) (\<lambda>_ t. sub_inv t \<and> sd_subs t = sd_subs s) (\<lambda>_ _. True)
      (s\<lparr>sd_vas := v\<rparr>)" for pe aty q un v
    using apply_allowance_inv [of "s\<lparr>sd_vas := v\<rparr>" "sb_id r" now pe aty q un] assms(1) mem by auto
  show ?thesis unfolding vas_tx_def Let_def insert_vas_def
    using assms(1) by (auto simp: wp_simps intro!: wp_mono [OF body] tail)
qed

lemma purchase_vas_inv: "sub_inv s \<Longrightarrow> wp (purchase_vas env ctx now i off) (\<lambda>_. sub_inv) (\<lambda>_. sub_inv) s"
  unfolding purchase_vas_def Let_def
  by (auto simp: wp_simps wp_charge wp_reread split: option.splits sum.splits
           intro!: vas_tx_inv elim: tbl_find_key)

text \<open>Create.\<close>

definition mid_create :: "sub_row list \<Rightarrow> hist_row list \<Rightarrow> hist_row list \<Rightarrow> nat \<Rightarrow> sub_db \<Rightarrow> bool" where
  "mid_create subs ghost hist n t \<longleftrightarrow>
     sub_consistent subs (sd_bals t) ghost n \<and> sd_subs t = subs \<and> sd_hist t = hist \<and> sd_seq t = n"

lemma insert_bundle_inv:
  assumes "mid_create subs ghost hist n s" "i \<in> sb_id ` set subs"
  shows "wp (insert_bundle i specs now pe) (\<lambda>_. mid_create subs ghost hist n) (\<lambda>_ _. True) s"
  unfolding insert_bundle_def
  by (rule wp_for_each [where I = "mid_create subs ghost hist n", OF _ assms(1)])
     (use assms(2) in \<open>auto simp: wp_simps insert_bal_def mid_create_def intro!: consistent_bal_insert\<close>)

text \<open>
  Inside the create transaction the new row exists before its history: the invariant holds
  of the rows with the history row added.
\<close>

lemma consistent_new:
  assumes inv: "sub_consistent subs bals hist n" and fresh: "sb_id r \<notin> sb_id ` set subs" "\<exists>k < n. sb_id r = ''SUB-'' @ pad4 k"
    and uniq: "sb_order r = None \<or> sb_order r \<notin> sb_order ` set subs"
      "sb_msisdn r \<notin> sb_msisdn ` set (filter live subs)" "sb_iccid r \<notin> sb_iccid ` set (filter live subs)"
    and st: "sb_state r = ''active''"
  shows "sub_consistent (subs @ [r]) bals (hist @ [\<lparr>hs_sub = sb_id r, hs_from = ''pending'', hs_to = ''active'', hs_reason = why\<rparr>]) n"
proof -
  have al: "sub_allowed ''pending'' ''active''" by code_simp
  have ids: "sb_id r \<notin> fst ` set (map sub_key subs)" using fresh(1) by (auto simp: sub_key_def)
  have "audited sub_allowed ''pending'' (map sub_key subs) (map hist_key hist)"
    using inv by (simp add: sub_consistent_def)
  from audited_insert [where allowed = sub_allowed and init = "''pending''" and st = "''active''", OF this ids al]
  have "audited sub_allowed ''pending'' (map sub_key (subs @ [r]))
      (map hist_key (hist @ [\<lparr>hs_sub = sb_id r, hs_from = ''pending'', hs_to = ''active'', hs_reason = why\<rparr>]))"
    by (simp add: sub_key_def hist_key_def st)
  moreover have "subs_unique (subs @ [r])"
    using inv uniq by (auto simp: sub_consistent_def subs_unique_def)
  ultimately show ?thesis
    using inv fresh(2) by (auto simp: sub_consistent_def bals_keyed_def ids_minted_def)
qed

lemma new_sub_row_simps [simp]:
  "sb_id (new_sub_row req i now pe amt cur pid dv) = i" "sb_state (new_sub_row req i now pe amt cur pid dv) = ''active''"
  "sb_order (new_sub_row req i now pe amt cur pid dv) = cr_order req"
  "sb_msisdn (new_sub_row req i now pe amt cur pid dv) = cr_msisdn req"
  "sb_iccid (new_sub_row req i now pe amt cur pid dv) = cr_iccid req"
  "live (new_sub_row req i now pe amt cur pid dv)"
  by (simp_all add: new_sub_row_def live_def Let_def)

lemma insert_sub_inv:
  assumes "sub_inv s" "\<exists>k < sd_seq s. sb_id r = ''SUB-'' @ pad4 k" "live r" "sb_state r = ''active''"
  shows "wp (insert_sub r) (\<lambda>_. mid_create (sd_subs s @ [r])
      (sd_hist s @ [\<lparr>hs_sub = sb_id r, hs_from = ''pending'', hs_to = ''active'', hs_reason = why\<rparr>]) (sd_hist s) (sd_seq s)) (\<lambda>_ _. True) s"
  using assms consistent_new [of "sd_subs s" "sd_bals s" "sd_hist s" "sd_seq s" r why]
  by (auto simp: insert_sub_def wp_simps sub_inv_def mid_create_def)

lemma create_tx_inv:
  assumes "sub_inv s" "\<exists>k < sd_seq s. i = ''SUB-'' @ pad4 k"
  shows "wp (create_tx ctx req off i now price ca pr) (\<lambda>_. sub_inv) (\<lambda>_. sub_inv) s"
proof -
  let ?why = "''activation_payment_approved''"
  let ?ghost = "sd_hist s @ [\<lparr>hs_sub = i, hs_from = ''pending'', hs_to = ''active'', hs_reason = ?why\<rparr>]"
  have ins: "wp (insert_sub (new_sub_row req i now pe amt cur pid dv))
      (\<lambda>_. mid_create (sd_subs s @ [new_sub_row req i now pe amt cur pid dv]) ?ghost (sd_hist s) (sd_seq s)) (\<lambda>_ _. True) s"
    for pe amt cur pid dv
    using insert_sub_inv [of s "new_sub_row req i now pe amt cur pid dv" ?why] assms by simp
  have bun: "wp (insert_bundle i specs now pe) (\<lambda>_. mid_create subs ?ghost (sd_hist s) (sd_seq s)) (\<lambda>_ _. True) t"
    if "mid_create subs ?ghost (sd_hist s) (sd_seq s) t" "i \<in> sb_id ` set subs" for subs specs pe t
    by (rule insert_bundle_inv [OF that])
  have body: "wp (insert_sub (new_sub_row req i now pe amt cur pid dv)) (\<lambda>_.
      wp (insert_bundle i specs now pe) (\<lambda>_ t. sub_inv (t\<lparr>sd_hist := sd_hist t @
        [\<lparr>hs_sub = i, hs_from = ''pending'', hs_to = ''active'', hs_reason = ?why\<rparr>]\<rparr>)) (\<lambda>_ _. True)) (\<lambda>_ _. True) s"
    for pe amt cur pid dv specs
  proof (rule wp_mono [OF ins])
    fix t :: sub_db assume "mid_create (sd_subs s @ [new_sub_row req i now pe amt cur pid dv]) ?ghost (sd_hist s) (sd_seq s) t"
    from wp_mono [OF bun [OF this]]
    show "wp (insert_bundle i specs now pe) (\<lambda>_ t. sub_inv (t\<lparr>sd_hist := sd_hist t @
        [\<lparr>hs_sub = i, hs_from = ''pending'', hs_to = ''active'', hs_reason = ?why\<rparr>]\<rparr>)) (\<lambda>_ _. True) t"
      by (simp add: mid_create_def sub_inv_def)
  qed simp
  show ?thesis
    unfolding create_tx_def Let_def add_state_history_def
    using assms(1) body
    by (auto simp: wp_simps split: prod.splits sum.splits option.splits)
qed

lemma create_inv: "sub_inv s \<Longrightarrow> wp (create env ctx now req) (\<lambda>_. sub_inv) (\<lambda>_. sub_inv) s"
proof -
  assume inv: "sub_inv s"
  have seq: "sub_inv (s\<lparr>calls := k1, sd_seq := Suc (sd_seq s), calls := k2\<rparr>)" for k1 k2
    using inv consistent_seq [of _ _ _ "sd_seq s" "Suc (sd_seq s)"] by (simp add: sub_inv_def)
  show ?thesis
    unfolding create_def next_id_def
    using inv seq
    by (auto simp: wp_simps wp_charge wp_reread split: option.splits sum.splits intro!: create_tx_inv)
qed

section \<open>Renewal\<close>

lemma renew_declined_inv:
  assumes "sub_inv s" "tbl_find sb_id (sb_id r) (sd_subs s) = Some r"
  shows "wp (renew_declined ctx now r pr) (\<lambda>_. sub_inv) (\<lambda>_. sub_inv) s"
  unfolding renew_declined_def Let_def wp_in_tx
  by (rule wp_trigger)
     (use assms in \<open>auto simp: wp_simps update_sub_def add_state_history_def intro!: sub_inv_move\<close>)

lemma renew_balances_inv:
  assumes "sub_inv s" "i \<in> sb_id ` set (sd_subs s)"
  shows "wp (renew_balances i pending specs now pe) (\<lambda>_ t. sub_inv t \<and> sd_subs t = sd_subs s) (\<lambda>_ _. True) s"
proof -
  let ?I = "\<lambda>t. sub_inv t \<and> sd_subs t = sd_subs s"
  have upd: "wp (update_bal j f) (\<lambda>_. ?I) (\<lambda>_ _. True) t"
    if "?I t" "\<And>x. bl_id (f x) = bl_id x" "\<And>x. bl_sub (f x) = bl_sub x" "\<And>x. bl_type (f x) = bl_type x" for j f t
    using update_bal_inv [of t f j] that by auto
  have one: "wp (for_each bs (reset_balance pending specs now pe)) (\<lambda>_. ?I) (\<lambda>_ _. True) t" if "?I t" for bs t
    by (rule wp_for_each [where I = ?I])
       (use that upd in \<open>auto simp: reset_balance_def wp_simps split: option.splits\<close>)
  have two: "wp (for_each specs (\<lambda>a. if as_type a \<in> T then ret () else insert_bal (new_bal_row i (as_type a) (as_quantity a) (as_unit a) now (Some pe))))
      (\<lambda>_. ?I) (\<lambda>_ _. True) t" if "?I t" for T t
  proof (rule wp_for_each [where I = ?I])
    fix a t assume "?I t"
    then show "wp (if as_type a \<in> T then ret () else insert_bal (new_bal_row i (as_type a) (as_quantity a) (as_unit a) now (Some pe)))
        (\<lambda>_. ?I) (\<lambda>_ _. True) t"
      using insert_new_bal_inv [of t i "as_type a" "as_quantity a" "as_unit a" now "Some pe"] assms(2) by (simp add: wp_simps)
  qed (rule that)
  show ?thesis unfolding renew_balances_def
    by (simp only: wp_simps, rule wp_mono [OF one]) (use assms two in \<open>auto simp: wp_simps\<close>)
qed

lemma renew_approved_inv:
  assumes "sub_inv s" "tbl_find sb_id (sb_id r) (sd_subs s) = Some r"
  shows "wp (renew_approved ctx now r amt cur pid off ca pr) (\<lambda>_. sub_inv) (\<lambda>_. sub_inv) s"
proof -
  have mem: "sb_id r \<in> sb_id ` set (sd_subs s)" using tbl_find_SomeD [OF assms(2)] by auto
  have mv: "sub_inv (t\<lparr>sd_subs := tbl_update sb_id (sb_id r) f (sd_subs t),
      sd_hist := sd_hist t @ [\<lparr>hs_sub = sb_id r, hs_from = sb_state r, hs_to = b, hs_reason = ''renewal_payment_approved''\<rparr>]\<rparr>)"
    if "sub_inv t" "sd_subs t = sd_subs s" "keeps_keys f" "sb_state (f r) = b" "sub_allowed (sb_state r) b" for t b f
    by (rule sub_inv_move) (use that assms in auto)
  have st: "sb_state (pivot_row b o1 a c p n pe x) = b" "sb_state (vanilla_row b d n pe x) = b" for b o1 a c p n pe x d
    by (simp_all add: pivot_row_def vanilla_row_def)
  have rest: "wp (bindp (of_result (next_state (sb_state r) ''renew'')) (\<lambda>to.
       bindp (renew_row r now to amt cur pid) (\<lambda>_.
       bindp (add_state_history (sb_id r) (sb_state r) to ''renewal_payment_approved'') (\<lambda>_.
       stage_renewed ctx now r amt cur pid ca pr)))) (\<lambda>_. sub_inv) (\<lambda>_ _. True) t"
    if "sub_inv t \<and> sd_subs t = sd_subs s" for t
    by (rule wp_trigger)
       (use that in \<open>auto simp: renew_row_def Let_def wp_simps update_sub_def add_state_history_def stage_renewed_def
          st intro!: mv [OF conjunct1 [OF that] conjunct2 [OF that], simplified that] split: sum.splits\<close>)
  show ?thesis unfolding renew_approved_def wp_in_tx
    by (simp only: wp_bindp [of "renew_balances a b c d e" for a b c d e], rule wp_mono [OF renew_balances_inv [OF assms(1) mem]])
       (use assms(1) in \<open>auto intro: wp_weaken_err rest\<close>)
qed

lemma renew_inv: "sub_inv s \<Longrightarrow> wp (renew env ctx now i) (\<lambda>_. sub_inv) (\<lambda>_. sub_inv) s"
  unfolding renew_def Let_def
  by (auto simp: wp_simps wp_charge wp_reread split: option.splits sum.splits prod.splits
           intro!: renew_declined_inv renew_approved_inv elim: tbl_find_key)

section \<open>Plan change, migration, termination\<close>

lemma schedule_plan_change_inv: "sub_inv s \<Longrightarrow> wp (schedule_plan_change env ctx now i off) (\<lambda>_. sub_inv) (\<lambda>_. sub_inv) s"
  unfolding schedule_plan_change_def Let_def
  by (auto simp: wp_simps wp_reread update_sub_def split: option.splits sum.splits intro!: sub_inv_update)

lemma cancel_pending_plan_change_inv: "sub_inv s \<Longrightarrow> wp (cancel_pending_plan_change ctx now i) (\<lambda>_. sub_inv) (\<lambda>_. sub_inv) s"
  unfolding cancel_pending_plan_change_def Let_def
  by (auto simp: wp_simps wp_reread update_sub_def split: option.splits intro!: sub_inv_update)

lemma migrate_one_inv: "sub_inv s \<Longrightarrow> wp (migrate_one ctx now pid tia eff who r) (\<lambda>_. sub_inv) (\<lambda>_. sub_inv) s"
  unfolding migrate_one_def Let_def by (auto simp: wp_simps update_sub_def intro!: sub_inv_update)

lemma migrate_inv:
  "sub_inv s \<Longrightarrow> wp (migrate_subscriptions_to_price env ctx now off pid from nd who) (\<lambda>_. sub_inv) (\<lambda>_. sub_inv) s"
  unfolding migrate_subscriptions_to_price_def Let_def
  by (auto simp: wp_simps split: sum.splits
           intro!: wp_weaken_err [OF wp_mono [OF wp_for_each [where I = sub_inv and E = "\<lambda>_. sub_inv"]]] migrate_one_inv)

lemma terminate_inv: "sub_inv s \<Longrightarrow> wp (terminate ctx now i why rel) (\<lambda>_. sub_inv) (\<lambda>_. sub_inv) s"
  unfolding terminate_def Let_def
  by (auto simp: wp_simps wp_reread update_sub_def add_state_history_def split: option.splits sum.splits
           dest: next_state_allowed intro!: sub_inv_move_calls)

section \<open>The worker\<close>

lemma mark_renewal_attempted_inv: "sub_inv s \<Longrightarrow> wp (mark_renewal_attempted ids now) (\<lambda>_. sub_inv) E s"
  unfolding mark_renewal_attempted_def wp_modify sub_inv_def
  by (simp, rule consistent_map) (auto simp: keeps_keys_def)

lemma sweep_due_inv: "sub_inv s \<Longrightarrow> wp (sweep_due envs now tenant) (\<lambda>_. sub_inv) (\<lambda>_. sub_inv) s"
proof -
  assume inv: "sub_inv s"
  have loop: "wp (for_each ids (\<lambda>i. ignore_err (renew (envs i) worker_ctx now i))) (\<lambda>_. sub_inv) (\<lambda>_. sub_inv) t"
    if "sub_inv t" for ids t
    by (rule wp_for_each [where I = sub_inv]) (use that renew_inv in \<open>auto simp: wp_ignore_err\<close>)
  show ?thesis unfolding sweep_due_def
    using inv by (auto simp: wp_bindp wp_gets wp_if wp_ret intro!: wp_mono [OF mark_renewal_attempted_inv] loop)
qed

lemma stages_inv: "sub_inv s \<Longrightarrow> wp (for_each ids (\<lambda>i. stage c n et aty i (p i))) (\<lambda>_. sub_inv) (\<lambda>_. sub_inv) s"
  by (rule wp_for_each [where I = sub_inv]) (auto simp: wp_simps)

lemma sweep_skipped_inv: "sub_inv s \<Longrightarrow> wp (sweep_skipped now tenant) (\<lambda>_. sub_inv) (\<lambda>_. sub_inv) s"
  unfolding sweep_skipped_def
  by (auto simp: wp_in_tx wp_bindp wp_gets wp_if wp_ret intro!: wp_mono [OF stages_inv] mark_renewal_attempted_inv)

lemma tick_once_inv: "sub_inv s \<Longrightarrow> wp (tick_once envs now now' tenant) (\<lambda>_. sub_inv) (\<lambda>_. sub_inv) s"
  unfolding tick_once_def
  by (simp only: wp_bindp wp_ignore_err, rule wp_mono [OF sweep_due_inv]) (auto intro: sweep_skipped_inv)

section \<open>The usage consumer\<close>

lemma usage_rated_handler_inv: "sub_inv s \<Longrightarrow> wp (usage_rated_handler now body) (\<lambda>_. sub_inv) (\<lambda>_ _. True) s"
  unfolding usage_rated_handler_def
  by (auto simp: wp_simps handle_usage_rated_inv split: sum.splits)

lemma usage_rated_handler_inbox:
  "wp (usage_rated_handler now body) (\<lambda>_ t. inbox t = inbox s) (\<lambda>_ t. inbox t = inbox s) s"
  unfolding usage_rated_handler_def handle_usage_rated_def reject_roaming_def block_exhausted_def
  by (auto simp: wp_simps Let_def update_bal_def update_sub_def add_state_history_def split: sum.splits option.splits)

interpretation usage_consumer: event_handler "usage_rated_handler now" sub_inv
proof
  fix body and s :: sub_db
  show "inbox (snd (usage_rated_handler now body s)) = inbox s"
    using usage_rated_handler_inbox [of now body s] by (simp add: wp_same)
next
  fix body and s t :: sub_db
  show "sub_inv s \<Longrightarrow> usage_rated_handler now body s = (Inr (), t) \<Longrightarrow> sub_inv t"
    using wp_okD [OF usage_rated_handler_inv] by blast
qed simp_all

end
