(* ===== verification/SubProps.thy ===== *)
theory SubProps
  imports SubKeep
begin

text \<open>
  What the subscription service guarantees: the states it can reach, block-on-exhaust,
  idempotent activation, renewal, plan pivots and the renewal worker's dispatch.
\<close>

section \<open>Reachable states\<close>

text \<open>
  The operations of the service, as requests, consumed queues and worker ticks; an error
  is answered and the database it leaves is the next operation's.
\<close>

datatype sub_op =
    OpCreate sub_env request_ctx int create_request
  | OpConsume string nat int "(nat option \<times> json) list"
  | OpVas sub_env request_ctx int string string
  | OpRenew sub_env request_ctx int string
  | OpSchedule sub_env request_ctx int string string
  | OpCancel request_ctx int string
  | OpMigrate sub_env request_ctx int string string int int string
  | OpTerminate request_ctx int string string bool
  | OpTick "string \<Rightarrow> sub_env" int int string

fun sub_step :: "sub_op \<Rightarrow> sub_db \<Rightarrow> sub_db" where
  "sub_step (OpCreate env ctx now req) s = snd (create env ctx now req s)"
| "sub_step (OpConsume consumer max_retries now ms) s = consume_all consumer max_retries (usage_rated_handler now) ms s"
| "sub_step (OpVas env ctx now i off) s = snd (purchase_vas env ctx now i off s)"
| "sub_step (OpRenew env ctx now i) s = snd (renew env ctx now i s)"
| "sub_step (OpSchedule env ctx now i off) s = snd (schedule_plan_change env ctx now i off s)"
| "sub_step (OpCancel ctx now i) s = snd (cancel_pending_plan_change ctx now i s)"
| "sub_step (OpMigrate env ctx now off pid from nd who) s = snd (migrate_subscriptions_to_price env ctx now off pid from nd who s)"
| "sub_step (OpTerminate ctx now i why rel) s = snd (terminate ctx now i why rel s)"
| "sub_step (OpTick envs now now' tenant) s = snd (tick_once envs now now' tenant s)"

definition empty_sub_db :: sub_db where
  "empty_sub_db = \<lparr>outbox = [], inbox = [], calls = [], sd_seq = 1, sd_subs = [], sd_bals = [], sd_hist = [], sd_vas = []\<rparr>"

lemma sub_step_inv: "sub_inv s \<Longrightarrow> sub_inv (sub_step op s)"
  by (cases op)
     (simp_all add: usage_consumer.consume_inv
        create_inv [unfolded wp_same] purchase_vas_inv [unfolded wp_same] renew_inv [unfolded wp_same]
        schedule_plan_change_inv [unfolded wp_same] cancel_pending_plan_change_inv [unfolded wp_same]
        migrate_inv [unfolded wp_same] terminate_inv [unfolded wp_same] tick_once_inv [unfolded wp_same])

lemma sub_run_inv: "sub_inv s \<Longrightarrow> sub_inv (fold sub_step ops s)"
  by (induction ops arbitrary: s) (simp_all add: sub_step_inv)

lemma sub_reachable_inv: "sub_inv (fold sub_step ops empty_sub_db)"
  by (rule sub_run_inv) (simp add: sub_inv_def empty_sub_db_def sub_inv_empty)

text \<open>
  C1: Whatever requests, deliveries and worker ticks the subscription service has processed, in
  any order and with any answers from the other services, the state history of every
  subscription is a legal path of its state machine from \<open>pending\<close> to its current state, and
  a termination is its only and last terminal step.
\<close>

theorem subscription_history_legal:
  "list_all (\<lambda>r. legal_path sub_allowed ''pending''
        (trail (sb_id r) (map hist_key (sd_hist (fold sub_step ops empty_sub_db)))) (sb_state r) \<and>
      length (filter (\<lambda>h. sub_terminal (snd h)) (trail (sb_id r) (map hist_key (sd_hist (fold sub_step ops empty_sub_db))))) \<le> 1)
    (sd_subs (fold sub_step ops empty_sub_db))"
proof -
  let ?s = "fold sub_step ops empty_sub_db"
  have inv: "audited sub_allowed ''pending'' (map sub_key (sd_subs ?s)) (map hist_key (sd_hist ?s))"
    using sub_reachable_inv [of ops] by (simp add: sub_inv_def sub_consistent_def)
  have "(sb_id r, sb_state r) \<in> set (map sub_key (sd_subs ?s))" if "r \<in> set (sd_subs ?s)" for r
    using that by (force simp: sub_key_def)
  then show ?thesis
    using audited_path [OF inv] sub_fsm.terminal_once by (force simp: list_all_iff)
qed

text \<open>
  C9: In every reachable state no two live subscriptions hold the same MSISDN or the same eSIM, no
  two subscriptions come from the same commercial order, ids are distinct, and every balance
  has the id of its subscription and type and belongs to an existing subscription.
\<close>

theorem subscription_resources_exclusive:
  "subs_unique (sd_subs (fold sub_step ops empty_sub_db)) \<and>
   distinct (map sb_id (sd_subs (fold sub_step ops empty_sub_db))) \<and>
   bals_keyed (sd_subs (fold sub_step ops empty_sub_db)) (sd_bals (fold sub_step ops empty_sub_db))"
  using sub_reachable_inv [of ops] distinct_ids by (auto simp: sub_inv_def sub_consistent_def)

section \<open>Block on exhaust\<close>

lemma find_tbl_update:
  "find P rows = Some r \<Longrightarrow> (\<And>x. P (f x) = P x) \<Longrightarrow> find P (tbl_update key (key r) f rows) = Some (f r)"
  by (induction rows) (auto split: if_splits)

lemma find_tbl_update_other:
  "find P rows = Some r \<Longrightarrow> find P (tbl_update key k f rows) = Some r \<or> key r = k \<or> (\<exists>x \<in> set rows. P (f x) \<noteq> P x)"
  by (induction rows) (auto split: if_splits)

lemma get_balance_SomeD: "get_balance s i a = Some b \<Longrightarrow> b \<in> set (sd_bals s) \<and> bl_sub b = i \<and> bl_type b = a"
  by (auto simp: get_balance_def find_Some_iff)

lemma find_snapshot: "tbl_find bs_type a (map bal_snapshot (get_balances s i)) = map_option bal_snapshot (get_balance s i a)"
proof -
  have "tbl_find bs_type a (map bal_snapshot (filter (\<lambda>b. bl_sub b = i) rows))
      = map_option bal_snapshot (find (\<lambda>b. bl_sub b = i \<and> bl_type b = a) rows)" for rows
    by (induction rows) (auto simp: bal_snapshot_def)
  then show ?thesis by (simp add: get_balances_def get_balance_def)
qed

lemma exhausted_data:
  "get_balance s i ''data'' = Some b \<Longrightarrow>
   is_exhausted (map bal_snapshot (get_balances s i)) PRIMARY_ALLOWANCE_TYPE
     \<longleftrightarrow> bl_total b \<noteq> UNLIMITED \<and> remaining (bal_snapshot b) \<le> 0"
  by (simp add: is_exhausted_iff PRIMARY_ALLOWANCE_TYPE_def find_snapshot) (simp add: bal_snapshot_def)

lemma bal_snapshot_simps [simp]:
  "bs_type (bal_snapshot b) = bl_type b" "bs_total (bal_snapshot b) = bl_total b"
  "bs_consumed (bal_snapshot b) = bl_consumed b" "bs_unit (bal_snapshot b) = bl_unit b"
  by (simp_all add: bal_snapshot_def)

lemma filter_tbl_update_other: "filter (\<lambda>x. key x \<noteq> k) (tbl_update key k f rows) = filter (\<lambda>x. key x \<noteq> k) rows"
  if "\<And>x. key (f x) = key x"
  by (induction rows) (auto simp: that)

lemma exhaust_transition: "next_state ''active'' ''exhaust'' = Inr ''blocked''"
  by code_simp

text \<open>One rated event of home data on an active subscription.\<close>

definition data_ready :: "sub_db \<Rightarrow> string \<Rightarrow> bal_row \<Rightarrow> bool" where
  "data_ready s i b \<longleftrightarrow>
     (case tbl_find sb_id i (sd_subs s) of None \<Rightarrow> False | Some r \<Rightarrow> sb_state r = ''active'') \<and>
     get_balance s i ''data'' = Some b \<and> bl_total b \<noteq> UNLIMITED \<and>
     0 \<le> bl_consumed b \<and> bl_consumed b < bl_total b \<and> bl_total b \<le> i64_max"

definition sub_state_of :: "sub_db \<Rightarrow> string \<Rightarrow> string option" where
  "sub_state_of s i = map_option sb_state (tbl_find sb_id i (sd_subs s))"

lemma usage_data_step:
  assumes rdy: "data_ready s i b" and q: "0 < q" "bl_consumed b + q \<le> i64_max"
  defines "c \<equiv> min (bl_consumed b + q) (bl_total b)"
  shows "wp (handle_usage_rated ctx now i ''data'' q ue) (\<lambda>_ t.
      get_balance t i ''data'' = Some (b\<lparr>bl_consumed := c\<rparr>) \<and>
      sub_state_of t i = Some (if c = bl_total b then ''blocked'' else ''active'') \<and>
      filter (\<lambda>x. bl_id x \<noteq> bl_id b) (sd_bals t) = filter (\<lambda>x. bl_id x \<noteq> bl_id b) (sd_bals s) \<and>
      filter (\<lambda>x. sb_id x \<noteq> i) (sd_subs t) = filter (\<lambda>x. sb_id x \<noteq> i) (sd_subs s)) (\<lambda>_ _. False) s"
proof -
  obtain r where r: "tbl_find sb_id i (sd_subs s) = Some r" "sb_state r = ''active''"
    using rdy by (auto simp: data_ready_def split: option.splits)
  have b: "get_balance s i ''data'' = Some b" "bl_total b \<noteq> UNLIMITED" "0 \<le> bl_consumed b" "bl_consumed b < bl_total b" "bl_total b \<le> i64_max"
    using rdy by (auto simp: data_ready_def)
  have ok: "balance_ok (bal_snapshot b)" using b by (simp add: balance_ok_def)
  have cons: "bs_consumed (consume (bal_snapshot b) q) = c"
    using consume_small [OF ok] b q by (simp add: c_def)
  let ?f = "\<lambda>x. x\<lparr>bl_consumed := c\<rparr>"
  let ?s = "s\<lparr>sd_bals := tbl_update bl_id (bl_id b) ?f (sd_bals s)\<rparr>"
  have gb: "get_balance ?s i ''data'' = Some (?f b)"
    using b(1) unfolding get_balance_def by (simp add: find_tbl_update [of _ "sd_bals s" b])
  have "balance_ok (bal_snapshot (?f b))" using b q(1) by (auto simp: balance_ok_def c_def)
  then have rem: "remaining (bal_snapshot (?f b)) = bl_total b - c"
    using balance_ok_remaining [of "bal_snapshot (?f b)"] b(2) by simp
  have ex: "is_exhausted (map bal_snapshot (get_balances ?s i)) PRIMARY_ALLOWANCE_TYPE \<longleftrightarrow> c = bl_total b"
    using exhausted_data [OF gb] b(2) rem by (auto simp: c_def)
  have fs: "filter (\<lambda>x. bl_id x \<noteq> bl_id b) (tbl_update bl_id (bl_id b) ?f (sd_bals s)) = filter (\<lambda>x. bl_id x \<noteq> bl_id b) (sd_bals s)"
    by (rule filter_tbl_update_other) simp
  show ?thesis
    unfolding handle_usage_rated_def block_exhausted_def
    using r b(1) gb ex fs
    by (auto simp: wp_simps cons update_bal_def Let_def exhaust_transition update_sub_def add_state_history_def
        sub_state_of_def tbl_find_update filter_tbl_update_other get_balance_def)
qed

fun usage_stream :: "request_ctx \<Rightarrow> int \<Rightarrow> string \<Rightarrow> string \<Rightarrow> int list \<Rightarrow> sub_db \<Rightarrow> sub_db" where
  "usage_stream ctx now i atype [] s = s"
| "usage_stream ctx now i atype (q # qs) s =
     usage_stream ctx now i atype qs (snd (handle_usage_rated ctx now i atype q [] s))"

lemma inactive_usage:
  "sub_state_of s i \<noteq> Some ''active'' \<Longrightarrow> handle_usage_rated ctx now i a q ue s = (Inr (), s)"
  by (auto simp: sub_state_of_def handle_usage_rated_def bindp_def gets_def ret_def split: option.splits)

lemma inactive_stream: "sub_state_of s i \<noteq> Some ''active'' \<Longrightarrow> usage_stream ctx now i a qs s = s"
  by (induction qs) (simp_all add: inactive_usage)

text \<open>
  C11: A stream of rated data usage, however it is cut into events, consumes exactly the smaller of
  its sum and what was left, and the subscription ends blocked exactly when the allowance is
  used up; no other balance and no other subscription changes.
\<close>

theorem usage_stream_blocks_exactly:
  assumes "data_ready s i b" "list_all (\<lambda>q. 0 < q) qs" "bl_consumed b + sum_list qs \<le> i64_max"
  shows "get_balance (usage_stream ctx now i ''data'' qs s) i ''data''
           = Some (b\<lparr>bl_consumed := min (bl_consumed b + sum_list qs) (bl_total b)\<rparr>) \<and>
         sub_state_of (usage_stream ctx now i ''data'' qs s) i
           = Some (if bl_consumed b + sum_list qs \<ge> bl_total b then ''blocked'' else ''active'') \<and>
         filter (\<lambda>x. bl_id x \<noteq> bl_id b) (sd_bals (usage_stream ctx now i ''data'' qs s)) = filter (\<lambda>x. bl_id x \<noteq> bl_id b) (sd_bals s) \<and>
         filter (\<lambda>x. sb_id x \<noteq> i) (sd_subs (usage_stream ctx now i ''data'' qs s)) = filter (\<lambda>x. sb_id x \<noteq> i) (sd_subs s)"
  using assms
proof (induction qs arbitrary: s b)
  case Nil
  then show ?case by (auto simp: data_ready_def sub_state_of_def split: option.splits)
next
  case (Cons q qs)
  let ?c = "min (bl_consumed b + q) (bl_total b)"
  let ?t = "snd (handle_usage_rated ctx now i ''data'' q [] s)"
  have q: "0 < q" using Cons.prems(2) by simp
  have qs: "0 \<le> sum_list qs" using Cons.prems(2) by (intro sum_list_nonneg) (auto simp: list_all_iff less_imp_le)
  have "bl_consumed b + q \<le> i64_max" using Cons.prems(3) qs by simp
  note step = wp_total [OF usage_data_step [OF Cons.prems(1) q this, of ctx now "[]"]]
  show ?case
  proof (cases "?c = bl_total b")
    case True
    then have "usage_stream ctx now i ''data'' qs ?t = ?t" using step by (simp add: inactive_stream)
    moreover have "min (bl_consumed b + sum_list (q # qs)) (bl_total b) = bl_total b" "bl_total b \<le> bl_consumed b + sum_list (q # qs)"
      using True qs by auto
    ultimately show ?thesis using step True by (simp del: min_def)
  next
    case False
    then have less: "bl_consumed b + q < bl_total b" by auto
    have "data_ready ?t i (b\<lparr>bl_consumed := bl_consumed b + q\<rparr>)"
      using step less q Cons.prems(1) by (auto simp: data_ready_def sub_state_of_def split: option.splits)
    from Cons.IH [OF this] Cons.prems less step q qs show ?thesis by (auto simp: add.assoc)
  qed
qed

end
