(* ===== verification/SubAtomic.thy ===== *)
theory SubAtomic
  imports SubProps
begin

text \<open>
  All-or-nothing requests of the subscription service, idempotent activation, and what a
  rejected roaming event leaves behind.
\<close>

section \<open>Failed requests\<close>

definition same_rows :: "sub_db \<Rightarrow> sub_db \<Rightarrow> bool" where
  "same_rows s t \<longleftrightarrow> outbox t = outbox s \<and> inbox t = inbox s \<and> sd_subs t = sd_subs s \<and>
     sd_bals t = sd_bals s \<and> sd_hist t = sd_hist s \<and> sd_vas t = sd_vas s"

lemma same_rows_rollback [simp]: "same_rows s (rollback u t) = same_rows s u"
  by (simp add: same_rows_def rollback_def)

lemma same_rows_calls [simp]: "same_rows s (t\<lparr>calls := k\<rparr>) = same_rows s t" "same_rows s s"
  by (simp_all add: same_rows_def)

text \<open>The subscription read back after a committed transaction is still there.\<close>

definition has_sub :: "string \<Rightarrow> sub_db \<Rightarrow> bool" where
  "has_sub i t \<longleftrightarrow> i \<in> sb_id ` set (sd_subs t)"

lemma wp_reread_has: "has_sub i t \<Longrightarrow> wp (reread i what) (\<lambda>_ _. True) E t"
  by (auto simp: has_sub_def reread_def wp_simps get_sub_def tbl_find_None_iff split: option.splits)

lemma has_sub_find: "tbl_find sb_id i (sd_subs s) = Some r \<Longrightarrow> has_sub i s \<and> has_sub (sb_id r) s \<and> sb_id r = i"
  using tbl_find_SomeD [of sb_id i "sd_subs s" r] by (auto simp: has_sub_def)

lemma has_sub_update [simp]:
  "has_sub i (s\<lparr>outbox := x\<rparr>) = has_sub i s" "has_sub i (s\<lparr>sd_hist := h\<rparr>) = has_sub i s"
  "has_sub i (s\<lparr>sd_bals := b\<rparr>) = has_sub i s" "has_sub i (s\<lparr>sd_vas := v\<rparr>) = has_sub i s"
  "has_sub i (s\<lparr>calls := k\<rparr>) = has_sub i s" "has_sub i (s\<lparr>sd_subs := xs\<rparr>) = (i \<in> sb_id ` set xs)"
  by (simp_all add: has_sub_def)

lemma keeps_keys_image: "keeps_keys f \<Longrightarrow> i \<in> sb_id ` set (tbl_update sb_id j f xs) \<longleftrightarrow> i \<in> sb_id ` set xs"
  by (simp add: image_ids_update)

lemma wp_for_each_sub:
  "(\<And>x t. x \<in> set xs \<Longrightarrow> has_sub i t \<Longrightarrow> wp (f x) (\<lambda>_. has_sub i) (\<lambda>_ _. True) t) \<Longrightarrow> has_sub i s \<Longrightarrow>
   wp (for_each xs f) (\<lambda>_. has_sub i) (\<lambda>_ _. True) s"
  by (rule wp_for_each [where I = "has_sub i"])

lemma insert_bal_has: "has_sub i s \<Longrightarrow> wp (insert_bal b) (\<lambda>_. has_sub i) (\<lambda>_ _. True) s"
  by (simp add: insert_bal_def wp_simps)

lemma update_bal_has: "has_sub i s \<Longrightarrow> wp (update_bal j f) (\<lambda>_. has_sub i) (\<lambda>_ _. True) s"
  by (simp add: update_bal_def wp_simps)

lemma vas_tx_has: "has_sub i s \<Longrightarrow> wp (vas_tx env ctx now r off vas pr) (\<lambda>_. has_sub i) (\<lambda>_ t. same_rows s t) s"
  unfolding vas_tx_def Let_def insert_vas_def apply_allowance_def top_up_def insert_bal_def update_bal_def update_sub_def add_state_history_def
  by (auto simp: wp_simps keeps_keys_image has_sub_def split: option.splits sum.splits)

lemma renew_declined_has: "has_sub i s \<Longrightarrow> wp (renew_declined ctx now r pr) (\<lambda>_. has_sub i) (\<lambda>_ t. same_rows s t) s"
  unfolding renew_declined_def Let_def update_sub_def add_state_history_def
  by (auto simp: wp_simps keeps_keys_image has_sub_def split: sum.splits)

lemma renew_balances_has: "has_sub i s \<Longrightarrow> wp (renew_balances j pending specs now pe) (\<lambda>_. has_sub i) (\<lambda>_ _. True) s"
  unfolding renew_balances_def reset_balance_def
  by (auto simp: wp_simps insert_bal_has update_bal_has split: option.splits
           intro!: wp_mono [OF wp_for_each_sub] wp_for_each_sub)

lemma renew_approved_has:
  "has_sub i s \<Longrightarrow> wp (renew_approved ctx now r amt cur pid off ca pr) (\<lambda>_. has_sub i) (\<lambda>_ t. same_rows s t) s"
  unfolding renew_approved_def renew_row_def stage_renewed_def Let_def update_sub_def add_state_history_def
  by (simp only: wp_in_tx wp_bindp same_rows_rollback same_rows_calls, rule wp_mono [OF renew_balances_has])
     (auto simp: wp_simps keeps_keys_image has_sub_def split: sum.splits)

lemma create_tx_has: "wp (create_tx ctx req off i now p ca pr) (\<lambda>_. has_sub i) (\<lambda>_ t. same_rows s t) s"
proof -
  have bun: "has_sub i t \<Longrightarrow> wp (insert_bundle i specs now pe) (\<lambda>_. has_sub i) (\<lambda>_ _. True) t" for specs pe t
    unfolding insert_bundle_def by (rule wp_for_each_sub) (auto intro: insert_bal_has)
  have ins: "wp (insert_sub (new_sub_row req i now pe amt cur pid dv)) (\<lambda>_. has_sub i) (\<lambda>_ _. True) s" for pe amt cur pid dv
    by (auto simp: insert_sub_def wp_simps)
  show ?thesis
    unfolding create_tx_def Let_def add_state_history_def
    by (auto simp: wp_simps split: prod.splits sum.splits option.splits
             intro!: wp_mono [OF ins] wp_mono [OF bun])
qed

lemma tx_then_reread:
  assumes "wp m (\<lambda>_. has_sub i) (\<lambda>_ t. same_rows u t) u" "same_rows s u"
  shows "wp m (\<lambda>_. wp (reread i txt) (\<lambda>_ _. True) (\<lambda>_ t. same_rows s t)) (\<lambda>_ t. same_rows s t) u"
  by (rule wp_mono [OF assms(1)]) (use assms(2) in \<open>auto simp: same_rows_def intro: wp_reread_has\<close>)

lemma find_has: "tbl_find sb_id i (sd_subs s) = Some r \<Longrightarrow> i \<in> sb_id ` set (sd_subs s)"
  using tbl_find_SomeD [of sb_id i "sd_subs s" r] by auto

lemma same_rows_seq [simp]: "same_rows s (s\<lparr>sd_seq := n\<rparr>)"
  by (simp add: same_rows_def)

lemma create_atomic: "wp (create env ctx now req) (\<lambda>_ _. True) (\<lambda>_ t. same_rows s t) s"
  unfolding create_def next_id_def
  by (auto simp: wp_simps wp_charge split: option.splits sum.splits
           intro!: tx_then_reread create_tx_has)

lemma purchase_vas_atomic: "wp (purchase_vas env ctx now i off) (\<lambda>_ _. True) (\<lambda>_ t. same_rows s t) s"
  unfolding purchase_vas_def Let_def
  by (auto simp: wp_simps wp_charge split: option.splits sum.splits dest: has_sub_find
           intro!: tx_then_reread vas_tx_has)

lemma renew_atomic: "wp (renew env ctx now i) (\<lambda>_ _. True) (\<lambda>_ t. same_rows s t) s"
  unfolding renew_def Let_def
  by (auto simp: wp_simps wp_charge split: option.splits sum.splits prod.splits dest: has_sub_find
           intro!: tx_then_reread renew_declined_has renew_approved_has)

lemma plan_change_atomic:
  "wp (schedule_plan_change env ctx now i off) (\<lambda>_ _. True) (\<lambda>_ t. same_rows s t) s"
  "wp (cancel_pending_plan_change ctx now i) (\<lambda>_ _. True) (\<lambda>_ t. same_rows s t) s"
  unfolding schedule_plan_change_def cancel_pending_plan_change_def Let_def update_sub_def
  by (auto simp: wp_simps image_ids_update has_sub_def split: option.splits sum.splits dest: find_has intro!: wp_reread_has)

lemma terminate_atomic: "wp (terminate ctx now i why rel) (\<lambda>_ _. True) (\<lambda>_ t. same_rows s t) s"
  unfolding terminate_def Let_def update_sub_def add_state_history_def
  by (auto simp: wp_simps image_ids_update split: option.splits sum.splits dest: find_has intro!: wp_reread_has)

lemma migrate_atomic: "wp (migrate_subscriptions_to_price env ctx now off pid from nd who) (\<lambda>_ _. True) (\<lambda>_ t. same_rows s t) s"
proof -
  have "wp m (\<lambda>_ _. True) (\<lambda>_ _. True) s" for m :: "unit sub_prog" by (simp add: wp_same)
  then show ?thesis unfolding migrate_subscriptions_to_price_def Let_def
    by (auto simp: wp_simps split: sum.splits)
qed

text \<open>
  C12: A request the subscription service answers with an error (a policy, a declined card, an
  unreachable service, a database constraint) leaves every row, history entry and staged
  event as it was; only calls to other services may have been made.
\<close>

theorem failed_requests_change_no_row:
  "wp (create env ctx now req) (\<lambda>_ _. True) (\<lambda>_ t. same_rows s t) s \<and>
   wp (purchase_vas env ctx now i off) (\<lambda>_ _. True) (\<lambda>_ t. same_rows s t) s \<and>
   wp (renew env ctx now i) (\<lambda>_ _. True) (\<lambda>_ t. same_rows s t) s \<and>
   wp (schedule_plan_change env ctx now i off) (\<lambda>_ _. True) (\<lambda>_ t. same_rows s t) s \<and>
   wp (cancel_pending_plan_change ctx now i) (\<lambda>_ _. True) (\<lambda>_ t. same_rows s t) s \<and>
   wp (migrate_subscriptions_to_price env ctx now off pid from nd who) (\<lambda>_ _. True) (\<lambda>_ t. same_rows s t) s \<and>
   wp (terminate ctx now i why rel) (\<lambda>_ _. True) (\<lambda>_ t. same_rows s t) s"
  by (intro conjI create_atomic purchase_vas_atomic renew_atomic plan_change_atomic migrate_atomic terminate_atomic)

section \<open>Idempotent activation\<close>

definition order_row :: "create_request \<Rightarrow> string \<Rightarrow> sub_db \<Rightarrow> bool" where
  "order_row req i t \<longleftrightarrow> (\<exists>rows r. sd_subs t = rows @ [r] \<and> sb_id r = i \<and> i \<notin> sb_id ` set rows \<and>
     sb_order r = cr_order req \<and> (cr_order req \<noteq> None \<longrightarrow> cr_order req \<notin> sb_order ` set rows))"

lemma insert_bundle_subs: "wp (insert_bundle i specs now pe) (\<lambda>_ t. sd_subs t = sd_subs s) (\<lambda>_ _. True) s"
  unfolding insert_bundle_def
  by (rule wp_for_each [where I = "\<lambda>t. sd_subs t = sd_subs s"]) (auto simp: insert_bal_def wp_simps)

lemma order_row_frame: "sd_subs t = sd_subs u \<Longrightarrow> order_row req i t = order_row req i u"
  by (simp add: order_row_def)

lemma create_tx_order_row: "wp (create_tx ctx req off i now p ca pr) (\<lambda>_. order_row req i) (\<lambda>_ _. True) s"
proof -
  have ins: "wp (insert_sub (new_sub_row req i now pe amt cur pid dv)) (\<lambda>_. order_row req i) (\<lambda>_ _. True) u" for pe amt cur pid dv u
    by (auto simp: insert_sub_def wp_simps order_row_def)
  have bun: "order_row req i t \<Longrightarrow> wp (insert_bundle i specs now pe) (\<lambda>_. order_row req i) (\<lambda>_ _. True) t" for specs pe t
    by (rule wp_mono [OF insert_bundle_subs [of i specs now pe t]]) (simp_all add: order_row_def)
  have fr: "order_row req i t \<Longrightarrow> order_row req i (t\<lparr>sd_hist := h, outbox := x\<rparr>)" for t h x
    by (simp add: order_row_def)
  show ?thesis
    unfolding create_tx_def Let_def add_state_history_def
    by (auto simp: wp_simps split: prod.splits sum.splits option.splits
             intro!: wp_mono [OF ins] wp_mono [OF bun] fr)
qed

lemma order_row_reread:
  assumes "order_row req i t" "cr_order req = Some c"
  shows "wp (reread i what) (\<lambda>full u. u = t \<and> get_by_commercial_order t c = Some full) E t"
proof -
  obtain rows r where r: "sd_subs t = rows @ [r]" "sb_id r = i" "i \<notin> sb_id ` set rows" "sb_order r = Some c" "Some c \<notin> sb_order ` set rows"
    using assms by (auto simp: order_row_def)
  have "tbl_find sb_id i rows = None" "tbl_find sb_order (Some c) rows = None"
    using r by (simp_all add: tbl_find_None_iff)
  then show ?thesis
    using r by (simp add: reread_def wp_simps get_sub_def get_by_commercial_order_def tbl_find_append)
qed

lemma create_finds_order:
  assumes "cr_order req = Some c"
  shows "wp (create env ctx now req) (\<lambda>full t. get_by_commercial_order t c = Some full) (\<lambda>_ _. True) s"
proof -
  have fin: "wp (create_tx ctx req off i now p ca pr)
      (\<lambda>_. wp (reread i what) (\<lambda>full t. get_by_commercial_order t c = Some full) (\<lambda>_ _. True)) (\<lambda>_ _. True) u" for off i p ca pr u what
    by (rule wp_mono [OF create_tx_order_row]) (auto intro: wp_mono [OF order_row_reread [OF _ assms]])
  show ?thesis
    unfolding create_def next_id_def
    by (auto simp: wp_simps wp_charge assms split: option.splits sum.splits intro!: fin)
qed


section \<open>Roaming\<close>

text \<open>
  Roaming usage without a roaming allowance left is rejected: one \<open>usage.rejected\<close> event
  with the policy's rule is staged, and the subscription, its balances and its history stay
  as they were, so home data is unaffected.
\<close>

theorem roaming_rejection_only_reports:
  assumes "sub_state_of s i = Some ''active''"
    and "case get_balance s i ''data_roaming'' of None \<Rightarrow> True
         | Some b \<Rightarrow> bl_total b \<noteq> UNLIMITED \<and> wrap64 (bl_total b - bl_consumed b) \<le> 0"
  shows "\<exists>e. handle_usage_rated ctx now i ''data_roaming'' q ue s = (Inr (), s\<lparr>outbox := outbox s @ [e]\<rparr>) \<and>
    ev_type e = ''usage.rejected'' \<and> ev_agg_id e = i \<and>
    jget (ev_payload e) ''reason'' = Some (JStr ''subscription.usage_rated.roaming_balance_required'')"
proof -
  obtain r where r: "tbl_find sb_id i (sd_subs s) = Some r" "sb_state r = ''active''"
    using assms(1) by (auto simp: sub_state_of_def)
  show ?thesis
    using r assms(2)
    by (auto simp: handle_usage_rated_def bindp_def gets_def check_roaming_balance_required_def UNLIMITED_def Let_def
        reject_roaming_def stage_def modify_def stage_event_def update_conv' split: option.splits)
qed

end
