(* ===== verification/SubRenewal.thy ===== *)
theory SubRenewal
  imports SubAtomic
begin

text \<open>
  Renewal: what is charged over the life of a promotion, the pivot to a pending plan, the
  worker's mark-before-dispatch, and the renewal of a blocked subscription.
\<close>

section \<open>Vanilla renewals and the discount counter\<close>

definition renewed_row :: "sub_row \<Rightarrow> int \<Rightarrow> sub_row" where
  "renewed_row r now =
     vanilla_row ''active'' (if applying_discount r now \<and> sb_disc_left r > 0 then sb_disc_left r - 1 else sb_disc_left r)
       now (now + days PERIOD_DAYS) r"

fun call_amount :: "sub_call \<Rightarrow> rat" where
  "call_amount (Charge c m a cur p) = a"
| "call_amount _ = 0"

lemma keys_renewed: "sb_id (vanilla_row a d n p x) = sb_id x" "sb_id (pivot_row a o1 c cc e n p x) = sb_id x"
  by (simp_all add: vanilla_row_def pivot_row_def)

lemma renew_transitions: "next_state ''active'' ''renew'' = Inr ''active''" "next_state ''active'' ''renew_fail'' = Inr ''blocked''"
  by code_simp+

lemma renew_balances_subs: "wp (renew_balances i pending specs now pe) (\<lambda>_ t. sd_subs t = sd_subs s \<and> calls t = calls s) (\<lambda>_ _. True) s"
proof -
  let ?I = "\<lambda>t. sd_subs t = sd_subs s \<and> calls t = calls s"
  have one: "wp (for_each bs (reset_balance pending specs now pe)) (\<lambda>_. ?I) (\<lambda>_ _. True) t" if "?I t" for bs t
    by (rule wp_for_each [where I = ?I]) (use that in \<open>auto simp: reset_balance_def update_bal_def wp_simps split: option.splits\<close>)
  have two: "wp (for_each specs (\<lambda>a. if as_type a \<in> T then ret () else insert_bal (new_bal_row i (as_type a) (as_quantity a) (as_unit a) now (Some pe))))
      (\<lambda>_. ?I) (\<lambda>_ _. True) t" if "?I t" for T t
    by (rule wp_for_each [where I = ?I]) (use that in \<open>auto simp: insert_bal_def wp_simps\<close>)
  show ?thesis unfolding renew_balances_def
    by (simp only: wp_simps, rule wp_mono [OF one]) (use two in \<open>auto simp: wp_simps\<close>)
qed

definition paid_renewal :: "sub_row \<Rightarrow> sub_row \<Rightarrow> rat \<Rightarrow> string \<Rightarrow> sub_db \<Rightarrow> sub_full \<Rightarrow> sub_db \<Rightarrow> bool" where
  "paid_renewal r r' a cur s full t \<longleftrightarrow>
     sb_state (fst full) = ''active'' \<longrightarrow>
       (\<exists>m. calls t = calls s @ [Charge (sb_customer r) m a cur ''renewal'']) \<and>
       tbl_find sb_id (sb_id r) (sd_subs t) = Some r' \<and> fst full = r'"

lemma renew_declined_blocked:
  assumes "tbl_find sb_id i (sd_subs u) = Some r" "sb_state r = ''active''"
  shows "wp (renew_declined ctx now r pr) (\<lambda>_. wp (reread i what) (\<lambda>full t. sb_state (fst full) = ''blocked'') (\<lambda>_ _. True)) (\<lambda>_ _. True) u"
  using assms tbl_find_SomeD [OF assms(1)]
  by (simp add: renew_declined_def Let_def wp_simps renew_transitions update_sub_def add_state_history_def
      reread_def get_sub_def tbl_find_update hydrate_def)

lemma renew_approved_row:
  assumes "tbl_find sb_id i (sd_subs u) = Some r" "sb_state r = ''active''"
  shows "wp (renew_approved ctx now r amt cur pid off ca pr)
    (\<lambda>_. wp (reread i what) (\<lambda>full t. calls t = calls u \<and>
        (\<exists>r'. tbl_find sb_id i (sd_subs t) = Some r' \<and> fst full = r' \<and>
          (if applying_pending r now
           then \<exists>stored. to_numeric 10 amt = Inr stored \<and>
             r' = pivot_row ''active'' (unwrap_or (sb_offering r) (sb_pend_offering r)) stored cur pid now (now + days PERIOD_DAYS) r
           else r' = renewed_row r now))) (\<lambda>_ _. True)) (\<lambda>_ _. True) u"
  unfolding renew_approved_def renew_row_def stage_renewed_def Let_def update_sub_def add_state_history_def
  using assms tbl_find_SomeD [OF assms(1)]
  by (simp only: wp_in_tx wp_bindp, intro wp_mono [OF renew_balances_subs [of _ _ _ _ _ u]])
     (auto simp: wp_simps renew_transitions reread_def get_sub_def tbl_find_update keys_renewed hydrate_def renewed_row_def
           split: sum.splits)

lemma renew_vanilla:
  assumes r: "tbl_find sb_id i (sd_subs s) = Some r" "sb_state r = ''active''" "\<not> applying_pending r now"
    and a: "renewal_charge r now (sb_price r) = Inr a"
  shows "wp (renew env ctx now i) (paid_renewal r (renewed_row r now) a (sb_currency r) s) (\<lambda>_ _. True) s"
proof -
  have id: "sb_id r = i" using tbl_find_SomeD [OF r(1)] by simp
  have dec: "wp (renew_declined ctx now r pr) (\<lambda>_. wp (reread i what) (paid_renewal r (renewed_row r now) a (sb_currency r) s) (\<lambda>_ _. True)) (\<lambda>_ _. True) (s\<lparr>calls := k\<rparr>)" for pr k what
    by (rule wp_mono [OF renew_declined_blocked [of i "s\<lparr>calls := k\<rparr>" r ctx now pr what]])
       (use r in \<open>auto simp: paid_renewal_def elim!: wp_mono\<close>)
  have app: "wp (renew_approved ctx now r amt cur pid off ca pr) (\<lambda>_. wp (reread i what) (paid_renewal r (renewed_row r now) a (sb_currency r) s) (\<lambda>_ _. True)) (\<lambda>_ _. True)
      (s\<lparr>calls := calls s @ [Charge (sb_customer r) m a (sb_currency r) ''renewal'']\<rparr>)" for amt cur pid off ca pr m what
    by (rule wp_mono [OF renew_approved_row [of i _ r ctx now amt cur pid off ca pr what]])
       (use r id in \<open>auto simp: paid_renewal_def elim!: wp_mono\<close>)
  show ?thesis
    unfolding renew_def Let_def renewal_terms_def
    using r a by (auto simp: wp_simps wp_charge split: sum.splits intro!: dec app)
qed

text \<open>Successive renewals that each leave the subscription active; \<open>None\<close> when one does not.\<close>

fun renew_all :: "request_ctx \<Rightarrow> string \<Rightarrow> (sub_env \<times> int) list \<Rightarrow> sub_db \<Rightarrow> sub_db option" where
  "renew_all ctx i [] s = Some s"
| "renew_all ctx i ((env, now) # rs) s =
     (case renew env ctx now i s of
        (Inr full, t) \<Rightarrow> if sb_state (fst full) = ''active'' then renew_all ctx i rs t else None
      | _ \<Rightarrow> None)"

text \<open>The renewals at the promotional price: all of them when the counter is negative.\<close>

definition discounted_count :: "int \<Rightarrow> nat \<Rightarrow> nat" where
  "discounted_count left n = (if left < 0 then n else min (nat left) n)"

lemma renewed_row_simps:
  "sb_id (renewed_row r now) = sb_id r" "sb_state (renewed_row r now) = ''active''"
  "sb_pend_offering (renewed_row r now) = sb_pend_offering r" "sb_disc_type (renewed_row r now) = sb_disc_type r"
  "sb_disc_value (renewed_row r now) = sb_disc_value r" "sb_price (renewed_row r now) = sb_price r"
  "sb_disc_left (renewed_row r now) = (if applying_discount r now \<and> sb_disc_left r > 0 then sb_disc_left r - 1 else sb_disc_left r)"
  by (simp_all add: renewed_row_def vanilla_row_def)

lemma renewal_charge_promo:
  "sb_pend_offering r = None \<Longrightarrow> sb_disc_type r = Some dt \<Longrightarrow> sb_disc_value r = Some dv \<Longrightarrow>
   apply_discount dt dv (sb_price r) = Inr d \<Longrightarrow>
   renewal_charge r now (sb_price r) = Inr (if sb_disc_left r \<noteq> 0 then d else sb_price r) \<and> \<not> applying_pending r now \<and>
   (applying_discount r now \<longleftrightarrow> sb_disc_left r \<noteq> 0)"
  by (simp add: renewal_charge_def applying_discount_def applying_pending_def)

text \<open>
  C15: Over any run of successful renewals of a subscription with a promotion, exactly the
  remaining number of periods is charged at the discounted price (every one when the
  counter is perpetual) and all later ones at the full price.
\<close>

theorem promotion_lasts_its_periods:
  assumes "renew_all ctx i rs s = Some t" "tbl_find sb_id i (sd_subs s) = Some r" "sb_state r = ''active''"
    and "sb_pend_offering r = None" "sb_disc_type r = Some dt" "sb_disc_value r = Some dv"
    and "apply_discount dt dv (sb_price r) = Inr d"
  shows "map call_amount (drop (length (calls s)) (calls t))
       = replicate (discounted_count (sb_disc_left r) (length rs)) d
       @ replicate (length rs - discounted_count (sb_disc_left r) (length rs)) (sb_price r)"
proof -
  have "\<exists>new. calls t = calls s @ new \<and> map call_amount new
       = replicate (discounted_count (sb_disc_left r) (length rs)) d
       @ replicate (length rs - discounted_count (sb_disc_left r) (length rs)) (sb_price r)"
    using assms
  proof (induction rs arbitrary: s r)
    case Nil
    then show ?case by (simp add: discounted_count_def)
  next
    case (Cons p rs)
    obtain env now where p: "p = (env, now)" by (cases p)
    note promo = renewal_charge_promo [OF Cons.prems(4-7), of now]
    let ?a = "if sb_disc_left r \<noteq> 0 then d else sb_price r"
    have id: "sb_id r = i" using tbl_find_SomeD [OF Cons.prems(2)] by simp
    obtain full u where ren: "renew env ctx now i s = (Inr full, u)" "sb_state (fst full) = ''active''"
        "renew_all ctx i rs u = Some t"
      using Cons.prems(1) p by (auto split: prod.splits sum.splits if_splits)
    have "paid_renewal r (renewed_row r now) ?a (sb_currency r) s full u"
      using wp_okD [OF renew_vanilla [OF Cons.prems(2,3) conjunct1 [OF conjunct2 [OF promo]] conjunct1 [OF promo]] ren(1)] .
    then obtain m where u: "calls u = calls s @ [Charge (sb_customer r) m ?a (sb_currency r) ''renewal'']"
        "tbl_find sb_id i (sd_subs u) = Some (renewed_row r now)"
      using ren(2) id by (auto simp: paid_renewal_def)
    have "\<exists>new. calls t = calls u @ new \<and> map call_amount new
       = replicate (discounted_count (sb_disc_left (renewed_row r now)) (length rs)) d
       @ replicate (length rs - discounted_count (sb_disc_left (renewed_row r now)) (length rs)) (sb_price r)"
      using Cons.IH [OF ren(3) u(2)] Cons.prems by (simp add: renewed_row_simps)
    then obtain new where new: "calls t = calls u @ new" "map call_amount new
       = replicate (discounted_count (sb_disc_left (renewed_row r now)) (length rs)) d
       @ replicate (length rs - discounted_count (sb_disc_left (renewed_row r now)) (length rs)) (sb_price r)" by blast
    have left: "sb_disc_left (renewed_row r now) = (if sb_disc_left r > 0 then sb_disc_left r - 1 else sb_disc_left r)"
      using promo by (auto simp: renewed_row_simps)
    consider (none) "sb_disc_left r = 0" | (some) "0 < sb_disc_left r" | (perpetual) "sb_disc_left r < 0" by linarith
    then have "?a # map call_amount new
       = replicate (discounted_count (sb_disc_left r) (length (p # rs))) d
       @ replicate (length (p # rs) - discounted_count (sb_disc_left r) (length (p # rs))) (sb_price r)"
    proof cases
      case none
      then show ?thesis using new(2) left by (simp add: discounted_count_def)
    next
      case some
      then have "nat (sb_disc_left r) = Suc (nat (sb_disc_left r - 1))" by simp
      then show ?thesis using new(2) left some by (simp add: discounted_count_def)
    next
      case perpetual
      then show ?thesis using new(2) left by (simp add: discounted_count_def)
    qed
    then show ?case using u(1) new(1) by (intro exI [of _ "Charge (sb_customer r) m ?a (sb_currency r) ''renewal'' # new"]) simp
  qed
  then show ?thesis by auto
qed

section \<open>Renewing a blocked subscription\<close>

lemma renew_balances_calls: "wp (renew_balances i False specs now pe) (\<lambda>_ t. calls t = calls s) (\<lambda>_ _. False) s"
proof -
  let ?I = "\<lambda>t. calls t = calls s"
  have one: "wp (for_each bs (reset_balance False specs now pe)) (\<lambda>_. ?I) (\<lambda>_ _. False) t" if "?I t" for bs t
    by (rule wp_for_each [where I = ?I]) (use that in \<open>auto simp: reset_balance_def update_bal_def wp_simps split: option.splits\<close>)
  show ?thesis unfolding renew_balances_def
    by (simp only: wp_simps, rule wp_mono [OF one]) (auto simp: wp_simps)
qed

lemma blocked_transitions:
  "next_state ''blocked'' ''renew'' = Inl (violate ''subscription.transition.invalid'' [(''state'', JStr ''blocked''), (''trigger'', JStr ''renew'')])"
  "next_state ''blocked'' ''renew_fail'' = Inl (violate ''subscription.transition.invalid'' [(''state'', JStr ''blocked''), (''trigger'', JStr ''renew_fail'')])"
  by code_simp+

text \<open>
  The renewal of a blocked subscription passes the policy, charges the card, and then fails:
  neither outcome of the payment is a transition of a blocked subscription, so every row is
  rolled back and the customer has been charged without being renewed.
\<close>

theorem blocked_renewal_charges_then_fails:
  assumes "tbl_find sb_id i (sd_subs s) = Some r" "sb_state r = ''blocked''"
    and "\<not> applying_pending r now" "\<not> applying_discount r now"
    and "env_offering env (sb_offering r) = Inr offering"
    and "default_method env ''subscription.renew.no_payment_method'' (sb_customer r) = Inr m"
    and "env_charge env (calls s) (Charge (sb_customer r) m (sb_price r) (sb_currency r) ''renewal'') = Inr outcome"
  shows "\<exists>v. renew env ctx now i s
      = (Inl (PolicyE v), s\<lparr>calls := calls s @ [Charge (sb_customer r) m (sb_price r) (sb_currency r) ''renewal'']\<rparr>) \<and>
    rule v = ''subscription.transition.invalid''"
proof -
  let ?c = "Charge (sb_customer r) m (sb_price r) (sb_currency r) ''renewal''"
  let ?s = "s\<lparr>calls := calls s @ [?c]\<rparr>"
  let ?E = "\<lambda>e t. t = ?s \<and> (\<exists>v. e = PolicyE v \<and> rule v = ''subscription.transition.invalid'')"
  have app: "wp (renew_approved ctx now r amt cur pid off ca pr) (\<lambda>_ _. False) ?E ?s" for amt cur pid off ca pr
    unfolding renew_approved_def
    by (simp only: assms(3) wp_in_tx wp_bindp, rule wp_mono [OF renew_balances_calls [of _ _ _ _ ?s]])
       (auto simp: wp_simps assms(2) blocked_transitions violate_def rollback_def)
  have dec: "wp (renew_declined ctx now r pr) (\<lambda>_ _. False) ?E ?s" for pr
    by (simp add: renew_declined_def Let_def wp_simps assms(2) blocked_transitions violate_def rollback_def)
  have "wp (renew env ctx now i) (\<lambda>_ _. False) ?E s"
    unfolding renew_def Let_def renewal_terms_def renewal_charge_def check_renew_allowed_def
    using assms by (auto simp: wp_simps wp_charge up_def intro!: wp_mono [OF app] wp_mono [OF dec])
  then show ?thesis by (auto simp: wp_def split: prod.splits sum.splits)
qed

section \<open>The worker's dispatch\<close>

definition attempted_at :: "string list \<Rightarrow> int \<Rightarrow> sub_db \<Rightarrow> bool" where
  "attempted_at ids now s \<longleftrightarrow> (\<forall>r \<in> set (sd_subs s). sb_id r \<in> set ids \<longrightarrow> sb_attempted_at r = Some now)"

lemma attempted_frame [simp]:
  "attempted_at ids now (s\<lparr>outbox := x\<rparr>) = attempted_at ids now s" "attempted_at ids now (s\<lparr>sd_hist := h\<rparr>) = attempted_at ids now s"
  "attempted_at ids now (s\<lparr>sd_bals := b\<rparr>) = attempted_at ids now s" "attempted_at ids now (s\<lparr>calls := k\<rparr>) = attempted_at ids now s"
  by (simp_all add: attempted_at_def)

lemma attempted_rollback [simp]: "attempted_at ids now (rollback s t) = attempted_at ids now s"
  by (simp add: rollback_def)

lemma attempted_update:
  "attempted_at ids now s \<Longrightarrow> (\<And>x. sb_id (f x) = sb_id x) \<Longrightarrow> (\<And>x. sb_attempted_at (f x) = sb_attempted_at x) \<Longrightarrow>
   attempted_at ids now (s\<lparr>sd_subs := tbl_update sb_id i f (sd_subs s)\<rparr>)"
  by (auto simp: attempted_at_def set_tbl_update split: if_splits)

lemma wp_reread_keep: "P t \<Longrightarrow> wp (reread i what) (\<lambda>_. P) (\<lambda>_. P) t"
  by (simp add: wp_reread)

lemma renew_keeps_attempt:
  assumes "attempted_at ids n s"
  shows "wp (renew env ctx now i) (\<lambda>_. attempted_at ids n) (\<lambda>_. attempted_at ids n) s"
proof -
  let ?P = "attempted_at ids n"
  have dec: "?P u \<Longrightarrow> wp (renew_declined ctx now r pr) (\<lambda>_. ?P) (\<lambda>_. ?P) u" for r pr u
    unfolding renew_declined_def Let_def update_sub_def add_state_history_def
    by (auto simp: wp_simps split: sum.splits intro!: attempted_update)
  have bal: "?P u \<Longrightarrow> wp (renew_balances j pending specs now pe) (\<lambda>_. ?P) (\<lambda>_ _. True) u" for j pending specs pe u
    by (rule wp_mono [OF renew_balances_subs [of _ _ _ _ _ u]]) (simp_all add: attempted_at_def)
  have app: "?P u \<Longrightarrow> wp (renew_approved ctx now r amt cur pid off ca pr) (\<lambda>_. ?P) (\<lambda>_. ?P) u" for r amt cur pid off ca pr u
    unfolding renew_approved_def renew_row_def stage_renewed_def Let_def update_sub_def add_state_history_def
    by (simp only: wp_in_tx wp_bindp attempted_rollback, rule wp_mono [OF bal])
       (auto simp: wp_simps pivot_row_def vanilla_row_def split: sum.splits intro!: attempted_update)
  show ?thesis
    unfolding renew_def Let_def
    using assms by (auto simp: wp_simps wp_charge wp_reread split: option.splits sum.splits prod.splits intro!: dec app)
qed


section \<open>The pivot to a pending plan\<close>

text \<open>What a balance holds in the first period of the new plan.\<close>

definition new_plan_balance :: "allowance_spec list \<Rightarrow> int \<Rightarrow> int \<Rightarrow> bal_row \<Rightarrow> bool" where
  "new_plan_balance specs now pe b \<longleftrightarrow>
     bl_total b = (case find (\<lambda>a. as_type a = bl_type b) specs of Some a \<Rightarrow> as_quantity a | None \<Rightarrow> 0) \<and>
     bl_consumed b = 0 \<and> bl_start b = Some now \<and> bl_end b = Some pe"

definition reset_row :: "allowance_spec list \<Rightarrow> int \<Rightarrow> int \<Rightarrow> bal_row \<Rightarrow> bal_row \<Rightarrow> bal_row" where
  "reset_row specs now pe b x =
     x\<lparr>bl_total := (case find (\<lambda>a. as_type a = bl_type b) specs of Some a \<Rightarrow> as_quantity a | None \<Rightarrow> 0),
       bl_consumed := 0, bl_start := Some now, bl_end := Some pe\<rparr>"

lemma reset_balance_eq: "reset_balance True specs now pe b = update_bal (bl_id b) (reset_row specs now pe b)"
  by (simp add: reset_balance_def reset_row_def [abs_def] split: option.splits)

lemma reset_row_keys [simp]:
  "bl_id (reset_row specs now pe b x) = bl_id x" "bl_sub (reset_row specs now pe b x) = bl_sub x"
  "bl_type (reset_row specs now pe b x) = bl_type x"
  by (simp_all add: reset_row_def)

lemma reset_loop:
  "distinct (map bl_id bs) \<Longrightarrow>
   wp (for_each bs (reset_balance True specs now pe))
     (\<lambda>_ t. sd_bals t = map (\<lambda>x. case tbl_find bl_id (bl_id x) bs of None \<Rightarrow> x | Some b \<Rightarrow> reset_row specs now pe b x) (sd_bals s)) E s"
proof (induction bs arbitrary: s)
  case Nil
  then show ?case by (simp add: wp_simps)
next
  case (Cons b bs)
  let ?s = "s\<lparr>sd_bals := tbl_update bl_id (bl_id b) (reset_row specs now pe b) (sd_bals s)\<rparr>"
  have notin: "tbl_find bl_id (bl_id b) bs = None" using Cons.prems by (simp add: tbl_find_None_iff)
  have ih: "wp (for_each bs (reset_balance True specs now pe))
     (\<lambda>_ t. sd_bals t = map (\<lambda>x. case tbl_find bl_id (bl_id x) bs of None \<Rightarrow> x | Some b \<Rightarrow> reset_row specs now pe b x) (sd_bals ?s)) E ?s"
    using Cons.prems by (intro Cons.IH) simp
  show ?case
    unfolding for_each.simps wp_bindp reset_balance_eq [of specs now pe b] update_bal_def [of "bl_id b"] wp_modify
    by (rule wp_mono [OF ih]) (auto simp: tbl_update_def notin split: option.splits)
qed

definition pivoting :: "string \<Rightarrow> allowance_spec list \<Rightarrow> int \<Rightarrow> int \<Rightarrow> string set \<Rightarrow> allowance_spec list \<Rightarrow> sub_db \<Rightarrow> bool" where
  "pivoting i specs now pe T pre t \<longleftrightarrow>
     (\<forall>b \<in> set (get_balances t i). new_plan_balance specs now pe b) \<and>
     as_type ` set pre \<union> T \<subseteq> bl_type ` set (get_balances t i) \<and>
     (\<forall>b \<in> set (sd_bals t). bl_id b = bal_id_of (bl_sub b) (bl_type b))"

lemma pivoting_insert:
  assumes "pivoting i specs now pe T pre t" "specs = pre @ a # post" "bal_id_of i (as_type a) \<notin> bl_id ` set (sd_bals t)"
  shows "pivoting i specs now pe T (pre @ [a]) (t\<lparr>sd_bals := sd_bals t @ [new_bal_row i (as_type a) (as_quantity a) (as_unit a) now (Some pe)]\<rparr>)"
proof -
  have "as_type a \<notin> bl_type ` set (get_balances t i)"
    using assms(1,3) by (force simp: pivoting_def get_balances_def)
  then have pre: "as_type a \<notin> as_type ` set pre" using assms(1) by (auto simp: pivoting_def)
  have "find (\<lambda>x. as_type x = as_type a) (pre @ a # post) = Some a" using pre by (induction pre) auto
  then have "new_plan_balance specs now pe (new_bal_row i (as_type a) (as_quantity a) (as_unit a) now (Some pe))"
    by (simp add: new_plan_balance_def assms(2)) (simp add: new_bal_row_def)
  then show ?thesis using assms(1) by (auto simp: pivoting_def get_balances_def)
qed

lemma insert_loop:
  assumes "pivoting i specs now pe T pre t" "specs = pre @ post"
  shows "wp (for_each post (\<lambda>a. if as_type a \<in> T then ret ()
      else insert_bal (new_bal_row i (as_type a) (as_quantity a) (as_unit a) now (Some pe)))) (\<lambda>_. pivoting i specs now pe T specs) (\<lambda>_ _. True) t"
  using assms
proof (induction post arbitrary: pre t)
  case Nil
  then show ?case by (simp add: wp_simps)
next
  case (Cons a post)
  have snoc: "specs = (pre @ [a]) @ post" using Cons.prems(2) by simp
  have old: "pivoting i specs now pe T (pre @ [a]) t" if "as_type a \<in> T"
    using Cons.prems(1) that by (auto simp: pivoting_def)
  show ?case
    using Cons.IH [OF old snoc] Cons.IH [OF pivoting_insert [OF Cons.prems] snoc]
    by (auto simp: wp_simps insert_bal_def)
qed

lemma renew_balances_pivot:
  assumes "sub_inv s"
  shows "wp (renew_balances i True specs now pe) (\<lambda>_. pivoting i specs now pe {} specs) (\<lambda>_ _. True) s"
proof -
  let ?bs = "get_balances s i"
  have keyed: "distinct (map bl_id (sd_bals s))" "\<forall>b \<in> set (sd_bals s). bl_id b = bal_id_of (bl_sub b) (bl_type b)"
    using assms by (auto simp: sub_inv_def sub_consistent_def bals_keyed_def)
  have dist: "distinct (map bl_id ?bs)" using keyed(1) by (simp add: get_balances_def distinct_map_filter)
  have found: "tbl_find bl_id (bl_id x) ?bs = (if bl_sub x = i then Some x else None)" if "x \<in> set (sd_bals s)" for x
  proof (cases "bl_sub x = i")
    case True
    then have x: "x \<in> set ?bs" using that by (simp add: get_balances_def)
    then obtain y where y: "tbl_find bl_id (bl_id x) ?bs = Some y" by (metis image_eqI not_None_eq tbl_find_None_iff)
    then have "y = x" using x tbl_find_SomeD [OF y] dist by (metis distinct_map inj_onD)
    then show ?thesis using y True by simp
  next
    case False
    have "bl_id x \<notin> bl_id ` set ?bs"
    proof
      assume "bl_id x \<in> bl_id ` set ?bs"
      then obtain y where "y \<in> set (sd_bals s)" "bl_sub y = i" "bl_id y = bl_id x" by (auto simp: get_balances_def)
      then show False using that keyed(1) False by (metis distinct_map inj_onD)
    qed
    then show ?thesis using False by (simp add: tbl_find_None_iff)
  qed
  have piv: "pivoting i specs now pe (bl_type ` set ?bs) [] t"
    if t: "sd_bals t = map (\<lambda>x. case tbl_find bl_id (bl_id x) ?bs of None \<Rightarrow> x | Some b \<Rightarrow> reset_row specs now pe b x) (sd_bals s)" for t
  proof -
    have t': "sd_bals t = map (\<lambda>x. if bl_sub x = i then reset_row specs now pe x x else x) (sd_bals s)"
      unfolding t by (rule map_cong) (auto simp: found)
    have "filter (\<lambda>b. bl_sub b = i) (map (\<lambda>x. if bl_sub x = i then reset_row specs now pe x x else x) xs)
        = map (\<lambda>x. reset_row specs now pe x x) (filter (\<lambda>b. bl_sub b = i) xs)" for xs
      by (induction xs) auto
    then have gb: "get_balances t i = map (\<lambda>x. reset_row specs now pe x x) ?bs"
      by (simp add: get_balances_def t')
    have npb: "new_plan_balance specs now pe (reset_row specs now pe x x)" for x
      by (simp add: new_plan_balance_def) (simp add: reset_row_def)
    show ?thesis unfolding pivoting_def gb
      using keyed(2) npb by (auto simp: t' image_image)
  qed
  have fin: "pivoting i specs now pe T pre t \<Longrightarrow> pivoting i specs now pe {} pre t" for T pre t
    by (auto simp: pivoting_def)
  show ?thesis
    unfolding renew_balances_def
    by (simp only: wp_simps if_True, rule wp_mono [OF reset_loop [OF dist]])
       (auto intro!: wp_mono [OF insert_loop [OF piv]] intro: fin)
qed

lemma renew_balances_both:
  assumes "sub_inv s"
  shows "wp (renew_balances i True specs now pe)
    (\<lambda>_ t. pivoting i specs now pe {} specs t \<and> sd_subs t = sd_subs s) (\<lambda>_ _. True) s"
  using renew_balances_pivot [OF assms, of i specs now pe] renew_balances_subs [of i True specs now pe s]
  by (auto simp: wp_def split: prod.splits sum.splits)

lemma pivot_approved:
  assumes "sub_inv u" "tbl_find sb_id i (sd_subs u) = Some r" "sb_state r = ''active''" "applying_pending r now"
  shows "wp (renew_approved ctx now r amt cur pid off ca pr)
    (\<lambda>_. wp (reread i what) (\<lambda>full t.
        (\<forall>b \<in> set (snd full). new_plan_balance (allowance_specs off) now (now + days PERIOD_DAYS) b) \<and>
        as_type ` set (allowance_specs off) \<subseteq> bl_type ` set (snd full) \<and>
        (\<exists>stored. fst full = pivot_row ''active'' (unwrap_or (sb_offering r) (sb_pend_offering r)) stored cur pid now (now + days PERIOD_DAYS) r)) (\<lambda>_ _. True)) (\<lambda>_ _. True) u"
  using assms tbl_find_SomeD [OF assms(2)]
  unfolding renew_approved_def renew_row_def stage_renewed_def Let_def update_sub_def add_state_history_def
  by (simp only: wp_in_tx wp_bindp, intro wp_mono [OF renew_balances_both])
     (auto simp: wp_simps renew_transitions reread_def get_sub_def tbl_find_update keys_renewed hydrate_def pivoting_def get_balances_def
           split: sum.splits)


end
