(* ===== verification/SubWitness.thy ===== *)
theory SubWitness
  imports SubRenewal
begin

text \<open>
  Concrete runs of the subscription service: one customer, one plan, other services that
  answer with fixed documents. Each theorem with hypotheses is applied to one of them.
\<close>

section \<open>The world\<close>

definition demo_offering :: json where
  "demo_offering = JObj
     [(''bundleAllowance'', JArr [JObj [(''allowanceType'', JStr ''data''), (''quantity'', JInt 5), (''unit'', JStr ''mb'')]]),
      (''productOfferingPrice'', JArr [JObj [(''id'', JStr ''P1''), (''priceType'', JStr ''recurring''),
         (''price'', JObj [(''taxIncludedAmount'', JObj [(''value'', JInt 20), (''unit'', JStr ''SGD'')])])]])]"

definition demo_price :: json where
  "demo_price = JObj [(''id'', JStr ''P2''),
     (''price'', JObj [(''taxIncludedAmount'', JObj [(''value'', JInt 30), (''unit'', JStr ''SGD'')])])]"

definition demo_env :: sub_env where
  "demo_env = \<lparr>env_customer = \<lambda>_. Inr (JObj [(''status'', JStr ''active'')]),
     env_msisdn = \<lambda>_. Inr (JObj [(''status'', JStr ''reserved'')]),
     env_esim = \<lambda>_. Inr (JObj [(''profileState'', JStr ''reserved'')]),
     env_offering = \<lambda>_. Inr demo_offering, env_active_offerings = \<lambda>_. Inr (JArr []),
     env_active_price = \<lambda>_. Inr demo_price, env_offering_price = \<lambda>_. Inr demo_price,
     env_vas = \<lambda>_. Inl NotFoundErr, env_methods = \<lambda>_. Inr (JArr [JObj [(''id'', JStr ''PM'')]]),
     env_charge = \<lambda>_ _. Inr (JObj [(''id'', JStr ''PAY''), (''status'', JStr ''approved'')]),
     env_decimal = \<lambda>_. None, env_uuid8 = ''abcd''\<rparr>"

definition demo_request :: create_request where
  "demo_request = \<lparr>cr_customer = ''C1'', cr_offering = ''PLAN_S'', cr_msisdn = ''900'', cr_iccid = ''89'',
     cr_method = ''PM'', cr_price = None, cr_order = Some ''ORD-1''\<rparr>"

definition demo_row :: "string \<Rightarrow> string option \<Rightarrow> string option \<Rightarrow> rat option \<Rightarrow> int \<Rightarrow> sub_row" where
  "demo_row state pend dt dv left =
     \<lparr>sb_id = ''SUB-0001'', sb_customer = ''C1'', sb_offering = ''PLAN_S'', sb_order = Some ''ORD-1'', sb_msisdn = ''900'',
      sb_iccid = ''89'', sb_cfs = None, sb_state = state, sb_reason = None, sb_activated_at = Some 0,
      sb_period_start = Some 0, sb_period_end = Some 10, sb_next_renewal_at = Some 10, sb_terminated_at = None,
      sb_price = 20, sb_currency = ''SGD'', sb_price_id = ''P1'', sb_pend_offering = pend,
      sb_pend_price_id = map_option (\<lambda>_. ''P2'') pend, sb_pend_at = map_option (\<lambda>_. 10) pend,
      sb_disc_type = dt, sb_disc_value = dv, sb_disc_left = left, sb_promo = None, sb_promo_def = None,
      sb_tenant = ''DEFAULT'', sb_attempted_at = None, sb_reminder_at = None\<rparr>"

definition demo_bal :: bal_row where
  "demo_bal = \<lparr>bl_id = ''SUB-0001-DATA'', bl_sub = ''SUB-0001'', bl_type = ''data'', bl_total = 5, bl_consumed = 1,
     bl_unit = ''mb'', bl_start = Some 0, bl_end = Some 10\<rparr>"

definition demo_db :: "sub_row \<Rightarrow> sub_db" where
  "demo_db r = \<lparr>outbox = [], inbox = [], calls = [], sd_seq = 2, sd_subs = [r], sd_bals = [demo_bal],
     sd_hist = [\<lparr>hs_sub = ''SUB-0001'', hs_from = ''pending'', hs_to = ''active'', hs_reason = []\<rparr>], sd_vas = []\<rparr>"

definition active_row :: sub_row where "active_row = demo_row ''active'' None None None 0"
definition promo_row :: sub_row where "promo_row = demo_row ''active'' None (Some ''percent'') (Some 50) 1"
definition pending_row :: sub_row where "pending_row = demo_row ''active'' (Some ''PLAN_M'') None None 0"
definition blocked_row :: sub_row where "blocked_row = demo_row ''blocked'' None None None 0"

section \<open>The runs\<close>

theorem usage_stream_blocks_exactly_witness:
  "sub_state_of (usage_stream default_ctx 3 ''SUB-0001'' ''data'' [2, 1] (demo_db active_row)) ''SUB-0001'' = Some ''active'' \<and>
   sub_state_of (usage_stream default_ctx 3 ''SUB-0001'' ''data'' [2, 1, 9] (demo_db active_row)) ''SUB-0001'' = Some ''blocked''"
proof -
  have rdy: "data_ready (demo_db active_row) ''SUB-0001'' demo_bal" by code_simp
  show ?thesis
    using usage_stream_blocks_exactly [OF rdy, of "[2, 1]" default_ctx 3] usage_stream_blocks_exactly [OF rdy, of "[2, 1, 9]" default_ctx 3]
    by (simp add: demo_bal_def i64_max_def)
qed


theorem roaming_rejection_only_reports_witness:
  "\<exists>e. handle_usage_rated default_ctx 3 ''SUB-0001'' ''data_roaming'' 7 [] (demo_db active_row)
     = (Inr (), (demo_db active_row)\<lparr>outbox := [e]\<rparr>) \<and> ev_type e = ''usage.rejected''"
proof -
  have "sub_state_of (demo_db active_row) ''SUB-0001'' = Some ''active''" by code_simp
  moreover have "get_balance (demo_db active_row) ''SUB-0001'' ''data_roaming'' = None" by code_simp
  ultimately show ?thesis
    using roaming_rejection_only_reports [of "demo_db active_row" "''SUB-0001''" default_ctx 3 7 "[]"]
    by (auto simp: demo_db_def)
qed

theorem promotion_lasts_its_periods_witness:
  "\<exists>t. renew_all default_ctx ''SUB-0001'' [(demo_env, 11), (demo_env, 12)] (demo_db promo_row) = Some t \<and>
     map call_amount (calls t) = [10, 20]"
proof -
  have "renew_all default_ctx ''SUB-0001'' [(demo_env, 11), (demo_env, 12)] (demo_db promo_row) \<noteq> None" by code_simp
  then obtain t where t: "renew_all default_ctx ''SUB-0001'' [(demo_env, 11), (demo_env, 12)] (demo_db promo_row) = Some t" by blast
  have r: "tbl_find sb_id ''SUB-0001'' (sd_subs (demo_db promo_row)) = Some promo_row"
    by (simp add: demo_db_def promo_row_def demo_row_def)
  have d: "apply_discount ''percent'' 50 (sb_price promo_row) = Inr 10" by code_simp
  show ?thesis
    using promotion_lasts_its_periods [OF t r _ _ _ _ d] t
    by (simp add: promo_row_def demo_row_def demo_db_def discounted_count_def numeral_2_eq_2)
qed

theorem blocked_renewal_charges_then_fails_witness:
  "\<exists>v. fst (renew demo_env default_ctx 11 ''SUB-0001'' (demo_db blocked_row)) = Inl (PolicyE v) \<and>
     calls (snd (renew demo_env default_ctx 11 ''SUB-0001'' (demo_db blocked_row))) = [Charge ''C1'' ''PM'' 20 ''SGD'' ''renewal'']"
proof -
  have r: "tbl_find sb_id ''SUB-0001'' (sd_subs (demo_db blocked_row)) = Some blocked_row"
    by (simp add: demo_db_def blocked_row_def demo_row_def)
  have m: "default_method demo_env ''subscription.renew.no_payment_method'' (sb_customer blocked_row) = Inr ''PM''" by code_simp
  show ?thesis
    using blocked_renewal_charges_then_fails [OF r _ _ _ _ m, of 11 demo_offering "JObj [(''id'', JStr ''PAY''), (''status'', JStr ''approved'')]" default_ctx]
    by (auto simp: blocked_row_def demo_row_def demo_env_def demo_db_def applying_pending_def applying_discount_def)
qed


end
