(* ===== verification/Pipeline.thy ===== *)
theory Pipeline
  imports Rating SubWitness
begin

text \<open>
  The usage pipeline across three services: mediation's ingest, rating's consumer and the
  subscription's consumer, each reading the document the one before it published.
\<close>

section \<open>The pipeline\<close>

text \<open>\<open>GET /subscription/by-msisdn/:msisdn\<close> as mediation's client sees it.\<close>

definition subscription_lookup :: "sub_db \<Rightarrow> string \<Rightarrow> client_error + json" where
  "subscription_lookup s msisdn =
     (case get_by_msisdn s msisdn of None \<Rightarrow> Inl NotFoundErr | Some full \<Rightarrow> Inr (to_subscription_response full))"

definition last_payload :: "('c, 'z) base_scheme \<Rightarrow> json" where
  "last_payload s = (if outbox s = [] then JNull else ev_payload (last (outbox s)))"

definition run_usage :: "(string \<Rightarrow> client_error + json) \<Rightarrow> request_ctx \<Rightarrow> int \<Rightarrow> ingest_request \<Rightarrow> sub_db \<Rightarrow> med_db
    \<Rightarrow> rating_db \<Rightarrow> sub_db" where
  "run_usage catalog ctx now req s m d =
     (case ingest (subscription_lookup s) None ctx now req m of
        (Inl _, _) \<Rightarrow> s
      | (Inr _, m') \<Rightarrow> (case handle_usage_recorded catalog None now (last_payload m') d of
          (Inl _, _) \<Rightarrow> s
        | (Inr _, d') \<Rightarrow> snd (usage_rated_handler now (last_payload d') s)))"

lemma stage_publish_run:
  "stage_publish_audit None ctx now et aty aid p s =
     (Inr (), s\<lparr>outbox := outbox s @ [stage_event ctx now (length (outbox s)) et aty aid (Some p)\<lparr>ev_published := False\<rparr>]\<rparr>)"
  by (simp add: stage_publish_audit_def bindp_def gets_def Let_def ret_def modify_def)

lemma response_fields:
  "get_str (to_subscription_response (r, bals)) ''id'' = Some (sb_id r)"
  "get_str (to_subscription_response (r, bals)) ''msisdn'' = Some (sb_msisdn r)"
  "get_str (to_subscription_response (r, bals)) ''state'' = Some (sb_state r)"
  "get_str (to_subscription_response (r, bals)) ''offeringId'' = Some (sb_offering r)"
  by (simp_all add: to_subscription_response_def get_str_def)

text \<open>What mediation publishes for an active subscription, rating reads back.\<close>

lemma recorded_body:
  assumes "in_i64 (ue_quantity evt)" "ue_sub evt = Some i"
  shows "usage_of_body (usage_recorded_payload evt (Some off)) =
     Inr \<lparr>us_event = ue_id evt, us_sub = i, us_msisdn = ue_msisdn evt, us_type = ue_type evt,
          us_quantity = ue_quantity evt, us_unit = ue_unit evt\<rparr>"
    "jget (usage_recorded_payload evt (Some off)) ''roamingIndicator'' = Some (JBool (ue_roaming evt))"
    "off \<noteq> [] \<Longrightarrow> require_offering_id (usage_recorded_payload evt (Some off)) = Inr off"
  using assms
  by (simp_all add: usage_of_body_def usage_recorded_payload_def str_field_def int_field_def get_str_def require_offering_id_def)

lemma ingest_active:
  assumes "lookup (iq_msisdn req) = Inr sub" "0 < iq_quantity req" "iq_type req = ''data''"
    and "get_str sub ''msisdn'' = Some (iq_msisdn req)" "get_str sub ''state'' = Some ''active''" "get_str sub ''id'' = Some i"
    and "get_str sub ''offeringId'' = Some off"
    and "''UE-'' @ pad6 (md_seq m) \<notin> ue_id ` set (md_rows m)"
  shows "\<exists>m'. ingest lookup None ctx now req m = (Inr (ingest_row req (''UE-'' @ pad6 (md_seq m)) (Some i)), m') \<and>
    last_payload m' = usage_recorded_payload (ingest_row req (''UE-'' @ pad6 (md_seq m)) (Some i)) (Some off)"
  using assms
  by (simp add: ingest_def policy_def bindp_def of_result_def check_positive_quantity_def check_valid_event_type_def VALID_EVENT_TYPES_def
      check_msisdn_matches_def check_subscription_active_def in_tx_def usage_next_id_def gets_def modify_def ret_def usage_insert_def
      Let_def stage_publish_run last_payload_def)

lemma rated_data:
  assumes "catalog off = Inr tariff" "has_allowance tariff ''data''" "off \<noteq> []"
    and "in_i64 (ue_quantity evt)" "ue_sub evt = Some i" "ue_type evt = ''data''" "ue_unit evt = ''mb''" "\<not> ue_roaming evt"
  shows "\<exists>d'. handle_usage_recorded catalog None now (usage_recorded_payload evt (Some off)) d = (Inr (), d') \<and>
    last_payload d' = JObj [(''usageEventId'', JStr (ue_id evt)), (''subscriptionId'', JStr i),
      (''allowanceType'', JStr ''data''), (''consumedQuantity'', JInt (ue_quantity evt)), (''unit'', JStr ''mb''),
      (''chargeAmount'', JStr ''0''), (''currency'', JStr (currency_of tariff)), (''offeringId'', JStr off)]"
  using assms recorded_body [OF assms(4,5), of off]
  by (simp add: handle_usage_recorded_def bindp_def map_err_def of_result_def decide_usage_outcome_def rate_usage_def
      event_type_to_allowance_def allowance_unit_def Let_def stage_and_publish_def stage_publish_run last_payload_def)


definition demo_ingest :: ingest_request where
  "demo_ingest = \<lparr>iq_msisdn = ''900'', iq_type = ''data'', iq_time = 2, iq_quantity = 3, iq_unit = ''mb'',
     iq_source = None, iq_cdr = None, iq_roaming = False\<rparr>"

definition empty_med_db :: med_db where
  "empty_med_db = \<lparr>outbox = [], inbox = [], calls = [], md_seq = 1, md_rows = []\<rparr>"

definition empty_rating_db :: rating_db where
  "empty_rating_db = \<lparr>outbox = [], inbox = [], calls = []\<rparr>"


section \<open>Recycled numbers\<close>

text \<open>
  A number is used, its subscription terminated, and the number sold again. The lookup by
  MSISDN takes the first row, so it finds the terminated subscription.
\<close>

definition second_request :: create_request where
  "second_request = demo_request\<lparr>cr_order := Some ''ORD-2''\<rparr>"

definition recycled_db :: sub_db where
  "recycled_db = fold sub_step
     [OpCreate demo_env default_ctx 0 demo_request, OpTerminate default_ctx 1 ''SUB-0001'' ''left'' True,
      OpCreate demo_env default_ctx 2 second_request] empty_sub_db"

text \<open>
  There is a reachable state in which a live, active subscription holds a number and yet
  every usage record of that number is refused at the edge: the lookup by MSISDN answers the
  terminated subscription the number belonged to before.
\<close>

theorem recycled_number_is_blocked:
  "list_ex (\<lambda>r. sb_msisdn r = ''900'' \<and> sb_state r = ''active'') (sd_subs recycled_db) \<and>
   (\<exists>v. fst (ingest (subscription_lookup recycled_db) mq ctx now (demo_ingest\<lparr>iq_quantity := q\<rparr>) m) = Inl (MedPolicy v))"
proof
  show "list_ex (\<lambda>r. sb_msisdn r = ''900'' \<and> sb_state r = ''active'') (sd_subs recycled_db)" by code_simp
next
  have "(case subscription_lookup recycled_db ''900'' of Inr sub \<Rightarrow> get_str sub ''msisdn'' = Some ''900'' \<and> get_str sub ''state'' = Some ''terminated''
      | Inl _ \<Rightarrow> False)" by code_simp
  then obtain sub where sub: "subscription_lookup recycled_db ''900'' = Inr sub" "get_str sub ''msisdn'' = Some ''900''"
      "get_str sub ''state'' = Some ''terminated''" by (auto split: sum.splits)
  have "wp (ingest (subscription_lookup recycled_db) mq ctx now (demo_ingest\<lparr>iq_quantity := q\<rparr>)) (\<lambda>_ _. False) (\<lambda>e _. \<exists>v. e = MedPolicy v) m"
    using sub unfolding ingest_def record_rejection_def
    by (auto simp: wp_simps Let_def demo_ingest_def check_positive_quantity_def check_valid_event_type_def VALID_EVENT_TYPES_def
        check_msisdn_matches_def check_subscription_active_def)
  then show "\<exists>v. fst (ingest (subscription_lookup recycled_db) mq ctx now (demo_ingest\<lparr>iq_quantity := q\<rparr>) m) = Inl (MedPolicy v)"
    by (auto simp: wp_def split: prod.splits sum.splits)
qed

end
