(* ===== verification/DeliveryProps.thy ===== *)
theory DeliveryProps
  imports Pipeline
begin

text \<open>
  What the shared crates promise the services: at-least-once publication by the outbox
  relay, bounded redelivery and exactly-once effect in the safe consumer, errors that keep
  their kind across a service boundary; and the arithmetic of a discount.
\<close>

section \<open>The outbox relay\<close>

lemma relay_run_messages: "map message_of (fst (relay_run ticks limit (rows, broker))) = map message_of rows"
  by (induction ticks arbitrary: rows broker) (auto simp: drain_once_eq case_prod_unfold)

text \<open>
  C18: At-least-once publication: whatever messages the broker refuses and whichever commits of
  the relay fail, after any run of ticks a row marked published has its message at the
  broker, the broker holds no message that was not staged, and no staged row was lost or
  altered.
\<close>

theorem relay_never_loses:
  assumes "distinct (map ev_id rows)" "list_all (\<lambda>e. \<not> ev_published e) rows" "relay_run ticks limit (rows, []) = (rows', broker)"
  shows "list_all (\<lambda>e. ev_published e \<longrightarrow> message_of e \<in> set broker) rows' \<and>
    set broker \<subseteq> set (map message_of rows) \<and> map message_of rows' = map message_of rows"
proof -
  have "relay_inv (rows, [])" using assms(1,2) by (auto intro!: relay_invI simp: list_all_iff)
  then have "relay_inv (rows', broker)" using relay_run_inv assms(3) by metis
  moreover have "map message_of rows' = map message_of rows" using relay_run_messages [of ticks limit rows "[]"] assms(3) by simp
  moreover have "set (map message_of rows') = message_of ` set rows'" by simp
  ultimately show ?thesis unfolding relay_inv_def list_all_iff by fastforce
qed

lemma drain_once_ids: "map ev_id (fst (drain_once accept committed limit (rows, broker))) = map ev_id rows"
  by (simp add: drain_once_eq)

text \<open>
  The relay drains its backlog: once the broker accepts messages and commits succeed, as many
  ticks as there are batches leave no row unpublished.
\<close>

theorem relay_drains_backlog:
  assumes "distinct (map ev_id rows)" "length (unpublished rows) \<le> ticks * limit"
  shows "unpublished (fst (relay_run (replicate ticks (\<lambda>_. Inr (), True)) limit (rows, broker))) = []"
  using assms
proof (induction ticks arbitrary: rows broker)
  case 0
  then show ?case by simp
next
  case (Suc ticks)
  obtain rows1 broker1 where t: "drain_once (\<lambda>_. Inr ()) True limit (rows, broker) = (rows1, broker1)" by fastforce
  have "length (unpublished rows1) = length (unpublished rows) - limit"
    using drain_once_progress [OF _ Suc.prems(1), of "\<lambda>_. Inr ()" limit broker] t by simp
  moreover have "distinct (map ev_id rows1)"
    using drain_once_ids [of "\<lambda>_. Inr ()" True limit rows broker] t Suc.prems(1) by simp
  ultimately show ?case using Suc.IH [of rows1 broker1] Suc.prems(2) t by simp
qed

definition demo_event :: "nat \<Rightarrow> event" where
  "demo_event n = stage_event default_ctx 0 n ''usage.rated'' ''usage'' ''UE-000001'' None"

theorem relay_never_loses_witness:
  "relay_run [(\<lambda>_. Inr (), False)] 100 ([demo_event 0], [])
     = ([demo_event 0], [message_of (demo_event 0)]) \<and>
   set [message_of (demo_event 0)] \<subseteq> set (map message_of [demo_event 0])"
proof -
  have run: "relay_run [(\<lambda>_. Inr (), False)] 100 ([demo_event 0], []) = ([demo_event 0], [message_of (demo_event 0)])"
    by code_simp
  have "distinct (map ev_id [demo_event 0])" "list_all (\<lambda>e. \<not> ev_published e) [demo_event 0]"
    by (simp_all add: demo_event_def)
  from relay_never_loses [OF this run] run show ?thesis by blast
qed

theorem relay_drains_backlog_witness:
  "unpublished (fst (relay_run (replicate 2 (\<lambda>_. Inr (), True)) 1 ([demo_event 0, demo_event 1], []))) = []"
proof -
  have "distinct (map ev_id [demo_event 0, demo_event 1])" by (simp add: demo_event_def)
  moreover have "length (unpublished [demo_event 0, demo_event 1]) \<le> 2 * 1" by code_simp
  ultimately show ?thesis by (rule relay_drains_backlog)
qed

section \<open>The safe consumer\<close>

text \<open>
  No message loops: whatever the handler does, every message is finally acknowledged or parked,
  after at least one and at most \<open>max_retries + 1\<close> deliveries.
\<close>

theorem message_life_bounded:
  "case message_life consumer max_retries handler 0 mid body s of
     (d, deliveries, t) \<Rightarrow> d \<in> {Acked, Parked} \<and> 1 \<le> deliveries \<and> deliveries \<le> max_retries + 1"
  using message_life_settles [of consumer max_retries handler 0 mid body s] by (auto split: prod.splits)

lemma usage_handler_rejects:
  "get_str body ''subscriptionId'' = None \<Longrightarrow> isl (fst (usage_rated_handler now body s))"
  by (simp add: usage_rated_handler_def req_str_def of_result_def bindp_def)

text \<open>
  A poison message is isolated: a rated-usage message that names no subscription is delivered
  exactly \<open>max_retries + 1\<close> times and then parked, and no row, history entry, staged event or
  inbox claim of it remains.
\<close>

theorem poison_usage_is_parked:
  assumes "get_str body ''subscriptionId'' = None" "(eid, consumer) \<notin> set (inbox s)"
  shows "\<exists>k. message_life consumer max_retries (usage_rated_handler now) 0 (Some eid) body s
      = (Parked, max_retries + 1, s\<lparr>calls := k\<rparr>)"
  using failing_life [of "usage_rated_handler now" body "Some eid" consumer s max_retries 0]
    usage_handler_rejects [OF assms(1)] assms(2) by simp


theorem poison_usage_is_parked_witness:
  "\<exists>k. message_life ''q'' 5 (usage_rated_handler 0) 0 (Some 1) (JObj []) empty_sub_db = (Parked, 6, empty_sub_db\<lparr>calls := k\<rparr>)"
  using poison_usage_is_parked [of "JObj []" 1 "''q''" empty_sub_db 5 0]
  by (simp add: get_str_def empty_sub_db_def)

definition demo_usage :: json where
  "demo_usage = JObj [(''subscriptionId'', JStr ''SUB-0001''), (''allowanceType'', JStr ''data''), (''consumedQuantity'', JInt 400)]"


section \<open>Errors between services\<close>

text \<open>
  Errors keep their kind across a service boundary: the client of a service reads every error
  the service renders as the same kind of error, a policy violation with its rule and context
  intact, and reads any response below 400 as a success.
\<close>

theorem errors_cross_the_wire:
  "handle_response (into_response message e) =
     Inl (case e of PolicyE v \<Rightarrow> PolicyErr v | NotFoundE _ \<Rightarrow> NotFoundErr | BadRequestE _ \<Rightarrow> HttpErr 400
          | ForbiddenE _ \<Rightarrow> HttpErr 403 | InternalE _ \<Rightarrow> ServerErr 500) \<and>
   handle_response (int (n mod 400), doc) = Inr doc"
  by (auto simp: handle_response_def into_response_def from_wire_to_wire split: api_error.splits)

section \<open>Discounts\<close>

lemma round2_at_most: "p \<le> of_int c / 100 \<Longrightarrow> 0 \<le> p \<Longrightarrow> round2 p \<le> of_int c / 100"
  using round2_mono [of p "of_int c / 100"] by (simp add: round2_cents)

lemma round2_is_cents: "\<exists>k. round2 q = of_int k / 100"
proof (cases "q < 0")
  case True
  then have "round2 q = of_int (- \<lfloor>- q * 100 + 1 / 2\<rfloor>) / 100" by (simp add: round2_def)
  then show ?thesis by blast
qed (auto simp: round2_def)

text \<open>
  A discounted price is a whole number of cents between zero and the full price, within half a
  cent of the exact discount: a percentage of the price, or a fixed amount off it, never below
  zero.
\<close>

theorem discount_within_price:
  assumes "apply_discount dtype dv (of_int cents / 100) = Inr a" "0 \<le> dv" "0 \<le> cents"
  shows "0 \<le> a \<and> a \<le> of_int cents / 100 \<and> (\<exists>k. a = of_int k / 100) \<and>
    \<bar>a - max 0 (if dtype = ''percent'' then of_int cents / 100 * (100 - dv) / 100 else of_int cents / 100 - dv)\<bar> \<le> 1 / 200"
proof -
  let ?base = "of_int cents / 100 :: rat"
  let ?exact = "max 0 (if dtype = ''percent'' then ?base * (100 - dv) / 100 else ?base - dv)"
  have a: "a = round2 ?exact" using assms(1) by (auto simp: apply_discount_def split: if_splits)
  have base: "0 \<le> ?base" using assms(3) by simp
  have "?base * (100 - dv) / 100 \<le> ?base * 100 / 100"
    using base assms(2) by (intro divide_right_mono mult_left_mono) auto
  moreover have "?base - dv \<le> ?base" using assms(2) by simp
  ultimately have "?exact \<le> ?base" using base by (simp only: max.bounded_iff split: if_split) simp
  then have "a \<le> ?base" unfolding a by (intro round2_at_most) auto
  moreover have "0 \<le> a" unfolding a by (rule round2_nonneg) simp
  ultimately show ?thesis using round2_is_cents round2_error unfolding a by blast
qed

theorem discount_within_price_witness:
  "\<bar>(1333 / 100 :: rat) - max 0 (if ''percent'' = ''percent'' then of_int 1999 / 100 * (100 - 100 / 3) / 100 else of_int 1999 / 100 - 100 / 3)\<bar> \<le> 1 / 200"
proof -
  have d: "apply_discount ''percent'' (100 / 3) (of_int 1999 / 100) = Inr (1333 / 100)" by code_simp
  have "0 \<le> (100 / 3 :: rat)" "0 \<le> (1999 :: int)" by simp_all
  from discount_within_price [OF d this] show ?thesis by blast
qed

end
