(* ===== verification/Som.thy ===== *)
theory Som
  imports Consumer Lifecycle
begin

text \<open>
  \<open>services/som\<close>: service orders and services (CFS and RFS), the decomposition of a
  commercial order, and the handlers of provisioning task events (\<open>domain.rs\<close>,
  \<open>repo.rs\<close>, \<open>decomposition.rs\<close>, \<open>service.rs\<close>, \<open>consumer.rs\<close>).
\<close>

section \<open>State machines\<close>

definition TASK_TYPES :: "string list" where
  "TASK_TYPES = [''HLR_PROVISION'', ''PCRF_POLICY_PUSH'', ''OCS_BALANCE_INIT'', ''ESIM_PROFILE_PREPARE'']"

definition so_allowed :: "string \<Rightarrow> string list" where
  "so_allowed cur =
     (if cur = ''acknowledged'' then [''in_progress'']
      else if cur = ''in_progress'' then [''completed'', ''failed''] else [])"

definition svc_allowed :: "string \<Rightarrow> string list" where
  "svc_allowed cur =
     (if cur = ''designed'' then [''failed'', ''reserved'']
      else if cur = ''reserved'' then [''activated'', ''failed'']
      else if cur = ''activated'' then [''terminated''] else [])"

definition transition_violation :: "string \<Rightarrow> string \<Rightarrow> string \<Rightarrow> string list \<Rightarrow> violation" where
  "transition_violation r cur target allowed =
     Violation r (JObj [(''current_state'', JStr cur), (''target_state'', JStr target), (''allowed'', JArr (map JStr allowed))])"

definition check_service_order_transition :: "string \<Rightarrow> string \<Rightarrow> violation + unit" where
  "check_service_order_transition cur target =
     (if target \<notin> set (so_allowed cur)
      then Inl (transition_violation ''service_order.transition.invalid'' cur target (so_allowed cur)) else Inr ())"

definition check_service_transition :: "string \<Rightarrow> string \<Rightarrow> violation + unit" where
  "check_service_transition cur target =
     (if target \<notin> set (svc_allowed cur)
      then Inl (transition_violation ''service.transition.invalid'' cur target (svc_allowed cur)) else Inr ())"

section \<open>The database\<close>

record so_row =
  so_id :: string
  so_commercial :: string
  so_state :: string
  so_started :: "int option"
  so_completed :: "int option"
  so_tenant :: string

record soi_row =
  si_id :: string
  si_order :: string
  si_action :: string
  si_spec :: string
  si_target :: "string option"

record svc_row =
  sv_id :: string
  sv_spec :: string
  sv_type :: string
  sv_parent :: "string option"
  sv_state :: string
  sv_chars :: json
  sv_activated :: "int option"

record svc_hist =
  sh_svc :: string
  sh_from :: "string option"
  sh_to :: string
  sh_reason :: string

datatype som_call = ReserveMsisdn "string option" | ReserveEsim | SomReleaseMsisdn string | SomReleaseEsim string

record som_db = "som_call base" +
  sm_so_seq :: nat
  sm_soi_seq :: nat
  sm_svc_seq :: nat
  sm_orders :: "so_row list"
  sm_items :: "soi_row list"
  sm_svcs :: "svc_row list"
  sm_hist :: "svc_hist list"

type_synonym 'a som_prog = "(som_db, string, 'a) prog"

definition next_service_order_id :: "string som_prog" where
  "next_service_order_id =
     bindp (gets sm_so_seq) (\<lambda>n. bindp (modify (\<lambda>s. s\<lparr>sm_so_seq := n + 1\<rparr>)) (\<lambda>_. ret (''SO-'' @ pad4 n)))"

definition next_service_order_item_id :: "string som_prog" where
  "next_service_order_item_id =
     bindp (gets sm_soi_seq) (\<lambda>n. bindp (modify (\<lambda>s. s\<lparr>sm_soi_seq := n + 1\<rparr>)) (\<lambda>_. ret (''SOI-'' @ pad4 n)))"

definition next_service_id :: "string som_prog" where
  "next_service_id =
     bindp (gets sm_svc_seq) (\<lambda>n. bindp (modify (\<lambda>s. s\<lparr>sm_svc_seq := n + 1\<rparr>)) (\<lambda>_. ret (''SVC-'' @ pad4 n)))"

definition insert_service_order :: "so_row \<Rightarrow> unit som_prog" where
  "insert_service_order r =
     bindp (gets sm_orders) (\<lambda>rows.
       if so_id r \<in> so_id ` set rows then throw ''db error'' else modify (\<lambda>s. s\<lparr>sm_orders := sm_orders s @ [r]\<rparr>))"

definition insert_service_order_item :: "soi_row \<Rightarrow> unit som_prog" where
  "insert_service_order_item r =
     bindp (gets sm_items) (\<lambda>rows.
       if si_id r \<in> si_id ` set rows then throw ''db error'' else modify (\<lambda>s. s\<lparr>sm_items := sm_items s @ [r]\<rparr>))"

definition set_soi_target :: "string \<Rightarrow> string \<Rightarrow> unit som_prog" where
  "set_soi_target soi_id target =
     modify (\<lambda>s. s\<lparr>sm_items := tbl_update si_id soi_id (\<lambda>r. r\<lparr>si_target := Some target\<rparr>) (sm_items s)\<rparr>)"

definition coalesce :: "'a option \<Rightarrow> 'a option \<Rightarrow> 'a option" where
  "coalesce a b = (case a of None \<Rightarrow> b | Some _ \<Rightarrow> a)"

definition set_service_order_state :: "string \<Rightarrow> string \<Rightarrow> int option \<Rightarrow> int option \<Rightarrow> unit som_prog" where
  "set_service_order_state oid state started completed =
     modify (\<lambda>s. s\<lparr>sm_orders := tbl_update so_id oid (\<lambda>r. r\<lparr>so_state := state,
       so_started := coalesce started (so_started r), so_completed := coalesce completed (so_completed r)\<rparr>) (sm_orders s)\<rparr>)"

definition service_order_state :: "string \<Rightarrow> string option som_prog" where
  "service_order_state oid = gets (\<lambda>s. map_option so_state (tbl_find so_id oid (sm_orders s)))"

definition insert_service :: "string \<Rightarrow> string \<Rightarrow> string \<Rightarrow> string option \<Rightarrow> string \<Rightarrow> json \<Rightarrow> unit som_prog" where
  "insert_service sid spec type parent state chars =
     bindp (gets sm_svcs) (\<lambda>rows.
       if sid \<in> sv_id ` set rows then throw ''db error''
       else modify (\<lambda>s. s\<lparr>sm_svcs := sm_svcs s @ [\<lparr>sv_id = sid, sv_spec = spec, sv_type = type, sv_parent = parent,
              sv_state = state, sv_chars = chars, sv_activated = None\<rparr>]\<rparr>))"

definition set_service_state :: "string \<Rightarrow> string \<Rightarrow> unit som_prog" where
  "set_service_state sid state =
     modify (\<lambda>s. s\<lparr>sm_svcs := tbl_update sv_id sid (\<lambda>r. r\<lparr>sv_state := state\<rparr>) (sm_svcs s)\<rparr>)"

definition set_service_characteristics :: "string \<Rightarrow> json \<Rightarrow> unit som_prog" where
  "set_service_characteristics sid chars =
     modify (\<lambda>s. s\<lparr>sm_svcs := tbl_update sv_id sid (\<lambda>r. r\<lparr>sv_chars := chars\<rparr>) (sm_svcs s)\<rparr>)"

definition activate_service :: "string \<Rightarrow> int \<Rightarrow> unit som_prog" where
  "activate_service sid ts =
     modify (\<lambda>s. s\<lparr>sm_svcs := tbl_update sv_id sid (\<lambda>r. r\<lparr>sv_state := ''activated'', sv_activated := Some ts\<rparr>) (sm_svcs s)\<rparr>)"

definition get_service_for_update :: "string \<Rightarrow> svc_row option som_prog" where
  "get_service_for_update sid = gets (\<lambda>s. tbl_find sv_id sid (sm_svcs s))"

definition child_states :: "string \<Rightarrow> (string \<times> string) list som_prog" where
  "child_states parent_id =
     gets (\<lambda>s. map (\<lambda>r. (sv_id r, sv_state r)) (filter (\<lambda>r. sv_parent r = Some parent_id) (sm_svcs s)))"

definition svc_history :: "string \<Rightarrow> string option \<Rightarrow> string \<Rightarrow> string \<Rightarrow> unit som_prog" where
  "svc_history sid from_state to_state reason =
     modify (\<lambda>s. s\<lparr>sm_hist := sm_hist s @ [\<lparr>sh_svc = sid, sh_from = from_state, sh_to = to_state, sh_reason = reason\<rparr>]\<rparr>)"

definition som_policy :: "violation + unit \<Rightarrow> unit som_prog" where
  "som_policy r = of_result (case r of Inl v \<Rightarrow> Inl (''policy '' @ rule v) | Inr u \<Rightarrow> Inr u)"

section \<open>Decomposition\<close>

record decompose_request =
  dq_order :: string
  dq_customer :: string
  dq_offering :: string
  dq_preference :: "string option"
  dq_method :: string
  dq_price :: "json option"

text \<open>CRM's inventory: each answer may depend on the calls made before it.\<close>

record som_env =
  inv_reserve_msisdn :: "som_call list \<Rightarrow> string option \<Rightarrow> client_error + json"
  inv_reserve_esim :: "som_call list \<Rightarrow> client_error + json"

definition design_service :: "string \<Rightarrow> string \<Rightarrow> string option \<Rightarrow> string som_prog" where
  "design_service spec type parent =
     bindp next_service_id (\<lambda>sid.
     bindp (insert_service sid spec type parent ''designed'' (JObj [])) (\<lambda>_.
     bindp (svc_history sid None ''designed'' ''decomposition'') (\<lambda>_. ret sid)))"

definition reserve_service :: "string \<Rightarrow> unit som_prog" where
  "reserve_service sid =
     bindp (som_policy (check_service_transition ''designed'' ''reserved'')) (\<lambda>_.
     bindp (set_service_state sid ''reserved'') (\<lambda>_.
     svc_history sid (Some ''designed'') ''reserved'' ''inventory reserved''))"

text \<open>An eSIM that cannot be reserved gives the MSISDN back; a document without the number or the ICCID does not.\<close>

definition reserve_inventory :: "som_env \<Rightarrow> string option \<Rightarrow> (string \<times> string \<times> string \<times> string) som_prog" where
  "reserve_inventory env preference =
     bindp (gets calls) (\<lambda>c1.
     bindp (call_ext (ReserveMsisdn preference) (inv_reserve_msisdn env c1 preference)) (\<lambda>mr.
     case mr of Inl _ \<Rightarrow> throw ''reserve_next_msisdn failed''
     | Inr msisdn_result \<Rightarrow>
       bindp (gets calls) (\<lambda>c2.
       bindp (call_ext ReserveEsim (inv_reserve_esim env c2)) (\<lambda>er.
       case er of
         Inl _ \<Rightarrow>
           bindp (case get_str msisdn_result ''msisdn'' of None \<Rightarrow> ret () | Some m \<Rightarrow> call_ext (SomReleaseMsisdn m) ()) (\<lambda>_.
           throw ''reserve_esim failed'')
       | Inr esim_result \<Rightarrow>
           (case get_str msisdn_result ''msisdn'' of
              None \<Rightarrow> throw ''reserve_next_msisdn returned no msisdn''
            | Some msisdn \<Rightarrow> (case get_str esim_result ''iccid'' of
                None \<Rightarrow> throw ''reserve_esim returned no iccid''
              | Some iccid \<Rightarrow>
                  ret (msisdn, iccid, get_str_or esim_result ''imsi'' [],
                       unwrap_or [] (Option.bind (case jget esim_result ''activationCode'' of Some v \<Rightarrow> Some v
                                                  | None \<Rightarrow> jget esim_result ''activation_code'') as_str))))))))"

definition pending_tasks :: json where
  "pending_tasks = JObj (map (\<lambda>t. (t, JStr ''pending'')) TASK_TYPES)"

definition cfs_characteristics :: "decompose_request \<Rightarrow> string \<times> string \<times> string \<times> string \<Rightarrow> json" where
  "cfs_characteristics req res = (case res of (msisdn, iccid, imsi, activation_code) \<Rightarrow>
     JObj ([(''msisdn'', JStr msisdn), (''iccid'', JStr iccid), (''imsi'', JStr imsi), (''activationCode'', JStr activation_code),
       (''pendingTasks'', pending_tasks), (''commercialOrderId'', JStr (dq_order req)), (''customerId'', JStr (dq_customer req)),
       (''offeringId'', JStr (dq_offering req)), (''paymentMethodId'', JStr (dq_method req))]
       @ (case dq_price req of None \<Rightarrow> [] | Some p \<Rightarrow> [(''priceSnapshot'', p)])))"

definition task_payload :: "decompose_request \<Rightarrow> string \<times> string \<times> string \<times> string \<Rightarrow> string \<Rightarrow> string \<Rightarrow> string \<Rightarrow> json" where
  "task_payload req res cfs_id oid task_type = (case res of (msisdn, iccid, imsi, activation_code) \<Rightarrow>
     JObj [(''serviceId'', JStr cfs_id), (''serviceOrderId'', JStr oid), (''commercialOrderId'', JStr (dq_order req)),
       (''taskType'', JStr task_type),
       (''payload'', JObj [(''msisdn'', JStr msisdn), (''iccid'', JStr iccid), (''imsi'', JStr imsi),
          (''activationCode'', JStr activation_code), (''customerId'', JStr (dq_customer req)),
          (''offeringId'', JStr (dq_offering req))])])"

definition decompose_order :: "som_env \<Rightarrow> request_ctx \<Rightarrow> int \<Rightarrow> decompose_request \<Rightarrow> unit som_prog" where
  "decompose_order env ctx now req =
     bindp next_service_order_id (\<lambda>oid.
     bindp (insert_service_order \<lparr>so_id = oid, so_commercial = dq_order req, so_state = ''acknowledged'',
              so_started = None, so_completed = None, so_tenant = rc_tenant ctx\<rparr>) (\<lambda>_.
     bindp next_service_order_item_id (\<lambda>soi_id.
     bindp (insert_service_order_item \<lparr>si_id = soi_id, si_order = oid, si_action = ''add'', si_spec = ''MobileBroadband'',
              si_target = None\<rparr>) (\<lambda>_.
     bindp (design_service ''MobileBroadband'' ''CFS'' None) (\<lambda>cfs_id.
     bindp (design_service ''DataService'' ''RFS'' (Some cfs_id)) (\<lambda>rfs_data_id.
     bindp (design_service ''VoiceService'' ''RFS'' (Some cfs_id)) (\<lambda>rfs_voice_id.
     bindp (set_soi_target soi_id cfs_id) (\<lambda>_.
     bindp (for_each [rfs_data_id, rfs_voice_id] reserve_service) (\<lambda>_.
     bindp (reserve_inventory env (dq_preference req)) (\<lambda>res.
     bindp (set_service_characteristics cfs_id (cfs_characteristics req res)) (\<lambda>_.
     bindp (reserve_service cfs_id) (\<lambda>_.
     bindp (som_policy (check_service_order_transition ''acknowledged'' ''in_progress'')) (\<lambda>_.
     bindp (set_service_order_state oid ''in_progress'' (Some now) None) (\<lambda>_.
     bindp (stage ctx now ''service_order.in_progress'' ''ServiceOrder'' oid
              (JObj [(''serviceOrderId'', JStr oid), (''commercialOrderId'', JStr (dq_order req))])) (\<lambda>_.
     for_each TASK_TYPES (\<lambda>task_type. stage ctx now ''provisioning.task.created'' ''ProvisioningTask''
       (cfs_id @ '':'' @ task_type) (task_payload req res cfs_id oid task_type)))))))))))))))))"

section \<open>Task events\<close>

definition mark_pending :: "json \<Rightarrow> string \<Rightarrow> string \<Rightarrow> json \<times> (string \<times> json) list" where
  "mark_pending characteristics task_type status =
     (let chars = unwrap_or [] (as_object characteristics);
          pending = AList.update task_type (JStr status) (unwrap_or [] (Option.bind (map_of chars ''pendingTasks'') as_object))
      in (JObj (AList.update ''pendingTasks'' (JObj pending) chars), pending))"

definition all_completed :: "(string \<times> json) list \<Rightarrow> bool" where
  "all_completed pending \<longleftrightarrow> list_all (\<lambda>k. map_of pending k = Some (JStr ''completed'')) (map fst pending)"

definition cv_str :: "json \<Rightarrow> string \<Rightarrow> string" where
  "cv_str chars key = get_str_or chars key []"

definition completed_payload :: "json \<Rightarrow> string \<Rightarrow> string \<Rightarrow> string \<Rightarrow> json" where
  "completed_payload chars service_order_id commercial_order_id cfs_id =
     JObj ([(''serviceOrderId'', JStr service_order_id),
       (''commercialOrderId'', JStr (if commercial_order_id = [] then cv_str chars ''commercialOrderId'' else commercial_order_id)),
       (''customerId'', JStr (cv_str chars ''customerId'')), (''offeringId'', JStr (cv_str chars ''offeringId'')),
       (''msisdn'', JStr (cv_str chars ''msisdn'')), (''iccid'', JStr (cv_str chars ''iccid'')),
       (''paymentMethodId'', JStr (cv_str chars ''paymentMethodId'')), (''cfsServiceId'', JStr cfs_id)]
       @ (case jget chars ''priceSnapshot'' of None \<Rightarrow> [] | Some p \<Rightarrow> if is_null p then [] else [(''priceSnapshot'', p)]))"

definition activate_child :: "int \<Rightarrow> string \<times> string \<Rightarrow> unit som_prog" where
  "activate_child now child = (case child of (child_id, child_state) \<Rightarrow>
     bindp (som_policy (check_service_transition child_state ''activated'')) (\<lambda>_.
     bindp (activate_service child_id now) (\<lambda>_.
     svc_history child_id (Some ''reserved'') ''activated'' ''parent CFS activated'')))"

definition close_order :: "string \<Rightarrow> string \<Rightarrow> int \<Rightarrow> unit som_prog" where
  "close_order service_order_id target now =
     bindp (service_order_state service_order_id) (\<lambda>found.
     case found of None \<Rightarrow> ret ()
     | Some st \<Rightarrow>
         bindp (som_policy (check_service_order_transition st target)) (\<lambda>_.
         set_service_order_state service_order_id target None (Some now)))"

definition handle_task_completed :: "request_ctx \<Rightarrow> int \<Rightarrow> string \<Rightarrow> string \<Rightarrow> string \<Rightarrow> string \<Rightarrow> unit som_prog" where
  "handle_task_completed ctx now service_id task_type service_order_id commercial_order_id =
     bindp (get_service_for_update service_id) (\<lambda>found.
     case found of None \<Rightarrow> ret ()
     | Some cfs \<Rightarrow>
       if sv_state cfs = ''activated'' then ret ()
       else
       (case mark_pending (sv_chars cfs) task_type ''completed'' of (chars, pending) \<Rightarrow>
        if \<not> all_completed pending then set_service_characteristics service_id chars
        else
          bindp (som_policy (check_service_transition (sv_state cfs) ''activated'')) (\<lambda>_.
          bindp (set_service_characteristics service_id chars) (\<lambda>_.
          bindp (activate_service service_id now) (\<lambda>_.
          bindp (svc_history service_id (Some ''reserved'') ''activated'' ''all provisioning tasks completed'') (\<lambda>_.
          bindp (child_states service_id) (\<lambda>children.
          bindp (for_each children (activate_child now)) (\<lambda>_.
          bindp (close_order service_order_id ''completed'' now) (\<lambda>_.
          stage ctx now ''service_order.completed'' ''ServiceOrder'' service_order_id
            (completed_payload chars service_order_id commercial_order_id (sv_id cfs)))))))))))"

definition release_inventory :: "json \<Rightarrow> unit som_prog" where
  "release_inventory characteristics =
     bindp (case get_str characteristics ''msisdn'' of None \<Rightarrow> ret () | Some m \<Rightarrow> call_ext (SomReleaseMsisdn m) ()) (\<lambda>_.
     case get_str characteristics ''iccid'' of None \<Rightarrow> ret () | Some i \<Rightarrow> call_ext (SomReleaseEsim i) ())"

definition handle_task_failed :: "request_ctx \<Rightarrow> int \<Rightarrow> string \<Rightarrow> string \<Rightarrow> string \<Rightarrow> string \<Rightarrow> bool \<Rightarrow> unit som_prog" where
  "handle_task_failed ctx now service_id task_type service_order_id commercial_order_id permanent =
     (if \<not> permanent then ret ()
      else
      bindp (get_service_for_update service_id) (\<lambda>found.
      case found of None \<Rightarrow> ret ()
      | Some cfs \<Rightarrow>
        bindp (som_policy (check_service_transition (sv_state cfs) ''failed'')) (\<lambda>_.
        bindp (set_service_characteristics service_id (fst (mark_pending (sv_chars cfs) task_type ''failed''))) (\<lambda>_.
        bindp (set_service_state service_id ''failed'') (\<lambda>_.
        bindp (svc_history service_id (Some ''reserved'') ''failed'' (''provisioning task '' @ task_type @ '' failed permanently'')) (\<lambda>_.
        bindp (release_inventory (sv_chars cfs)) (\<lambda>_.
        bindp (close_order service_order_id ''failed'' now) (\<lambda>_.
        stage ctx now ''service_order.failed'' ''ServiceOrder'' service_order_id (JObj
          [(''serviceOrderId'', JStr service_order_id),
           (''commercialOrderId'', JStr (if commercial_order_id = [] then get_str_or (sv_chars cfs) ''commercialOrderId'' []
                                         else commercial_order_id)),
           (''reason'', JStr (''provisioning task '' @ task_type @ '' failed permanently''))])))))))))"

definition handle_task_stuck :: "string \<Rightarrow> string \<Rightarrow> unit som_prog" where
  "handle_task_stuck service_id task_type =
     bindp (get_service_for_update service_id) (\<lambda>found.
     case found of None \<Rightarrow> ret ()
     | Some cfs \<Rightarrow> set_service_characteristics service_id (fst (mark_pending (sv_chars cfs) task_type ''stuck'')))"

section \<open>The consumers\<close>

definition som_req_str :: "json \<Rightarrow> string \<Rightarrow> string som_prog" where
  "som_req_str body key = of_result (case get_str body key of None \<Rightarrow> Inl (''missing required field '' @ key) | Some v \<Rightarrow> Inr v)"

definition decompose_handler :: "som_env \<Rightarrow> int \<Rightarrow> json \<Rightarrow> unit som_prog" where
  "decompose_handler env now body =
     bindp (som_req_str body ''commercialOrderId'') (\<lambda>oid.
     bindp (som_req_str body ''customerId'') (\<lambda>customer.
     bindp (som_req_str body ''offeringId'') (\<lambda>offering.
     bindp (som_req_str body ''paymentMethodId'') (\<lambda>payment_method.
     decompose_order env default_ctx now
       \<lparr>dq_order = oid, dq_customer = customer, dq_offering = offering, dq_preference = get_str body ''msisdnPreference'',
        dq_method = payment_method,
        dq_price = (case jget body ''priceSnapshot'' of None \<Rightarrow> None | Some v \<Rightarrow> if is_null v then None else Some v)\<rparr>))))"

definition task_completed_handler :: "int \<Rightarrow> json \<Rightarrow> unit som_prog" where
  "task_completed_handler now body =
     bindp (som_req_str body ''serviceId'') (\<lambda>service_id.
     bindp (som_req_str body ''taskType'') (\<lambda>task_type.
     bindp (som_req_str body ''serviceOrderId'') (\<lambda>oid.
     handle_task_completed default_ctx now service_id task_type oid (get_str_or body ''commercialOrderId'' []))))"

definition task_failed_handler :: "int \<Rightarrow> json \<Rightarrow> unit som_prog" where
  "task_failed_handler now body =
     bindp (som_req_str body ''serviceId'') (\<lambda>service_id.
     bindp (som_req_str body ''taskType'') (\<lambda>task_type.
     bindp (som_req_str body ''serviceOrderId'') (\<lambda>oid.
     handle_task_failed default_ctx now service_id task_type oid (get_str_or body ''commercialOrderId'' [])
       (unwrap_or True (get_bool body ''permanent'')))))"

definition task_stuck_handler :: "json \<Rightarrow> unit som_prog" where
  "task_stuck_handler body =
     bindp (som_req_str body ''serviceId'') (\<lambda>service_id.
     bindp (som_req_str body ''taskType'') (\<lambda>task_type.
     bindp (som_req_str body ''serviceOrderId'') (\<lambda>_. handle_task_stuck service_id task_type)))"

end
