(* ===== verification/SomProps.thy ===== *)
theory SomProps
  imports Som
begin

text \<open>
  What service order management guarantees: decomposition, audited service histories,
  completion by any order of task events, and failure.
\<close>

section \<open>The state machines as contracts\<close>

definition svc_step :: "string option \<Rightarrow> string option \<Rightarrow> bool" where
  "svc_step a b \<longleftrightarrow>
     (case b of None \<Rightarrow> False
      | Some y \<Rightarrow> (case a of None \<Rightarrow> y = ''designed'' | Some x \<Rightarrow> y \<in> set (svc_allowed x)))"

definition svc_terminal :: "string option \<Rightarrow> bool" where
  "svc_terminal a \<longleftrightarrow> a = Some ''failed'' \<or> a = Some ''terminated''"

definition svc_rank :: "string option \<Rightarrow> nat" where
  "svc_rank a = (case a of None \<Rightarrow> 0
     | Some x \<Rightarrow> if x = ''designed'' then 1 else if x = ''reserved'' then 2 else if x = ''activated'' then 3 else 4)"

interpretation svc_fsm: acyclic_lifecycle svc_step svc_terminal svc_rank
  by unfold_locales
     (auto simp: svc_step_def svc_terminal_def svc_rank_def svc_allowed_def split: option.splits if_splits)

definition so_step :: "string \<Rightarrow> string \<Rightarrow> bool" where
  "so_step a b \<longleftrightarrow> b \<in> set (so_allowed a)"

definition so_terminal :: "string \<Rightarrow> bool" where
  "so_terminal a \<longleftrightarrow> a = ''completed'' \<or> a = ''failed''"

definition so_rank :: "string \<Rightarrow> nat" where
  "so_rank a = (if a = ''acknowledged'' then 0 else if a = ''in_progress'' then 1 else 2)"

interpretation so_fsm: acyclic_lifecycle so_step so_terminal so_rank
  by unfold_locales (auto simp: so_step_def so_terminal_def so_rank_def so_allowed_def split: if_splits)

section \<open>Decomposition\<close>

lemma wp_som_policy [wp_simps]:
  "wp (som_policy r) Q E = (\<lambda>s. case r of Inl v \<Rightarrow> E (''policy '' @ rule v) s | Inr u \<Rightarrow> Q u s)"
  by (rule ext) (simp add: som_policy_def wp_simps split: sum.splits)

lemma som_checks [simp]:
  "check_service_transition ''designed'' ''reserved'' = Inr ()" "check_service_transition ''reserved'' ''activated'' = Inr ()"
  "check_service_transition ''reserved'' ''failed'' = Inr ()"
  "check_service_order_transition ''acknowledged'' ''in_progress'' = Inr ()"
  "check_service_order_transition ''in_progress'' ''completed'' = Inr ()"
  "check_service_order_transition ''in_progress'' ''failed'' = Inr ()"
  by (simp_all add: check_service_transition_def check_service_order_transition_def svc_allowed_def so_allowed_def)

text \<open>The rows of a decomposed order.\<close>

definition svc_id_of :: "nat \<Rightarrow> string" where "svc_id_of n = ''SVC-'' @ pad4 n"
definition so_id_of :: "nat \<Rightarrow> string" where "so_id_of n = ''SO-'' @ pad4 n"

lemma svc_id_of_inject [simp]: "svc_id_of m = svc_id_of n \<longleftrightarrow> m = n"
  by (simp add: svc_id_of_def)

definition reserved_row :: "string \<Rightarrow> string \<Rightarrow> string \<Rightarrow> string option \<Rightarrow> json \<Rightarrow> svc_row" where
  "reserved_row sid spec type parent chars =
     \<lparr>sv_id = sid, sv_spec = spec, sv_type = type, sv_parent = parent, sv_state = ''reserved'', sv_chars = chars, sv_activated = None\<rparr>"

definition decomposed_rows :: "nat \<Rightarrow> json \<Rightarrow> svc_row list" where
  "decomposed_rows n chars =
     [reserved_row (svc_id_of n) ''MobileBroadband'' ''CFS'' None chars,
      reserved_row (svc_id_of (n + 1)) ''DataService'' ''RFS'' (Some (svc_id_of n)) (JObj []),
      reserved_row (svc_id_of (n + 2)) ''VoiceService'' ''RFS'' (Some (svc_id_of n)) (JObj [])]"

definition designed_then_reserved :: "nat \<Rightarrow> svc_hist list" where
  "designed_then_reserved n =
     map (\<lambda>k. \<lparr>sh_svc = svc_id_of k, sh_from = None, sh_to = ''designed'', sh_reason = ''decomposition''\<rparr>) [n, n + 1, n + 2] @
     map (\<lambda>k. \<lparr>sh_svc = svc_id_of k, sh_from = Some ''designed'', sh_to = ''reserved'', sh_reason = ''inventory reserved''\<rparr>) [n + 1, n + 2, n]"

text \<open>The number and the eSIM are the ones CRM answered with.\<close>

definition reserved_from :: "som_env \<Rightarrow> som_call list \<Rightarrow> string option \<Rightarrow> string \<times> string \<times> string \<times> string \<Rightarrow> bool" where
  "reserved_from env made pref res \<longleftrightarrow> (case res of (msisdn, iccid, imsi, code) \<Rightarrow>
     \<exists>md ed. inv_reserve_msisdn env made pref = Inr md \<and> get_str md ''msisdn'' = Some msisdn \<and>
       inv_reserve_esim env (made @ [ReserveMsisdn pref]) = Inr ed \<and> get_str ed ''iccid'' = Some iccid)"

definition decomposed :: "som_env \<Rightarrow> decompose_request \<Rightarrow> request_ctx \<Rightarrow> int \<Rightarrow> som_db \<Rightarrow> som_db \<Rightarrow> bool" where
  "decomposed env req ctx now s t \<longleftrightarrow>
     (\<exists>res. sm_svcs t = sm_svcs s @ decomposed_rows (sm_svc_seq s) (cfs_characteristics req res) \<and>
        reserved_from env (calls s) (dq_preference req) res \<and>
        map (\<lambda>e. (ev_type e, ev_payload e)) (outbox t) = map (\<lambda>e. (ev_type e, ev_payload e)) (outbox s) @
          (''service_order.in_progress'', JObj [(''serviceOrderId'', JStr (so_id_of (sm_so_seq s))), (''commercialOrderId'', JStr (dq_order req))])
          # map (\<lambda>tt. (''provisioning.task.created'', task_payload req res (svc_id_of (sm_svc_seq s)) (so_id_of (sm_so_seq s)) tt)) TASK_TYPES) \<and>
     (\<forall>k \<in> {sm_svc_seq s, sm_svc_seq s + 1, sm_svc_seq s + 2}. svc_id_of k \<notin> sv_id ` set (sm_svcs s)) \<and>
     so_id_of (sm_so_seq s) \<notin> so_id ` set (sm_orders s) \<and>
     sm_hist t = sm_hist s @ designed_then_reserved (sm_svc_seq s) \<and>
     sm_orders t = sm_orders s @ [\<lparr>so_id = so_id_of (sm_so_seq s), so_commercial = dq_order req, so_state = ''in_progress'',
        so_started = Some now, so_completed = None, so_tenant = rc_tenant ctx\<rparr>] \<and>
     map ev_type (outbox t) = map ev_type (outbox s) @ ''service_order.in_progress'' # replicate 4 ''provisioning.task.created'' \<and>
     calls t = calls s @ [ReserveMsisdn (dq_preference req), ReserveEsim] \<and> inbox t = inbox s"

lemma wp_design_service:
  "wp (design_service spec type parent) Q E = (\<lambda>s.
     if svc_id_of (sm_svc_seq s) \<in> sv_id ` set (sm_svcs s) then E ''db error'' (s\<lparr>sm_svc_seq := sm_svc_seq s + 1\<rparr>)
     else Q (svc_id_of (sm_svc_seq s)) (s\<lparr>sm_svc_seq := sm_svc_seq s + 1,
       sm_svcs := sm_svcs s @ [\<lparr>sv_id = svc_id_of (sm_svc_seq s), sv_spec = spec, sv_type = type, sv_parent = parent,
         sv_state = ''designed'', sv_chars = JObj [], sv_activated = None\<rparr>],
       sm_hist := sm_hist s @ [\<lparr>sh_svc = svc_id_of (sm_svc_seq s), sh_from = None, sh_to = ''designed'', sh_reason = ''decomposition''\<rparr>]\<rparr>))"
  by (rule ext) (simp add: design_service_def next_service_id_def insert_service_def svc_history_def wp_simps svc_id_of_def)

lemma wp_reserve_service:
  "wp (reserve_service sid) Q E = (\<lambda>s.
     Q () (s\<lparr>sm_svcs := tbl_update sv_id sid (\<lambda>r. r\<lparr>sv_state := ''reserved''\<rparr>) (sm_svcs s),
       sm_hist := sm_hist s @ [\<lparr>sh_svc = sid, sh_from = Some ''designed'', sh_to = ''reserved'', sh_reason = ''inventory reserved''\<rparr>]\<rparr>))"
  by (rule ext) (simp add: reserve_service_def set_service_state_def svc_history_def wp_simps)

lemma wp_reserve_inventory:
  "(\<And>res. reserved_from env (calls s) pref res \<Longrightarrow> Q res (s\<lparr>calls := calls s @ [ReserveMsisdn pref, ReserveEsim]\<rparr>)) \<Longrightarrow>
   (\<And>e k. E e (s\<lparr>calls := k\<rparr>)) \<Longrightarrow> wp (reserve_inventory env pref) Q E s"
  unfolding reserve_inventory_def by (auto simp: wp_simps reserved_from_def split: sum.splits option.splits)

lemma decompose_effect:
  "wp (decompose_order env ctx now req) (\<lambda>_. decomposed env req ctx now s) (\<lambda>_ _. True) s"
  unfolding decompose_order_def next_service_order_id_def next_service_order_item_id_def insert_service_order_def
    insert_service_order_item_def set_soi_target_def set_service_characteristics_def set_service_order_state_def
  by (auto simp: wp_simps wp_design_service wp_reserve_service TASK_TYPES_def decomposed_def decomposed_rows_def reserved_row_def
      designed_then_reserved_def tbl_update_other so_id_of_def coalesce_def numeral_eq_Suc intro!: wp_reserve_inventory) blast

section \<open>The invariant\<close>

definition sh_key :: "svc_hist \<Rightarrow> string \<times> string option \<times> string option" where
  "sh_key h = (sh_svc h, sh_from h, Some (sh_to h))"

definition sv_st :: "svc_row \<Rightarrow> string option" where
  "sv_st r = Some (sv_state r)"

definition svc_audit :: "svc_row list \<Rightarrow> svc_hist list \<Rightarrow> bool" where
  "svc_audit svcs hist \<longleftrightarrow> audited svc_step None (keyed sv_id sv_st svcs) (map sh_key hist)"

text \<open>A committed service is never left merely \<open>designed\<close>.\<close>

definition som_ok :: "svc_row list \<Rightarrow> svc_hist list \<Rightarrow> so_row list \<Rightarrow> bool" where
  "som_ok svcs hist orders \<longleftrightarrow>
     svc_audit svcs hist \<and> list_all (\<lambda>r. sv_state r \<noteq> ''designed'') svcs \<and> distinct (map so_id orders)"

definition som_inv :: "som_db \<Rightarrow> bool" where
  "som_inv s \<longleftrightarrow> som_ok (sm_svcs s) (sm_hist s) (sm_orders s)"

lemma som_inv_frame [simp]:
  "som_inv (s\<lparr>outbox := x\<rparr>) = som_inv s" "som_inv (s\<lparr>inbox := i\<rparr>) = som_inv s" "som_inv (s\<lparr>calls := k\<rparr>) = som_inv s"
  by (simp_all add: som_inv_def)

lemma decomposed_ok:
  assumes inv: "som_inv s" and d: "decomposed env req ctx now s t"
  shows "som_inv t"
proof -
  let ?n = "sm_svc_seq s"
  let ?a = "svc_id_of ?n" let ?b = "svc_id_of (?n + 1)" let ?c = "svc_id_of (?n + 2)"
  let ?D = "Some ''designed''" let ?R = "Some ''reserved''"
  let ?K = "keyed sv_id sv_st (sm_svcs s)" let ?H = "map sh_key (sm_hist s)"
  have fresh: "?a \<notin> fst ` set ?K" "?b \<notin> fst ` set ?K" "?c \<notin> fst ` set ?K"
    using d by (auto simp: decomposed_def)
  have st: "svc_step None ?D" "svc_step ?D ?R" by (simp_all add: svc_step_def svc_allowed_def)
  have a0: "audited svc_step None ?K ?H" using inv by (simp add: som_inv_def som_ok_def svc_audit_def)
  note a1 = audited_insert [where allowed = svc_step and init = None and st = ?D, OF a0 fresh(1) st(1)]
  have "?b \<notin> fst ` set (?K @ [(?a, ?D)])" using fresh by simp
  note a2 = audited_insert [where allowed = svc_step and init = None and st = ?D, OF a1 this st(1)]
  have "?c \<notin> fst ` set ((?K @ [(?a, ?D)]) @ [(?b, ?D)])" using fresh by simp
  note a3 = audited_insert [where allowed = svc_step and init = None and st = ?D, OF a2 this st(1)]
  note m1 = audited_move [where allowed = svc_step and a = ?D and b = ?R and i = ?b, OF a3 _ st(2)]
  have m1: "audited svc_step None (?K @ [(?a, ?D), (?b, ?R), (?c, ?D)])
      (?H @ [(?a, None, ?D), (?b, None, ?D), (?c, None, ?D), (?b, ?D, ?R)])"
    using m1 fresh by (simp add: set_st_other)
  note m2 = audited_move [where allowed = svc_step and a = ?D and b = ?R and i = ?c, OF m1 _ st(2)]
  have m2: "audited svc_step None (?K @ [(?a, ?D), (?b, ?R), (?c, ?R)])
      (?H @ [(?a, None, ?D), (?b, None, ?D), (?c, None, ?D), (?b, ?D, ?R), (?c, ?D, ?R)])"
    using m2 fresh by (simp add: set_st_other)
  note m3 = audited_move [where allowed = svc_step and a = ?D and b = ?R and i = ?a, OF m2 _ st(2)]
  have m3: "audited svc_step None (?K @ [(?a, ?R), (?b, ?R), (?c, ?R)])
      (?H @ [(?a, None, ?D), (?b, None, ?D), (?c, None, ?D), (?b, ?D, ?R), (?c, ?D, ?R), (?a, ?D, ?R)])"
    using m3 fresh by (simp add: set_st_other)
  obtain res where t: "sm_svcs t = sm_svcs s @ decomposed_rows ?n (cfs_characteristics req res)"
    "sm_hist t = sm_hist s @ designed_then_reserved ?n" using d by (auto simp: decomposed_def)
  have "svc_audit (sm_svcs t) (sm_hist t)"
    using m3 by (simp add: svc_audit_def t decomposed_rows_def reserved_row_def designed_then_reserved_def sv_st_def sh_key_def)
  moreover have "list_all (\<lambda>r. sv_state r \<noteq> ''designed'') (sm_svcs t)"
    using inv by (simp add: t decomposed_rows_def reserved_row_def som_inv_def som_ok_def)
  moreover have "distinct (map so_id (sm_orders t))"
    using inv d by (auto simp: decomposed_def som_inv_def som_ok_def)
  ultimately show ?thesis by (simp add: som_inv_def som_ok_def)
qed

lemma decompose_inv: "som_inv s \<Longrightarrow> wp (decompose_order env ctx now req) (\<lambda>_. som_inv) (\<lambda>_ _. True) s"
  by (rule wp_mono [OF decompose_effect]) (auto intro: decomposed_ok)

text \<open>One service moves, with its history row; its characteristics may change on the way.\<close>

lemma som_ok_chars:
  "som_ok svcs hist orders \<Longrightarrow> som_ok (tbl_update sv_id i (\<lambda>r. r\<lparr>sv_chars := c\<rparr>) svcs) hist orders"
  by (auto simp: som_ok_def svc_audit_def keyed_frame sv_st_def list_all_iff set_tbl_update split: if_splits)

lemma som_ok_move:
  assumes "som_ok svcs hist orders" "tbl_find sv_id i svcs = Some r" "sv_state r = a"
    and "\<And>x. sv_id (f x) = sv_id x" "\<And>x. sv_state (f x) = b" "b \<in> set (svc_allowed a)" "b \<noteq> ''designed''"
  shows "som_ok (tbl_update sv_id i f svcs) (hist @ [\<lparr>sh_svc = i, sh_from = Some a, sh_to = b, sh_reason = why\<rparr>]) orders"
proof -
  have "svc_step (sv_st r) (Some b)" using assms(3,6) by (simp add: svc_step_def sv_st_def)
  moreover have "sv_st (f r) = Some b" by (simp add: sv_st_def assms(5))
  moreover have "audited svc_step None (keyed sv_id sv_st svcs) (map sh_key hist)"
    using assms(1) by (simp add: som_ok_def svc_audit_def)
  note audited_update [where allowed = svc_step and st = sv_st, OF this assms(2)]
  ultimately have "audited svc_step None (keyed sv_id sv_st (tbl_update sv_id i f svcs)) (map sh_key hist @ [(i, sv_st r, Some b)])"
    using assms(4) by blast
  then have "svc_audit (tbl_update sv_id i f svcs) (hist @ [\<lparr>sh_svc = i, sh_from = Some a, sh_to = b, sh_reason = why\<rparr>])"
    using assms(3) by (simp add: svc_audit_def sh_key_def sv_st_def)
  then show ?thesis using assms(1,5,7) by (auto simp: som_ok_def list_all_iff set_tbl_update split: if_splits)
qed

lemma som_ok_orders: "som_ok svcs hist orders \<Longrightarrow> map so_id orders' = map so_id orders \<Longrightarrow> som_ok svcs hist orders'"
  by (simp add: som_ok_def)

lemma close_order_inv: "som_inv s \<Longrightarrow> wp (close_order oid target now) (\<lambda>_. som_inv) (\<lambda>_ _. True) s"
  by (auto simp: close_order_def service_order_state_def set_service_order_state_def wp_simps som_inv_def
      elim!: som_ok_orders intro!: map_tbl_update split: option.splits sum.splits)

lemma check_activated_iff: "check_service_transition a ''activated'' = Inr () \<longleftrightarrow> a = ''reserved''"
  by (auto simp: check_service_transition_def svc_allowed_def)

lemma wp_activate_child:
  "wp (activate_child now (i, st)) Q (\<lambda>_ _. True) = (\<lambda>s. st = ''reserved'' \<longrightarrow>
     Q () (s\<lparr>sm_svcs := tbl_update sv_id i (\<lambda>r. r\<lparr>sv_state := ''activated'', sv_activated := Some now\<rparr>) (sm_svcs s),
       sm_hist := sm_hist s @ [\<lparr>sh_svc = i, sh_from = Some ''reserved'', sh_to = ''activated'', sh_reason = ''parent CFS activated''\<rparr>]\<rparr>))"
  by (rule ext)
     (auto simp: activate_child_def activate_service_def svc_history_def wp_simps check_service_transition_def svc_allowed_def)

text \<open>The children are activated one by one; none of them has been touched yet when its turn comes.\<close>

lemma activate_children_inv:
  assumes "som_inv s" "distinct (map fst cs)"
    and "\<And>i st. (i, st) \<in> set cs \<Longrightarrow> \<exists>r. tbl_find sv_id i (sm_svcs s) = Some r \<and> sv_state r = st"
  shows "wp (for_each cs (activate_child now)) (\<lambda>_. som_inv) (\<lambda>_ _. True) s"
  using assms
proof (induction cs arbitrary: s)
  case Nil
  then show ?case by (simp add: wp_simps)
next
  case (Cons c cs)
  obtain i st where c: "c = (i, st)" by (cases c)
  let ?f = "\<lambda>r. r\<lparr>sv_state := ''activated'', sv_activated := Some now\<rparr>"
  let ?t = "s\<lparr>sm_svcs := tbl_update sv_id i ?f (sm_svcs s),
      sm_hist := sm_hist s @ [\<lparr>sh_svc = i, sh_from = Some ''reserved'', sh_to = ''activated'', sh_reason = ''parent CFS activated''\<rparr>]\<rparr>"
  obtain r where r: "tbl_find sv_id i (sm_svcs s) = Some r" "sv_state r = st" using Cons.prems(3) c by auto
  have "wp (for_each cs (activate_child now)) (\<lambda>_. som_inv) (\<lambda>_ _. True) ?t" if "st = ''reserved''"
  proof (rule Cons.IH)
    show "som_inv ?t" using Cons.prems(1) r that
      by (simp add: som_inv_def, intro som_ok_move [of _ _ _ _ r]) (auto simp: svc_allowed_def)
    show "distinct (map fst cs)" using Cons.prems(2) by simp
    fix j st' assume j: "(j, st') \<in> set cs"
    have "j \<noteq> i" using Cons.prems(2) j c by force
    then show "\<exists>r. tbl_find sv_id j (sm_svcs ?t) = Some r \<and> sv_state r = st'"
      using Cons.prems(3) [of j st'] j by (simp add: tbl_find_update)
  qed
  then show ?case
    by (simp add: c wp_simps wp_activate_child)
qed

lemma handle_task_completed_inv:
  assumes "som_inv s"
  shows "wp (handle_task_completed ctx now i task oid coid) (\<lambda>_. som_inv) (\<lambda>_ _. True) s"
proof (cases "tbl_find sv_id i (sm_svcs s)")
  case None
  then show ?thesis using assms by (simp add: handle_task_completed_def get_service_for_update_def wp_simps)
next
  case (Some cfs)
  let ?u = "\<lambda>chars. tbl_update sv_id i (\<lambda>r. r\<lparr>sv_state := ''activated'', sv_activated := Some now\<rparr>)
      (tbl_update sv_id i (\<lambda>r. r\<lparr>sv_chars := chars\<rparr>) (sm_svcs s))"
  let ?t = "\<lambda>chars. s\<lparr>sm_svcs := ?u chars, sm_hist := sm_hist s @
      [\<lparr>sh_svc = i, sh_from = Some ''reserved'', sh_to = ''activated'', sh_reason = ''all provisioning tasks completed''\<rparr>]\<rparr>"
  have chars: "som_inv (s\<lparr>sm_svcs := tbl_update sv_id i (\<lambda>r. r\<lparr>sv_chars := chars\<rparr>) (sm_svcs s)\<rparr>)" for chars
    using assms by (simp add: som_inv_def som_ok_chars)
  have inv: "som_inv (?t chars)" if "sv_state cfs = ''reserved''" for chars
    using assms Some that
    by (simp add: som_inv_def, intro som_ok_move [of _ _ _ _ "cfs\<lparr>sv_chars := chars\<rparr>"])
       (auto simp: som_ok_chars tbl_find_update svc_allowed_def)
  have kids: "wp (for_each (map (\<lambda>r. (sv_id r, sv_state r)) (filter (\<lambda>r. sv_parent r = Some i) (?u chars))) (activate_child now))
      (\<lambda>_. som_inv) (\<lambda>_ _. True) (?t chars)" if "sv_state cfs = ''reserved''" for chars
  proof (rule activate_children_inv [OF inv [OF that]])
    have d: "distinct (map sv_id (?u chars))"
      using inv [OF that, of chars] audited_distinct by (fastforce simp: som_inv_def som_ok_def svc_audit_def)
    then show "distinct (map fst (map (\<lambda>r. (sv_id r, sv_state r)) (filter (\<lambda>r. sv_parent r = Some i) (?u chars))))"
      by (simp add: comp_def distinct_map_filter)
    fix j st assume "(j, st) \<in> set (map (\<lambda>r. (sv_id r, sv_state r)) (filter (\<lambda>r. sv_parent r = Some i) (?u chars)))"
    then obtain r where r: "r \<in> set (?u chars)" "sv_id r = j" "sv_state r = st" by auto
    then have "tbl_find sv_id j (?u chars) \<noteq> None" by (auto simp: tbl_find_None_iff)
    then show "\<exists>r. tbl_find sv_id j (sm_svcs (?t chars)) = Some r \<and> sv_state r = st"
      using find_unique [OF d _ r(1,2)] r(3) by auto
  qed
  show ?thesis
    using Some chars assms
    by (auto simp: handle_task_completed_def get_service_for_update_def set_service_characteristics_def activate_service_def
        svc_history_def child_states_def wp_simps check_activated_iff split: sum.splits prod.splits
        intro!: wp_mono [OF kids] wp_mono [OF close_order_inv])
qed

lemma wp_release_inventory: "(\<And>k. Q () (s\<lparr>calls := k\<rparr>)) \<Longrightarrow> wp (release_inventory chars) Q E s"
  using spec [of "\<lambda>k. Q () (s\<lparr>calls := k\<rparr>)" "calls s"]
  by (auto simp: release_inventory_def wp_simps split: option.splits)

end
