(* ===== verification/SomKeep.thy ===== *)
theory SomKeep
  imports SomProps
begin

text \<open>
  Every SOM handler keeps the invariant and leaves the inbox to the consumer: the handler
  contract, interpreted for the four consumers, and what follows for reachable states.
\<close>

section \<open>Failure and stuck tasks\<close>

lemma check_failed_iff: "check_service_transition a ''failed'' = Inr () \<longleftrightarrow> a = ''designed'' \<or> a = ''reserved''"
  by (auto simp: check_service_transition_def svc_allowed_def)

lemma som_inv_not_designed: "som_inv s \<Longrightarrow> tbl_find sv_id i (sm_svcs s) = Some r \<Longrightarrow> sv_state r \<noteq> ''designed''"
  by (auto simp: som_inv_def som_ok_def list_all_iff dest: tbl_find_SomeD)

lemma som_ok_fail:
  assumes "som_ok svcs hist orders" "tbl_find sv_id i svcs = Some cfs" "sv_state cfs = ''reserved''"
  shows "som_ok (tbl_update sv_id i (\<lambda>r. r\<lparr>sv_state := ''failed''\<rparr>) (tbl_update sv_id i (\<lambda>r. r\<lparr>sv_chars := c\<rparr>) svcs))
      (hist @ [\<lparr>sh_svc = i, sh_from = Some ''reserved'', sh_to = ''failed'', sh_reason = why\<rparr>]) orders"
  using assms
  by (intro som_ok_move [of _ _ _ _ "cfs\<lparr>sv_chars := c\<rparr>"]) (auto simp: som_ok_chars tbl_find_update svc_allowed_def)

lemma handle_task_failed_inv:
  assumes "som_inv s"
  shows "wp (handle_task_failed ctx now i task oid coid permanent) (\<lambda>_. som_inv) (\<lambda>_ _. True) s"
proof (cases "tbl_find sv_id i (sm_svcs s)")
  case None
  then show ?thesis using assms by (simp add: handle_task_failed_def get_service_for_update_def wp_simps)
next
  case (Some cfs)
  have "som_inv (s\<lparr>sm_svcs := tbl_update sv_id i (\<lambda>r. r\<lparr>sv_state := ''failed''\<rparr>) (tbl_update sv_id i (\<lambda>r. r\<lparr>sv_chars := c\<rparr>) (sm_svcs s)),
      sm_hist := sm_hist s @ [\<lparr>sh_svc = i, sh_from = Some ''reserved'', sh_to = ''failed'', sh_reason = why\<rparr>], calls := k\<rparr>)"
    if "sv_state cfs = ''reserved''" for c why k
    using som_ok_fail [OF _ Some that] assms by (simp add: som_inv_def)
  then show ?thesis
    using Some assms som_inv_not_designed [OF assms Some]
    by (auto simp: handle_task_failed_def get_service_for_update_def set_service_characteristics_def set_service_state_def
        svc_history_def wp_simps check_failed_iff split: sum.splits
        intro!: wp_release_inventory wp_mono [OF close_order_inv])
qed

lemma handle_task_stuck_inv: "som_inv s \<Longrightarrow> wp (handle_task_stuck i task) (\<lambda>_. som_inv) (\<lambda>_ _. True) s"
  by (auto simp: handle_task_stuck_def get_service_for_update_def set_service_characteristics_def wp_simps
      som_inv_def som_ok_chars split: option.splits)

section \<open>The handler contract\<close>

lemmas som_handler_defs = decompose_handler_def task_completed_handler_def task_failed_handler_def task_stuck_handler_def

lemma wp_som_req_str [wp_simps]:
  "wp (som_req_str body key) Q E = (\<lambda>s. case get_str body key of None \<Rightarrow> E (''missing required field '' @ key) s | Some v \<Rightarrow> Q v s)"
  by (rule ext) (simp add: som_req_str_def wp_simps split: option.splits)

lemma som_handlers_inv:
  assumes "som_inv s"
  shows "wp (decompose_handler env now body) (\<lambda>_. som_inv) (\<lambda>_ _. True) s"
    "wp (task_completed_handler now body) (\<lambda>_. som_inv) (\<lambda>_ _. True) s"
    "wp (task_failed_handler now body) (\<lambda>_. som_inv) (\<lambda>_ _. True) s"
    "wp (task_stuck_handler body) (\<lambda>_. som_inv) (\<lambda>_ _. True) s"
  unfolding som_handler_defs
  by (auto simp: wp_simps assms decompose_inv handle_task_completed_inv handle_task_failed_inv handle_task_stuck_inv
      split: option.splits)

lemma keeps_som_writes [intro, simp]:
  "keeps (\<lambda>t. inbox t = i) next_service_order_id" "keeps (\<lambda>t. inbox t = i) next_service_order_item_id"
  "keeps (\<lambda>t. inbox t = i) next_service_id" "keeps (\<lambda>t. inbox t = i) (insert_service_order o1)"
  "keeps (\<lambda>t. inbox t = i) (insert_service_order_item o2)" "keeps (\<lambda>t. inbox t = i) (set_soi_target a b)"
  "keeps (\<lambda>t. inbox t = i) (set_service_order_state a b n1 n2)" "keeps (\<lambda>t. inbox t = i) (service_order_state a)"
  "keeps (\<lambda>t. inbox t = i) (insert_service a b c p d e)" "keeps (\<lambda>t. inbox t = i) (set_service_state a b)"
  "keeps (\<lambda>t. inbox t = i) (set_service_characteristics a ch)" "keeps (\<lambda>t. inbox t = i) (activate_service a n)"
  "keeps (\<lambda>t. inbox t = i) (get_service_for_update a)" "keeps (\<lambda>t. inbox t = i) (child_states a)"
  "keeps (\<lambda>t. inbox t = i) (svc_history a x b c)" "keeps (\<lambda>t. inbox t = i) (som_policy v)"
  "keeps (\<lambda>t. inbox t = i) (som_req_str body key)"
  unfolding next_service_order_id_def next_service_order_item_id_def next_service_id_def insert_service_order_def
    insert_service_order_item_def set_soi_target_def set_service_order_state_def service_order_state_def insert_service_def
    set_service_state_def set_service_characteristics_def activate_service_def get_service_for_update_def child_states_def
    svc_history_def som_policy_def som_req_str_def
  by (auto intro!: keeps_bindp keeps_modify)

lemma keeps_som_steps [intro, simp]:
  "keeps (\<lambda>t. inbox t = i) (design_service a b c)" "keeps (\<lambda>t. inbox t = i) (reserve_service a)"
  "keeps (\<lambda>t. inbox t = i) (reserve_inventory env pref)" "keeps (\<lambda>t. inbox t = i) (activate_child now ch)"
  "keeps (\<lambda>t. inbox t = i) (close_order a b now)" "keeps (\<lambda>t. inbox t = i) (release_inventory chars)"
  unfolding design_service_def reserve_service_def reserve_inventory_def activate_child_def close_order_def release_inventory_def
  by (intro keeps_bindp keeps_case_option keeps_case_sum keeps_case_prod | simp)+

lemma som_handlers_inbox:
  "keeps (\<lambda>t. inbox t = i) (decompose_handler env now body)" "keeps (\<lambda>t. inbox t = i) (task_completed_handler now body)"
  "keeps (\<lambda>t. inbox t = i) (task_failed_handler now body)" "keeps (\<lambda>t. inbox t = i) (task_stuck_handler body)"
  unfolding som_handler_defs decompose_order_def handle_task_completed_def handle_task_failed_def handle_task_stuck_def
  by (intro keeps_bindp keeps_case_option keeps_case_prod keeps_if keeps_for_each | simp)+

lemma som_contract:
  assumes "\<And>s. som_inv s \<Longrightarrow> wp (h body) (\<lambda>_. som_inv) (\<lambda>_ _. True) s" "\<And>i. keeps (\<lambda>t. inbox t = i) (h body)"
  shows "inbox (snd (h body s)) = inbox s" "som_inv s \<Longrightarrow> h body s = (Inr (), t) \<Longrightarrow> som_inv t"
  using keepsD [OF assms(2), of s "inbox s"] wp_okD [OF assms(1)] by auto

interpretation decompose_consumer: event_handler "decompose_handler env now" som_inv
  using som_contract [OF som_handlers_inv(1) som_handlers_inbox(1)] by unfold_locales simp_all

interpretation completed_consumer: event_handler "task_completed_handler now" som_inv
  using som_contract [OF som_handlers_inv(2) som_handlers_inbox(2)] by unfold_locales simp_all

interpretation failed_consumer: event_handler "task_failed_handler now" som_inv
  using som_contract [OF som_handlers_inv(3) som_handlers_inbox(3)] by unfold_locales simp_all

interpretation stuck_consumer: event_handler task_stuck_handler som_inv
  using som_contract [OF som_handlers_inv(4) som_handlers_inbox(4)] by unfold_locales simp_all

section \<open>Reachable states\<close>

text \<open>What can happen to the service: a batch of messages on one of its four queues.\<close>

datatype som_op =
    Decompose som_env int "(nat option \<times> json) list"
  | TaskCompleted int "(nat option \<times> json) list"
  | TaskFailed int "(nat option \<times> json) list"
  | TaskStuck "(nat option \<times> json) list"

fun som_step :: "nat \<Rightarrow> som_op \<Rightarrow> som_db \<Rightarrow> som_db" where
  "som_step m (Decompose env now ms) s = consume_all ''som.order'' m (decompose_handler env now) ms s"
| "som_step m (TaskCompleted now ms) s = consume_all ''som.completed'' m (task_completed_handler now) ms s"
| "som_step m (TaskFailed now ms) s = consume_all ''som.failed'' m (task_failed_handler now) ms s"
| "som_step m (TaskStuck ms) s = consume_all ''som.stuck'' m task_stuck_handler ms s"

definition empty_som_db :: som_db where
  "empty_som_db = \<lparr>outbox = [], inbox = [], calls = [], sm_so_seq = 1, sm_soi_seq = 1, sm_svc_seq = 1,
     sm_orders = [], sm_items = [], sm_svcs = [], sm_hist = []\<rparr>"

lemma som_step_inv: "som_inv s \<Longrightarrow> som_inv (som_step m op s)"
  by (cases op)
     (simp_all add: decompose_consumer.consume_inv completed_consumer.consume_inv failed_consumer.consume_inv
        stuck_consumer.consume_inv)

lemma som_reachable_inv: "som_inv (fold (som_step m) ops empty_som_db)"
proof -
  have "som_inv s \<Longrightarrow> som_inv (fold (som_step m) ops s)" for s
    by (induction ops arbitrary: s) (simp_all add: som_step_inv)
  moreover have "som_inv empty_som_db"
    by (simp add: som_inv_def som_ok_def svc_audit_def empty_som_db_def audited_def)
  ultimately show ?thesis .
qed

text \<open>
  C19: Whatever messages the order manager has consumed, in whatever order, duplicated, retried or
  parked, the state history of every service is a legal path from its design to its current
  state, at most four entries long and ending in at most one terminal state, and no service
  is left merely designed.
\<close>

theorem service_history_legal:
  "list_all (\<lambda>r. legal_path svc_step None (trail (sv_id r) (map sh_key (sm_hist (fold (som_step m) ops empty_som_db)))) (Some (sv_state r)) \<and>
      length (trail (sv_id r) (map sh_key (sm_hist (fold (som_step m) ops empty_som_db)))) \<le> 4 \<and>
      length (filter (\<lambda>h. svc_terminal (snd h)) (trail (sv_id r) (map sh_key (sm_hist (fold (som_step m) ops empty_som_db))))) \<le> 1 \<and>
      sv_state r \<noteq> ''designed'')
    (sm_svcs (fold (som_step m) ops empty_som_db))"
proof -
  let ?s = "fold (som_step m) ops empty_som_db"
  have ok: "som_ok (sm_svcs ?s) (sm_hist ?s) (sm_orders ?s)" using som_reachable_inv [of m ops] by (simp add: som_inv_def)
  then have a: "audited svc_step None (keyed sv_id sv_st (sm_svcs ?s)) (map sh_key (sm_hist ?s))"
    by (simp add: som_ok_def svc_audit_def)
  have rank: "svc_rank x \<le> 4" for x by (simp add: svc_rank_def split: option.splits)
  have "legal_path svc_step None (trail (sv_id r) (map sh_key (sm_hist ?s))) (Some (sv_state r)) \<and>
      length (trail (sv_id r) (map sh_key (sm_hist ?s))) \<le> 4 \<and>
      length (filter (\<lambda>h. svc_terminal (snd h)) (trail (sv_id r) (map sh_key (sm_hist ?s)))) \<le> 1 \<and>
      sv_state r \<noteq> ''designed''" if r: "r \<in> set (sm_svcs ?s)" for r
  proof -
    have mem: "(sv_id r, Some (sv_state r)) \<in> set (keyed sv_id sv_st (sm_svcs ?s))"
      using keyed_mem [OF r, of sv_id sv_st] by (simp add: sv_st_def)
    note path = audited_path [OF a mem]
    have "length (trail (sv_id r) (map sh_key (sm_hist ?s))) \<le> 4"
      using order_trans [OF svc_fsm.audited_length [OF a mem] rank] .
    then show ?thesis using path svc_fsm.terminal_once [OF path] ok r by (auto simp: list_all_iff som_ok_def)
  qed
  then show ?thesis by (simp add: list_all_iff)
qed

end
