(* ===== verification/SomTasks.thy ===== *)
theory SomTasks
  imports SomKeep
begin

text \<open>
  Fulfilment of one decomposed order: the provisioning tasks complete in any order, with
  duplicates, and the last one activates the services and completes the order, once; a
  permanent failure fails both and gives the inventory back.
\<close>

section \<open>Pending tasks\<close>

definition pending_of :: "json \<Rightarrow> (string \<times> json) list" where
  "pending_of chars = unwrap_or [] (Option.bind (jget chars ''pendingTasks'') as_object)"

text \<open>The tasks of \<open>D\<close> are done and the others pending.\<close>

definition progress :: "string set \<Rightarrow> (string \<times> json) list \<Rightarrow> bool" where
  "progress D p \<longleftrightarrow> map fst p = TASK_TYPES \<and>
     list_all (\<lambda>t. map_of p t = Some (JStr (if t \<in> D then ''completed'' else ''pending''))) TASK_TYPES"

lemma progress_initial: "progress {} (map (\<lambda>t. (t, JStr ''pending'')) TASK_TYPES)"
  by (simp add: progress_def TASK_TYPES_def)

lemma map_fst_AList_update: "k \<in> set (map fst p) \<Longrightarrow> map fst (AList.update k v p) = map fst p"
  by (induction p) auto

lemma progress_mark:
  assumes "progress D p" "t \<in> set TASK_TYPES"
  shows "progress (insert t D) (AList.update t (JStr ''completed'') p)"
proof -
  have "map fst (AList.update t (JStr ''completed'') p) = TASK_TYPES"
    using assms map_fst_AList_update [of t p] by (simp add: progress_def)
  then show ?thesis using assms by (auto simp: progress_def list_all_iff update_conv')
qed

lemma all_completed_iff: "progress D p \<Longrightarrow> all_completed p \<longleftrightarrow> set TASK_TYPES \<subseteq> D"
  by (auto simp: progress_def all_completed_def list_all_iff)

lemma mark_pending_pending:
  "mark_pending chars t st = (c, p) \<Longrightarrow> p = AList.update t (JStr st) (pending_of chars) \<and> pending_of c = p"
  by (cases chars) (auto simp: mark_pending_def pending_of_def update_conv' unwrap_or_def Let_def split: option.splits)

section \<open>An order being fulfilled\<close>

definition order_in :: "string \<Rightarrow> string \<Rightarrow> som_db \<Rightarrow> bool" where
  "order_in st oid s \<longleftrightarrow> map_option so_state (tbl_find so_id oid (sm_orders s)) = Some st"

definition services_in :: "string \<Rightarrow> string \<Rightarrow> som_db \<Rightarrow> bool" where
  "services_in st i s \<longleftrightarrow> map_option sv_state (tbl_find sv_id i (sm_svcs s)) = Some st \<and>
     list_all (\<lambda>r. sv_parent r = Some i \<longrightarrow> sv_state r = st \<and> sv_id r \<noteq> i) (sm_svcs s)"

definition awaiting :: "string set \<Rightarrow> string \<Rightarrow> string \<Rightarrow> som_db \<Rightarrow> bool" where
  "awaiting D i oid s \<longleftrightarrow> services_in ''reserved'' i s \<and> order_in ''in_progress'' oid s \<and>
     (case tbl_find sv_id i (sm_svcs s) of None \<Rightarrow> False
      | Some cfs \<Rightarrow> sv_parent cfs \<noteq> Some i \<and> progress D (pending_of (sv_chars cfs)))"

definition fulfilled :: "string \<Rightarrow> string \<Rightarrow> som_db \<Rightarrow> bool" where
  "fulfilled i oid s \<longleftrightarrow> services_in ''activated'' i s \<and> order_in ''completed'' oid s"

lemma services_inI:
  "tbl_find sv_id i (sm_svcs u) = Some c \<Longrightarrow> sv_state c = st \<Longrightarrow>
   (\<And>r. r \<in> set (sm_svcs u) \<Longrightarrow> sv_parent r = Some i \<Longrightarrow> sv_state r = st \<and> sv_id r \<noteq> i) \<Longrightarrow> services_in st i u"
  by (simp add: services_in_def list_all_iff)

lemma activate_children_run:
  "list_all (\<lambda>c. snd c = ''reserved'') cs \<Longrightarrow>
   \<exists>h. for_each cs (activate_child now) s = (Inr (), s\<lparr>sm_svcs :=
      map (\<lambda>r. if sv_id r \<in> fst ` set cs then r\<lparr>sv_state := ''activated'', sv_activated := Some now\<rparr> else r) (sm_svcs s), sm_hist := h\<rparr>)"
proof (induction cs arbitrary: s)
  case Nil
  then show ?case by (auto simp: ret_def intro: exI [of _ "sm_hist s"])
next
  case (Cons c cs)
  obtain j where c: "c = (j, ''reserved'')" using Cons.prems by (cases c) auto
  let ?g = "\<lambda>r. r\<lparr>sv_state := ''activated'', sv_activated := Some now\<rparr>"
  let ?t = "s\<lparr>sm_svcs := tbl_update sv_id j ?g (sm_svcs s),
     sm_hist := sm_hist s @ [\<lparr>sh_svc = j, sh_from = Some ''reserved'', sh_to = ''activated'', sh_reason = ''parent CFS activated''\<rparr>]\<rparr>"
  have step: "activate_child now c s = (Inr (), ?t)"
    by (simp add: c activate_child_def activate_service_def svc_history_def som_policy_def bindp_def of_result_def modify_def)
  obtain h where h: "for_each cs (activate_child now) ?t = (Inr (), ?t\<lparr>sm_svcs :=
      map (\<lambda>r. if sv_id r \<in> fst ` set cs then ?g r else r) (sm_svcs ?t), sm_hist := h\<rparr>)"
    using Cons.IH [of ?t] Cons.prems by auto
  have "map (\<lambda>r. if sv_id r \<in> fst ` set cs then ?g r else r) (tbl_update sv_id j ?g (sm_svcs s))
      = map (\<lambda>r. if sv_id r \<in> fst ` set (c # cs) then ?g r else r) (sm_svcs s)"
    by (auto simp: tbl_update_def c)
  then have "for_each (c # cs) (activate_child now) s = (Inr (), s\<lparr>sm_svcs :=
      map (\<lambda>r. if sv_id r \<in> fst ` set (c # cs) then ?g r else r) (sm_svcs s), sm_hist := h\<rparr>)"
    using step h by (simp add: bindp_def)
  then show ?case by blast
qed

lemma completed_run:
  assumes "tbl_find sv_id i (sm_svcs s) = Some cfs" "sv_state cfs = ''reserved''" "mark_pending (sv_chars cfs) t ''completed'' = (c, p)"
    and "all_completed p"
    and v: "v = s\<lparr>sm_svcs := tbl_update sv_id i (\<lambda>r. r\<lparr>sv_state := ''activated'', sv_activated := Some now\<rparr>)
        (tbl_update sv_id i (\<lambda>r. r\<lparr>sv_chars := c\<rparr>) (sm_svcs s)), sm_hist := sm_hist s @
        [\<lparr>sh_svc = i, sh_from = Some ''reserved'', sh_to = ''activated'', sh_reason = ''all provisioning tasks completed''\<rparr>]\<rparr>"
    and cs: "cs = map (\<lambda>r. (sv_id r, sv_state r)) (filter (\<lambda>r. sv_parent r = Some i) (sm_svcs v))"
  shows "handle_task_completed ctx now i t oid coid s = bindp (for_each cs (activate_child now)) (\<lambda>_.
      bindp (close_order oid ''completed'' now) (\<lambda>_. stage ctx now ''service_order.completed'' ''ServiceOrder'' oid
        (completed_payload c oid coid (sv_id cfs)))) v"
  unfolding cs v using assms(1-4)
  by (simp add: handle_task_completed_def get_service_for_update_def set_service_characteristics_def activate_service_def
      svc_history_def child_states_def som_policy_def bindp_def gets_def modify_def of_result_def)

text \<open>The characteristics of a service; marking a task leaves everything the final event reads.\<close>

definition chars_of :: "string \<Rightarrow> som_db \<Rightarrow> json option" where
  "chars_of i s = map_option sv_chars (tbl_find sv_id i (sm_svcs s))"

lemma completed_payload_mark: "completed_payload (fst (mark_pending c t st)) oid coid i = completed_payload c oid coid i"
  by (cases c) (simp_all add: completed_payload_def mark_pending_def cv_str_def get_str_or_def get_str_def update_conv' unwrap_or_def Let_def)

text \<open>The two ways a completed task is taken: recorded, or it is the last one.\<close>

lemma task_recorded:
  assumes a: "awaiting D i oid s" and t: "t \<in> set TASK_TYPES" and more: "\<not> set TASK_TYPES \<subseteq> insert t D"
  shows "\<exists>u. handle_task_completed ctx now i t x coid s = (Inr (), u) \<and> awaiting (insert t D) i oid u \<and> outbox u = outbox s \<and>
    chars_of i u = map_option (\<lambda>c. fst (mark_pending c t ''completed'')) (chars_of i s)"
proof -
  obtain cfs where cfs: "tbl_find sv_id i (sm_svcs s) = Some cfs" "sv_state cfs = ''reserved''" "sv_parent cfs \<noteq> Some i"
      "progress D (pending_of (sv_chars cfs))"
    using a by (auto simp: awaiting_def services_in_def split: option.splits)
  obtain c p where m: "mark_pending (sv_chars cfs) t ''completed'' = (c, p)" by fastforce
  have p: "progress (insert t D) p" "pending_of c = p"
    using progress_mark [OF cfs(4) t] mark_pending_pending [OF m] by auto
  let ?u = "s\<lparr>sm_svcs := tbl_update sv_id i (\<lambda>r. r\<lparr>sv_chars := c\<rparr>) (sm_svcs s)\<rparr>"
  have "handle_task_completed ctx now i t x coid s = (Inr (), ?u)"
    using cfs m all_completed_iff [OF p(1)] more
    by (simp add: handle_task_completed_def get_service_for_update_def set_service_characteristics_def bindp_def gets_def modify_def)
  moreover have "services_in ''reserved'' i ?u"
    using a cfs by (auto simp: awaiting_def services_in_def tbl_find_update list_all_tbl_update elim!: list.pred_mono_strong)
  then have "awaiting (insert t D) i oid ?u"
    using a cfs p by (simp add: awaiting_def order_in_def tbl_find_update)
  moreover have "chars_of i ?u = map_option (\<lambda>c. fst (mark_pending c t ''completed'')) (chars_of i s)"
    using cfs(1) m by (simp add: chars_of_def tbl_find_update)
  ultimately show ?thesis by auto
qed

text \<open>The event names the service order \<open>x\<close> to close; it closes nothing when there is no such order.\<close>

lemma last_task_any:
  assumes a: "awaiting D i oid s" and t: "t \<in> set TASK_TYPES" and fin: "set TASK_TYPES \<subseteq> insert t D"
    and order: "\<And>r. tbl_find so_id x (sm_orders s) = Some r \<Longrightarrow> so_state r = ''in_progress''"
  shows "\<exists>u e c. handle_task_completed ctx now i t x coid s = (Inr (), u) \<and> services_in ''activated'' i u \<and>
    sm_orders u = tbl_update so_id x (\<lambda>r. r\<lparr>so_state := ''completed'', so_completed := Some now\<rparr>) (sm_orders s) \<and>
    outbox u = outbox s @ [e] \<and> ev_type e = ''service_order.completed'' \<and> ev_agg_id e = x \<and>
    chars_of i s = Some c \<and> ev_payload e = completed_payload c x coid i"
proof -
  obtain cfs where cfs: "tbl_find sv_id i (sm_svcs s) = Some cfs" "sv_state cfs = ''reserved''" "sv_parent cfs \<noteq> Some i"
      "progress D (pending_of (sv_chars cfs))"
    using a by (auto simp: awaiting_def services_in_def split: option.splits)
  have kids: "r \<in> set (sm_svcs s) \<Longrightarrow> sv_parent r = Some i \<Longrightarrow> sv_state r = ''reserved'' \<and> sv_id r \<noteq> i" for r
    using a by (auto simp: awaiting_def services_in_def list_all_iff)
  obtain c p where m: "mark_pending (sv_chars cfs) t ''completed'' = (c, p)" by fastforce
  have p: "progress (insert t D) p" using progress_mark [OF cfs(4) t] mark_pending_pending [OF m] by auto
  let ?g = "\<lambda>r. r\<lparr>sv_state := ''activated'', sv_activated := Some now\<rparr>"
  let ?rows = "tbl_update sv_id i ?g (tbl_update sv_id i (\<lambda>r. r\<lparr>sv_chars := c\<rparr>) (sm_svcs s))"
  let ?cs = "map (\<lambda>r. (sv_id r, sv_state r)) (filter (\<lambda>r. sv_parent r = Some i) ?rows)"
  let ?v = "s\<lparr>sm_svcs := ?rows, sm_hist := sm_hist s @
      [\<lparr>sh_svc = i, sh_from = Some ''reserved'', sh_to = ''activated'', sh_reason = ''all provisioning tasks completed''\<rparr>]\<rparr>"
  have rows: "sv_state r = ''reserved'' \<and> sv_id r \<noteq> i" if r: "r \<in> set ?rows" "sv_parent r = Some i" for r
  proof -
    have "?rows = tbl_update sv_id i (\<lambda>r. ?g (r\<lparr>sv_chars := c\<rparr>)) (sm_svcs s)" by (rule tbl_update_twice) simp
    note r(1) [unfolded this set_tbl_update]
    then obtain r0 where r0: "r0 \<in> set (sm_svcs s)" "r = (if sv_id r0 = i then ?g (r0\<lparr>sv_chars := c\<rparr>) else r0)"
      by blast
    then have "sv_parent r0 = Some i" using r(2) by (auto split: if_splits)
    then show ?thesis using kids [OF r0(1)] r0(2) by simp
  qed
  then have "list_all (\<lambda>c. snd c = ''reserved'') ?cs"
    by (auto simp: list_all_iff)
  from activate_children_run [OF this, of now ?v]
  obtain h where h0: "for_each ?cs (activate_child now) ?v = (Inr (), ?v\<lparr>sm_svcs :=
      map (\<lambda>r. if sv_id r \<in> fst ` set ?cs then ?g r else r) (sm_svcs ?v), sm_hist := h\<rparr>)" by blast
  define acted where "acted = map (\<lambda>r. if sv_id r \<in> fst ` set ?cs then ?g r else r) ?rows"
  have "sm_svcs ?v = ?rows" by simp
  note h = h0 [unfolded this, folded acted_def]
  let ?orders = "tbl_update so_id x (\<lambda>r. r\<lparr>so_state := ''completed'', so_completed := Some now\<rparr>) (sm_orders s)"
  let ?e = "stage_event ctx now (length (outbox s)) ''service_order.completed'' ''ServiceOrder'' x (Some (completed_payload c x coid (sv_id cfs)))"
  let ?u = "s\<lparr>sm_svcs := acted, sm_hist := h, sm_orders := ?orders, outbox := outbox s @ [?e]\<rparr>"
  let ?w = "?v\<lparr>sm_svcs := acted, sm_hist := h\<rparr>"
  let ?rest = "bindp (close_order x ''completed'' now) (\<lambda>_. stage ctx now ''service_order.completed'' ''ServiceOrder'' x
      (completed_payload c x coid (sv_id cfs)))"
  have "handle_task_completed ctx now i t x coid s = bindp (for_each ?cs (activate_child now)) (\<lambda>_. ?rest) ?v"
    by (rule completed_run [OF cfs(1,2) m _ refl]) (simp_all add: all_completed_iff [OF p] fin)
  also have "\<dots> = ?rest ?w" unfolding bindp_def [of "for_each ?cs (activate_child now)"] h by simp
  also have "\<dots> = (Inr (), ?u)"
  proof (cases "tbl_find so_id x (sm_orders s)")
    case None
    then have "?orders = sm_orders s" by (simp add: tbl_update_other tbl_find_None_iff)
    with None show ?thesis
      by (simp add: close_order_def service_order_state_def stage_def bindp_def gets_def modify_def ret_def)
  next
    case (Some o1)
    with order show ?thesis
      by (simp add: close_order_def service_order_state_def set_service_order_state_def som_policy_def
          stage_def bindp_def gets_def modify_def of_result_def coalesce_def)
  qed
  finally have run: "handle_task_completed ctx now i t x coid s = (Inr (), ?u)" .
  have found: "tbl_find sv_id i acted = Some (?g (cfs\<lparr>sv_chars := c\<rparr>))"
  proof -
    have "tbl_find sv_id i acted = map_option (\<lambda>r. if sv_id r \<in> fst ` set ?cs then ?g r else r) (tbl_find sv_id i ?rows)"
      unfolding acted_def by (rule tbl_find_map) simp
    moreover have "tbl_find sv_id i ?rows = Some (?g (cfs\<lparr>sv_chars := c\<rparr>))" using cfs(1) by (simp add: tbl_find_update)
    ultimately show ?thesis by simp
  qed
  have acts: "sv_state r = ''activated'' \<and> sv_id r \<noteq> i" if r: "r \<in> set acted" "sv_parent r = Some i" for r
  proof -
    obtain r1 where r1: "r1 \<in> set ?rows" "r = (if sv_id r1 \<in> fst ` set ?cs then ?g r1 else r1)"
      using r(1) unfolding acted_def set_map by blast
    have par: "sv_parent r1 = Some i" using r(2) unfolding r1(2) by (simp split: if_splits)
    then have "r1 \<in> set (filter (\<lambda>r. sv_parent r = Some i) ?rows)" using r1(1) unfolding set_filter by blast
    then have "sv_id r1 \<in> fst ` set ?cs" unfolding set_map image_image fst_conv by (rule imageI)
    moreover note rows [OF r1(1) par]
    ultimately show ?thesis unfolding r1(2) by simp
  qed
  have "services_in ''activated'' i ?u"
    using found acts by (intro services_inI [of _ _ "?g (cfs\<lparr>sv_chars := c\<rparr>)"]) simp_all
  moreover have "chars_of i s = Some (sv_chars cfs)" using cfs(1) by (simp add: chars_of_def)
  moreover have "completed_payload c x coid (sv_id cfs) = completed_payload (sv_chars cfs) x coid i"
    using completed_payload_mark [of "sv_chars cfs" t "''completed''"] m tbl_find_SomeD [OF cfs(1)] by simp
  ultimately show ?thesis using run by fastforce
qed

lemma last_task:
  assumes a: "awaiting D i oid s" and t: "t \<in> set TASK_TYPES" and fin: "set TASK_TYPES \<subseteq> insert t D"
  shows "\<exists>u e c. handle_task_completed ctx now i t oid coid s = (Inr (), u) \<and> fulfilled i oid u \<and>
    outbox u = outbox s @ [e] \<and> ev_type e = ''service_order.completed'' \<and> ev_agg_id e = oid \<and>
    chars_of i s = Some c \<and> ev_payload e = completed_payload c oid coid i"
proof -
  obtain o1 where o1: "tbl_find so_id oid (sm_orders s) = Some o1" "so_state o1 = ''in_progress''"
    using a by (auto simp: awaiting_def order_in_def)
  obtain u e c where u: "handle_task_completed ctx now i t oid coid s = (Inr (), u)" "services_in ''activated'' i u"
      "sm_orders u = tbl_update so_id oid (\<lambda>r. r\<lparr>so_state := ''completed'', so_completed := Some now\<rparr>) (sm_orders s)"
      "outbox u = outbox s @ [e]" "ev_type e = ''service_order.completed''" "ev_agg_id e = oid"
      "chars_of i s = Some c" "ev_payload e = completed_payload c oid coid i"
    using last_task_any [OF a t fin, of oid ctx now coid] o1 by auto
  have "order_in ''completed'' oid u" using o1 by (simp add: order_in_def u(3) tbl_find_update)
  then show ?thesis using u by (auto simp: fulfilled_def)
qed

lemma task_after_end:
  "fulfilled i oid s \<Longrightarrow> handle_task_completed ctx now i t oid coid s = (Inr (), s)"
  by (auto simp: fulfilled_def services_in_def handle_task_completed_def get_service_for_update_def bindp_def gets_def ret_def)

section \<open>Whole fulfilments\<close>

text \<open>Task completions for one service, in the order they arrive.\<close>

fun complete_tasks :: "request_ctx \<Rightarrow> int \<Rightarrow> string \<Rightarrow> string \<Rightarrow> string \<Rightarrow> string list \<Rightarrow> som_db \<Rightarrow> som_db" where
  "complete_tasks ctx now i oid coid [] s = s"
| "complete_tasks ctx now i oid coid (t # ts) s =
     complete_tasks ctx now i oid coid ts (snd (handle_task_completed ctx now i t oid coid s))"

lemma complete_after_end: "fulfilled i oid s \<Longrightarrow> complete_tasks ctx now i oid coid ts s = s"
  by (induction ts) (simp_all add: task_after_end)

lemma complete_tasks_from:
  assumes "awaiting D i oid s" "set ts \<subseteq> set TASK_TYPES" "\<not> set TASK_TYPES \<subseteq> D"
  shows "let u = complete_tasks ctx now i oid coid ts s in
    if set TASK_TYPES \<subseteq> D \<union> set ts
    then fulfilled i oid u \<and> (\<exists>e c. outbox u = outbox s @ [e] \<and> ev_type e = ''service_order.completed'' \<and> ev_agg_id e = oid \<and>
           chars_of i s = Some c \<and> ev_payload e = completed_payload c oid coid i)
    else awaiting (D \<union> set ts) i oid u \<and> outbox u = outbox s"
  using assms
proof (induction ts arbitrary: D s)
  case Nil
  then show ?case by (simp add: Let_def)
next
  case (Cons t ts)
  have t: "t \<in> set TASK_TYPES" using Cons.prems(2) by simp
  show ?case
  proof (cases "set TASK_TYPES \<subseteq> insert t D")
    case True
    obtain u e c where u: "handle_task_completed ctx now i t oid coid s = (Inr (), u)" "fulfilled i oid u"
        "outbox u = outbox s @ [e]" "ev_type e = ''service_order.completed''" "ev_agg_id e = oid"
        "chars_of i s = Some c" "ev_payload e = completed_payload c oid coid i"
      using last_task [OF Cons.prems(1) t True] by blast
    then show ?thesis using True complete_after_end [OF u(2)] by (auto simp: Let_def)
  next
    case False
    obtain u where u: "handle_task_completed ctx now i t oid coid s = (Inr (), u)" "awaiting (insert t D) i oid u" "outbox u = outbox s"
        "chars_of i u = map_option (\<lambda>c. fst (mark_pending c t ''completed'')) (chars_of i s)"
      using task_recorded [OF Cons.prems(1) t False] by blast
    have same: "completed_payload (fst (mark_pending c t ''completed'')) o1 coid i = completed_payload c o1 coid i" for c o1
      by (rule completed_payload_mark)
    have "D \<union> set (t # ts) = insert t D \<union> set ts" by simp
    then show ?thesis using Cons.IH [OF u(2) _ False] Cons.prems(2) u(1,3,4) by (simp only: complete_tasks.simps snd_conv) (auto simp: Let_def same split: if_splits)
  qed
qed

text \<open>A decomposed order awaits its four tasks.\<close>

lemma pending_of_cfs: "pending_of (cfs_characteristics req res) = map (\<lambda>t. (t, JStr ''pending'')) TASK_TYPES"
  by (cases res) (simp add: pending_of_def cfs_characteristics_def pending_tasks_def unwrap_or_def)

lemma decomposed_awaits:
  assumes "decomposed env req ctx now s t" "list_all (\<lambda>r. sv_parent r \<noteq> Some (svc_id_of (sm_svc_seq s))) (sm_svcs s)"
  shows "awaiting {} (svc_id_of (sm_svc_seq s)) (so_id_of (sm_so_seq s)) t"
proof -
  let ?i = "svc_id_of (sm_svc_seq s)" and ?o = "so_id_of (sm_so_seq s)"
  have fresh: "tbl_find sv_id ?i (sm_svcs s) = None" "tbl_find so_id ?o (sm_orders s) = None"
    using assms(1) by (simp_all add: decomposed_def tbl_find_None_iff)
  obtain res where rows: "sm_svcs t = sm_svcs s @ decomposed_rows (sm_svc_seq s) (cfs_characteristics req res)"
      "map_option so_state (tbl_find so_id ?o (sm_orders t)) = Some ''in_progress''"
    using assms(1) fresh by (auto simp: decomposed_def tbl_find_append)
  have "list_all (\<lambda>r. sv_parent r = Some ?i \<longrightarrow> sv_state r = ''reserved'' \<and> sv_id r \<noteq> ?i) (sm_svcs s)"
    using assms(2) by (auto simp: list_all_iff)
  then have "services_in ''reserved'' ?i t"
    using fresh rows by (simp add: services_in_def tbl_find_append decomposed_rows_def reserved_row_def)
  then show ?thesis
    using fresh rows progress_initial
    by (simp add: awaiting_def order_in_def tbl_find_append decomposed_rows_def reserved_row_def pending_of_cfs)
qed


text \<open>
  C21: Fulfilment is independent of the order of its tasks: after the provisioning events of a
  decomposed order arrived in any order, with any repetition, the services are activated and
  the service order completed exactly when every task was reported, with exactly one
  \<open>service_order.completed\<close> event; until then everything stays reserved and nothing is
  announced.
\<close>

theorem tasks_complete_in_any_order:
  assumes "decompose_order env ctx0 now0 req s = (Inr (), s1)"
    and "list_all (\<lambda>r. sv_parent r \<noteq> Some (svc_id_of (sm_svc_seq s))) (sm_svcs s)"
    and "set ts \<subseteq> set TASK_TYPES"
  shows "let i = svc_id_of (sm_svc_seq s); oid = so_id_of (sm_so_seq s); u = complete_tasks ctx now i oid coid ts s1 in
    if set ts = set TASK_TYPES
    then services_in ''activated'' i u \<and> order_in ''completed'' oid u \<and>
      (\<exists>e. outbox u = outbox s1 @ [e] \<and> ev_type e = ''service_order.completed'' \<and> ev_agg_id e = oid)
    else services_in ''reserved'' i u \<and> order_in ''in_progress'' oid u \<and> outbox u = outbox s1"
proof -
  have "decomposed env req ctx0 now0 s s1" using wp_okD [OF decompose_effect assms(1)] .
  note aw = decomposed_awaits [OF this assms(2)]
  have none: "\<not> set TASK_TYPES \<subseteq> {}" by (simp add: TASK_TYPES_def)
  have all: "set TASK_TYPES \<subseteq> {} \<union> set ts \<longleftrightarrow> set ts = set TASK_TYPES" using assms(3) by blast
  note run = complete_tasks_from [OF aw assms(3) none, of ctx now coid, unfolded all Let_def]
  show ?thesis
  proof (cases "set ts = set TASK_TYPES")
    case True
    show ?thesis unfolding Let_def if_P [OF True] using run [unfolded if_P [OF True]] unfolding fulfilled_def by blast
  next
    case False
    show ?thesis unfolding Let_def if_not_P [OF False] using run [unfolded if_not_P [OF False]] unfolding awaiting_def by blast
  qed
qed

section \<open>Permanent failure\<close>

text \<open>
  C22: A permanent provisioning failure fails the order: the service and its order become failed,
  the reserved number and eSIM are released, one \<open>service_order.failed\<close> event is staged; but
  the resource-facing services stay reserved, and a second permanent failure of the same
  service is refused by its state machine instead of being absorbed.
\<close>

theorem permanent_failure_fails_order:
  assumes "awaiting D i oid s" "tbl_find sv_id i (sm_svcs s) = Some cfs"
    and "get_str (sv_chars cfs) ''msisdn'' = Some m" "get_str (sv_chars cfs) ''iccid'' = Some ic"
  shows "\<exists>u e. handle_task_failed ctx now i t oid coid True s = (Inr (), u) \<and>
    map_option sv_state (tbl_find sv_id i (sm_svcs u)) = Some ''failed'' \<and> order_in ''failed'' oid u \<and>
    filter (\<lambda>r. sv_id r \<noteq> i) (sm_svcs u) = filter (\<lambda>r. sv_id r \<noteq> i) (sm_svcs s) \<and>
    calls u = calls s @ [SomReleaseMsisdn m, SomReleaseEsim ic] \<and>
    outbox u = outbox s @ [e] \<and> ev_type e = ''service_order.failed'' \<and>
    fst (handle_task_failed ctx' now' i t' oid coid' True u) \<noteq> Inr ()"
proof -
  have cfs: "sv_state cfs = ''reserved''" using assms(1,2) by (simp add: awaiting_def services_in_def)
  obtain o1 where o1: "tbl_find so_id oid (sm_orders s) = Some o1" "so_state o1 = ''in_progress''"
    using assms(1) by (auto simp: awaiting_def order_in_def)
  have other: "filter (\<lambda>r. sv_id r \<noteq> i) (tbl_update sv_id i f rows) = filter (\<lambda>r. sv_id r \<noteq> i) rows"
    if "\<And>r. sv_id (f r) = sv_id r" for f rows
    by (induction rows) (simp_all add: that)
  have "check_service_transition ''failed'' ''failed'' \<noteq> Inr ()" by (simp add: check_service_transition_def svc_allowed_def)
  then show ?thesis
    using cfs o1 assms(2-4)
    by (auto simp: handle_task_failed_def get_service_for_update_def set_service_characteristics_def set_service_state_def
        svc_history_def release_inventory_def call_ext_def close_order_def service_order_state_def set_service_order_state_def
        som_policy_def stage_def bindp_def gets_def modify_def of_result_def coalesce_def order_in_def tbl_find_update other
        split: sum.splits)
qed

section \<open>Witnesses\<close>

definition demo_som_env :: som_env where
  "demo_som_env = \<lparr>inv_reserve_msisdn = (\<lambda>_ _. Inr (JObj [(''msisdn'', JStr ''900'')])),
     inv_reserve_esim = (\<lambda>_. Inr (JObj [(''iccid'', JStr ''89A''), (''imsi'', JStr ''525'')]))\<rparr>"

definition demo_decompose :: decompose_request where
  "demo_decompose = \<lparr>dq_order = ''ORD-0001'', dq_customer = ''CUST-001'', dq_offering = ''PLAN_M'', dq_preference = None,
     dq_method = ''PM-0001'', dq_price = None\<rparr>"

definition demo_som :: som_db where
  "demo_som = snd (decompose_order demo_som_env default_ctx 0 demo_decompose empty_som_db)"

lemma demo_som_wp:
  "wp (decompose_order demo_som_env default_ctx 0 demo_decompose)
     (\<lambda>_ t. \<exists>cfs. tbl_find sv_id (svc_id_of 1) (sm_svcs t) = Some cfs \<and>
        get_str (sv_chars cfs) ''msisdn'' = Some ''900'' \<and> get_str (sv_chars cfs) ''iccid'' = Some ''89A'') (\<lambda>_ _. False) empty_som_db"
  unfolding decompose_order_def next_service_order_id_def next_service_order_item_id_def insert_service_order_def
    insert_service_order_item_def set_soi_target_def set_service_characteristics_def set_service_order_state_def reserve_inventory_def
  by (simp add: wp_simps wp_design_service wp_reserve_service TASK_TYPES_def empty_som_db_def demo_som_env_def get_str_def
      demo_decompose_def cfs_characteristics_def)

lemma demo_som_run: "decompose_order demo_som_env default_ctx 0 demo_decompose empty_som_db = (Inr (), demo_som)"
  using demo_som_wp by (auto simp: wp_def demo_som_def split: prod.splits sum.splits)

lemma demo_fresh: "sm_svcs empty_som_db = []" "sm_svc_seq empty_som_db = 1" "sm_so_seq empty_som_db = 1"
  by (simp_all add: empty_som_db_def)

theorem tasks_complete_in_any_order_witness:
  "order_in ''completed'' (so_id_of 1) (complete_tasks default_ctx 5 (svc_id_of 1) (so_id_of 1) [] (rev TASK_TYPES @ TASK_TYPES) demo_som)"
proof -
  have "set (rev TASK_TYPES @ TASK_TYPES) = set TASK_TYPES" by auto
  then show ?thesis
    using tasks_complete_in_any_order [OF demo_som_run, of "rev TASK_TYPES @ TASK_TYPES" default_ctx 5 "[]"]
    by (simp add: demo_fresh Let_def)
qed

theorem permanent_failure_fails_order_witness:
  "\<exists>u. handle_task_failed default_ctx 5 (svc_id_of 1) ''HLR_PROVISION'' (so_id_of 1) [] True demo_som = (Inr (), u) \<and>
     order_in ''failed'' (so_id_of 1) u"
proof -
  have aw: "awaiting {} (svc_id_of 1) (so_id_of 1) demo_som"
    using decomposed_awaits [OF wp_okD [OF decompose_effect demo_som_run]] by (simp add: demo_fresh)
  obtain cfs where cfs: "tbl_find sv_id (svc_id_of 1) (sm_svcs demo_som) = Some cfs"
      "get_str (sv_chars cfs) ''msisdn'' = Some ''900''" "get_str (sv_chars cfs) ''iccid'' = Some ''89A''"
    using wp_okD [OF demo_som_wp demo_som_run] by blast
  from permanent_failure_fails_order [OF aw cfs] show ?thesis by blast
qed

end
