(* ===== verification/Com.thy ===== *)
theory Com
  imports SubPolicies Consumer
begin

text \<open>
  \<open>services/com\<close>: the commercial order. Its state machine (\<open>domain.rs\<close>), the policies
  over other services (\<open>policies.rs\<close>), creation, submission and cancellation, the two
  consumers that close an order, with the promotion claimed, redeemed or revoked around the
  activation (\<open>service.rs\<close>, \<open>consumer.rs\<close>), and the sweep that flags stuck orders
  (\<open>reconciliation.rs\<close>). The author of a history row is not modelled.
\<close>

section \<open>State machine\<close>

definition allowed_targets :: "string \<Rightarrow> string list" where
  "allowed_targets current =
     (if current = ''acknowledged'' then [''cancelled'', ''in_progress'']
      else if current = ''in_progress'' then [''cancelled'', ''completed'', ''failed''] else [])"

definition check_order_transition :: "string \<Rightarrow> string \<Rightarrow> api_error + unit" where
  "check_order_transition current_state target_state =
     (if target_state \<notin> set (allowed_targets current_state)
      then Inl (violate ''order.transition.invalid''
             [(''current_state'', JStr current_state), (''target_state'', JStr target_state),
              (''allowed'', JArr (map JStr (allowed_targets current_state)))])
      else Inr ())"

section \<open>State\<close>

record order_row =
  or_id :: string
  or_customer :: string
  or_state :: string
  or_date :: "int option"
  or_requested :: "int option"
  or_completed :: "int option"
  or_msisdn_pref :: "string option"
  or_notes :: "string option"
  or_stuck :: "int option"

record item_row =
  it_id :: string
  it_order :: string
  it_action :: string
  it_offering :: string
  it_state :: "string option"
  it_sub :: "string option"
  it_price :: "rat option"
  it_currency :: "string option"
  it_price_id :: "string option"
  it_code :: "string option"
  it_offer_def :: "string option"
  it_disc_type :: "string option"
  it_disc_value :: "rat option"
  it_disc_periods :: "int option"
  it_promo_offer :: "string option"

record order_hist =
  oh_order :: string
  oh_from :: "string option"
  oh_to :: "string option"
  oh_reason :: string

text \<open>The calls that change another service's state: the loyalty engine and the subscription service.\<close>

datatype com_call =
    AdvanceOffer string string
  | ClaimOffer string string string
  | CreateSub json
  | RedeemOffer string string
  | RevokeOffer string string

record com_db = "com_call base" +
  co_ord_seq :: nat
  co_item_seq :: nat
  co_orders :: "order_row list"
  co_items :: "item_row list"
  co_hist :: "order_hist list"

type_synonym 'a com_prog = "(com_db, api_error, 'a) prog"
type_synonym order_full = "order_row \<times> item_row list"

record com_env =
  ce_customer :: "string \<Rightarrow> client_error + json"
  ce_offering :: "string \<Rightarrow> client_error + json"
  ce_active_price :: "string \<Rightarrow> client_error + json"
  ce_methods :: "string \<Rightarrow> client_error + json"
  ce_validate :: "string \<Rightarrow> string \<Rightarrow> string \<Rightarrow> client_error + json"
  ce_eligible :: "string \<Rightarrow> string \<Rightarrow> client_error + json"
  ce_service_orders :: "string \<Rightarrow> client_error + json"
  ce_loyalty :: bool
  ce_advance :: "com_call list \<Rightarrow> string \<Rightarrow> client_error + json"
  ce_claim :: "com_call list \<Rightarrow> string \<Rightarrow> string \<Rightarrow> client_error + json"
  ce_create_sub :: "com_call list \<Rightarrow> json \<Rightarrow> client_error + json"
  ce_decimal :: "string \<Rightarrow> rat option"

section \<open>Repository\<close>

definition items_for :: "com_db \<Rightarrow> string \<Rightarrow> item_row list" where
  "items_for s order_id = filter (\<lambda>i. it_order i = order_id) (co_items s)"

definition order_get :: "com_db \<Rightarrow> string \<Rightarrow> order_full option" where
  "order_get s order_id = map_option (\<lambda>o1. (o1, items_for s order_id)) (tbl_find or_id order_id (co_orders s))"

text \<open>\<open>ORDER BY created_at DESC LIMIT .. OFFSET ..\<close>, with its four filters.\<close>

definition order_list :: "com_db \<Rightarrow> string option \<Rightarrow> string option \<Rightarrow> nat \<Rightarrow> nat \<Rightarrow> order_full list" where
  "order_list s customer_id state limit offset =
     map (\<lambda>o1. (o1, items_for s (or_id o1))) (take limit (drop offset (rev (filter (\<lambda>o1.
       (case customer_id of None \<Rightarrow> True | Some c \<Rightarrow> or_customer o1 = c) \<and>
       (case state of None \<Rightarrow> True | Some st \<Rightarrow> or_state o1 = st)) (co_orders s)))))"

definition order_get_for_update :: "com_db \<Rightarrow> string \<Rightarrow> (order_row \<times> item_row option) option" where
  "order_get_for_update s order_id =
     map_option (\<lambda>o1. (o1, case items_for s order_id of [] \<Rightarrow> None | i # _ \<Rightarrow> Some i)) (tbl_find or_id order_id (co_orders s))"

definition next_order_id :: "string com_prog" where
  "next_order_id = bindp (gets co_ord_seq) (\<lambda>n. bindp (modify (\<lambda>s. s\<lparr>co_ord_seq := n + 1\<rparr>)) (\<lambda>_. ret (''ORD-'' @ pad4 n)))"

definition next_item_id :: "string com_prog" where
  "next_item_id = bindp (gets co_item_seq) (\<lambda>n. bindp (modify (\<lambda>s. s\<lparr>co_item_seq := n + 1\<rparr>)) (\<lambda>_. ret (''OI-'' @ pad4 n)))"

definition insert_order :: "order_row \<Rightarrow> unit com_prog" where
  "insert_order r =
     bindp (gets co_orders) (\<lambda>rows.
       if or_id r \<in> or_id ` set rows then throw (InternalE ''pk_product_order'') else modify (\<lambda>s. s\<lparr>co_orders := co_orders s @ [r]\<rparr>))"

definition insert_item :: "item_row \<Rightarrow> unit com_prog" where
  "insert_item r =
     bindp (gets co_items) (\<lambda>rows.
       if it_id r \<in> it_id ` set rows then throw (InternalE ''pk_order_item'') else modify (\<lambda>s. s\<lparr>co_items := co_items s @ [r]\<rparr>))"

definition update_order :: "string \<Rightarrow> (order_row \<Rightarrow> order_row) \<Rightarrow> unit com_prog" where
  "update_order order_id f = modify (\<lambda>s. s\<lparr>co_orders := tbl_update or_id order_id f (co_orders s)\<rparr>)"

definition update_item :: "string \<Rightarrow> (item_row \<Rightarrow> item_row) \<Rightarrow> unit com_prog" where
  "update_item item_id f = modify (\<lambda>s. s\<lparr>co_items := tbl_update it_id item_id f (co_items s)\<rparr>)"

definition order_history :: "string \<Rightarrow> string option \<Rightarrow> string option \<Rightarrow> string \<Rightarrow> unit com_prog" where
  "order_history order_id from_state to_state reason =
     modify (\<lambda>s. s\<lparr>co_hist := co_hist s @ [\<lparr>oh_order = order_id, oh_from = from_state, oh_to = to_state, oh_reason = reason\<rparr>]\<rparr>)"

section \<open>Policies\<close>

definition order_customer_exists :: "com_env \<Rightarrow> string \<Rightarrow> api_error + json" where
  "order_customer_exists env customer_id = (case ce_customer env customer_id of
      Inr v \<Rightarrow> Inr v
    | Inl NotFoundErr \<Rightarrow> Inl (violate ''order.create.customer_not_found'' [(''customer_id'', JStr customer_id)])
    | Inl e \<Rightarrow> Inl (upstream e))"

definition order_offering_exists :: "com_env \<Rightarrow> string \<Rightarrow> api_error + json" where
  "order_offering_exists env offering_id = (case ce_offering env offering_id of
      Inr v \<Rightarrow> Inr v
    | Inl NotFoundErr \<Rightarrow> Inl (violate ''order.create.offering_not_found'' [(''offering_id'', JStr offering_id)])
    | Inl e \<Rightarrow> Inl (upstream e))"

definition check_offering_currently_sellable :: "com_env \<Rightarrow> string \<Rightarrow> api_error + json" where
  "check_offering_currently_sellable env offering_id = (case order_offering_exists env offering_id of
      Inl e \<Rightarrow> Inl e
    | Inr _ \<Rightarrow> (case ce_active_price env offering_id of
          Inr price \<Rightarrow> Inr price
        | Inl (PolicyErr pv) \<Rightarrow> Inl (violate ''policy.offering.not_sellable_now''
             [(''offering_id'', JStr offering_id), (''underlying'', JStr (rule pv))])
        | Inl e \<Rightarrow> Inl (upstream e)))"

definition check_customer_has_payment_method :: "com_env \<Rightarrow> string \<Rightarrow> api_error + json" where
  "check_customer_has_payment_method env customer_id = (case up (ce_methods env customer_id) of
      Inl e \<Rightarrow> Inl e
    | Inr methods \<Rightarrow>
        if (case as_array methods of None \<Rightarrow> True | Some ms \<Rightarrow> ms = [])
        then Inl (violate ''order.create.no_payment_method'' [(''customer_id'', JStr customer_id)])
        else Inr methods)"

text \<open>The first service order past \<open>acknowledged\<close> forbids the cancellation.\<close>

definition check_cancel_allowed_after_som :: "com_env \<Rightarrow> string \<Rightarrow> api_error + unit" where
  "check_cancel_allowed_after_som env order_id = (case up (ce_service_orders env order_id) of
      Inl e \<Rightarrow> Inl e
    | Inr service_orders \<Rightarrow> (case find (\<lambda>so. get_str so ''state'' \<noteq> Some ''acknowledged'' \<and> get_str so ''state'' \<noteq> None)
                                   (unwrap_or [] (as_array service_orders)) of
          None \<Rightarrow> Inr ()
        | Some so \<Rightarrow> Inl (violate ''order.cancel.forbidden_after_som_started''
             [(''order_id'', JStr order_id), (''service_order_id'', unwrap_or JNull (jget so ''id'')),
              (''service_order_state'', unwrap_or JNull (jget so ''state''))])))"

definition order_not_found :: "string \<Rightarrow> api_error" where
  "order_not_found order_id = violate ''order.not_found'' [(''order_id'', JStr order_id)]"

section \<open>Create\<close>

record create_order_req =
  oq_customer :: string
  oq_offering :: string
  oq_msisdn_pref :: "string option"
  oq_notes :: "string option"
  oq_code :: "string option"
  oq_skip_assigned :: bool

record discount_intent =
  di_code :: "string option"
  di_offer_def :: "string option"
  di_type :: "string option"
  di_value :: "rat option"
  di_periods :: "int option"
  di_promo_offer :: "string option"

definition no_discount :: discount_intent where
  "no_discount = \<lparr>di_code = None, di_offer_def = None, di_type = None, di_value = None, di_periods = None, di_promo_offer = None\<rparr>"

definition is_valid :: "json \<Rightarrow> bool" where
  "is_valid doc \<longleftrightarrow> get_bool doc ''valid'' = Some True"

text \<open>The document to take the discount from, with the code to claim it by; an error means no discount.\<close>

definition resolve_doc :: "com_env \<Rightarrow> string \<Rightarrow> string \<Rightarrow> string option \<Rightarrow> bool \<Rightarrow> client_error + (json \<times> string option) option" where
  "resolve_doc env customer_id offering_id discount_code skip_assigned =
     (let assigned = (if skip_assigned then Inr None
            else (case ce_eligible env customer_id offering_id of
                    Inl e \<Rightarrow> Inl e
                  | Inr eligible \<Rightarrow> Inr (if is_valid eligible then Some (eligible, get_str eligible ''code'') else None)))
      in case discount_code of
           None \<Rightarrow> assigned
         | Some code \<Rightarrow>
             if code = [] then assigned
             else (case ce_validate env code offering_id customer_id of
                     Inl e \<Rightarrow> Inl e
                   | Inr typed \<Rightarrow> if is_valid typed then Inr (Some (typed, Some code)) else assigned))"

text \<open>A decimal amount in a document is its rendered value or a text the parser reads.\<close>

definition decimal_text :: "(string \<Rightarrow> rat option) \<Rightarrow> json option \<Rightarrow> rat option" where
  "decimal_text parse v = (case v of Some (JStr t) \<Rightarrow> parse t | Some (JDec q) \<Rightarrow> Some q | _ \<Rightarrow> None)"

definition resolve_discount :: "com_env \<Rightarrow> string \<Rightarrow> string \<Rightarrow> string option \<Rightarrow> bool \<Rightarrow> discount_intent" where
  "resolve_discount env customer_id offering_id discount_code skip_assigned =
     (case resolve_doc env customer_id offering_id discount_code skip_assigned of
        Inl _ \<Rightarrow> no_discount
      | Inr None \<Rightarrow> no_discount
      | Inr (Some (res, code)) \<Rightarrow>
          \<lparr>di_code = code, di_offer_def = get_str res ''offerDefinitionId'', di_type = get_str res ''discountType'',
           di_value = decimal_text (ce_decimal env) (jget res ''discountValue''),
           di_periods = map_option wrap16 (get_i64 res ''discountPeriodsTotal''),
           di_promo_offer = get_str res ''loyaltyOfferId''\<rparr>)"

definition order_reread :: "string \<Rightarrow> string \<Rightarrow> order_full com_prog" where
  "order_reread order_id what =
     bindp (gets (\<lambda>s. order_get s order_id)) (\<lambda>found. case found of None \<Rightarrow> throw (InternalE what) | Some full \<Rightarrow> ret full)"

definition order_require :: "string \<Rightarrow> order_full com_prog" where
  "order_require order_id =
     bindp (gets (\<lambda>s. order_get s order_id)) (\<lambda>found. case found of None \<Rightarrow> throw (order_not_found order_id) | Some full \<Rightarrow> ret full)"

definition numeric_opt :: "nat \<Rightarrow> rat option \<Rightarrow> api_error + rat option" where
  "numeric_opt precision v = (case v of None \<Rightarrow> Inr None
     | Some q \<Rightarrow> (case to_numeric precision q of Inl e \<Rightarrow> Inl e | Inr r \<Rightarrow> Inr (Some r)))"

definition create_order_tx :: "request_ctx \<Rightarrow> int \<Rightarrow> create_order_req \<Rightarrow> rat \<Rightarrow> string \<Rightarrow> string \<Rightarrow> discount_intent
    \<Rightarrow> string \<Rightarrow> string \<Rightarrow> unit com_prog" where
  "create_order_tx ctx now req amount currency price_id discount order_id item_id =
     in_tx (
       bindp (insert_order \<lparr>or_id = order_id, or_customer = oq_customer req, or_state = ''acknowledged'', or_date = Some now,
                or_requested = None, or_completed = None, or_msisdn_pref = oq_msisdn_pref req, or_notes = oq_notes req,
                or_stuck = None\<rparr>) (\<lambda>_.
       bindp (of_result (to_numeric 10 amount)) (\<lambda>stored.
       bindp (of_result (numeric_opt 12 (di_value discount))) (\<lambda>disc_value.
       bindp (insert_item \<lparr>it_id = item_id, it_order = order_id, it_action = ''add'', it_offering = oq_offering req,
                it_state = Some ''acknowledged'', it_sub = None, it_price = Some stored, it_currency = Some currency,
                it_price_id = Some price_id, it_code = di_code discount, it_offer_def = di_offer_def discount,
                it_disc_type = di_type discount, it_disc_value = disc_value, it_disc_periods = di_periods discount,
                it_promo_offer = di_promo_offer discount\<rparr>) (\<lambda>_.
       bindp (order_history order_id None (Some ''acknowledged'') ''order created'') (\<lambda>_.
       stage ctx now ''order.acknowledged'' ''ProductOrder'' order_id (JObj
         [(''commercialOrderId'', JStr order_id), (''customerId'', JStr (oq_customer req)),
          (''offeringId'', JStr (oq_offering req)),
          (''priceSnapshot'', JObj [(''priceAmount'', JDec amount), (''priceCurrency'', JStr currency),
             (''priceOfferingPriceId'', JStr price_id)])])))))))"

definition create_order :: "com_env \<Rightarrow> request_ctx \<Rightarrow> int \<Rightarrow> create_order_req \<Rightarrow> order_full com_prog" where
  "create_order env ctx now req =
     bindp (of_result (order_customer_exists env (oq_customer req))) (\<lambda>_.
     bindp (of_result (check_offering_currently_sellable env (oq_offering req))) (\<lambda>active_price.
     bindp (of_result (check_customer_has_payment_method env (oq_customer req))) (\<lambda>_.
     let tia = jidx (jidx active_price ''price'') ''taxIncludedAmount'' in
     bindp (of_result (case json_decimal (ce_decimal env) (jidx tia ''value'') of
              None \<Rightarrow> Inl (InternalE ''bad price value'') | Some a \<Rightarrow> Inr a)) (\<lambda>amount.
     let discount = resolve_discount env (oq_customer req) (oq_offering req) (oq_code req) (oq_skip_assigned req) in
     bindp next_order_id (\<lambda>order_id.
     bindp next_item_id (\<lambda>item_id.
     bindp (create_order_tx ctx now req amount (get_str_or tia ''unit'' ''SGD'') (get_str_or active_price ''id'' [])
              discount order_id item_id) (\<lambda>_.
     order_reread order_id ''order vanished after create'')))))))"

section \<open>Submit and cancel\<close>

definition item_price_snapshot :: "item_row \<Rightarrow> json option" where
  "item_price_snapshot item = map_option (\<lambda>amount.
     JObj [(''priceAmount'', JDec amount), (''priceCurrency'', opt_json JStr (it_currency item)),
           (''priceOfferingPriceId'', opt_json JStr (it_price_id item))]) (it_price item)"

definition first_method :: "json \<Rightarrow> string" where
  "first_method methods = (case as_array methods of Some (m # _) \<Rightarrow> get_str_or m ''id'' [] | _ \<Rightarrow> [])"

definition submit_payload :: "order_row \<Rightarrow> item_row option \<Rightarrow> string \<Rightarrow> json" where
  "submit_payload o1 item payment_method_id =
     JObj ([(''commercialOrderId'', JStr (or_id o1)), (''customerId'', JStr (or_customer o1)),
       (''offeringId'', JStr (case item of None \<Rightarrow> [] | Some i \<Rightarrow> it_offering i)),
       (''msisdnPreference'', opt_json JStr (or_msisdn_pref o1)), (''paymentMethodId'', JStr payment_method_id)]
       @ (case Option.bind item item_price_snapshot of None \<Rightarrow> [] | Some ps \<Rightarrow> [(''priceSnapshot'', ps)]))"

definition submit_order :: "com_env \<Rightarrow> request_ctx \<Rightarrow> int \<Rightarrow> string \<Rightarrow> order_full com_prog" where
  "submit_order env ctx now order_id =
     bindp (order_require order_id) (\<lambda>full. let o1 = fst full; item = (case snd full of [] \<Rightarrow> None | i # _ \<Rightarrow> Some i) in
     bindp (of_result (check_order_transition (or_state o1) ''in_progress'')) (\<lambda>_.
     bindp (of_result (up (ce_methods env (or_customer o1)))) (\<lambda>methods.
     bindp (in_tx (
       bindp (update_order order_id (\<lambda>r. r\<lparr>or_state := ''in_progress''\<rparr>)) (\<lambda>_.
       bindp (order_history order_id (Some (or_state o1)) (Some ''in_progress'') ''order submitted'') (\<lambda>_.
       stage ctx now ''order.in_progress'' ''ProductOrder'' order_id (submit_payload o1 item (first_method methods)))))) (\<lambda>_.
     order_reread order_id ''order vanished after submit''))))"

definition cancel_order :: "com_env \<Rightarrow> request_ctx \<Rightarrow> int \<Rightarrow> string \<Rightarrow> order_full com_prog" where
  "cancel_order env ctx now order_id =
     bindp (order_require order_id) (\<lambda>full. let o1 = fst full in
     bindp (of_result (check_order_transition (or_state o1) ''cancelled'')) (\<lambda>_.
     bindp (of_result (if or_state o1 = ''in_progress'' then check_cancel_allowed_after_som env order_id else Inr ())) (\<lambda>_.
     bindp (in_tx (
       bindp (update_order order_id (\<lambda>r. r\<lparr>or_state := ''cancelled'', or_completed := Some now\<rparr>)) (\<lambda>_.
       bindp (order_history order_id (Some (or_state o1)) (Some ''cancelled'') ''cancelled by user'') (\<lambda>_.
       stage ctx now ''order.cancelled'' ''ProductOrder'' order_id
         (JObj [(''commercialOrderId'', JStr order_id), (''customerId'', JStr (or_customer o1))]))))) (\<lambda>_.
     order_reread order_id ''order vanished after cancel''))))"

end
