(* ===== verification/ComFlow.thy ===== *)
theory ComFlow
  imports Com
begin

text \<open>
  The consumers of \<open>services/com\<close>: activation of a fulfilled order with its promotion,
  failure of an order, and the sweep over stuck orders.
\<close>

section \<open>The promotion's entitlement\<close>

definition claim_key :: "string \<Rightarrow> string" where
  "claim_key order_id = order_id @ '':claim''"

text \<open>Targeted offers are advanced, typed codes minted and claimed; \<open>Inr None\<close> without a promotion.\<close>

definition claim_entitlement :: "com_env \<Rightarrow> order_row \<Rightarrow> item_row option \<Rightarrow> (client_error + string option) com_prog" where
  "claim_entitlement env o1 item =
     (case item of None \<Rightarrow> ret (Inr None)
      | Some it \<Rightarrow>
        if it_disc_type it = None \<or> it_code it = None \<or> \<not> ce_loyalty env then ret (Inr None)
        else
        (case it_promo_offer it of
           Some pre_offer \<Rightarrow>
             bindp (gets calls) (\<lambda>made.
             bindp (call_ext (AdvanceOffer pre_offer (claim_key (or_id o1))) (ce_advance env made pre_offer)) (\<lambda>r.
             ret (case r of Inl e \<Rightarrow> Inl e | Inr _ \<Rightarrow> Inr (Some pre_offer))))
         | None \<Rightarrow>
             (let code = unwrap_or [] (it_code it) in
              bindp (gets calls) (\<lambda>made.
              bindp (call_ext (ClaimOffer (or_customer o1) code (claim_key (or_id o1))) (ce_claim env made (or_customer o1) code)) (\<lambda>r.
              ret (case r of Inl e \<Rightarrow> Inl e | Inr doc \<Rightarrow> Inr (get_str doc ''offer_id'')))))))"

text \<open>The claim as the activation takes it: a refusal is announced and degrades to the full price.\<close>

definition claim_or_degrade :: "com_env \<Rightarrow> request_ctx \<Rightarrow> int \<Rightarrow> string \<Rightarrow> order_row \<Rightarrow> item_row option \<Rightarrow> string option com_prog" where
  "claim_or_degrade env ctx now customer_id o1 item =
     bindp (claim_entitlement env o1 item) (\<lambda>claimed.
     case claimed of
       Inr oid \<Rightarrow> ret oid
     | Inl _ \<Rightarrow>
         bindp (stage ctx now ''order.promo_not_applied'' ''ProductOrder'' (or_id o1) (JObj
           [(''commercialOrderId'', JStr (or_id o1)), (''customerId'', JStr customer_id),
            (''promoCode'', opt_json JStr (Option.bind item it_code)), (''reason'', JStr ''claim_refused'')])) (\<lambda>_. ret None))"

text \<open>
  \<open>ps["discountType"] = ..\<close> and its kin: a \<open>null\<close> becomes an object, any other value that
  is not an object makes the assignment panic.
\<close>

definition stamp_discount :: "item_row \<Rightarrow> json \<Rightarrow> api_error + json" where
  "stamp_discount it ps =
     (case (if is_null ps then JObj [] else ps) of
        JObj kvs \<Rightarrow> Inr (fold (\<lambda>(k, v). jinsert k v)
          [(''discountType'', opt_json JStr (it_disc_type it)), (''discountValue'', opt_json JDec (it_disc_value it)),
           (''discountPeriodsTotal'', opt_json JInt (it_disc_periods it)), (''promoCode'', opt_json JStr (it_code it)),
           (''promoOfferDefinitionId'', opt_json JStr (it_offer_def it))] (JObj kvs))
      | _ \<Rightarrow> Inl (InternalE ''panic: price snapshot is not an object''))"

section \<open>Activation\<close>

record service_order_completed =
  sc_order :: string
  sc_customer :: string
  sc_offering :: string
  sc_msisdn :: string
  sc_iccid :: string
  sc_method :: string
  sc_cfs :: string
  sc_price :: "json option"

definition resolve_snapshot :: "service_order_completed \<Rightarrow> item_row option \<Rightarrow> json option" where
  "resolve_snapshot p item =
     (case sc_price p of
        Some v \<Rightarrow> if is_null v then Option.bind item item_price_snapshot else Some v
      | None \<Rightarrow> Option.bind item item_price_snapshot)"

definition activation_body :: "service_order_completed \<Rightarrow> json option \<Rightarrow> json" where
  "activation_body p price_snapshot =
     JObj ([(''customerId'', JStr (sc_customer p)), (''offeringId'', JStr (sc_offering p)), (''msisdn'', JStr (sc_msisdn p)),
       (''iccid'', JStr (sc_iccid p)), (''paymentMethodId'', JStr (sc_method p)), (''commercialOrderId'', JStr (sc_order p))]
       @ (case price_snapshot of None \<Rightarrow> [] | Some ps \<Rightarrow> [(''priceSnapshot'', ps)]))"

text \<open>The subscription is created between the claim and its redemption; a refusal gives the entitlement back.\<close>

definition activate :: "com_env \<Rightarrow> string \<Rightarrow> string option \<Rightarrow> json \<Rightarrow> json com_prog" where
  "activate env order_id offer_id body =
     bindp (gets calls) (\<lambda>made.
     bindp (call_ext (CreateSub body) (ce_create_sub env made body)) (\<lambda>r.
     case r of
       Inl e \<Rightarrow>
         bindp (case offer_id of Some oid \<Rightarrow> if ce_loyalty env then call_ext (RevokeOffer oid (order_id @ '':revoke'')) () else ret ()
                | None \<Rightarrow> ret ()) (\<lambda>_. throw (upstream e))
     | Inr sub \<Rightarrow>
         bindp (case offer_id of Some oid \<Rightarrow> if ce_loyalty env then call_ext (RedeemOffer oid (order_id @ '':redeem'')) () else ret ()
                | None \<Rightarrow> ret ()) (\<lambda>_. ret sub)))"

definition complete_order :: "request_ctx \<Rightarrow> int \<Rightarrow> service_order_completed \<Rightarrow> order_row \<Rightarrow> item_row option \<Rightarrow> string option \<Rightarrow> json \<Rightarrow> unit com_prog" where
  "complete_order ctx now p o1 item offer_id sub_result =
     (let subscription_id = get_str sub_result ''id'' in
      bindp (case item of None \<Rightarrow> ret () | Some it \<Rightarrow> update_item (it_id it) (\<lambda>r. r\<lparr>it_sub := subscription_id,
               it_state := Some ''completed'', it_promo_offer := (case offer_id of None \<Rightarrow> it_promo_offer r | Some oid \<Rightarrow> Some oid)\<rparr>)) (\<lambda>_.
      bindp (of_result (check_order_transition (or_state o1) ''completed'')) (\<lambda>_.
      bindp (update_order (or_id o1) (\<lambda>r. r\<lparr>or_state := ''completed'', or_completed := Some now\<rparr>)) (\<lambda>_.
      bindp (order_history (or_id o1) (Some ''in_progress'') (Some ''completed'') ''service order completed'') (\<lambda>_.
      stage ctx now ''order.completed'' ''ProductOrder'' (or_id o1) (JObj
        [(''commercialOrderId'', JStr (or_id o1)), (''customerId'', JStr (or_customer o1)),
         (''subscriptionId'', opt_json JStr subscription_id), (''cfsServiceId'', JStr (sc_cfs p))]))))))"

definition handle_service_order_completed :: "com_env \<Rightarrow> request_ctx \<Rightarrow> int \<Rightarrow> service_order_completed \<Rightarrow> unit com_prog" where
  "handle_service_order_completed env ctx now p =
     bindp (gets (\<lambda>s. order_get_for_update s (sc_order p))) (\<lambda>found.
     case found of None \<Rightarrow> ret ()
     | Some oi \<Rightarrow> let o1 = fst oi; item = snd oi in
       if or_state o1 \<noteq> ''in_progress'' then ret ()
       else
       bindp (claim_or_degrade env ctx now (sc_customer p) o1 item) (\<lambda>offer_id.
       bindp (of_result (case (offer_id, item, resolve_snapshot p item) of
                (Some _, Some it, Some ps) \<Rightarrow> (case stamp_discount it ps of Inl e \<Rightarrow> Inl e | Inr ps \<Rightarrow> Inr (Some ps))
              | (_, _, snapshot) \<Rightarrow> Inr snapshot)) (\<lambda>price_snapshot.
       bindp (activate env (or_id o1) offer_id (activation_body p price_snapshot)) (\<lambda>sub_result.
       complete_order ctx now p o1 item offer_id sub_result))))"

definition handle_service_order_failed :: "request_ctx \<Rightarrow> int \<Rightarrow> string \<Rightarrow> string \<Rightarrow> unit com_prog" where
  "handle_service_order_failed ctx now commercial_order_id reason =
     bindp (gets (\<lambda>s. order_get_for_update s commercial_order_id)) (\<lambda>found.
     case found of None \<Rightarrow> ret ()
     | Some oi \<Rightarrow> let o1 = fst oi; item = snd oi in
       if or_state o1 \<noteq> ''in_progress'' then ret ()
       else
       bindp (of_result (check_order_transition (or_state o1) ''failed'')) (\<lambda>_.
       bindp (update_order (or_id o1) (\<lambda>r. r\<lparr>or_state := ''failed'', or_completed := Some now\<rparr>)) (\<lambda>_.
       bindp (case item of None \<Rightarrow> ret () | Some it \<Rightarrow> update_item (it_id it) (\<lambda>r. r\<lparr>it_state := Some ''failed''\<rparr>)) (\<lambda>_.
       bindp (order_history (or_id o1) (Some ''in_progress'') (Some ''failed'') reason) (\<lambda>_.
       stage ctx now ''order.failed'' ''ProductOrder'' (or_id o1) (JObj
         [(''commercialOrderId'', JStr (or_id o1)), (''customerId'', JStr (or_customer o1)), (''reason'', JStr reason)]))))))"

section \<open>The consumers\<close>

definition com_req_str :: "json \<Rightarrow> string \<Rightarrow> (com_db, string, string) prog" where
  "com_req_str body key = of_result (case get_str body key of None \<Rightarrow> Inl ''missing required field'' | Some v \<Rightarrow> Inr v)"

definition order_completed_handler :: "com_env \<Rightarrow> int \<Rightarrow> json \<Rightarrow> (com_db, string, unit) prog" where
  "order_completed_handler env now body =
     bindp (com_req_str body ''commercialOrderId'') (\<lambda>order_id.
     bindp (com_req_str body ''customerId'') (\<lambda>customer.
     bindp (com_req_str body ''offeringId'') (\<lambda>offering.
     bindp (com_req_str body ''msisdn'') (\<lambda>msisdn.
     bindp (com_req_str body ''iccid'') (\<lambda>iccid.
     bindp (com_req_str body ''paymentMethodId'') (\<lambda>payment_method.
     map_err (\<lambda>_. ''handler error'') (handle_service_order_completed env default_ctx now
       \<lparr>sc_order = order_id, sc_customer = customer, sc_offering = offering, sc_msisdn = msisdn, sc_iccid = iccid,
        sc_method = payment_method, sc_cfs = get_str_or body ''cfsServiceId'' [],
        sc_price = (case jget body ''priceSnapshot'' of None \<Rightarrow> None | Some v \<Rightarrow> if is_null v then None else Some v)\<rparr>)))))))"

definition order_failed_handler :: "int \<Rightarrow> json \<Rightarrow> (com_db, string, unit) prog" where
  "order_failed_handler now body =
     bindp (com_req_str body ''commercialOrderId'') (\<lambda>order_id.
     map_err (\<lambda>_. ''handler error'') (handle_service_order_failed default_ctx now order_id (get_str_or body ''reason'' [])))"

section \<open>The sweep over stuck orders\<close>

definition stuck :: "int \<Rightarrow> order_row \<Rightarrow> bool" where
  "stuck cutoff r \<longleftrightarrow> or_state r = ''in_progress'' \<and> or_stuck r = None \<and>
     (case or_date r of None \<Rightarrow> False | Some d \<Rightarrow> d < cutoff)"

definition flag_stuck :: "int \<Rightarrow> order_row \<Rightarrow> unit com_prog" where
  "flag_stuck now r =
     in_tx (bindp (stage default_ctx now ''order.stuck'' ''ProductOrder'' (or_id r) (JObj
         [(''commercialOrderId'', JStr (or_id r)), (''customerId'', JStr (or_customer r)), (''state'', JStr (or_state r)),
          (''stuckSinceOrderDate'', opt_json JTime (or_date r))])) (\<lambda>_.
       update_order (or_id r) (\<lambda>x. x\<lparr>or_stuck := Some now\<rparr>)))"

definition reconcile_once :: "int \<Rightarrow> int \<Rightarrow> nat com_prog" where
  "reconcile_once now threshold_seconds =
     bindp (gets (\<lambda>s. filter (stuck (now - threshold_seconds * 1000000)) (co_orders s))) (\<lambda>rows.
     bindp (for_each rows (flag_stuck now)) (\<lambda>_. ret (length rows)))"

section \<open>Responses\<close>

definition to_order_item :: "item_row \<Rightarrow> json" where
  "to_order_item i = JObj
     [(''id'', JStr (it_id i)), (''action'', JStr (it_action i)), (''offeringId'', JStr (it_offering i)),
      (''state'', opt_json JStr (it_state i)), (''targetSubscriptionId'', opt_json JStr (it_sub i)),
      (''priceAmount'', opt_json JDec (it_price i)), (''priceCurrency'', opt_json JStr (it_currency i)),
      (''priceOfferingPriceId'', opt_json JStr (it_price_id i)), (''discountCode'', opt_json JStr (it_code i)),
      (''promoOfferDefinitionId'', opt_json JStr (it_offer_def i)), (''discountType'', opt_json JStr (it_disc_type i)),
      (''discountValue'', opt_json JDec (it_disc_value i)), (''discountPeriodsTotal'', opt_json JInt (it_disc_periods i)),
      (''promoOfferId'', opt_json JStr (it_promo_offer i))]"

definition to_product_order :: "order_full \<Rightarrow> json" where
  "to_product_order full = (case full of (o1, items) \<Rightarrow> JObj
     [(''id'', JStr (or_id o1)), (''href'', JStr (''/tmf-api/productOrderingManagement/v4/productOrder/'' @ or_id o1)),
      (''customerId'', JStr (or_customer o1)), (''state'', JStr (or_state o1)), (''orderDate'', opt_json JTime (or_date o1)),
      (''requestedCompletionDate'', opt_json JTime (or_requested o1)), (''completedDate'', opt_json JTime (or_completed o1)),
      (''msisdnPreference'', opt_json JStr (or_msisdn_pref o1)), (''notes'', opt_json JStr (or_notes o1)),
      (''@type'', JStr ''ProductOrder''), (''items'', JArr (map to_order_item items))])"

end
