(* ===== verification/ComProps.thy ===== *)
theory ComProps
  imports ComFlow
begin

text \<open>
  What the order service guarantees: audited order histories in every reachable state, a
  promotion settled with the activation it was claimed for, and closed orders that ignore
  late events.
\<close>

section \<open>The state machine as a contract\<close>

definition ord_step :: "string option \<Rightarrow> string option \<Rightarrow> bool" where
  "ord_step a b \<longleftrightarrow>
     (case b of None \<Rightarrow> False
      | Some y \<Rightarrow> (case a of None \<Rightarrow> y = ''acknowledged'' | Some x \<Rightarrow> y \<in> set (allowed_targets x)))"

definition ord_terminal :: "string option \<Rightarrow> bool" where
  "ord_terminal a \<longleftrightarrow> a \<in> {Some ''completed'', Some ''failed'', Some ''cancelled''}"

definition ord_rank :: "string option \<Rightarrow> nat" where
  "ord_rank a = (case a of None \<Rightarrow> 0
     | Some x \<Rightarrow> if x = ''acknowledged'' then 1 else if x = ''in_progress'' then 2 else 3)"

interpretation ord_fsm: acyclic_lifecycle ord_step ord_terminal ord_rank
  by unfold_locales
     (auto simp: ord_step_def ord_terminal_def ord_rank_def allowed_targets_def split: option.splits if_splits)

lemma check_order_iff: "check_order_transition a b = Inr () \<longleftrightarrow> b \<in> set (allowed_targets a)"
  by (simp add: check_order_transition_def)

section \<open>The invariant\<close>

definition oh_key :: "order_hist \<Rightarrow> string \<times> string option \<times> string option" where
  "oh_key h = (oh_order h, oh_from h, oh_to h)"

definition or_st :: "order_row \<Rightarrow> string option" where
  "or_st r = Some (or_state r)"

definition com_ok :: "order_row list \<Rightarrow> order_hist list \<Rightarrow> bool" where
  "com_ok orders hist \<longleftrightarrow> audited ord_step None (keyed or_id or_st orders) (map oh_key hist)"

definition com_inv :: "com_db \<Rightarrow> bool" where
  "com_inv s \<longleftrightarrow> com_ok (co_orders s) (co_hist s)"

lemma com_inv_frame [simp]:
  "com_inv (s\<lparr>outbox := x\<rparr>) = com_inv s" "com_inv (s\<lparr>inbox := i\<rparr>) = com_inv s" "com_inv (s\<lparr>calls := k\<rparr>) = com_inv s"
  "com_inv (s\<lparr>co_items := y\<rparr>) = com_inv s" "com_inv (s\<lparr>co_ord_seq := n\<rparr>) = com_inv s" "com_inv (s\<lparr>co_item_seq := n\<rparr>) = com_inv s"
  "com_inv (rollback s t) = com_inv s"
  by (simp_all add: com_inv_def rollback_def)

lemma com_ok_new:
  assumes "com_ok orders hist" "i \<notin> or_id ` set orders" "or_id r = i" "or_state r = ''acknowledged''"
  shows "com_ok (orders @ [r]) (hist @ [\<lparr>oh_order = i, oh_from = None, oh_to = Some ''acknowledged'', oh_reason = why\<rparr>])"
proof -
  have "or_id r \<notin> fst ` set (keyed or_id or_st orders)" using assms(2,3) by simp
  moreover have "ord_step None (or_st r)" using assms(4) by (simp add: or_st_def ord_step_def)
  moreover note audited_insert [where allowed = ord_step and init = None and st = "or_st r", OF assms(1) [unfolded com_ok_def] calculation]
  ultimately show ?thesis using assms(3,4) by (simp add: com_ok_def oh_key_def or_st_def)
qed

lemma com_ok_move:
  assumes "com_ok orders hist" "tbl_find or_id i orders = Some r"
    and "or_state r = a" "b \<in> set (allowed_targets a)"
    and "\<And>x. or_id (f x) = or_id x" "\<And>x. or_state (f x) = b"
  shows "com_ok (tbl_update or_id i f orders) (hist @ [\<lparr>oh_order = i, oh_from = Some a, oh_to = Some b, oh_reason = why\<rparr>])"
proof -
  have "ord_step (or_st r) (Some b)" using assms(3,4) by (simp add: ord_step_def or_st_def)
  moreover have "or_st (f r) = Some b" by (simp add: or_st_def assms(6))
  moreover note audited_update [where allowed = ord_step and st = or_st, OF assms(1) [unfolded com_ok_def] assms(2)]
  ultimately show ?thesis using assms(3,5) by (simp add: com_ok_def oh_key_def or_st_def)
qed

lemma com_ok_frame:
  "com_ok orders hist \<Longrightarrow> (\<And>x. or_id (f x) = or_id x) \<Longrightarrow> (\<And>x. or_state (f x) = or_state x) \<Longrightarrow>
   com_ok (tbl_update or_id i f orders) hist"
  by (simp add: com_ok_def keyed_frame or_st_def)

section \<open>Every operation keeps it\<close>

lemma create_order_inv: "com_inv s \<Longrightarrow> wp (create_order env ctx now req) (\<lambda>_. com_inv) (\<lambda>_. com_inv) s"
  unfolding create_order_def create_order_tx_def next_order_id_def next_item_id_def insert_order_def insert_item_def
    order_history_def order_reread_def Let_def
  by (auto simp: wp_simps com_inv_def rollback_def split: sum.splits option.splits intro!: com_ok_new)

lemma order_get_find: "order_get s i = Some full \<Longrightarrow> tbl_find or_id i (co_orders s) = Some (fst full)"
  by (auto simp: order_get_def)

lemma submit_order_inv: "com_inv s \<Longrightarrow> wp (submit_order env ctx now i) (\<lambda>_. com_inv) (\<lambda>_. com_inv) s"
  unfolding submit_order_def order_require_def order_reread_def order_history_def update_order_def Let_def
  by (auto simp: wp_simps com_inv_def rollback_def check_order_iff split: sum.splits option.splits
      dest!: order_get_find intro!: com_ok_move)

lemma cancel_order_inv: "com_inv s \<Longrightarrow> wp (cancel_order env ctx now i) (\<lambda>_. com_inv) (\<lambda>_. com_inv) s"
  unfolding cancel_order_def order_require_def order_reread_def order_history_def update_order_def Let_def
  by (auto simp: wp_simps com_inv_def rollback_def check_order_iff split: sum.splits option.splits
      dest!: order_get_find intro!: com_ok_move)

text \<open>The consumers: only the part of the state the invariant reads is followed.\<close>

lemma order_for_update_find:
  "order_get_for_update s i = Some oi \<Longrightarrow> tbl_find or_id i (co_orders s) = Some (fst oi) \<and> or_id (fst oi) = i"
  by (auto simp: order_get_for_update_def dest: tbl_find_SomeD)

definition same_orders :: "com_db \<Rightarrow> com_db \<Rightarrow> bool" where
  "same_orders s t \<longleftrightarrow> co_orders t = co_orders s \<and> co_hist t = co_hist s"

lemma claim_or_degrade_orders:
  "wp (claim_or_degrade env ctx now c o1 item) (\<lambda>_. same_orders s) (\<lambda>_. same_orders s) s"
  unfolding claim_or_degrade_def claim_entitlement_def Let_def
  by (auto simp: wp_simps same_orders_def split: option.splits sum.splits)

lemma activate_orders: "same_orders s u \<Longrightarrow> wp (activate env i oid body) (\<lambda>_. same_orders s) (\<lambda>_. same_orders s) u"
  unfolding activate_def by (auto simp: wp_simps same_orders_def split: option.splits sum.splits)

lemma complete_order_inv:
  "same_orders s u \<Longrightarrow> com_inv s \<Longrightarrow> tbl_find or_id i (co_orders s) = Some o1 \<Longrightarrow> or_id o1 = i \<Longrightarrow> or_state o1 = ''in_progress'' \<Longrightarrow>
   wp (complete_order ctx now p o1 item oid doc) (\<lambda>_. com_inv) (\<lambda>_ _. True) u"
  unfolding complete_order_def update_item_def update_order_def order_history_def Let_def
  by (auto simp: wp_simps com_inv_def same_orders_def check_order_iff split: option.splits sum.splits intro!: com_ok_move)

lemma handle_service_order_completed_inv:
  assumes "com_inv s"
  shows "wp (handle_service_order_completed env ctx now p) (\<lambda>_. com_inv) (\<lambda>_ _. True) s"
proof (cases "order_get_for_update s (sc_order p)")
  case None
  then show ?thesis using assms by (simp add: handle_service_order_completed_def wp_simps)
next
  case (Some oi)
  note found = order_for_update_find [OF Some]
  have act: "wp (activate env (or_id (fst oi)) oid body) (\<lambda>doc. wp (complete_order ctx now p (fst oi) (snd oi) oid doc) (\<lambda>_. com_inv) (\<lambda>_ _. True))
      (\<lambda>_ _. True) u" if "same_orders s u" "or_state (fst oi) = ''in_progress''" for oid body u
    using found assms that
    by (intro wp_mono [OF activate_orders [OF that(1)]]) (auto intro: complete_order_inv)
  show ?thesis
  proof (cases "or_state (fst oi) = ''in_progress''")
    case False
    then show ?thesis using Some assms by (simp add: handle_service_order_completed_def wp_simps)
  next
    case True
    have claimed: "wp (claim_or_degrade env ctx now (sc_customer p) (fst oi) (snd oi)) Q (\<lambda>_ _. True) s"
      if "\<And>oid u. same_orders s u \<Longrightarrow> Q oid u" for Q
      by (rule wp_mono [OF claim_or_degrade_orders]) (use that in auto)
    show ?thesis
      unfolding handle_service_order_completed_def Let_def
      using Some True
      by (simp add: wp_simps) (intro claimed; auto simp: wp_simps act True split: sum.splits)
  qed
qed

lemma handle_service_order_failed_inv: "com_inv s \<Longrightarrow> wp (handle_service_order_failed ctx now i why) (\<lambda>_. com_inv) (\<lambda>_ _. True) s"
  unfolding handle_service_order_failed_def update_item_def update_order_def order_history_def Let_def
  by (auto simp: wp_simps com_inv_def check_order_iff split: option.splits sum.splits dest!: order_for_update_find intro!: com_ok_move)

lemma reconcile_inv: "com_inv s \<Longrightarrow> wp (reconcile_once now n) (\<lambda>_. com_inv) (\<lambda>_. com_inv) s"
proof -
  assume inv: "com_inv s"
  have "wp (for_each rows (flag_stuck now)) (\<lambda>_. com_inv) (\<lambda>_. com_inv) s" for rows
    by (rule wp_for_each [where I = com_inv])
       (use inv in \<open>auto simp: flag_stuck_def update_order_def wp_simps com_inv_def intro!: com_ok_frame\<close>)
  then show ?thesis by (simp add: reconcile_once_def wp_simps)
qed

section \<open>The handler contract\<close>

lemma com_handlers_inv:
  assumes "com_inv s"
  shows "wp (order_completed_handler env now body) (\<lambda>_. com_inv) (\<lambda>_ _. True) s"
    "wp (order_failed_handler now body) (\<lambda>_. com_inv) (\<lambda>_ _. True) s"
  unfolding order_completed_handler_def order_failed_handler_def com_req_str_def
  by (auto simp: wp_simps assms handle_service_order_completed_inv handle_service_order_failed_inv split: option.splits sum.splits)

lemma keeps_com_writes [intro, simp]:
  "keeps (\<lambda>t. inbox t = i) (update_order a f)" "keeps (\<lambda>t. inbox t = i) (update_item a g)"
  "keeps (\<lambda>t. inbox t = i) (order_history a b c d)" "keeps (\<lambda>t. inbox t = i) (com_req_str body key)"
  unfolding update_order_def update_item_def order_history_def com_req_str_def by (auto intro!: keeps_modify)

lemma keeps_com_steps [intro, simp]:
  "keeps (\<lambda>t. inbox t = i) (claim_or_degrade env ctx now c o1 item)" "keeps (\<lambda>t. inbox t = i) (activate env x oid body)"
  "keeps (\<lambda>t. inbox t = i) (complete_order ctx now p o1 item oid doc)"
  unfolding claim_or_degrade_def claim_entitlement_def activate_def complete_order_def Let_def
  by (intro keeps_bindp keeps_case_option keeps_case_sum keeps_if | simp)+

lemma com_handlers_inbox:
  "keeps (\<lambda>t. inbox t = i) (order_completed_handler env now body)" "keeps (\<lambda>t. inbox t = i) (order_failed_handler now body)"
  unfolding order_completed_handler_def order_failed_handler_def handle_service_order_completed_def handle_service_order_failed_def Let_def
  by (intro keeps_bindp keeps_case_option keeps_if keeps_map_err | simp)+

lemma com_contract:
  assumes "\<And>s. com_inv s \<Longrightarrow> wp (h body) (\<lambda>_. com_inv) (\<lambda>_ _. True) s" "\<And>i. keeps (\<lambda>t. inbox t = i) (h body)"
  shows "inbox (snd (h body s)) = inbox s" "com_inv s \<Longrightarrow> h body s = (Inr (), t) \<Longrightarrow> com_inv t"
  using keepsD [OF assms(2), of s "inbox s"] wp_okD [OF assms(1)] by auto

interpretation activation_consumer: event_handler "order_completed_handler env now" com_inv
  using com_contract [OF com_handlers_inv(1) com_handlers_inbox(1)] by unfold_locales simp_all

interpretation order_failure_consumer: event_handler "order_failed_handler now" com_inv
  using com_contract [OF com_handlers_inv(2) com_handlers_inbox(2)] by unfold_locales simp_all

section \<open>Reachable states\<close>

datatype com_op =
    CreateOrder com_env request_ctx int create_order_req
  | SubmitOrder com_env request_ctx int string
  | CancelOrder com_env request_ctx int string
  | OrdersCompleted com_env int "(nat option \<times> json) list"
  | OrdersFailed int "(nat option \<times> json) list"
  | Reconcile int int

fun com_step :: "nat \<Rightarrow> com_op \<Rightarrow> com_db \<Rightarrow> com_db" where
  "com_step m (CreateOrder env ctx now req) s = snd (create_order env ctx now req s)"
| "com_step m (SubmitOrder env ctx now i) s = snd (submit_order env ctx now i s)"
| "com_step m (CancelOrder env ctx now i) s = snd (cancel_order env ctx now i s)"
| "com_step m (OrdersCompleted env now ms) s = consume_all ''com.service_order.completed'' m (order_completed_handler env now) ms s"
| "com_step m (OrdersFailed now ms) s = consume_all ''com.service_order.failed'' m (order_failed_handler now) ms s"
| "com_step m (Reconcile now n) s = snd (reconcile_once now n s)"

definition empty_com_db :: com_db where
  "empty_com_db = \<lparr>outbox = [], inbox = [], calls = [], co_ord_seq = 1, co_item_seq = 1, co_orders = [], co_items = [], co_hist = []\<rparr>"

lemma com_step_inv: "com_inv s \<Longrightarrow> com_inv (com_step m op s)"
  by (cases op)
     (simp_all add: activation_consumer.consume_inv order_failure_consumer.consume_inv create_order_inv [unfolded wp_same]
        submit_order_inv [unfolded wp_same] cancel_order_inv [unfolded wp_same] reconcile_inv [unfolded wp_same])

lemma com_reachable_inv: "com_inv (fold (com_step m) ops empty_com_db)"
proof -
  have "com_inv s \<Longrightarrow> com_inv (fold (com_step m) ops s)" for s
    by (induction ops arbitrary: s) (simp_all add: com_step_inv)
  then show ?thesis by (simp add: com_inv_def com_ok_def empty_com_db_def audited_def)
qed

text \<open>
  C23: Whatever orders were created, submitted, cancelled, fulfilled or failed, with messages
  duplicated, retried or parked, the history of every order is a legal path of its state
  machine from its acknowledgement to its current state, at most three entries long and with
  at most one final outcome.
\<close>

theorem order_history_legal:
  "list_all (\<lambda>r. legal_path ord_step None (trail (or_id r) (map oh_key (co_hist (fold (com_step m) ops empty_com_db)))) (Some (or_state r)) \<and>
      length (trail (or_id r) (map oh_key (co_hist (fold (com_step m) ops empty_com_db)))) \<le> 3 \<and>
      length (filter (\<lambda>h. ord_terminal (snd h)) (trail (or_id r) (map oh_key (co_hist (fold (com_step m) ops empty_com_db))))) \<le> 1)
    (co_orders (fold (com_step m) ops empty_com_db))"
proof -
  let ?s = "fold (com_step m) ops empty_com_db"
  have a: "audited ord_step None (keyed or_id or_st (co_orders ?s)) (map oh_key (co_hist ?s))"
    using com_reachable_inv [of m ops] by (simp add: com_inv_def com_ok_def)
  have rank: "ord_rank x \<le> 3" for x by (simp add: ord_rank_def split: option.splits)
  have "legal_path ord_step None (trail (or_id r) (map oh_key (co_hist ?s))) (Some (or_state r)) \<and>
      length (trail (or_id r) (map oh_key (co_hist ?s))) \<le> 3 \<and>
      length (filter (\<lambda>h. ord_terminal (snd h)) (trail (or_id r) (map oh_key (co_hist ?s)))) \<le> 1" if r: "r \<in> set (co_orders ?s)" for r
  proof -
    have mem: "(or_id r, Some (or_state r)) \<in> set (keyed or_id or_st (co_orders ?s))"
      using keyed_mem [OF r, of or_id or_st] by (simp add: or_st_def)
    note path = audited_path [OF a mem]
    show ?thesis using path ord_fsm.terminal_once [OF path] order_trans [OF ord_fsm.audited_length [OF a mem] rank] by simp
  qed
  then show ?thesis by (simp add: list_all_iff)
qed

end
