(* ===== verification/ComPromo.thy ===== *)
theory ComPromo
  imports ComProps
begin

text \<open>The promotion of an order is settled together with the activation it was claimed for.\<close>

lemma complete_run:
  assumes "or_state o1 = ''in_progress''" "tbl_find or_id (or_id o1) (co_orders u) = Some o1"
  shows "\<exists>t. complete_order ctx now p o1 (Some it) off doc u = (Inr (), t) \<and>
    tbl_find or_id (or_id o1) (co_orders t) = Some (o1\<lparr>or_state := ''completed'', or_completed := Some now\<rparr>) \<and>
    co_items t = tbl_update it_id (it_id it) (\<lambda>r. r\<lparr>it_sub := get_str doc ''id'', it_state := Some ''completed'',
      it_promo_offer := (case off of None \<Rightarrow> it_promo_offer r | Some oid \<Rightarrow> Some oid)\<rparr>) (co_items u) \<and>
    calls t = calls u \<and> (\<exists>e. outbox t = outbox u @ [e] \<and> ev_type e = ''order.completed'')"
  using assms
  by (simp add: complete_order_def update_item_def update_order_def order_history_def stage_def check_order_transition_def
      allowed_targets_def bindp_def modify_def of_result_def tbl_find_update Let_def)

text \<open>A targeted offer is advanced; refused, it is announced and dropped.\<close>

definition not_applied :: "string \<Rightarrow> event \<Rightarrow> bool" where
  "not_applied oid e \<longleftrightarrow> ev_type e = ''order.promo_not_applied'' \<and> ev_agg_id e = oid"

lemma advance_or_degrade:
  assumes "it_disc_type it \<noteq> None" "it_code it \<noteq> None" "it_promo_offer it = Some offer" "ce_loyalty env"
  shows "\<exists>e. not_applied (or_id o1) e \<and> claim_or_degrade env ctx now cust o1 (Some it) s =
    (let u = s\<lparr>calls := calls s @ [AdvanceOffer offer (claim_key (or_id o1))]\<rparr> in
     case ce_advance env (calls s) offer of Inl _ \<Rightarrow> (Inr None, u\<lparr>outbox := outbox s @ [e]\<rparr>) | Inr _ \<Rightarrow> (Inr (Some offer), u))"
  using assms
  by (cases "ce_advance env (calls s) offer")
     (auto simp: claim_or_degrade_def claim_entitlement_def bindp_def gets_def call_ext_def ret_def stage_def modify_def not_applied_def Let_def
       intro!: exI [of _ "stage_event ctx now (length (outbox s)) ''order.promo_not_applied'' ''ProductOrder'' (or_id o1) x" for x])

text \<open>
  C3: A promotion is settled with the activation it was claimed for. For a targeted offer:
  refused by the loyalty engine, the order is activated at the plain price, the refusal is
  announced and nothing is redeemed or revoked; advanced, the subscription is created with
  the discount stamped, and the offer is then redeemed when that succeeds (the order
  completes) and revoked when it fails (the message fails). No other call is made.
\<close>

theorem promotion_settled_with_activation:
  assumes "order_get_for_update s (sc_order p) = Some (o1, Some it)" "or_state o1 = ''in_progress''"
    and "it_disc_type it \<noteq> None" "it_code it \<noteq> None" "it_promo_offer it = Some offer" "ce_loyalty env"
    and "resolve_snapshot p (Some it) = Some ps" "stamp_discount it ps = Inr ps'"
  shows "let adv = AdvanceOffer offer (claim_key (or_id o1)); plain = activation_body p (Some ps); stamped = activation_body p (Some ps');
      (r, t) = handle_service_order_completed env ctx now p s in
    case ce_advance env (calls s) offer of
      Inl _ \<Rightarrow> calls t = calls s @ [adv, CreateSub plain] \<and> list_ex (not_applied (or_id o1)) (drop (length (outbox s)) (outbox t)) \<and>
        (case ce_create_sub env (calls s @ [adv]) plain of Inl e \<Rightarrow> r = Inl (upstream e) | Inr _ \<Rightarrow> r = Inr ())
    | Inr _ \<Rightarrow> (case ce_create_sub env (calls s @ [adv]) stamped of
        Inl e \<Rightarrow> r = Inl (upstream e) \<and> calls t = calls s @ [adv, CreateSub stamped, RevokeOffer offer (or_id o1 @ '':revoke'')]
      | Inr _ \<Rightarrow> r = Inr () \<and> calls t = calls s @ [adv, CreateSub stamped, RedeemOffer offer (or_id o1 @ '':redeem'')] \<and>
          map_option or_state (tbl_find or_id (or_id o1) (co_orders t)) = Some ''completed'')"
proof -
  let ?adv = "AdvanceOffer offer (claim_key (or_id o1))"
  let ?done = "\<lambda>off doc u. complete_order ctx now p o1 (Some it) off doc u"
  have o1: "tbl_find or_id (or_id o1) (co_orders s) = Some o1" using order_for_update_find [OF assms(1)] by simp
  obtain e where e: "not_applied (or_id o1) e" and claim: "claim_or_degrade env ctx now (sc_customer p) o1 (Some it) s =
    (let u = s\<lparr>calls := calls s @ [?adv]\<rparr> in
     case ce_advance env (calls s) offer of Inl _ \<Rightarrow> (Inr None, u\<lparr>outbox := outbox s @ [e]\<rparr>) | Inr _ \<Rightarrow> (Inr (Some offer), u))"
    using advance_or_degrade [OF assms(3-6)] by blast
  show ?thesis
  proof (cases "ce_advance env (calls s) offer")
    case (Inl x)
    let ?u = "s\<lparr>calls := calls s @ [?adv], outbox := outbox s @ [e]\<rparr>" and ?body = "activation_body p (Some ps)"
    let ?v = "?u\<lparr>calls := calls s @ [?adv, CreateSub ?body]\<rparr>"
    have run: "handle_service_order_completed env ctx now p s = bindp (activate env (or_id o1) None ?body) (?done None) ?u"
      using assms(1,2,7) claim Inl by (simp add: handle_service_order_completed_def bindp_def gets_def of_result_def Let_def)
    show ?thesis
    proof (cases "ce_create_sub env (calls s @ [?adv]) ?body")
      case (Inl y)
      then have "handle_service_order_completed env ctx now p s = (Inl (upstream y), ?v)"
        by (simp add: run activate_def bindp_def gets_def call_ext_def ret_def throw_def)
      then show ?thesis using Inl \<open>ce_advance env (calls s) offer = Inl x\<close> e by simp
    next
      case (Inr doc)
      obtain t where "?done None doc ?v = (Inr (), t)" "calls t = calls ?v" "\<exists>e2. outbox t = outbox ?v @ [e2]"
        using complete_run [OF assms(2), of ?v ctx now p it None doc] o1 by auto
      moreover from this(1) have "handle_service_order_completed env ctx now p s = (Inr (), t)"
        using Inr by (simp add: run activate_def bindp_def gets_def call_ext_def ret_def)
      ultimately show ?thesis using Inr \<open>ce_advance env (calls s) offer = Inl x\<close> e by auto
    qed
  next
    case (Inr x)
    let ?u = "s\<lparr>calls := calls s @ [?adv]\<rparr>" and ?body = "activation_body p (Some ps')"
    have run: "handle_service_order_completed env ctx now p s = bindp (activate env (or_id o1) (Some offer) ?body) (?done (Some offer)) ?u"
      using assms(1,2,7,8) claim Inr by (simp add: handle_service_order_completed_def bindp_def gets_def of_result_def Let_def)
    show ?thesis
    proof (cases "ce_create_sub env (calls s @ [?adv]) ?body")
      case (Inl y)
      then show ?thesis using Inr assms(6)
        by (simp add: run activate_def bindp_def gets_def call_ext_def ret_def throw_def)
    next
      case (Inr doc)
      let ?v = "?u\<lparr>calls := calls s @ [?adv, CreateSub ?body, RedeemOffer offer (or_id o1 @ '':redeem'')]\<rparr>"
      obtain t where "?done (Some offer) doc ?v = (Inr (), t)" "calls t = calls ?v"
          "tbl_find or_id (or_id o1) (co_orders t) = Some (o1\<lparr>or_state := ''completed'', or_completed := Some now\<rparr>)"
        using complete_run [OF assms(2), of ?v ctx now p it "Some offer" doc] o1 by auto
      moreover from this(1) have "handle_service_order_completed env ctx now p s = (Inr (), t)"
        using Inr assms(6) by (simp add: run activate_def bindp_def gets_def call_ext_def ret_def)
      ultimately show ?thesis using Inr \<open>ce_advance env (calls s) offer = Inr x\<close> by simp
    qed
  qed
qed

end
