(* ===== verification/SubRoutes.thy ===== *)
theory SubRoutes
  imports SubWorker
begin

text \<open>
  The HTTP surface of \<open>services/subscription\<close>: how request bodies are read
  (\<open>schemas.rs\<close>) and what each route answers (\<open>routes.rs\<close>). A response is a status and a
  JSON body; a body the extractor refuses is answered 422 without one (the web framework's
  documented behaviour). Message texts are not modelled, nor a body given as an array of fields.
\<close>

section \<open>Request bodies\<close>

text \<open>A field by its name or its alias; giving both is an error.\<close>

definition field :: "json \<Rightarrow> string \<Rightarrow> string \<Rightarrow> string + json option" where
  "field body name alias =
     (case (jget body name, if alias = name then None else jget body alias) of
        (Some v, None) \<Rightarrow> Inr (Some v) | (None, Some v) \<Rightarrow> Inr (Some v) | (None, None) \<Rightarrow> Inr None
      | (Some _, Some _) \<Rightarrow> Inl ''duplicate field'')"

definition then_parse :: "string + 'a \<Rightarrow> ('a \<Rightarrow> string + 'b) \<Rightarrow> string + 'b" where
  "then_parse r f = (case r of Inl e \<Rightarrow> Inl e | Inr x \<Rightarrow> f x)"

definition de_str :: "json \<Rightarrow> string \<Rightarrow> string \<Rightarrow> string + string" where
  "de_str body name alias = then_parse (field body name alias) (\<lambda>v.
     case v of None \<Rightarrow> Inl ''missing field'' | Some v \<Rightarrow> (case as_str v of None \<Rightarrow> Inl ''invalid type'' | Some x \<Rightarrow> Inr x))"

definition de_opt :: "(json \<Rightarrow> 'a option) \<Rightarrow> json \<Rightarrow> string \<Rightarrow> string \<Rightarrow> string + 'a option" where
  "de_opt read body name alias = then_parse (field body name alias) (\<lambda>v.
     case v of None \<Rightarrow> Inr None
     | Some v \<Rightarrow> if is_null v then Inr None else (case read v of None \<Rightarrow> Inl ''invalid type'' | Some x \<Rightarrow> Inr (Some x)))"

definition de_decimal :: "(string \<Rightarrow> rat option) \<Rightarrow> json \<Rightarrow> string + rat" where
  "de_decimal parse v = (case json_decimal parse v of None \<Rightarrow> Inl ''amount not a number/string'' | Some q \<Rightarrow> Inr q)"

definition de_opt_decimal :: "(string \<Rightarrow> rat option) \<Rightarrow> json option \<Rightarrow> string + rat option" where
  "de_opt_decimal parse v = (case v of None \<Rightarrow> Inr None
     | Some v \<Rightarrow> if is_null v then Inr None else then_parse (de_decimal parse v) (\<lambda>q. Inr (Some q)))"

definition parse_price_snapshot :: "(string \<Rightarrow> rat option) \<Rightarrow> json \<Rightarrow> string + price_snapshot" where
  "parse_price_snapshot parse body =
     (if as_object body = None then Inl ''invalid type'' else
      then_parse (field body ''priceAmount'' ''price_amount'') (\<lambda>amount_field.
      then_parse (case amount_field of None \<Rightarrow> Inl ''missing field'' | Some v \<Rightarrow> de_decimal parse v) (\<lambda>amount.
      then_parse (de_str body ''priceCurrency'' ''price_currency'') (\<lambda>currency.
      then_parse (de_str body ''priceOfferingPriceId'' ''price_offering_price_id'') (\<lambda>price_id.
      then_parse (de_opt as_str body ''discountType'' ''discount_type'') (\<lambda>disc_type.
      then_parse (field body ''discountValue'' ''discount_value'') (\<lambda>value_field.
      then_parse (de_opt_decimal parse value_field) (\<lambda>disc_value.
      then_parse (de_opt as_i64 body ''discountPeriodsTotal'' ''discount_periods_total'') (\<lambda>periods.
      then_parse (de_opt as_str body ''promoCode'' ''promo_code'') (\<lambda>promo.
      then_parse (de_opt as_str body ''promoOfferDefinitionId'' ''promo_offer_definition_id'') (\<lambda>promo_def.
      Inr \<lparr>pr_amount = amount, pr_currency = currency, pr_price_id = price_id, pr_disc_type = disc_type,
           pr_disc_value = disc_value, pr_disc_periods = periods, pr_promo = promo, pr_promo_def = promo_def\<rparr>)))))))))))"

definition parse_create_request :: "(string \<Rightarrow> rat option) \<Rightarrow> json \<Rightarrow> string + create_request" where
  "parse_create_request parse body =
     then_parse (de_str body ''customerId'' ''customer_id'') (\<lambda>customer.
     then_parse (de_str body ''offeringId'' ''offering_id'') (\<lambda>offering.
     then_parse (de_str body ''msisdn'' ''msisdn'') (\<lambda>msisdn.
     then_parse (de_str body ''iccid'' ''iccid'') (\<lambda>iccid.
     then_parse (de_str body ''paymentMethodId'' ''payment_method_id'') (\<lambda>method_id.
     then_parse (field body ''priceSnapshot'' ''price_snapshot'') (\<lambda>price_field.
     then_parse (case price_field of None \<Rightarrow> Inr None
        | Some v \<Rightarrow> if is_null v then Inr None else then_parse (parse_price_snapshot parse v) (\<lambda>p. Inr (Some p))) (\<lambda>price.
     then_parse (de_opt as_str body ''commercialOrderId'' ''commercial_order_id'') (\<lambda>order_id.
     Inr \<lparr>cr_customer = customer, cr_offering = offering, cr_msisdn = msisdn, cr_iccid = iccid, cr_method = method_id,
          cr_price = price, cr_order = order_id\<rparr>))))))))"

section \<open>Routes\<close>

type_synonym response = "int \<times> json option"

text \<open>A route answers every request: it turns the outcome of the service call into a response.\<close>

definition answer :: "int \<Rightarrow> ('a \<Rightarrow> json) \<Rightarrow> ('d, api_error, 'a) prog \<Rightarrow> 'd \<Rightarrow> response \<times> 'd" where
  "answer status render m s = (case m s of
      (Inl e, t) \<Rightarrow> (into_response [] e, t) | (Inr x, t) \<Rightarrow> ((status, Some (render x)), t))"

definition refused :: "response" where
  "refused = (422, None)"

definition route_create :: "sub_env \<Rightarrow> request_ctx \<Rightarrow> int \<Rightarrow> json \<Rightarrow> sub_db \<Rightarrow> response \<times> sub_db" where
  "route_create env ctx now body s = (case parse_create_request (env_decimal env) body of
      Inl _ \<Rightarrow> (refused, s)
    | Inr req \<Rightarrow> answer 201 to_subscription_response (create env ctx now req) s)"

definition route_get_one :: "string \<Rightarrow> sub_db \<Rightarrow> response" where
  "route_get_one sub_id s = (case get_sub s sub_id of
      Some full \<Rightarrow> (200, Some (to_subscription_response full)) | None \<Rightarrow> into_response [] (NotFoundE ''Subscription not found''))"

definition route_list :: "string option \<Rightarrow> sub_db \<Rightarrow> response" where
  "route_list customer_id s = (case customer_id of
      None \<Rightarrow> into_response [] (BadRequestE ''customerId query param is required'')
    | Some c \<Rightarrow> if c = [] then into_response [] (BadRequestE ''customerId query param is required'')
                else (200, Some (JArr (map to_subscription_response (list_for_customer s c)))))"

definition route_get_by_msisdn :: "string \<Rightarrow> sub_db \<Rightarrow> response" where
  "route_get_by_msisdn msisdn s = (case get_by_msisdn s msisdn of
      Some full \<Rightarrow> (200, Some (to_subscription_response full)) | None \<Rightarrow> into_response [] (NotFoundE ''No subscription for MSISDN''))"

definition route_get_balance :: "string \<Rightarrow> sub_db \<Rightarrow> response" where
  "route_get_balance sub_id s =
     (let balances = (case get_sub s sub_id of None \<Rightarrow> [] | Some full \<Rightarrow> snd full)
      in if balances = [] then into_response [] (NotFoundE ''No balances'')
         else (200, Some (JArr (map to_balance_response balances))))"

definition route_vas_purchase :: "sub_env \<Rightarrow> request_ctx \<Rightarrow> int \<Rightarrow> string \<Rightarrow> json \<Rightarrow> sub_db \<Rightarrow> response \<times> sub_db" where
  "route_vas_purchase env ctx now sub_id body s = (case de_str body ''vasOfferingId'' ''vas_offering_id'' of
      Inl _ \<Rightarrow> (refused, s)
    | Inr vas \<Rightarrow> answer 200 to_subscription_response (purchase_vas env ctx now sub_id vas) s)"

definition route_renew :: "sub_env \<Rightarrow> request_ctx \<Rightarrow> int \<Rightarrow> string \<Rightarrow> sub_db \<Rightarrow> response \<times> sub_db" where
  "route_renew env ctx now sub_id s = answer 200 to_subscription_response (renew env ctx now sub_id) s"

text \<open>The body may be empty (\<open>None\<close>).\<close>

definition parse_terminate :: "json option \<Rightarrow> string + string \<times> bool" where
  "parse_terminate body = (case body of None \<Rightarrow> Inr (''customer_requested'', True)
     | Some b \<Rightarrow> if as_object b = None then Inl ''invalid type'' else
         then_parse (de_opt as_str b ''reason'' ''reason'') (\<lambda>reason.
         then_parse (field b ''releaseInventory'' ''release_inventory'') (\<lambda>rel.
         then_parse (case rel of None \<Rightarrow> Inr True | Some v \<Rightarrow> (case as_bool v of None \<Rightarrow> Inl ''invalid type'' | Some x \<Rightarrow> Inr x)) (\<lambda>release.
         Inr (unwrap_or ''customer_requested'' reason, release)))))"

definition route_terminate :: "request_ctx \<Rightarrow> int \<Rightarrow> string \<Rightarrow> json option \<Rightarrow> sub_db \<Rightarrow> response \<times> sub_db" where
  "route_terminate ctx now sub_id body s = (case parse_terminate body of
      Inl _ \<Rightarrow> (into_response [] (InternalE ''bad terminate body''), s)
    | Inr (reason, release) \<Rightarrow> answer 200 to_subscription_response (terminate ctx now sub_id reason release) s)"

definition route_schedule_plan_change :: "sub_env \<Rightarrow> request_ctx \<Rightarrow> int \<Rightarrow> string \<Rightarrow> json \<Rightarrow> sub_db \<Rightarrow> response \<times> sub_db" where
  "route_schedule_plan_change env ctx now sub_id body s = (case de_str body ''newOfferingId'' ''new_offering_id'' of
      Inl _ \<Rightarrow> (refused, s)
    | Inr offering \<Rightarrow> answer 200 to_subscription_response (schedule_plan_change env ctx now sub_id offering) s)"

definition route_cancel_plan_change :: "request_ctx \<Rightarrow> int \<Rightarrow> string \<Rightarrow> sub_db \<Rightarrow> response \<times> sub_db" where
  "route_cancel_plan_change ctx now sub_id s = answer 200 to_subscription_response (cancel_pending_plan_change ctx now sub_id) s"

text \<open>Timestamps of a request are read by the date library (\<open>read_time\<close>).\<close>

definition route_migrate_price :: "(json \<Rightarrow> int option) \<Rightarrow> sub_env \<Rightarrow> request_ctx \<Rightarrow> int \<Rightarrow> json \<Rightarrow> sub_db \<Rightarrow> response \<times> sub_db" where
  "route_migrate_price read_time env ctx now body s =
     (case then_parse (de_str body ''offeringId'' ''offering_id'') (\<lambda>offering.
           then_parse (de_str body ''newPriceId'' ''new_price_id'') (\<lambda>price_id.
           then_parse (field body ''effectiveFrom'' ''effective_from'') (\<lambda>from_field.
           then_parse (case Option.bind from_field read_time of None \<Rightarrow> Inl ''invalid timestamp'' | Some t \<Rightarrow> Inr t) (\<lambda>effective_from.
           then_parse (field body ''noticeDays'' ''notice_days'') (\<lambda>days_field.
           then_parse (case days_field of None \<Rightarrow> Inr 30 | Some v \<Rightarrow> (case as_i64 v of None \<Rightarrow> Inl ''invalid type'' | Some n \<Rightarrow> Inr n)) (\<lambda>notice_days.
           then_parse (de_str body ''initiatedBy'' ''initiated_by'') (\<lambda>initiated_by.
           Inr (offering, price_id, effective_from, notice_days, initiated_by)))))))) of
        Inl _ \<Rightarrow> (refused, s)
      | Inr (offering, price_id, effective_from, notice_days, initiated_by) \<Rightarrow>
          answer 200 (\<lambda>r. JObj [(''count'', JInt (int (fst r))), (''subscriptionIds'', JArr (map JStr (snd r)))])
            (migrate_subscriptions_to_price env ctx now offering price_id effective_from notice_days initiated_by) s)"

text \<open>The deterministic renewal tick, behind its environment flag; unlike the worker's tick it stops at the first error.\<close>

definition route_tick_now :: "bool \<Rightarrow> (string \<Rightarrow> sub_env) \<Rightarrow> int \<Rightarrow> int \<Rightarrow> string \<Rightarrow> sub_db \<Rightarrow> response \<times> sub_db" where
  "route_tick_now allowed envs now now' tenant s =
     (if \<not> allowed then (into_response [] (ForbiddenE (JObj [(''code'', JStr ''ADMIN_RENEWAL_DISABLED'')])), s)
      else answer 200 (\<lambda>_. JObj [(''status'', JStr ''ok'')])
             (bindp (sweep_due envs now tenant) (\<lambda>_. sweep_skipped now' tenant)) s)"

text \<open>The typed client over these routes: status to error, the body on success.\<close>

definition client_call :: "response \<times> 'd \<Rightarrow> (client_error + json) \<times> 'd" where
  "client_call r = ((case handle_response (fst r) of
      Inl e \<Rightarrow> Inl e | Inr None \<Rightarrow> Inl TransportErr | Inr (Some doc) \<Rightarrow> Inr doc), snd r)"

section \<open>Facts\<close>

lemma client_call_answer:
  "fst (client_call (answer status render m s)) = (case fst (m s) of
     Inr x \<Rightarrow> (if status < 400 then Inr (render x) else fst (client_call ((status, Some (render x)), s)))
   | Inl e \<Rightarrow> Inl (case e of PolicyE v \<Rightarrow> PolicyErr v | NotFoundE _ \<Rightarrow> NotFoundErr | BadRequestE _ \<Rightarrow> HttpErr 400
          | ForbiddenE _ \<Rightarrow> HttpErr 403 | InternalE _ \<Rightarrow> ServerErr 500))"
  by (auto simp: client_call_def answer_def handle_response_def into_response_def from_wire_to_wire
      split: prod.splits sum.splits api_error.splits)

end
