(* ===== verification/TextUtil.thy ===== *)
theory TextUtil
  imports Prelude
begin

text \<open>
  The parts of the Rust standard library on text, numbers and dates that the payment, CRM and
  portal services use: \<open>trim\<close>, \<open>split\<close>, \<open>split_once\<close>, \<open>starts_with\<close>, \<open>contains\<close>,
  case mapping on ASCII letters, rendering of integers and of bytes in hexadecimal,
  banker's rounding, and the Gregorian calendar date of an instant.
\<close>

section \<open>Text\<close>

text \<open>\<open>char::is_whitespace\<close> on the characters of the model.\<close>

definition is_whitespace :: "char \<Rightarrow> bool" where
  "is_whitespace c = (let n = of_char c :: nat in 9 \<le> n \<and> n \<le> 13 \<or> n = 32 \<or> n = 133 \<or> n = 160)"

definition trim :: "string \<Rightarrow> string" where
  "trim s = rev (dropWhile is_whitespace (rev (dropWhile is_whitespace s)))"

fun split_at_char :: "char \<Rightarrow> string \<Rightarrow> string list" where
  "split_at_char c [] = [[]]"
| "split_at_char c (x # xs) = (if x = c then [] # split_at_char c xs
     else case split_at_char c xs of [] \<Rightarrow> [[x]] | p # ps \<Rightarrow> (x # p) # ps)"

fun split_once :: "char \<Rightarrow> string \<Rightarrow> (string \<times> string) option" where
  "split_once c [] = None"
| "split_once c (x # xs) = (if x = c then Some ([], xs)
     else map_option (\<lambda>(a, b). (x # a, b)) (split_once c xs))"

fun starts_with :: "string \<Rightarrow> string \<Rightarrow> bool" where
  "starts_with s [] = True"
| "starts_with [] (p # ps) = False"
| "starts_with (c # cs) (p # ps) = (c = p \<and> starts_with cs ps)"

fun contains :: "string \<Rightarrow> string \<Rightarrow> bool" where
  "contains [] p = (p = [])"
| "contains (c # cs) p = (starts_with (c # cs) p \<or> contains cs p)"

definition lower_char :: "char \<Rightarrow> char" where
  "lower_char c = (let n = of_char c :: nat in if 65 \<le> n \<and> n \<le> 90 then char_of (n + 32) else c)"

definition to_lowercase :: "string \<Rightarrow> string" where
  "to_lowercase = map lower_char"

definition show_int :: "int \<Rightarrow> string" where
  "show_int i = (if i < 0 then CHR ''-'' # show_nat (nat (- i)) else show_nat (nat i))"

text \<open>\<open>{b:02x}\<close> of every byte.\<close>

definition hex_digit :: "nat \<Rightarrow> char" where
  "hex_digit d = (if d < 10 then char_of (48 + d) else char_of (87 + d))"

definition hex_bytes :: "string \<Rightarrow> string" where
  "hex_bytes bs = concat (map (\<lambda>b. [hex_digit (of_char b div 16), hex_digit (of_char b mod 16)]) bs)"

lemma show_int_inject: "show_int i = show_int j \<Longrightarrow> i = j"
proof -
  have digits: "show_nat n = show_nat m \<longleftrightarrow> n = m" for n m by (metis option.inject read_show_nat)
  have hd: "hd (show_nat n) \<noteq> CHR ''-''" for n
  proof (induction n rule: show_nat.induct)
    case (1 n)
    have ne: "show_nat k \<noteq> []" for k by (simp add: show_nat.simps [of k])
    have "digit_char d \<noteq> CHR ''-''" if "d < 10" for d
      using digit_val_char [OF that] by (auto simp: digit_val_def)
    with "1" ne show ?case by (simp add: show_nat.simps [of n])
  qed
  assume "show_int i = show_int j"
  then show "i = j" using hd digits
    by (auto simp: show_int_def split: if_splits) (metis list.sel(1))+
qed

section \<open>Numbers and dates\<close>

text \<open>\<open>as i32\<close>, and \<open>Decimal::round\<close>: to the nearest integer, a tie to the even one.\<close>

definition wrap32 :: "int \<Rightarrow> int" where
  "wrap32 x = (x + 2147483648) mod 4294967296 - 2147483648"

definition round_even :: "rat \<Rightarrow> int" where
  "round_even q = (let f = \<lfloor>q\<rfloor>; r = q - of_int f in
     if r < 1 / 2 then f else if r > 1 / 2 then f + 1 else if even f then f else f + 1)"

lemma round_even_int [simp]: "round_even (of_int n) = n"
  by (simp add: round_even_def)

text \<open>Days since 1970-01-01 to the year and month of the proleptic Gregorian calendar.\<close>

definition year_month :: "int \<Rightarrow> int \<times> int" where
  "year_month now =
     (let days = now div 86400000000 + 719468; era = days div 146097; doe = days mod 146097;
          yoe = (doe - doe div 1460 + doe div 36524 - doe div 146096) div 365;
          doy = doe - (365 * yoe + yoe div 4 - yoe div 100); mp = (5 * doy + 2) div 153;
          m = (if mp < 10 then mp + 3 else mp - 9)
      in (yoe + era * 400 + (if m \<le> 2 then 1 else 0), m))"

end
