(* ===== verification/Provisioning.thy ===== *)
theory Provisioning
  imports SubState Mediation TextUtil "HOL-Library.Char_ord" "HOL-Library.List_Lexorder"
begin

text \<open>
  \<open>services/provisioning-sim\<close>: provisioning tasks with injected faults (\<open>domain.rs\<close>,
  \<open>worker.rs\<close>), the eSIM adapter (\<open>esim.rs\<close>), the operator's resolve and retry and the
  fault rules (\<open>service.rs\<close>, \<open>repo.rs\<close>), and the consumer of task events with its own
  inbox check (\<open>consumer.rs\<close>). The simulated latency is left out. The random draws are a
  parameter: the draw made at each attempt, and at attempt 0 for the \<open>stuck\<close> fault.
\<close>

section \<open>Tasks and fault rules\<close>

text \<open>The in-memory task and its row are one record; a task in memory always has a payload.\<close>

record task_row =
  pt_id :: string
  pt_service :: string
  pt_type :: string
  pt_state :: string
  pt_attempts :: int
  pt_max :: int
  pt_payload :: "json option"
  pt_error :: "string option"
  pt_started :: "int option"
  pt_completed :: "int option"

record fault_row =
  fr_id :: string
  fr_task :: string
  fr_kind :: string
  fr_prob :: rat
  fr_enabled :: bool

record prov_db = "(string \<times> json) base" +
  pv_seq :: nat
  pv_tasks :: "task_row list"
  pv_faults :: "fault_row list"

type_synonym 'a prov_prog = "(prov_db, api_error, 'a) prog"

definition check_retry_allowed :: "int \<Rightarrow> int \<Rightarrow> string \<Rightarrow> api_error + unit" where
  "check_retry_allowed attempts max_attempts task_id =
     (if attempts \<ge> max_attempts
      then Inl (violate ''provisioning_task.retry.max_attempts''
             [(''task_id'', JStr task_id), (''attempts'', JInt attempts), (''max_attempts'', JInt max_attempts)])
      else Inr ())"

definition check_resolve_has_note :: "string \<Rightarrow> string \<Rightarrow> api_error + unit" where
  "check_resolve_has_note note task_id =
     (if list_all is_whitespace note
      then Inl (violate ''provisioning.resolve_stuck.requires_note'' [(''task_id'', JStr task_id)]) else Inr ())"

definition check_fault_injection_permission :: "request_ctx \<Rightarrow> api_error + unit" where
  "check_fault_injection_permission ctx =
     (if \<not> has_permission ctx ''provisioning.fault_injection.manage''
      then Inl (violate ''provisioning.set_fault_injection.admin_only'' []) else Inr ())"

definition should_fire :: "rat \<Rightarrow> rat \<Rightarrow> bool" where
  "should_fire draw probability \<longleftrightarrow> draw < probability"

definition task_event_payload :: "task_row \<Rightarrow> string \<Rightarrow> string \<Rightarrow> bool \<Rightarrow> json" where
  "task_event_payload task service_order_id commercial_order_id permanent =
     JObj ([(''taskId'', JStr (pt_id task)), (''serviceId'', JStr (pt_service task)), (''serviceOrderId'', JStr service_order_id),
       (''commercialOrderId'', JStr commercial_order_id), (''taskType'', JStr (pt_type task)), (''attempts'', JInt (pt_attempts task)),
       (''maxAttempts'', JInt (pt_max task))]
       @ (if pt_state task = ''completed'' then [(''completedAt'', opt_json JTime (pt_completed task))]
          else if pt_state task = ''failed'' then [(''lastError'', JStr (unwrap_or [] (pt_error task))), (''permanent'', JBool permanent)]
          else if pt_state task = ''stuck'' then [(''startedAt'', opt_json JTime (pt_started task))] else []))"

section \<open>The eSIM adapter\<close>

datatype esim_provider = EsimSim | OneGlobal | EsimAccess

record esim_order_result =
  eo_success :: bool
  eo_reference :: "string option"

definition v016_pointer :: "string \<Rightarrow> string" where
  "v016_pointer name = ''v0.16+: '' @ name @ '' adapter requires NDA + production credentials. Set BSS_ESIM_PROVIDER=sim until the integration ships.''"

fun order_profile :: "esim_provider \<Rightarrow> string \<Rightarrow> string \<Rightarrow> string \<Rightarrow> string + esim_order_result" where
  "order_profile EsimSim iccid imsi msisdn = Inr \<lparr>eo_success = True, eo_reference = None\<rparr>"
| "order_profile OneGlobal iccid imsi msisdn = Inl (v016_pointer ''1GLOBAL Connect'')"
| "order_profile EsimAccess iccid imsi msisdn = Inl (v016_pointer ''eSIM Access'')"

definition select_esim_provider :: "string \<Rightarrow> string + esim_provider" where
  "select_esim_provider name =
     (if name = ''sim'' then Inr EsimSim else if name = ''onbglobal'' then Inr OneGlobal
      else if name = ''esim_access'' then Inr EsimAccess else Inl ''Unknown BSS_ESIM_PROVIDER'')"

section \<open>Repository\<close>

definition task_next_id :: "string prov_prog" where
  "task_next_id = bindp (gets pv_seq) (\<lambda>n. bindp (modify (\<lambda>s. s\<lparr>pv_seq := n + 1\<rparr>)) (\<lambda>_. ret (''PTK-'' @ pad4 n)))"

definition task_insert :: "task_row \<Rightarrow> unit prov_prog" where
  "task_insert task =
     bindp (gets pv_tasks) (\<lambda>rows.
       if pt_id task \<in> pt_id ` set rows then throw (db_error ''pk_provisioning_task'')
       else modify (\<lambda>s. s\<lparr>pv_tasks := pv_tasks s @ [task]\<rparr>))"

definition task_update_state :: "string \<Rightarrow> string \<Rightarrow> int \<Rightarrow> string option \<Rightarrow> unit prov_prog" where
  "task_update_state tid state attempts last_error =
     modify (\<lambda>s. s\<lparr>pv_tasks := tbl_update pt_id tid (\<lambda>r. r\<lparr>pt_state := state, pt_attempts := attempts, pt_error := last_error\<rparr>) (pv_tasks s)\<rparr>)"

definition task_get :: "prov_db \<Rightarrow> string \<Rightarrow> task_row option" where
  "task_get s tid = tbl_find pt_id tid (pv_tasks s)"

definition task_list :: "prov_db \<Rightarrow> string option \<Rightarrow> string option \<Rightarrow> task_row list" where
  "task_list s service_id state = rev (filter (\<lambda>r.
     (case service_id of None \<Rightarrow> True | Some x \<Rightarrow> pt_service r = x) \<and> (case state of None \<Rightarrow> True | Some x \<Rightarrow> pt_state r = x)) (pv_tasks s))"

definition fault_get_active :: "prov_db \<Rightarrow> string \<Rightarrow> fault_row option" where
  "fault_get_active s task_type = find (\<lambda>f. fr_task f = task_type \<and> fr_enabled f) (pv_faults s)"

definition fault_list_all :: "prov_db \<Rightarrow> fault_row list" where
  "fault_list_all s = sort_key fr_task (pv_faults s)"

definition fault_get :: "prov_db \<Rightarrow> string \<Rightarrow> fault_row option" where
  "fault_get s fid = tbl_find fr_id fid (pv_faults s)"

text \<open>\<open>probability\<close> is \<open>NUMERIC(3,2)\<close>.\<close>

definition fault_update :: "fault_row \<Rightarrow> unit prov_prog" where
  "fault_update fault =
     bindp (of_result (to_numeric 3 (fr_prob fault))) (\<lambda>p.
     modify (\<lambda>s. s\<lparr>pv_faults := tbl_update fr_id (fr_id fault)
       (\<lambda>r. r\<lparr>fr_enabled := fr_enabled fault, fr_prob := p, fr_kind := fr_kind fault\<rparr>) (pv_faults s)\<rparr>))"

definition task_response :: "task_row \<Rightarrow> json" where
  "task_response t = JObj
     [(''id'', JStr (pt_id t)), (''href'', JStr (''/provisioning-api/v1/task/'' @ pt_id t)), (''serviceId'', JStr (pt_service t)),
      (''taskType'', JStr (pt_type t)), (''state'', JStr (pt_state t)), (''attempts'', JInt (pt_attempts t)),
      (''maxAttempts'', JInt (pt_max t)), (''payload'', opt_json id (pt_payload t)), (''lastError'', opt_json JStr (pt_error t)),
      (''startedAt'', opt_json JTime (pt_started t)), (''completedAt'', opt_json JTime (pt_completed t)),
      (''@type'', JStr ''ProvisioningTask'')]"

definition fault_response :: "fault_row \<Rightarrow> json" where
  "fault_response f = JObj
     [(''id'', JStr (fr_id f)), (''taskType'', JStr (fr_task f)), (''faultType'', JStr (fr_kind f)),
      (''probability'', JDec (fr_prob f)), (''enabled'', JBool (fr_enabled f)), (''@type'', JStr ''FaultInjection'')]"

section \<open>The worker\<close>

record task_request =
  tq_service :: string
  tq_service_order :: string
  tq_commercial :: string
  tq_type :: string
  tq_payload :: json

definition INBOX_CONSUMER :: string where
  "INBOX_CONSUMER = ''provisioning-sim.task.created''"

text \<open>
  Publish first, then the task row, its event and the inbox claim in one transaction. The
  event's service identity is the column's default.
\<close>

definition persist_and_publish :: "(string \<Rightarrow> json \<Rightarrow> bool) option \<Rightarrow> request_ctx \<Rightarrow> int \<Rightarrow> string \<Rightarrow> task_row \<Rightarrow> string \<Rightarrow> string
    \<Rightarrow> bool \<Rightarrow> nat option \<Rightarrow> unit prov_prog" where
  "persist_and_publish mq ctx now event_type task service_order_id commercial_order_id permanent event_id =
     (let payload = task_event_payload task service_order_id commercial_order_id permanent;
          published = (case mq of None \<Rightarrow> False | Some accept \<Rightarrow> accept event_type payload)
      in bindp (if published then call_ext (event_type, payload) () else ret ()) (\<lambda>_.
         in_tx (
           bindp (task_insert task) (\<lambda>_.
           bindp (modify (\<lambda>s. s\<lparr>outbox := outbox s @ [(stage_event (ctx\<lparr>rc_identity := ''default''\<rparr>) now (length (outbox s)) event_type
               ''provisioning_task'' (pt_id task) (Some payload))\<lparr>ev_published := published\<rparr>]\<rparr>)) (\<lambda>_.
           case event_id of None \<Rightarrow> ret ()
           | Some eid \<Rightarrow> modify (\<lambda>s. if (eid, INBOX_CONSUMER) \<in> set (inbox s) then s
                                    else s\<lparr>inbox := inbox s @ [(eid, INBOX_CONSUMER)]\<rparr>))))))"

text \<open>
  One pass of the attempt loop at a time: the event to publish, the task in its terminal
  state, and whether a failure is permanent. Only persistence follows in every branch.
\<close>

function attempt :: "esim_provider \<Rightarrow> fault_row option \<Rightarrow> (int \<Rightarrow> rat) \<Rightarrow> int \<Rightarrow> task_row \<Rightarrow> string \<times> task_row \<times> bool" where
  "attempt esim fault rnd now task =
     (if \<not> pt_attempts task < pt_max task
      then (''provisioning.task.failed'', task\<lparr>pt_state := ''failed'', pt_error := Some ''max_attempts exhausted''\<rparr>, True)
      else
      let n = pt_attempts task + 1;
          run = task\<lparr>pt_attempts := n, pt_state := ''running'', pt_started := (if pt_started task = None then Some now else pt_started task)\<rparr>;
          fires = (\<lambda>kind. case fault of None \<Rightarrow> False | Some f \<Rightarrow> fr_kind f = kind \<and> should_fire (rnd n) (fr_prob f))
      in if fires ''fail_always''
         then (let failed = run\<lparr>pt_state := ''failed'', pt_error := Some (''Simulated fail_always for '' @ pt_type task)\<rparr>
               in if n \<ge> pt_max task then (''provisioning.task.failed'', failed, True) else attempt esim fault rnd now failed)
         else if n = 1 \<and> fires ''fail_first_attempt''
         then attempt esim fault rnd now (run\<lparr>pt_state := ''failed'', pt_error := Some (''Simulated fail_first_attempt for '' @ pt_type task)\<rparr>)
         else
         let completed = (''provisioning.task.completed'', run\<lparr>pt_state := ''completed'', pt_completed := Some now\<rparr>, False)
         in if pt_type task = ''ESIM_PROFILE_PREPARE''
            then (let p = unwrap_or JNull (pt_payload task) in
                  case order_profile esim (get_str_or p ''iccid'' []) (get_str_or p ''imsi'' []) (get_str_or p ''msisdn'' []) of
                    Inr result \<Rightarrow>
                      if eo_success result then completed
                      else (let failed = run\<lparr>pt_state := ''failed'',
                              pt_error := Some (''SM-DP+ provider declined profile order: '' @ unwrap_or ''no reference'' (eo_reference result))\<rparr>
                            in if n \<ge> pt_max task then (''provisioning.task.failed'', failed, True) else attempt esim fault rnd now failed)
                  | Inl msg \<Rightarrow> (''provisioning.task.failed'', run\<lparr>pt_state := ''failed'', pt_error := Some msg\<rparr>, True))
            else completed)"
  by pat_completeness auto
termination
  by (relation "measure (\<lambda>(_, _, _, _, task). nat (pt_max task - pt_attempts task))") (auto simp: Let_def)

declare attempt.simps [simp del]

definition new_task :: "string \<Rightarrow> task_request \<Rightarrow> task_row" where
  "new_task tid req = \<lparr>pt_id = tid, pt_service = tq_service req, pt_type = tq_type req, pt_state = ''pending'', pt_attempts = 0,
     pt_max = 3, pt_payload = Some (tq_payload req), pt_error = None, pt_started = None, pt_completed = None\<rparr>"

definition run_task :: "esim_provider \<Rightarrow> fault_row option \<Rightarrow> (int \<Rightarrow> rat) \<Rightarrow> int \<Rightarrow> task_row \<Rightarrow> string \<times> task_row \<times> bool" where
  "run_task esim fault rnd now task =
     (if (case fault of None \<Rightarrow> False | Some f \<Rightarrow> fr_kind f = ''stuck'' \<and> should_fire (rnd 0) (fr_prob f))
      then (''provisioning.task.stuck'', task\<lparr>pt_state := ''stuck'', pt_started := Some now\<rparr>, False)
      else attempt esim fault rnd now task)"

definition process_task :: "esim_provider \<Rightarrow> (int \<Rightarrow> rat) \<Rightarrow> (string \<Rightarrow> json \<Rightarrow> bool) option \<Rightarrow> request_ctx \<Rightarrow> int \<Rightarrow> task_request
    \<Rightarrow> nat option \<Rightarrow> unit prov_prog" where
  "process_task esim rnd mq ctx now req event_id =
     bindp task_next_id (\<lambda>tid.
     bindp (gets (\<lambda>s. fault_get_active s (tq_type req))) (\<lambda>fault.
     case run_task esim fault rnd now (new_task tid req) of (event_type, task, permanent) \<Rightarrow>
       persist_and_publish mq ctx now event_type task (tq_service_order req) (tq_commercial req) permanent event_id))"

section \<open>The operator's operations\<close>

definition task_not_found :: "string \<Rightarrow> api_error" where
  "task_not_found task_id = violate ''provisioning_task.not_found'' [(''task_id'', JStr task_id)]"

definition task_require :: "string \<Rightarrow> task_row prov_prog" where
  "task_require task_id = bindp (gets (\<lambda>s. task_get s task_id)) (\<lambda>found.
     case found of None \<Rightarrow> throw (task_not_found task_id) | Some t \<Rightarrow> ret t)"

definition reprocess_request :: "task_row \<Rightarrow> task_request" where
  "reprocess_request task = (let payload = unwrap_or (JObj []) (pt_payload task) in
     \<lparr>tq_service = pt_service task, tq_service_order = get_str_or payload ''serviceOrderId'' [],
      tq_commercial = get_str_or payload ''commercialOrderId'' [], tq_type = pt_type task, tq_payload = payload\<rparr>)"

definition refetch :: "string \<Rightarrow> json prov_prog" where
  "refetch task_id = bindp (gets (\<lambda>s. task_get s task_id)) (\<lambda>found.
     case found of None \<Rightarrow> throw (NotFoundE ''Task not found after operation'') | Some t \<Rightarrow> ret (task_response t))"

definition resolve_stuck :: "esim_provider \<Rightarrow> (int \<Rightarrow> rat) \<Rightarrow> (string \<Rightarrow> json \<Rightarrow> bool) option \<Rightarrow> request_ctx \<Rightarrow> int \<Rightarrow> string \<Rightarrow> string
    \<Rightarrow> json prov_prog" where
  "resolve_stuck esim rnd mq ctx now task_id note =
     bindp (of_result (check_resolve_has_note note task_id)) (\<lambda>_.
     bindp (task_require task_id) (\<lambda>task.
     if pt_state task \<noteq> ''stuck''
     then throw (violate ''provisioning_task.resolve.requires_stuck_state'' [(''task_id'', JStr task_id), (''state'', JStr (pt_state task))])
     else
     bindp (task_update_state task_id ''pending'' 0 (Some (''Resolved by operator: '' @ note))) (\<lambda>_.
     bindp (process_task esim rnd mq ctx now (reprocess_request task) None) (\<lambda>_. refetch task_id))))"

definition retry_failed :: "esim_provider \<Rightarrow> (int \<Rightarrow> rat) \<Rightarrow> (string \<Rightarrow> json \<Rightarrow> bool) option \<Rightarrow> request_ctx \<Rightarrow> int \<Rightarrow> string
    \<Rightarrow> json prov_prog" where
  "retry_failed esim rnd mq ctx now task_id =
     bindp (task_require task_id) (\<lambda>task.
     if pt_state task \<noteq> ''failed''
     then throw (violate ''provisioning_task.retry.requires_failed_state'' [(''task_id'', JStr task_id), (''state'', JStr (pt_state task))])
     else
     bindp (of_result (check_retry_allowed (pt_attempts task) (pt_max task) task_id)) (\<lambda>_.
     bindp (task_update_state task_id ''pending'' 0 None) (\<lambda>_.
     bindp (process_task esim rnd mq ctx now (reprocess_request task) None) (\<lambda>_. refetch task_id))))"

definition update_fault_rule :: "request_ctx \<Rightarrow> string \<Rightarrow> bool option \<Rightarrow> rat option \<Rightarrow> string option \<Rightarrow> json prov_prog" where
  "update_fault_rule ctx fault_id enabled probability fault_type =
     bindp (of_result (check_fault_injection_permission ctx)) (\<lambda>_.
     bindp (gets (\<lambda>s. fault_get s fault_id)) (\<lambda>found.
     case found of
       None \<Rightarrow> throw (violate ''provisioning.fault_injection.not_found'' [(''fault_id'', JStr fault_id)])
     | Some f0 \<Rightarrow>
         let fault = f0\<lparr>fr_enabled := unwrap_or (fr_enabled f0) enabled, fr_prob := unwrap_or (fr_prob f0) probability,
                        fr_kind := unwrap_or (fr_kind f0) fault_type\<rparr>
         in bindp (fault_update fault) (\<lambda>_. ret (fault_response fault))))"

section \<open>The consumer\<close>

text \<open>A message without its required fields is dropped.\<close>

definition prov_handle :: "esim_provider \<Rightarrow> (int \<Rightarrow> rat) \<Rightarrow> (string \<Rightarrow> json \<Rightarrow> bool) option \<Rightarrow> int \<Rightarrow> json \<Rightarrow> nat option \<Rightarrow> unit prov_prog" where
  "prov_handle esim rnd mq now body event_id =
     (case (get_str body ''serviceId'', get_str body ''serviceOrderId'', get_str body ''taskType'') of
        (Some service_id, Some service_order_id, Some task_type) \<Rightarrow>
          process_task esim rnd mq default_ctx now
            \<lparr>tq_service = service_id, tq_service_order = service_order_id, tq_commercial = get_str_or body ''commercialOrderId'' [],
             tq_type = task_type, tq_payload = unwrap_or (JObj []) (jget body ''payload'')\<rparr> event_id
      | _ \<Rightarrow> ret ())"

datatype prov_disposition = PAcked | PRejected

definition already_processed :: "prov_db \<Rightarrow> nat \<Rightarrow> bool" where
  "already_processed s eid \<longleftrightarrow> (eid, INBOX_CONSUMER) \<in> set (inbox s)"

text \<open>One delivery: \<open>None\<close> stands for a message without a parseable id; the body is JSON.\<close>

definition prov_delivery :: "esim_provider \<Rightarrow> (int \<Rightarrow> rat) \<Rightarrow> (string \<Rightarrow> json \<Rightarrow> bool) option \<Rightarrow> int \<Rightarrow> nat option \<Rightarrow> json \<Rightarrow> prov_db
    \<Rightarrow> prov_disposition \<times> prov_db" where
  "prov_delivery esim rnd mq now mid body s =
     (if (case mid of None \<Rightarrow> False | Some eid \<Rightarrow> already_processed s eid) then (PAcked, s)
      else (case prov_handle esim rnd mq now body mid s of (Inr _, t) \<Rightarrow> (PAcked, t) | (Inl _, t) \<Rightarrow> (PRejected, t)))"

end
