(* ===== verification/ProvProps.thy ===== *)
theory ProvProps
  imports Provisioning
begin

text \<open>
  What the provisioning simulator guarantees: each task settles in the state its fault rule
  and the random draws decide, duplicates are skipped, no message is dropped in a reachable
  state, and an operator's retry is never accepted.
\<close>

section \<open>How a task ends\<close>

text \<open>The specification: terminal state and attempts, from the active rule and the draws alone.\<close>

definition hits :: "fault_row option \<Rightarrow> string \<Rightarrow> rat \<Rightarrow> bool" where
  "hits fault kind draw \<longleftrightarrow> (case fault of None \<Rightarrow> False | Some f \<Rightarrow> fr_kind f = kind \<and> draw < fr_prob f)"

definition worked :: "esim_provider \<Rightarrow> string \<Rightarrow> int \<Rightarrow> string \<times> int" where
  "worked esim task_type n = (if task_type = ''ESIM_PROFILE_PREPARE'' \<and> esim \<noteq> EsimSim then ''failed'' else ''completed'', n)"

definition expected_end :: "esim_provider \<Rightarrow> fault_row option \<Rightarrow> (int \<Rightarrow> rat) \<Rightarrow> string \<Rightarrow> string \<times> int" where
  "expected_end esim fault rnd task_type =
     (if hits fault ''stuck'' (rnd 0) then (''stuck'', 0)
      else if hits fault ''fail_first_attempt'' (rnd 1) then worked esim task_type 2
      else if \<not> hits fault ''fail_always'' (rnd 1) then worked esim task_type 1
      else if \<not> hits fault ''fail_always'' (rnd 2) then worked esim task_type 2
      else if \<not> hits fault ''fail_always'' (rnd 3) then worked esim task_type 3
      else (''failed'', 3))"

definition ended :: "string \<times> task_row \<times> bool \<Rightarrow> string \<Rightarrow> task_request \<Rightarrow> string \<times> int \<Rightarrow> bool" where
  "ended r tid req e \<longleftrightarrow> (case r of (event_type, task, permanent) \<Rightarrow>
     pt_id task = tid \<and> pt_service task = tq_service req \<and> pt_type task = tq_type req \<and> pt_payload task = Some (tq_payload req) \<and>
     pt_max task = 3 \<and> (pt_state task, pt_attempts task) = e \<and> event_type = ''provisioning.task.'' @ pt_state task \<and>
     permanent = (pt_state task = ''failed''))"

lemma order_profile_other: "esim \<noteq> EsimSim \<Longrightarrow> \<exists>msg. order_profile esim a b c = Inl msg"
  by (cases esim) auto

text \<open>A task of this request after \<open>n\<close> attempts, and what one more attempt does to it.\<close>

definition tried :: "task_row \<Rightarrow> string \<Rightarrow> task_request \<Rightarrow> int \<Rightarrow> bool" where
  "tried task tid req n \<longleftrightarrow> pt_id task = tid \<and> pt_service task = tq_service req \<and> pt_type task = tq_type req \<and>
     pt_payload task = Some (tq_payload req) \<and> pt_max task = 3 \<and> pt_attempts task = n"

lemma hits_case: "(case fault of None \<Rightarrow> False | Some f \<Rightarrow> fr_kind f = kind \<and> should_fire q (fr_prob f)) = hits fault kind q"
  by (simp add: hits_def should_fire_def split: option.split)

lemma hits_kind: "hits fault k q \<Longrightarrow> k \<noteq> k' \<Longrightarrow> \<not> hits fault k' q'"
  by (auto simp: hits_def split: option.splits)

lemmas attempt_step = attempt.simps [unfolded hits_case Let_def]

lemma attempt_works:
  assumes "tried task tid req n" "n < 3" "\<not> hits fault ''fail_always'' (rnd (n + 1))" "n = 0 \<longrightarrow> \<not> hits fault ''fail_first_attempt'' (rnd 1)"
  shows "ended (attempt esim fault rnd now task) tid req (worked esim (tq_type req) (n + 1))"
proof -
  have quiet: "\<not> (n = 0 \<and> hits fault ''fail_first_attempt'' (rnd (n + 1)))" using assms(4) by auto
  have t: "pt_attempts task = n" "pt_max task = 3" "pt_id task = tid" "pt_service task = tq_service req" "pt_type task = tq_type req"
    "pt_payload task = Some (tq_payload req)" using assms(1) by (simp_all add: tried_def)
  show ?thesis
proof (cases "tq_type req = ''ESIM_PROFILE_PREPARE'' \<and> esim \<noteq> EsimSim")
  case True
  then obtain msg where "order_profile esim (get_str_or (tq_payload req) ''iccid'' []) (get_str_or (tq_payload req) ''imsi'' [])
      (get_str_or (tq_payload req) ''msisdn'' []) = Inl msg"
    using order_profile_other by blast
  then show ?thesis using True assms(2,3) t by (subst attempt_step) (simp add: quiet ended_def worked_def)
next
  case False
  then show ?thesis using assms(2,3) t by (cases esim) (subst attempt_step, simp add: quiet ended_def worked_def)+
qed
qed

lemma attempt_again:
  assumes "tried task tid req n" "n < 2" "hits fault ''fail_always'' (rnd (n + 1)) \<or> n = 0 \<and> hits fault ''fail_first_attempt'' (rnd 1)"
  shows "\<exists>u. tried u tid req (n + 1) \<and> attempt esim fault rnd now task = attempt esim fault rnd now u"
proof (cases "hits fault ''fail_always'' (rnd (n + 1))")
  case True
  show ?thesis
    by (rule exI, rule conjI [rotated], subst attempt_step, use True assms in \<open>simp add: tried_def\<close>)
       (use assms in \<open>simp add: tried_def\<close>)
next
  case False
  then have "n = 0" "\<not> hits fault ''fail_always'' (rnd 1)" "hits fault ''fail_first_attempt'' (rnd 1)" using assms(3) by auto
  note only = this
  show ?thesis
    by (rule exI, rule conjI [rotated], subst attempt_step, use only assms(1) in \<open>simp add: tried_def\<close>)
       (use assms(1) only in \<open>simp add: tried_def\<close>)
qed

lemma attempt_gives_up:
  assumes "tried task tid req 2" "hits fault ''fail_always'' (rnd 3)"
  shows "ended (attempt esim fault rnd now task) tid req (''failed'', 3)"
  using assms by (subst attempt_step) (simp add: tried_def ended_def)

lemma run_task_ends:
  "ended (run_task esim fault rnd now (new_task tid req)) tid req (expected_end esim fault rnd (tq_type req))"
proof (cases "hits fault ''stuck'' (rnd 0)")
  case True
  then show ?thesis by (simp add: run_task_def hits_case expected_end_def ended_def new_task_def)
next
  case stuck: False
  let ?go = "attempt esim fault rnd now"
  have t0: "tried (new_task tid req) tid req 0" by (simp add: new_task_def tried_def)
  have run: "run_task esim fault rnd now (new_task tid req) = ?go (new_task tid req)"
    using stuck by (simp add: run_task_def hits_case)
  show ?thesis
  proof (cases "hits fault ''fail_first_attempt'' (rnd 1)")
    case True
    obtain u where "tried u tid req 1" "?go (new_task tid req) = ?go u"
      using attempt_again [OF t0, of fault rnd esim now] True by auto
    then show ?thesis
      using attempt_works [of u tid req 1 fault rnd esim now] True stuck hits_kind [OF True]
      by (simp add: run expected_end_def)
  next
    case first: False
    show ?thesis
    proof (cases "hits fault ''fail_always'' (rnd 1)")
      case False
      then show ?thesis using attempt_works [OF t0, of fault rnd esim now] stuck first by (simp add: run expected_end_def)
    next
      case True
      obtain u where u: "tried u tid req 1" "?go (new_task tid req) = ?go u"
        using attempt_again [OF t0, of fault rnd esim now] True by auto
      show ?thesis
      proof (cases "hits fault ''fail_always'' (rnd 2)")
        case False
        then show ?thesis using attempt_works [OF u(1), of fault rnd esim now] u(2) stuck first True by (simp add: run expected_end_def)
      next
        case two: True
        obtain v where "tried v tid req 2" "?go u = ?go v" using attempt_again [OF u(1), of fault rnd esim now] two by auto
        then show ?thesis
          using attempt_works [of v tid req 2 fault rnd esim now] attempt_gives_up [of v tid req fault rnd esim now] u(2) stuck first True two
          by (cases "hits fault ''fail_always'' (rnd 3)") (simp_all add: run expected_end_def)
      qed
    qed
  qed
qed

section \<open>One task, one row, one event\<close>

definition task_id_of :: "nat \<Rightarrow> string" where
  "task_id_of n = ''PTK-'' @ pad4 n"

definition settled :: "esim_provider \<Rightarrow> (int \<Rightarrow> rat) \<Rightarrow> task_request \<Rightarrow> nat option \<Rightarrow> prov_db \<Rightarrow> prov_db \<Rightarrow> bool" where
  "settled esim rnd req eid s t \<longleftrightarrow> (\<exists>task e.
     pv_tasks t = pv_tasks s @ [task] \<and> pv_seq t = pv_seq s + 1 \<and> pv_faults t = pv_faults s \<and>
     pt_id task = task_id_of (pv_seq s) \<and> pt_service task = tq_service req \<and> pt_type task = tq_type req \<and>
     pt_payload task = Some (tq_payload req) \<and> pt_max task = 3 \<and>
     (pt_state task, pt_attempts task) = expected_end esim (fault_get_active s (tq_type req)) rnd (tq_type req) \<and>
     outbox t = outbox s @ [e] \<and> ev_type e = ''provisioning.task.'' @ pt_state task \<and> ev_agg_id e = pt_id task \<and>
     ev_payload e = task_event_payload task (tq_service_order req) (tq_commercial req) (pt_state task = ''failed'') \<and>
     calls t = calls s @ (if ev_published e then [(ev_type e, ev_payload e)] else []) \<and>
     set (inbox t) = set (inbox s) \<union> (case eid of None \<Rightarrow> {} | Some x \<Rightarrow> {(x, INBOX_CONSUMER)}))"

lemma wp_task_next_id [wp_simps]:
  "wp task_next_id Q E = (\<lambda>s. Q (task_id_of (pv_seq s)) (s\<lparr>pv_seq := pv_seq s + 1\<rparr>))"
  by (rule ext) (simp add: task_next_id_def task_id_of_def wp_simps)

text \<open>Persistence adds the row and its event, or nothing when the identifier is taken.\<close>

definition recorded :: "string \<Rightarrow> task_row \<Rightarrow> json \<Rightarrow> nat option \<Rightarrow> prov_db \<Rightarrow> prov_db \<Rightarrow> bool" where
  "recorded et task payload eid s t \<longleftrightarrow> (\<exists>e. pv_tasks t = pv_tasks s @ [task] \<and> pv_seq t = pv_seq s \<and> pv_faults t = pv_faults s \<and>
     outbox t = outbox s @ [e] \<and> ev_type e = et \<and> ev_agg_id e = pt_id task \<and> ev_payload e = payload \<and>
     calls t = calls s @ (if ev_published e then [(ev_type e, ev_payload e)] else []) \<and>
     set (inbox t) = set (inbox s) \<union> (case eid of None \<Rightarrow> {} | Some x \<Rightarrow> {(x, INBOX_CONSUMER)}))"

lemma persist_effect:
  "wp (persist_and_publish mq ctx now et task so co perm eid) (\<lambda>_. recorded et task (task_event_payload task so co perm) eid s)
     (\<lambda>_ t. pt_id task \<in> pt_id ` set (pv_tasks s) \<and> outbox t = outbox s \<and> inbox t = inbox s \<and> pv_tasks t = pv_tasks s) s"
  by (auto simp: persist_and_publish_def task_insert_def wp_simps Let_def recorded_def rollback_def split: option.split)

lemma process_task_settles:
  "wp (process_task esim rnd mq ctx now req eid) (\<lambda>_. settled esim rnd req eid s)
     (\<lambda>_ t. task_id_of (pv_seq s) \<in> pt_id ` set (pv_tasks s) \<and> outbox t = outbox s \<and> inbox t = inbox s \<and> pv_tasks t = pv_tasks s) s"
proof -
  let ?fault = "fault_get_active s (tq_type req)"
  obtain et task perm where r: "run_task esim ?fault rnd now (new_task (task_id_of (pv_seq s)) req) = (et, task, perm)"
    by (metis prod_cases3)
  note e = run_task_ends [of esim ?fault rnd now "task_id_of (pv_seq s)" req, unfolded r ended_def, simplified]
  have f: "fault_get_active (s\<lparr>pv_seq := k\<rparr>) x = fault_get_active s x" for k x by (simp add: fault_get_active_def)
  have "wp (persist_and_publish mq ctx now et task (tq_service_order req) (tq_commercial req) perm eid) (\<lambda>_. settled esim rnd req eid s)
     (\<lambda>_ t. task_id_of (pv_seq s) \<in> pt_id ` set (pv_tasks s) \<and> outbox t = outbox s \<and> inbox t = inbox s \<and> pv_tasks t = pv_tasks s)
     (s\<lparr>pv_seq := pv_seq s + 1\<rparr>)"
    by (rule wp_mono [OF persist_effect]) (use e in \<open>auto simp: recorded_def settled_def\<close>)
  then show ?thesis by (simp add: process_task_def wp_simps f r)
qed

text \<open>
  C24: Every provisioning task settles: one run adds exactly one task row, in the terminal state
  and with the attempts its fault rule and the random draws decide, at most three, and
  exactly one event of that state, published or left to the relay, whose failure flag is
  permanent; the delivery's inbox row is written with it. The only error is a task
  identifier that is already taken, and then nothing is recorded.
\<close>

theorem task_always_settles:
  "wp (process_task esim rnd mq ctx now req eid)
     (\<lambda>_ t. settled esim rnd req eid s t \<and> snd (expected_end esim (fault_get_active s (tq_type req)) rnd (tq_type req)) \<le> 3 \<and>
        fst (expected_end esim (fault_get_active s (tq_type req)) rnd (tq_type req)) \<in> {''completed'', ''failed'', ''stuck''})
     (\<lambda>_ t. task_id_of (pv_seq s) \<in> pt_id ` set (pv_tasks s) \<and> outbox t = outbox s \<and> inbox t = inbox s \<and> pv_tasks t = pv_tasks s) s"
  by (rule wp_mono [OF process_task_settles]) (auto simp: expected_end_def worked_def)

section \<open>Reachable states\<close>

definition prov_inv :: "prov_db \<Rightarrow> bool" where
  "prov_inv s \<longleftrightarrow> list_all (\<lambda>r. (\<exists>n < pv_seq s. pt_id r = task_id_of n) \<and> (pt_state r = ''failed'' \<longrightarrow> pt_attempts r \<ge> pt_max r)) (pv_tasks s)"

lemma task_id_fresh: "prov_inv s \<Longrightarrow> task_id_of (pv_seq s) \<notin> pt_id ` set (pv_tasks s)"
  by (auto simp: prov_inv_def list_all_iff task_id_of_def)

lemma settled_inv: "settled EsimSim rnd req eid s t \<Longrightarrow> prov_inv s \<Longrightarrow> prov_inv t"
  by (auto simp: settled_def prov_inv_def expected_end_def worked_def list_all_iff less_Suc_eq split: if_splits)

lemma process_task_inv:
  assumes "prov_inv s"
  shows "wp (process_task EsimSim rnd mq ctx now req eid) (\<lambda>_ t. settled EsimSim rnd req eid s t \<and> prov_inv t) (\<lambda>_ _. False) s"
  by (rule wp_mono [OF process_task_settles]) (use task_id_fresh [OF assms] settled_inv assms in auto)

lemma task_update_pending_inv:
  "prov_inv s \<Longrightarrow> prov_inv (s\<lparr>pv_tasks := tbl_update pt_id i (\<lambda>r. r\<lparr>pt_state := ''pending'', pt_attempts := n, pt_error := e\<rparr>) (pv_tasks s)\<rparr>)"
  by (auto simp: prov_inv_def list_all_tbl_update elim!: list.pred_mono_strong)

lemma resolve_stuck_inv: "prov_inv s \<Longrightarrow> wp (resolve_stuck EsimSim rnd mq ctx now i note) (\<lambda>_. prov_inv) (\<lambda>_. prov_inv) s"
  unfolding resolve_stuck_def task_require_def task_update_state_def refetch_def
  by (auto simp: wp_simps split: sum.splits option.splits intro!: wp_mono [OF process_task_inv] task_update_pending_inv)

text \<open>The retry budget is always spent by the time a task is recorded as failed.\<close>

lemma retry_refused: "prov_inv s \<Longrightarrow> wp (retry_failed EsimSim rnd mq ctx now i) (\<lambda>_ _. False) (\<lambda>_ t. t = s) s"
  unfolding retry_failed_def task_require_def
  by (auto simp: wp_simps task_get_def check_retry_allowed_def prov_inv_def list_all_iff dest!: tbl_find_SomeD split: sum.splits option.splits if_splits)

lemma update_fault_inv: "prov_inv s \<Longrightarrow> wp (update_fault_rule ctx i en p k) (\<lambda>_. prov_inv) (\<lambda>_. prov_inv) s"
  unfolding update_fault_rule_def fault_update_def Let_def
  by (auto simp: wp_simps prov_inv_def split: sum.splits option.splits)

lemma prov_handle_inv: "prov_inv s \<Longrightarrow> wp (prov_handle EsimSim rnd mq now body eid) (\<lambda>_. prov_inv) (\<lambda>_ _. False) s"
  unfolding prov_handle_def by (auto simp: wp_simps split: option.splits intro!: wp_mono [OF process_task_inv])

lemma prov_delivery_inv:
  "prov_inv s \<Longrightarrow> fst (prov_delivery EsimSim rnd mq now mid body s) = PAcked \<and> prov_inv (snd (prov_delivery EsimSim rnd mq now mid body s))"
  using prov_handle_inv [of s rnd mq now body mid]
  by (auto simp: prov_delivery_def wp_def split: prod.splits sum.splits)

datatype prov_op =
    Deliver "int \<Rightarrow> rat" "(string \<Rightarrow> json \<Rightarrow> bool) option" int "nat option" json
  | Resolve "int \<Rightarrow> rat" "(string \<Rightarrow> json \<Rightarrow> bool) option" request_ctx int string string
  | RetryTask "int \<Rightarrow> rat" "(string \<Rightarrow> json \<Rightarrow> bool) option" request_ctx int string
  | SetFault request_ctx string "bool option" "rat option" "string option"

text \<open>The shipped configuration: the simulated eSIM adapter.\<close>

fun prov_step :: "prov_op \<Rightarrow> prov_db \<Rightarrow> prov_db" where
  "prov_step (Deliver rnd mq now mid body) s = snd (prov_delivery EsimSim rnd mq now mid body s)"
| "prov_step (Resolve rnd mq ctx now i note) s = snd (resolve_stuck EsimSim rnd mq ctx now i note s)"
| "prov_step (RetryTask rnd mq ctx now i) s = snd (retry_failed EsimSim rnd mq ctx now i s)"
| "prov_step (SetFault ctx i en p k) s = snd (update_fault_rule ctx i en p k s)"

definition prov_start :: "fault_row list \<Rightarrow> prov_db" where
  "prov_start faults = \<lparr>outbox = [], inbox = [], calls = [], pv_seq = 1, pv_tasks = [], pv_faults = faults\<rparr>"

lemma prov_step_inv: "prov_inv s \<Longrightarrow> prov_inv (prov_step op s)"
proof (cases op)
  case (RetryTask rnd mq ctx now i)
  assume "prov_inv s"
  with RetryTask retry_refused [of s rnd mq ctx now i] show ?thesis by (auto simp: wp_def split: prod.splits sum.splits)
qed (simp_all add: prov_delivery_inv resolve_stuck_inv [unfolded wp_same] update_fault_inv [unfolded wp_same])

lemma prov_reachable: "prov_inv (fold prov_step ops (prov_start faults))"
proof -
  have "prov_inv s \<Longrightarrow> prov_inv (fold prov_step ops s)" for s
    by (induction ops arbitrary: s) (simp_all add: prov_step_inv)
  then show ?thesis by (simp add: prov_inv_def prov_start_def)
qed

text \<open>
  Provisioning under the shipped eSIM adapter, whatever fault rules, draws, messages and
  operator commands came before: no task message is ever rejected, and an operator's retry
  of a failed task is never accepted, because a task is recorded as failed only once its
  retry budget is spent; the retry changes nothing.
\<close>

theorem operator_retry_is_never_accepted:
  "let s = fold prov_step ops (prov_start faults) in
     fst (prov_delivery EsimSim rnd mq now mid body s) = PAcked \<and>
     (\<exists>e. retry_failed EsimSim rnd' mq' ctx now' task_id s = (Inl e, s))"
proof -
  note inv = prov_reachable [of ops faults]
  show ?thesis using prov_delivery_inv [OF inv] retry_refused [OF inv, of rnd' mq' ctx now' task_id]
    by (auto simp: Let_def wp_def split: prod.splits sum.splits)
qed

text \<open>
  A redelivered \<open>provisioning.task.created\<close> is not run again: once a delivery was
  acknowledged, the same message is acknowledged without a row, an event or a publish,
  whatever the draws, the broker and the fault rules do then.
\<close>

theorem redelivered_task_not_rerun:
  assumes "prov_delivery esim rnd mq now (Some eid) body s = (PAcked, t)"
  shows "prov_delivery esim rnd' mq' now' (Some eid) body t = (PAcked, t)"
proof (cases "already_processed s eid")
  case True
  then show ?thesis using assms by (simp add: prov_delivery_def)
next
  case False
  then obtain u where run: "prov_handle esim rnd mq now body (Some eid) s = (Inr u, t)"
    using assms by (auto simp: prov_delivery_def split: prod.splits sum.splits)
  show ?thesis
  proof (cases "get_str body ''serviceId'' = None \<or> get_str body ''serviceOrderId'' = None \<or> get_str body ''taskType'' = None")
    case True
    then have "prov_handle esim rnd'' mq'' now'' body (Some eid) t' = (Inr (), t')" for rnd'' mq'' now'' t'
      by (auto simp: prov_handle_def ret_def split: option.splits)
    then show ?thesis using run by (simp add: prov_delivery_def)
  next
    case False
    then obtain req where "prov_handle esim rnd mq now body (Some eid) = process_task esim rnd mq default_ctx now req (Some eid)"
      by (auto simp: prov_handle_def)
    then have "settled esim rnd req (Some eid) s t"
      using wp_okD [OF process_task_settles, of esim rnd mq default_ctx now req "Some eid" s u t] run by simp
    then show ?thesis by (auto simp: settled_def prov_delivery_def already_processed_def)
  qed
qed

definition demo_task_message :: json where
  "demo_task_message = JObj [(''serviceId'', JStr ''SVC-0001''), (''serviceOrderId'', JStr ''SO-0001''), (''taskType'', JStr ''HLR_PROVISION'')]"

theorem redelivered_task_not_rerun_witness:
  "prov_delivery EsimSim (\<lambda>_. 0) None 9 (Some 7) demo_task_message (prov_step (Deliver (\<lambda>_. 0) None 5 (Some 7) demo_task_message) (prov_start []))
     = (PAcked, prov_step (Deliver (\<lambda>_. 0) None 5 (Some 7) demo_task_message) (prov_start []))"
proof (rule redelivered_task_not_rerun)
  have "prov_inv (prov_start [])" by (simp add: prov_inv_def prov_start_def)
  from prov_delivery_inv [OF this]
  show "prov_delivery EsimSim (\<lambda>_. 0) None 5 (Some 7) demo_task_message (prov_start [])
      = (PAcked, prov_step (Deliver (\<lambda>_. 0) None 5 (Some 7) demo_task_message) (prov_start []))"
    by (simp add: prod_eq_iff)
qed

end
