(* ===== verification/OrderChain.thy ===== *)
theory OrderChain
  imports SomTasks ComPromo SubRoutes ProvProps
begin

text \<open>
  The order chain across services: commercial order, service order, provisioning,
  activation, subscription. A message's body is the payload of the event the sender staged.
\<close>

section \<open>From the commercial order to the decomposition\<close>

definition first_item :: "com_db \<Rightarrow> string \<Rightarrow> item_row option" where
  "first_item s i = (case items_for s i of [] \<Rightarrow> None | it # _ \<Rightarrow> Some it)"

definition order_request :: "order_row \<Rightarrow> item_row option \<Rightarrow> string \<Rightarrow> decompose_request" where
  "order_request o1 item pm =
     \<lparr>dq_order = or_id o1, dq_customer = or_customer o1, dq_offering = (case item of None \<Rightarrow> [] | Some i \<Rightarrow> it_offering i),
      dq_preference = or_msisdn_pref o1, dq_method = pm, dq_price = Option.bind item item_price_snapshot\<rparr>"

definition submitted :: "com_db \<Rightarrow> string \<Rightarrow> order_row \<Rightarrow> string \<Rightarrow> com_db \<Rightarrow> bool" where
  "submitted s i o1 pm t \<longleftrightarrow> tbl_find or_id i (co_orders s) = Some o1 \<and> or_id o1 = i \<and> or_state o1 = ''acknowledged'' \<and>
     tbl_find or_id i (co_orders t) = Some (o1\<lparr>or_state := ''in_progress''\<rparr>) \<and> co_items t = co_items s \<and> calls t = calls s \<and>
     (\<exists>e. outbox t = outbox s @ [e] \<and> ev_type e = ''order.in_progress'' \<and> ev_payload e = submit_payload o1 (first_item s i) pm)"

lemma to_in_progress: "''in_progress'' \<in> set (allowed_targets a) \<Longrightarrow> a = ''acknowledged''"
  by (simp add: allowed_targets_def split: if_splits)

lemma submit_effect: "wp (submit_order env ctx now i) (\<lambda>_ t. \<exists>o1 pm. submitted s i o1 pm t) (\<lambda>_ _. True) s"
  unfolding submit_order_def order_require_def order_reread_def order_history_def update_order_def Let_def
  by (auto simp: wp_simps order_get_def check_order_iff submitted_def first_item_def tbl_find_update rollback_def
      split: sum.splits option.splits dest: tbl_find_SomeD dest!: to_in_progress)

lemma body_of_event: "ev_payload e = JObj kvs \<Longrightarrow> msg_body (message_of e) = JObj kvs"
  by (simp add: message_of_def)

lemma snapshot_not_null: "item_price_snapshot it = Some v \<Longrightarrow> \<not> is_null v"
  by (auto simp: item_price_snapshot_def)

lemma decompose_submitted:
  "decompose_handler env now (submit_payload o1 item pm) = decompose_order env default_ctx now (order_request o1 item pm)"
  by (rule ext)
     (auto simp: decompose_handler_def submit_payload_def som_req_str_def order_request_def bindp_def of_result_def get_str_def
       opt_json_def snapshot_not_null split: option.splits)

section \<open>From the service order to the activation\<close>

definition activation_of :: "decompose_request \<Rightarrow> string \<times> string \<times> string \<times> string \<Rightarrow> string \<Rightarrow> service_order_completed" where
  "activation_of req res cfs = (case res of (msisdn, iccid, imsi, code) \<Rightarrow>
     \<lparr>sc_order = dq_order req, sc_customer = dq_customer req, sc_offering = dq_offering req, sc_msisdn = msisdn, sc_iccid = iccid,
      sc_method = dq_method req, sc_cfs = cfs, sc_price = dq_price req\<rparr>)"

lemma completed_reaches_com:
  assumes "\<And>v. dq_price req = Some v \<Longrightarrow> \<not> is_null v" "coid = [] \<or> coid = dq_order req"
  shows "order_completed_handler env now (completed_payload (cfs_characteristics req res) soid coid cfs) =
    map_err (\<lambda>_. ''handler error'') (handle_service_order_completed env default_ctx now (activation_of req res cfs))"
  using assms
  by (intro ext, cases res)
     (auto simp: order_completed_handler_def com_req_str_def bindp_def of_result_def completed_payload_def cfs_characteristics_def
       cv_str_def get_str_or_def get_str_def activation_of_def pending_tasks_def split: option.splits)

text \<open>Everything a decomposed order's tasks lead to, up to the message that activates it.\<close>

lemma fulfilment_message:
  assumes "decompose_order senv default_ctx now1 req m = (Inr (), m1)"
    and "list_all (\<lambda>r. sv_parent r \<noteq> Some (svc_id_of (sm_svc_seq m))) (sm_svcs m)" and "set ts = set TASK_TYPES"
  shows "\<exists>res. reserved_from senv (calls m) (dq_preference req) res \<and>
    (let m2 = complete_tasks default_ctx now2 (svc_id_of (sm_svc_seq m)) (so_id_of (sm_so_seq m)) coid ts m1
     in ev_payload (last (outbox m2)) =
        completed_payload (cfs_characteristics req res) (so_id_of (sm_so_seq m)) coid (svc_id_of (sm_svc_seq m)))"
proof -
  let ?i = "svc_id_of (sm_svc_seq m)" and ?o = "so_id_of (sm_so_seq m)"
  let ?m2 = "complete_tasks default_ctx now2 ?i ?o coid ts m1"
  have d: "decomposed senv req default_ctx now1 m m1" using wp_okD [OF decompose_effect assms(1)] .
  obtain res where res: "sm_svcs m1 = sm_svcs m @ decomposed_rows (sm_svc_seq m) (cfs_characteristics req res)"
      "reserved_from senv (calls m) (dq_preference req) res"
    using d by (auto simp: decomposed_def)
  have "tbl_find sv_id ?i (sm_svcs m) = None" using d by (simp add: decomposed_def tbl_find_None_iff)
  then have chars: "chars_of ?i m1 = Some (cfs_characteristics req res)"
    by (simp add: chars_of_def res(1) tbl_find_append decomposed_rows_def reserved_row_def)
  have "set ts \<subseteq> set TASK_TYPES" "\<not> set TASK_TYPES \<subseteq> {}" "set TASK_TYPES \<subseteq> {} \<union> set ts"
    using assms(3) by (simp_all add: TASK_TYPES_def)
  note complete_tasks_from [OF decomposed_awaits [OF d assms(2)] this(1,2), of default_ctx now2 coid, unfolded Let_def if_P [OF this(3)]]
  then obtain e c where e: "outbox ?m2 = outbox m1 @ [e]" "chars_of ?i m1 = Some c" "ev_payload e = completed_payload c ?o coid ?i"
    by blast
  then have "ev_payload (last (outbox ?m2)) = completed_payload (cfs_characteristics req res) ?o coid ?i"
    using chars by simp
  with res(2) show ?thesis unfolding Let_def by blast
qed

section \<open>The activation\<close>

text \<open>What the subscription service reads from the activation's body.\<close>

definition plain_price :: "rat \<Rightarrow> string \<Rightarrow> string \<Rightarrow> price_snapshot" where
  "plain_price amount cur pid = \<lparr>pr_amount = amount, pr_currency = cur, pr_price_id = pid, pr_disc_type = None, pr_disc_value = None,
     pr_disc_periods = None, pr_promo = None, pr_promo_def = None\<rparr>"

definition activation_request :: "service_order_completed \<Rightarrow> price_snapshot option \<Rightarrow> create_request" where
  "activation_request p price = \<lparr>cr_customer = sc_customer p, cr_offering = sc_offering p, cr_msisdn = sc_msisdn p, cr_iccid = sc_iccid p,
     cr_method = sc_method p, cr_price = price, cr_order = Some (sc_order p)\<rparr>"

lemma activation_body_parses:
  assumes "parse_price_snapshot dec ps = Inr price" "\<not> is_null ps"
  shows "parse_create_request dec (activation_body p (Some ps)) = Inr (activation_request p (Some price))"
  using assms
  by (simp add: parse_create_request_def activation_body_def de_str_def de_opt_def field_def then_parse_def activation_request_def)

lemma item_snapshot_parses:
  assumes "it_price it = Some amount" "it_currency it = Some cur" "it_price_id it = Some pid"
  shows "\<exists>ps. item_price_snapshot it = Some ps \<and> \<not> is_null ps \<and> parse_price_snapshot dec ps = Inr (plain_price amount cur pid)"
  using assms
  by (simp add: item_price_snapshot_def parse_price_snapshot_def de_str_def de_opt_def de_decimal_def de_opt_decimal_def field_def
      then_parse_def plain_price_def)

text \<open>
  C25: A promotion stamped on an order survives the way to the subscription: the body that
  activates the order parses, in the subscription service, into a request with the order's
  price, its discount type, value, periods, code and offer definition, unchanged.
\<close>

theorem promotion_reaches_subscription:
  assumes "it_price it = Some amount" "it_currency it = Some cur" "it_price_id it = Some pid"
    and "case it_disc_periods it of None \<Rightarrow> True | Some n \<Rightarrow> in_i64 n"
    and "item_price_snapshot it = Some ps" "stamp_discount it ps = Inr ps'"
  shows "parse_create_request dec (activation_body p (Some ps')) = Inr (activation_request p (Some
    \<lparr>pr_amount = amount, pr_currency = cur, pr_price_id = pid, pr_disc_type = it_disc_type it, pr_disc_value = it_disc_value it,
     pr_disc_periods = it_disc_periods it, pr_promo = it_code it, pr_promo_def = it_offer_def it\<rparr>))"
proof (rule activation_body_parses)
  have ps': "ps' = JObj [(''priceAmount'', JDec amount), (''priceCurrency'', JStr cur), (''priceOfferingPriceId'', JStr pid),
      (''discountType'', opt_json JStr (it_disc_type it)), (''discountValue'', opt_json JDec (it_disc_value it)),
      (''discountPeriodsTotal'', opt_json JInt (it_disc_periods it)), (''promoCode'', opt_json JStr (it_code it)),
      (''promoOfferDefinitionId'', opt_json JStr (it_offer_def it))]"
    using assms(1-3,5,6) by (auto simp: item_price_snapshot_def stamp_discount_def)
  then show "\<not> is_null ps'" by simp
  show "parse_price_snapshot dec ps' = Inr \<lparr>pr_amount = amount, pr_currency = cur, pr_price_id = pid, pr_disc_type = it_disc_type it,
      pr_disc_value = it_disc_value it, pr_disc_periods = it_disc_periods it, pr_promo = it_code it, pr_promo_def = it_offer_def it\<rparr>"
    using assms(4) unfolding ps'
    by (cases "it_disc_type it"; cases "it_disc_value it"; cases "it_disc_periods it"; cases "it_code it"; cases "it_offer_def it")
       (simp_all add: parse_price_snapshot_def de_str_def de_opt_def de_decimal_def de_opt_decimal_def field_def then_parse_def)
qed

lemma handle_plain:
  assumes "order_get_for_update s (sc_order p) = Some (o1, Some it)" "or_state o1 = ''in_progress''" "it_code it = None"
  shows "handle_service_order_completed env ctx now p s =
    bindp (activate env (or_id o1) None (activation_body p (resolve_snapshot p (Some it)))) (complete_order ctx now p o1 (Some it) None) s"
  using assms
  by (simp add: handle_service_order_completed_def claim_or_degrade_def claim_entitlement_def Let_def bindp_def gets_def ret_def of_result_def)

text \<open>The subscription service behind the client: the activation creates the subscription the parsed body asks for.\<close>

lemma create_over_client:
  assumes "parse_create_request (env_decimal nenv) body = Inr req"
  shows "fst (client_call (route_create nenv nctx now body n)) =
    (case fst (create nenv nctx now req n) of Inr x \<Rightarrow> Inr (to_subscription_response x)
     | Inl e \<Rightarrow> fst (client_call (answer 201 to_subscription_response (create nenv nctx now req) n)))"
  using assms by (simp add: route_create_def client_call_answer split: sum.split)

lemma create_error_over_client:
  "fst (create nenv nctx now req n) = Inl e \<Longrightarrow>
   isl (fst (client_call (answer 201 to_subscription_response (create nenv nctx now req) n)))"
  by (simp add: client_call_answer)

definition order_in_state :: "string \<Rightarrow> string \<Rightarrow> com_db \<Rightarrow> bool" where
  "order_in_state st i t \<longleftrightarrow> map_option or_state (tbl_find or_id i (co_orders t)) = Some st"

text \<open>One activation of a promotion-free order against the subscription service.\<close>

lemma plain_activation:
  assumes o1: "tbl_find or_id i (co_orders s) = Some o1" "or_state o1 = ''in_progress''" "items_for s i = it # rest" "it_code it = None"
    and p: "sc_order p = i" "resolve_snapshot p (Some it) = Some ps" "parse_price_snapshot (env_decimal nenv) ps = Inr price" "\<not> is_null ps"
    and link: "ce_create_sub env (calls s) = (\<lambda>body. fst (client_call (route_create nenv nctx now4 body n)))"
  shows "let req = activation_request p (Some price); (r, t) = handle_service_order_completed env ctx now p s in
    calls t = calls s @ [CreateSub (activation_body p (Some ps))] \<and>
    (case fst (create nenv nctx now4 req n) of
       Inl _ \<Rightarrow> isl r
     | Inr sub \<Rightarrow> r = Inr () \<and> order_in_state ''completed'' i t \<and>
         list_all (\<lambda>x. it_id x = it_id it \<longrightarrow> it_sub x = Some (sb_id (fst sub))) (co_items t))"
proof -
  let ?body = "activation_body p (Some ps)" and ?req = "activation_request p (Some price)"
  let ?u = "s\<lparr>calls := calls s @ [CreateSub ?body]\<rparr>"
  have i: "or_id o1 = i" using tbl_find_SomeD [OF o1(1)] by simp
  have found: "order_get_for_update s (sc_order p) = Some (o1, Some it)" using o1 p(1) by (simp add: order_get_for_update_def)
  note run = handle_plain [OF found o1(2,4), of env ctx now, unfolded p(2) i]
  have parse: "parse_create_request (env_decimal nenv) ?body = Inr ?req" by (rule activation_body_parses) (use p in simp_all)
  have answer: "ce_create_sub env (calls s) ?body = fst (client_call (route_create nenv nctx now4 ?body n))" by (simp add: link)
  show ?thesis
  proof (cases "fst (create nenv nctx now4 ?req n)")
    case (Inl e)
    have "ce_create_sub env (calls s) ?body = fst (client_call (answer 201 to_subscription_response (create nenv nctx now4 ?req) n))"
      unfolding answer create_over_client [OF parse, of nctx now4 n] Inl by simp
    then have "isl (ce_create_sub env (calls s) ?body)" using create_error_over_client [OF Inl] by (rule ssubst)
    then obtain e' where "ce_create_sub env (calls s) ?body = Inl e'" by (cases "ce_create_sub env (calls s) ?body") auto
    then have "handle_service_order_completed env ctx now p s = (Inl (upstream e'), ?u)"
      by (simp add: run activate_def bindp_def gets_def call_ext_def ret_def throw_def)
    then show ?thesis by (simp add: Inl)
  next
    case (Inr sub)
    then have ok: "ce_create_sub env (calls s) ?body = Inr (to_subscription_response sub)"
      using answer create_over_client [OF parse, of nctx now4 n] by simp
    have sid: "get_str (to_subscription_response sub) ''id'' = Some (sb_id (fst sub))"
      by (cases sub) (simp add: to_subscription_response_def get_str_def)
    have "tbl_find or_id (or_id o1) (co_orders ?u) = Some o1" using o1(1) i by simp
    then obtain t where t: "complete_order ctx now p o1 (Some it) None (to_subscription_response sub) ?u = (Inr (), t)"
        "tbl_find or_id i (co_orders t) = Some (o1\<lparr>or_state := ''completed'', or_completed := Some now\<rparr>)"
        "co_items t = tbl_update it_id (it_id it) (\<lambda>r. r\<lparr>it_sub := Some (sb_id (fst sub)), it_state := Some ''completed''\<rparr>) (co_items s)"
        "calls t = calls s @ [CreateSub ?body]"
      using complete_run [OF o1(2), of ?u ctx now p it None "to_subscription_response sub"] i sid by auto
    then have "handle_service_order_completed env ctx now p s = (Inr (), t)"
      by (simp add: run activate_def bindp_def gets_def call_ext_def ret_def ok)
    then show ?thesis using t by (simp add: Inr order_in_state_def list_all_tbl_update list.pred_True)
  qed
qed

section \<open>End to end\<close>

lemma end_to_end:
  assumes sub: "submit_order env0 ctx now0 i s = (Inr full, s1)"
    and ord: "tbl_find or_id i (co_orders s) = Some o1" "items_for s i = it # rest" "it_code it = None"
    and price: "it_price it = Some amount" "it_currency it = Some cur" "it_price_id it = Some pid"
    and dec: "decompose_handler senv now1 (msg_body (message_of (last (outbox s1)))) m = (Inr (), m1)"
    and fresh: "list_all (\<lambda>r. sv_parent r \<noteq> Some (svc_id_of (sm_svc_seq m))) (sm_svcs m)" and ts: "set ts = set TASK_TYPES"
    and link: "ce_create_sub env (calls s1) = (\<lambda>body. fst (client_call (route_create nenv nctx now4 body n)))"
    and m2: "m2 = complete_tasks default_ctx now2 (svc_id_of (sm_svc_seq m)) (so_id_of (sm_so_seq m)) i ts m1"
    and rt: "order_completed_handler env now3 (msg_body (message_of (last (outbox m2)))) s1 = (r, t)"
  shows "\<exists>res pm. reserved_from senv (calls m) (or_msisdn_pref o1) res \<and>
    (case fst (create nenv nctx now4 \<lparr>cr_customer = or_customer o1, cr_offering = it_offering it, cr_msisdn = fst res,
         cr_iccid = fst (snd res), cr_method = pm, cr_price = Some (plain_price amount cur pid), cr_order = Some i\<rparr> n) of
       Inl _ \<Rightarrow> isl r
     | Inr sub \<Rightarrow> r = Inr () \<and> order_in_state ''completed'' i t \<and>
         list_all (\<lambda>x. it_id x = it_id it \<longrightarrow> it_sub x = Some (sb_id (fst sub))) (co_items t))"
proof -
  obtain pm where s1: "submitted s i o1 pm s1" using wp_okD [OF submit_effect sub] ord(1) by (auto simp: submitted_def)
  then have item: "first_item s i = Some it" and oid: "or_id o1 = i"
    and o1': "tbl_find or_id i (co_orders s1) = Some (o1\<lparr>or_state := ''in_progress''\<rparr>)" and its: "items_for s1 i = it # rest"
    using ord(2) by (auto simp: submitted_def first_item_def items_for_def)
  let ?req = "order_request o1 (Some it) pm"
  have "msg_body (message_of (last (outbox s1))) = submit_payload o1 (Some it) pm"
    using s1 item by (auto simp: submitted_def message_of_def submit_payload_def)
  then have "decompose_order senv default_ctx now1 ?req m = (Inr (), m1)" using dec decompose_submitted by simp
  from fulfilment_message [OF this fresh ts, of now2 i]
  obtain res where res: "reserved_from senv (calls m) (or_msisdn_pref o1) res"
      "ev_payload (last (outbox m2)) = completed_payload (cfs_characteristics ?req res) (so_id_of (sm_so_seq m)) i (svc_id_of (sm_svc_seq m))"
    by (auto simp: m2 Let_def order_request_def)
  obtain ps where ps: "item_price_snapshot it = Some ps" "\<not> is_null ps" "parse_price_snapshot (env_decimal nenv) ps = Inr (plain_price amount cur pid)"
    using item_snapshot_parses [OF price] by blast
  let ?p = "activation_of ?req res (svc_id_of (sm_svc_seq m))"
  have "msg_body (message_of (last (outbox m2))) = ev_payload (last (outbox m2))"
    unfolding res(2) message_of_def by (simp add: completed_payload_def)
  then have run: "order_completed_handler env now3 (msg_body (message_of (last (outbox m2)))) s1 =
      map_err (\<lambda>_. ''handler error'') (handle_service_order_completed env default_ctx now3 ?p) s1"
    using completed_reaches_com [of ?req i env now3 res "so_id_of (sm_so_seq m)"] ps(1,2) oid
    by (simp add: res(2) order_request_def)
  have p: "sc_order ?p = i" "resolve_snapshot ?p (Some it) = Some ps"
    using ps oid by (simp_all add: activation_of_def order_request_def resolve_snapshot_def split: prod.split)
  have rq: "activation_request ?p (Some (plain_price amount cur pid)) = \<lparr>cr_customer = or_customer o1, cr_offering = it_offering it,
      cr_msisdn = fst res, cr_iccid = fst (snd res), cr_method = pm, cr_price = Some (plain_price amount cur pid), cr_order = Some i\<rparr>"
    using oid by (simp add: activation_request_def activation_of_def order_request_def split: prod.split)
  obtain r0 t0 where h: "handle_service_order_completed env default_ctx now3 ?p s1 = (r0, t0)" by fastforce
  then have "r = (case r0 of Inl _ \<Rightarrow> Inl ''handler error'' | Inr u \<Rightarrow> Inr u)" "t = t0"
    using rt run by (auto simp: map_err_def split: sum.splits)
  moreover note plain_activation [OF o1' _ its ord(3) p ps(3,2) link, of default_ctx now3, unfolded Let_def h rq]
  ultimately show ?thesis using res(1) by (intro exI [of _ res] exI [of _ pm]) (auto split: sum.splits)
qed

end
