(* ===== verification/EndToEnd.thy ===== *)
theory EndToEnd
  imports OrderChain SubWitness
begin

text \<open>
  Properties of the order chain as a whole: fulfilment up to the subscription, task reports
  back to their service order, and two ways the chain comes apart.
\<close>

section \<open>Fulfilment\<close>

text \<open>
  C2: End to end: once an order without a promotion is submitted and decomposed, the message
  its completed tasks lead to makes the order service ask the subscription service to
  create exactly the subscription that was ordered (customer, offering, stamped price,
  order identifier, on the number and eSIM that were reserved). If that succeeds the
  order is completed and its item names the new subscription; if not, the message fails.
\<close>

theorem order_fulfilled_end_to_end:
  assumes "submit_order env0 ctx now0 i s = (Inr full, s1)"
    and "tbl_find or_id i (co_orders s) = Some o1" "items_for s i = it # rest" "it_code it = None"
    and "it_price it = Some amount" "it_currency it = Some cur" "it_price_id it = Some pid"
    and "decompose_handler senv now1 (msg_body (message_of (last (outbox s1)))) m = (Inr (), m1)"
    and "list_all (\<lambda>r. sv_parent r \<noteq> Some (svc_id_of (sm_svc_seq m))) (sm_svcs m)" "set ts = set TASK_TYPES"
    and "ce_create_sub env (calls s1) = (\<lambda>body. fst (client_call (route_create nenv nctx now4 body n)))"
    and "m2 = complete_tasks default_ctx now2 (svc_id_of (sm_svc_seq m)) (so_id_of (sm_so_seq m)) i ts m1"
    and "order_completed_handler env now3 (msg_body (message_of (last (outbox m2)))) s1 = (r, t)"
  shows "\<exists>res pm. reserved_from senv (calls m) (or_msisdn_pref o1) res \<and>
    (case fst (create nenv nctx now4 \<lparr>cr_customer = or_customer o1, cr_offering = it_offering it, cr_msisdn = fst res,
         cr_iccid = fst (snd res), cr_method = pm, cr_price = Some (plain_price amount cur pid), cr_order = Some i\<rparr> n) of
       Inl _ \<Rightarrow> isl r
     | Inr sub \<Rightarrow> r = Inr () \<and> order_in_state ''completed'' i t \<and>
         list_all (\<lambda>x. it_id x = it_id it \<longrightarrow> it_sub x = Some (sb_id (fst sub))) (co_items t))"
  by (rule end_to_end [OF assms])

section \<open>Task reports\<close>

lemma task_message_run:
  "prov_handle esim rnd mq now (task_payload req res cfs oid tt) eid =
   process_task esim rnd mq default_ctx now \<lparr>tq_service = cfs, tq_service_order = oid, tq_commercial = dq_order req, tq_type = tt,
     tq_payload = unwrap_or (JObj []) (jget (task_payload req res cfs oid tt) ''payload'')\<rparr> eid"
  by (cases res) (simp add: prov_handle_def task_payload_def get_str_def get_str_or_def)

lemma report_handlers:
  "task_completed_handler now (task_event_payload task so co b) = handle_task_completed default_ctx now (pt_service task) (pt_type task) so co"
  "task_stuck_handler (task_event_payload task so co b) = handle_task_stuck (pt_service task) (pt_type task)"
  "pt_state task = ''failed'' \<Longrightarrow> task_failed_handler now (task_event_payload task so co b) =
     handle_task_failed default_ctx now (pt_service task) (pt_type task) so co b"
  by (rule ext, simp add: task_completed_handler_def task_failed_handler_def task_stuck_handler_def task_event_payload_def som_req_str_def
      get_str_def get_str_or_def get_bool_def bindp_def of_result_def)+

text \<open>
  The report of a provisioning task reaches the service order it was created for: in every
  reachable state of the simulator, a task message of a decomposed order is run to one
  event, and the handler of that event's kind in the service order manager acts on the
  very service, task, service order and commercial order of the message; failures arrive
  as permanent.
\<close>

theorem task_report_reaches_service_order:
  "let s = fold prov_step ops (prov_start faults); st = fst (expected_end EsimSim (fault_get_active s tt) rnd tt) in
   \<exists>t e. prov_handle EsimSim rnd mq now (task_payload req res cfs oid tt) eid s = (Inr (), t) \<and> outbox t = outbox s @ [e] \<and>
     ev_type e = ''provisioning.task.'' @ st \<and>
     (if st = ''completed'' then task_completed_handler now' (ev_payload e) m = handle_task_completed default_ctx now' cfs tt oid (dq_order req) m
      else if st = ''failed'' then task_failed_handler now' (ev_payload e) m = handle_task_failed default_ctx now' cfs tt oid (dq_order req) True m
      else task_stuck_handler (ev_payload e) m = handle_task_stuck cfs tt m)"
proof -
  define s where "s = fold prov_step ops (prov_start faults)"
  let ?rq = "\<lparr>tq_service = cfs, tq_service_order = oid, tq_commercial = dq_order req, tq_type = tt,
     tq_payload = unwrap_or (JObj []) (jget (task_payload req res cfs oid tt) ''payload'')\<rparr>"
  have "prov_inv s" unfolding s_def by (rule prov_reachable)
  then have "wp (process_task EsimSim rnd mq default_ctx now ?rq eid) (\<lambda>_ t. settled EsimSim rnd ?rq eid s t) (\<lambda>_ _. False) s"
    by (rule wp_mono [OF process_task_inv]) simp_all
  then obtain t where t: "process_task EsimSim rnd mq default_ctx now ?rq eid s = (Inr (), t)" "settled EsimSim rnd ?rq eid s t"
    by (auto simp: wp_def split: prod.splits sum.splits)
  obtain task e where task: "pt_service task = cfs" "pt_type task = tt"
      "pt_state task = fst (expected_end EsimSim (fault_get_active s tt) rnd tt)"
      and e: "outbox t = outbox s @ [e]" "ev_type e = ''provisioning.task.'' @ pt_state task"
      "ev_payload e = task_event_payload task oid (dq_order req) (pt_state task = ''failed'')"
    using t(2) by (auto simp: settled_def prod_eq_iff)
  have "prov_handle EsimSim rnd mq now (task_payload req res cfs oid tt) eid s = (Inr (), t)" by (simp add: task_message_run t(1))
  then show ?thesis
    unfolding s_def [symmetric] Let_def using e task report_handlers(3) [of task]
    by (intro exI [of _ t] exI [of _ e]) (simp add: report_handlers(1,2))
qed

section \<open>Where the chain comes apart\<close>

lemma complete_tasks_calls: "calls (complete_tasks ctx now i oid coid ts m) = calls m"
proof -
  have "keeps (\<lambda>t. calls t = k) (handle_task_completed ctx now i t oid coid)" for t k
    unfolding handle_task_completed_def get_service_for_update_def set_service_characteristics_def activate_service_def svc_history_def
      child_states_def activate_child_def close_order_def service_order_state_def set_service_order_state_def som_policy_def stage_def
    by (intro keeps_bindp keeps_case_option keeps_if keeps_for_each keeps_case_prod keeps_modify | simp)+
  then have "calls (snd (handle_task_completed ctx now i t oid coid m)) = calls m" for t m
    by (auto dest: keepsD [where P = "\<lambda>t. calls t = calls m" and s = m])
  then show ?thesis by (induction ts arbitrary: m) simp_all
qed

lemma cancel_before_som:
  assumes "tbl_find or_id i (co_orders s) = Some o1" "or_state o1 = ''in_progress''" "ce_service_orders env i = Inr (JArr [])"
  shows "\<exists>full t. cancel_order env ctx now i s = (Inr full, t) \<and> order_in_state ''cancelled'' i t"
proof -
  have "wp (cancel_order env ctx now i) (\<lambda>_ t. order_in_state ''cancelled'' i t) (\<lambda>_ _. False) s"
    using assms tbl_find_SomeD [OF assms(1)]
    by (simp add: cancel_order_def order_require_def order_reread_def order_get_def update_order_def order_history_def wp_simps
        check_order_transition_def allowed_targets_def check_cancel_allowed_after_som_def up_def order_in_state_def tbl_find_update)
  then show ?thesis by (auto simp: wp_def split: prod.splits sum.splits)
qed

lemma closed_order_ignores:
  assumes "order_in_state st i s" "st \<noteq> ''in_progress''" "sc_order p = i"
  shows "handle_service_order_completed env ctx now p s = (Inr (), s)"
  using assms by (auto simp: order_in_state_def handle_service_order_completed_def order_get_for_update_def bindp_def gets_def ret_def)

text \<open>
  C26: A cancellation does not reach provisioning: an order cancelled after its submission but
  before the service order manager took the message is cancelled without an objection, and
  is provisioned all the same: the services end activated on a number and an eSIM that
  stay reserved, and the order service ignores the completion, so nothing is created and
  nothing is released.
\<close>

theorem cancelled_order_still_provisioned:
  assumes "submit_order env0 ctx now0 i s = (Inr full, s1)" "ce_service_orders env i = Inr (JArr [])"
    and "decompose_handler senv now1 (msg_body (message_of (last (outbox s1)))) m = (Inr (), m1)"
    and "list_all (\<lambda>r. sv_parent r \<noteq> Some (svc_id_of (sm_svc_seq m))) (sm_svcs m)" "set ts = set TASK_TYPES"
    and "m2 = complete_tasks default_ctx now2 (svc_id_of (sm_svc_seq m)) (so_id_of (sm_so_seq m)) i ts m1"
  shows "\<exists>full' s2 pref. cancel_order env ctx' now' i s1 = (Inr full', s2) \<and> order_in_state ''cancelled'' i s2 \<and>
    services_in ''activated'' (svc_id_of (sm_svc_seq m)) m2 \<and> calls m2 = calls m @ [ReserveMsisdn pref, ReserveEsim] \<and>
    order_completed_handler env now3 (msg_body (message_of (last (outbox m2)))) s2 = (Inr (), s2)"
proof -
  obtain o1 pm where s1: "submitted s i o1 pm s1" using wp_okD [OF submit_effect assms(1)] by blast
  then have oid: "or_id o1 = i" by (simp add: submitted_def)
  have live: "tbl_find or_id i (co_orders s1) = Some (o1\<lparr>or_state := ''in_progress''\<rparr>)" using s1 by (simp add: submitted_def)
  have "or_state (o1\<lparr>or_state := ''in_progress''\<rparr>) = ''in_progress''" by simp
  from cancel_before_som [OF live this assms(2), of ctx' now']
  obtain full' s2 where s2: "cancel_order env ctx' now' i s1 = (Inr full', s2)" "order_in_state ''cancelled'' i s2" by blast
  let ?req = "order_request o1 (first_item s i) pm" and ?i = "svc_id_of (sm_svc_seq m)" and ?o = "so_id_of (sm_so_seq m)"
  have "msg_body (message_of (last (outbox s1))) = submit_payload o1 (first_item s i) pm"
    using s1 by (auto simp: submitted_def message_of_def submit_payload_def)
  then have d: "decompose_order senv default_ctx now1 ?req m = (Inr (), m1)" using assms(3) decompose_submitted by simp
  have dd: "decomposed senv ?req default_ctx now1 m m1" using wp_okD [OF decompose_effect d] .
  obtain res where res: "ev_payload (last (outbox m2)) = completed_payload (cfs_characteristics ?req res) ?o i ?i"
    using fulfilment_message [OF d assms(4,5), of now2 i] unfolding assms(6) Let_def by blast
  have sub: "set ts \<subseteq> set TASK_TYPES" "\<not> set TASK_TYPES \<subseteq> {}" "set TASK_TYPES \<subseteq> {} \<union> set ts"
    using assms(5) by (simp_all add: TASK_TYPES_def)
  note complete_tasks_from [OF decomposed_awaits [OF dd assms(4)] sub(1,2), of default_ctx now2 i, unfolded Let_def if_P [OF sub(3)]]
  then have act: "services_in ''activated'' ?i m2" unfolding assms(6) fulfilled_def by blast
  have made: "calls m2 = calls m @ [ReserveMsisdn (dq_preference ?req), ReserveEsim]"
    using dd unfolding assms(6) complete_tasks_calls by (simp add: decomposed_def)
  have "msg_body (message_of (last (outbox m2))) = ev_payload (last (outbox m2))"
    unfolding res message_of_def by (simp add: completed_payload_def)
  moreover have "\<not> is_null v" if "dq_price ?req = Some v" for v
    using that snapshot_not_null by (cases "first_item s i") (auto simp: order_request_def)
  ultimately have "order_completed_handler env now3 (msg_body (message_of (last (outbox m2)))) s2 =
      map_err (\<lambda>_. ''handler error'') (handle_service_order_completed env default_ctx now3 (activation_of ?req res ?i)) s2"
    using completed_reaches_com [of ?req i env now3 res ?o ?i] oid by (simp add: res order_request_def)
  also have "\<dots> = (Inr (), s2)"
    using closed_order_ignores [OF s2(2), of "activation_of ?req res ?i"] oid
    by (simp add: map_err_def activation_of_def order_request_def split: prod.split)
  finally show ?thesis using s2 act made by blast
qed

text \<open>
  Resolving a stuck task strands its service order: the payload a task row keeps has no
  order identifiers, so when an operator resolves the last missing task, its report names no
  service order; the services are activated and the order service is told, but the
  service order stays in progress for good.
\<close>

theorem resolved_task_strands_service_order:
  assumes "awaiting D i oid m" "tt \<in> set TASK_TYPES" "set TASK_TYPES \<subseteq> insert tt D" "tbl_find so_id [] (sm_orders m) = None"
    and "prov_inv s" "task_get s tid = Some task" "pt_state task = ''stuck''" "pt_service task = i" "pt_type task = tt"
    and "pt_payload task = jget (task_payload req res i oid tt) ''payload''"
    and "fault_get_active s tt = None" "\<not> list_all is_whitespace note"
  shows "\<exists>doc s' e m'. resolve_stuck EsimSim rnd mq ctx now tid note s = (Inr doc, s') \<and> outbox s' = outbox s @ [e] \<and>
    ev_type e = ''provisioning.task.completed'' \<and>
    task_completed_handler now' (ev_payload e) m = (Inr (), m') \<and> services_in ''activated'' i m' \<and> order_in ''in_progress'' oid m' \<and>
    ev_type (last (outbox m')) = ''service_order.completed'' \<and> jget (ev_payload (last (outbox m'))) ''serviceOrderId'' = Some (JStr [])"
proof -
  let ?f = "\<lambda>r. r\<lparr>pt_state := ''pending'', pt_attempts := 0, pt_error := Some (''Resolved by operator: '' @ note)\<rparr>"
  let ?u = "s\<lparr>pv_tasks := tbl_update pt_id tid ?f (pv_tasks s)\<rparr>"
  let ?rq = "reprocess_request task"
  have rq: "tq_service ?rq = i" "tq_type ?rq = tt" "tq_service_order ?rq = []" "tq_commercial ?rq = []"
    using assms(8-10) by (cases res; simp add: reprocess_request_def task_payload_def get_str_or_def get_str_def)+
  have inv: "prov_inv ?u" using assms(5) by (rule task_update_pending_inv)
  have "wp (process_task EsimSim rnd mq ctx now ?rq None) (\<lambda>_ t. settled EsimSim rnd ?rq None ?u t) (\<lambda>_ _. False) ?u"
    by (rule wp_mono [OF process_task_inv [OF inv]]) simp_all
  then obtain s' where s': "process_task EsimSim rnd mq ctx now ?rq None ?u = (Inr (), s')" "settled EsimSim rnd ?rq None ?u s'"
    by (auto simp: wp_def split: prod.splits sum.splits)
  have quiet: "fault_get_active ?u tt = None" using assms(11) by (simp add: fault_get_active_def)
  obtain row e where row: "pt_service row = i" "pt_type row = tt" "pt_state row = ''completed''" "pv_tasks s' = pv_tasks ?u @ [row]"
      and e: "outbox s' = outbox s @ [e]" "ev_type e = ''provisioning.task.completed''" "ev_payload e = task_event_payload row [] [] False"
    using s'(2) unfolding settled_def rq quiet by (auto simp: expected_end_def hits_def worked_def)
  have tid: "tbl_find pt_id tid (pv_tasks s) = Some task" using assms(6) by (simp add: task_get_def)
  have "tbl_find pt_id tid (pv_tasks s') = Some (?f task)" using tid by (simp add: row(4) tbl_find_append tbl_find_update)
  then have "resolve_stuck EsimSim rnd mq ctx now tid note s = (Inr (task_response (?f task)), s')"
    using tid s'(1) assms(7,12)
    by (simp add: resolve_stuck_def check_resolve_has_note_def task_require_def task_update_state_def refetch_def task_get_def
        bindp_def of_result_def gets_def modify_def ret_def)
  moreover obtain m' e2 c where m': "handle_task_completed default_ctx now' i tt [] [] m = (Inr (), m')" "services_in ''activated'' i m'"
      "sm_orders m' = tbl_update so_id [] (\<lambda>r. r\<lparr>so_state := ''completed'', so_completed := Some now'\<rparr>) (sm_orders m)"
      "outbox m' = outbox m @ [e2]" "ev_type e2 = ''service_order.completed''" "ev_payload e2 = completed_payload c [] [] i"
    using last_task_any [OF assms(1-3), of "[]" default_ctx now' "[]"] assms(4) by auto
  moreover have "sm_orders m' = sm_orders m" using m'(3) assms(4) by (simp add: tbl_update_other tbl_find_None_iff)
  then have "order_in ''in_progress'' oid m'" using assms(1) by (simp add: awaiting_def order_in_def)
  moreover have "task_completed_handler now' (ev_payload e) m = (Inr (), m')"
    using m'(1) by (simp add: e(3) report_handlers(1) row)
  moreover have "jget (ev_payload (last (outbox m'))) ''serviceOrderId'' = Some (JStr [])" by (simp add: m'(4,6) completed_payload_def)
  ultimately show ?thesis using e(1,2) by auto
qed

section \<open>Witnesses\<close>

definition demo_order :: order_row where
  "demo_order = \<lparr>or_id = ''ORD-0001'', or_customer = ''C1'', or_state = ''acknowledged'', or_date = Some 0, or_requested = None,
     or_completed = None, or_msisdn_pref = None, or_notes = None, or_stuck = None\<rparr>"

definition demo_item :: item_row where
  "demo_item = \<lparr>it_id = ''OI-0001'', it_order = ''ORD-0001'', it_action = ''add'', it_offering = ''PLAN_S'', it_state = Some ''acknowledged'',
     it_sub = None, it_price = Some 20, it_currency = Some ''SGD'', it_price_id = Some ''P1'', it_code = None, it_offer_def = None,
     it_disc_type = None, it_disc_value = None, it_disc_periods = None, it_promo_offer = None\<rparr>"

definition demo_com :: com_db where
  "demo_com = \<lparr>outbox = [], inbox = [], calls = [], co_ord_seq = 2, co_item_seq = 2, co_orders = [demo_order], co_items = [demo_item],
     co_hist = [\<lparr>oh_order = ''ORD-0001'', oh_from = None, oh_to = Some ''acknowledged'', oh_reason = ''order created''\<rparr>]\<rparr>"

definition demo_subs :: sub_db where
  "demo_subs = \<lparr>outbox = [], inbox = [], calls = [], sd_seq = 1, sd_subs = [], sd_bals = [], sd_hist = [], sd_vas = []\<rparr>"

definition demo_com_env :: com_env where
  "demo_com_env = \<lparr>ce_customer = \<lambda>_. Inr (JObj []), ce_offering = \<lambda>_. Inr (JObj []), ce_active_price = \<lambda>_. Inr demo_price,
     ce_methods = \<lambda>_. Inr (JArr [JObj [(''id'', JStr ''PM'')]]), ce_validate = \<lambda>_ _ _. Inr (JObj []), ce_eligible = \<lambda>_ _. Inr (JObj []),
     ce_service_orders = \<lambda>_. Inr (JArr []), ce_loyalty = True, ce_advance = \<lambda>_ _. Inr (JObj []), ce_claim = \<lambda>_ _ _. Inr (JObj []),
     ce_create_sub = \<lambda>_ body. fst (client_call (route_create demo_env default_ctx 0 body demo_subs)), ce_decimal = \<lambda>_. None\<rparr>"

definition demo_com1 :: com_db where
  "demo_com1 = snd (submit_order demo_com_env default_ctx 0 ''ORD-0001'' demo_com)"

lemma demo_submit: "\<exists>full. submit_order demo_com_env default_ctx 0 ''ORD-0001'' demo_com = (Inr full, demo_com1)"
proof -
  have "wp (submit_order demo_com_env default_ctx 0 ''ORD-0001'') (\<lambda>_ _. True) (\<lambda>_ _. False) demo_com"
    by (simp add: submit_order_def order_require_def order_reread_def order_get_def update_order_def order_history_def wp_simps up_def
        check_order_transition_def allowed_targets_def demo_com_def demo_order_def demo_com_env_def Let_def)
  then show ?thesis by (auto simp: wp_def demo_com1_def split: prod.splits sum.splits)
qed

definition demo_som1 :: som_db where
  "demo_som1 = snd (decompose_handler demo_som_env 0 (msg_body (message_of (last (outbox demo_com1)))) empty_som_db)"

lemma demo_decomposes:
  "decompose_handler demo_som_env 0 (msg_body (message_of (last (outbox demo_com1)))) empty_som_db = (Inr (), demo_som1)"
proof -
  obtain full where "submit_order demo_com_env default_ctx 0 ''ORD-0001'' demo_com = (Inr full, demo_com1)" using demo_submit by blast
  from wp_okD [OF submit_effect this] obtain o1 pm where "submitted demo_com ''ORD-0001'' o1 pm demo_com1" by blast
  then have "msg_body (message_of (last (outbox demo_com1))) = submit_payload o1 (first_item demo_com ''ORD-0001'') pm"
    by (auto simp: submitted_def message_of_def submit_payload_def)
  moreover have "wp (decompose_order demo_som_env default_ctx 0 req) (\<lambda>_ _. True) (\<lambda>_ _. False) empty_som_db" for req
    unfolding decompose_order_def next_service_order_id_def next_service_order_item_id_def insert_service_order_def
      insert_service_order_item_def set_soi_target_def set_service_characteristics_def set_service_order_state_def reserve_inventory_def
    by (simp add: wp_simps wp_design_service wp_reserve_service TASK_TYPES_def empty_som_db_def demo_som_env_def get_str_def)
  ultimately have "wp (decompose_handler demo_som_env 0 (msg_body (message_of (last (outbox demo_com1))))) (\<lambda>_ _. True) (\<lambda>_ _. False) empty_som_db"
    by (simp add: decompose_submitted)
  then show ?thesis by (auto simp: wp_def demo_som1_def split: prod.splits sum.splits)
qed

definition demo_som2 :: som_db where
  "demo_som2 = complete_tasks default_ctx 5 (svc_id_of 1) (so_id_of 1) ''ORD-0001'' TASK_TYPES demo_som1"

theorem order_fulfilled_end_to_end_witness:
  "let (r, t) = order_completed_handler demo_com_env 9 (msg_body (message_of (last (outbox demo_som2)))) demo_com1 in
   \<exists>res pm. reserved_from demo_som_env [] None res \<and>
    (case fst (create demo_env default_ctx 0 \<lparr>cr_customer = ''C1'', cr_offering = ''PLAN_S'', cr_msisdn = fst res,
         cr_iccid = fst (snd res), cr_method = pm, cr_price = Some (plain_price 20 ''SGD'' ''P1''), cr_order = Some ''ORD-0001''\<rparr> demo_subs) of
       Inl _ \<Rightarrow> isl r
     | Inr sub \<Rightarrow> r = Inr () \<and> order_in_state ''completed'' ''ORD-0001'' t \<and>
         list_all (\<lambda>x. it_id x = ''OI-0001'' \<longrightarrow> it_sub x = Some (sb_id (fst sub))) (co_items t))"
proof -
  obtain full where sub: "submit_order demo_com_env default_ctx 0 ''ORD-0001'' demo_com = (Inr full, demo_com1)" using demo_submit by blast
  obtain r t where rt: "order_completed_handler demo_com_env 9 (msg_body (message_of (last (outbox demo_som2)))) demo_com1 = (r, t)" by fastforce
  have rows: "tbl_find or_id ''ORD-0001'' (co_orders demo_com) = Some demo_order" "items_for demo_com ''ORD-0001'' = demo_item # []"
    "it_code demo_item = None" "it_price demo_item = Some 20" "it_currency demo_item = Some ''SGD''" "it_price_id demo_item = Some ''P1''"
    by (simp_all add: demo_com_def demo_order_def demo_item_def items_for_def)
  have fresh: "list_all (\<lambda>r. sv_parent r \<noteq> Some (svc_id_of (sm_svc_seq empty_som_db))) (sm_svcs empty_som_db)" by (simp add: demo_fresh)
  have link: "ce_create_sub demo_com_env (calls demo_com1) = (\<lambda>body. fst (client_call (route_create demo_env default_ctx 0 body demo_subs)))"
    by (simp add: demo_com_env_def)
  have m2: "demo_som2 = complete_tasks default_ctx 5 (svc_id_of (sm_svc_seq empty_som_db)) (so_id_of (sm_so_seq empty_som_db)) ''ORD-0001''
      TASK_TYPES demo_som1" by (simp add: demo_som2_def demo_fresh)
  have facts: "or_customer demo_order = ''C1''" "it_offering demo_item = ''PLAN_S''" "it_id demo_item = ''OI-0001''"
    "or_msisdn_pref demo_order = None" "calls empty_som_db = []"
    by (simp_all add: demo_order_def demo_item_def empty_som_db_def)
  show ?thesis
    using order_fulfilled_end_to_end [OF sub rows demo_decomposes fresh refl link m2 rt] unfolding facts rt Let_def prod.case .
qed

theorem cancelled_order_still_provisioned_witness:
  "\<exists>s2 pref. order_in_state ''cancelled'' ''ORD-0001'' s2 \<and> services_in ''activated'' (svc_id_of 1) demo_som2 \<and>
     calls demo_som2 = [ReserveMsisdn pref, ReserveEsim] \<and>
     order_completed_handler demo_com_env 9 (msg_body (message_of (last (outbox demo_som2)))) s2 = (Inr (), s2)"
proof -
  obtain full where sub: "submit_order demo_com_env default_ctx 0 ''ORD-0001'' demo_com = (Inr full, demo_com1)" using demo_submit by blast
  have som: "ce_service_orders demo_com_env ''ORD-0001'' = Inr (JArr [])" by (simp add: demo_com_env_def)
  have fresh: "list_all (\<lambda>r. sv_parent r \<noteq> Some (svc_id_of (sm_svc_seq empty_som_db))) (sm_svcs empty_som_db)" by (simp add: demo_fresh)
  have m2: "demo_som2 = complete_tasks default_ctx 5 (svc_id_of (sm_svc_seq empty_som_db)) (so_id_of (sm_so_seq empty_som_db)) ''ORD-0001''
      TASK_TYPES demo_som1" by (simp add: demo_som2_def demo_fresh)
  have facts: "sm_svc_seq empty_som_db = 1" "calls empty_som_db = []" by (simp_all add: empty_som_db_def)
  show ?thesis
    using cancelled_order_still_provisioned [OF sub som demo_decomposes fresh refl m2, of default_ctx 3 9] unfolding facts append_Nil by blast
qed

definition demo_stuck_task :: task_row where
  "demo_stuck_task = \<lparr>pt_id = task_id_of 1, pt_service = svc_id_of 1, pt_type = ''ESIM_PROFILE_PREPARE'', pt_state = ''stuck'', pt_attempts = 0,
     pt_max = 3, pt_payload = jget (task_payload demo_decompose ([], [], [], []) (svc_id_of 1) (so_id_of 1) ''ESIM_PROFILE_PREPARE'') ''payload'',
     pt_error = None, pt_started = Some 0, pt_completed = None\<rparr>"

definition demo_prov :: prov_db where
  "demo_prov = \<lparr>outbox = [], inbox = [], calls = [], pv_seq = 2, pv_tasks = [demo_stuck_task], pv_faults = []\<rparr>"

lemma complete_tasks_ids: "map so_id (sm_orders (complete_tasks ctx now i oid coid ts m)) = map so_id (sm_orders m)"
proof -
  have "keeps (\<lambda>t. map so_id (sm_orders t) = k) (handle_task_completed ctx now i t oid coid)" for t k
    unfolding handle_task_completed_def get_service_for_update_def set_service_characteristics_def activate_service_def svc_history_def
      child_states_def activate_child_def close_order_def service_order_state_def set_service_order_state_def som_policy_def stage_def
    by (intro keeps_bindp keeps_case_option keeps_if keeps_for_each keeps_case_prod keeps_modify | simp add: map_tbl_update)+
  then have "map so_id (sm_orders (snd (handle_task_completed ctx now i t oid coid m))) = map so_id (sm_orders m)" for t m
    by (auto dest: keepsD [where P = "\<lambda>t. map so_id (sm_orders t) = map so_id (sm_orders m)" and s = m])
  then show ?thesis by (induction ts arbitrary: m) simp_all
qed

theorem resolved_task_strands_service_order_witness:
  "\<exists>doc s' e m'. resolve_stuck EsimSim (\<lambda>_. 0) None default_ctx 7 (task_id_of 1) ''ok'' demo_prov = (Inr doc, s') \<and> outbox s' = [e] \<and>
     task_completed_handler 8 (ev_payload e)
       (complete_tasks default_ctx 5 (svc_id_of 1) (so_id_of 1) [] [''HLR_PROVISION'', ''PCRF_POLICY_PUSH'', ''OCS_BALANCE_INIT''] demo_som) = (Inr (), m') \<and>
     services_in ''activated'' (svc_id_of 1) m' \<and> order_in ''in_progress'' (so_id_of 1) m'"
proof -
  let ?ts = "[''HLR_PROVISION'', ''PCRF_POLICY_PUSH'', ''OCS_BALANCE_INIT'']"
  let ?m = "complete_tasks default_ctx 5 (svc_id_of 1) (so_id_of 1) [] ?ts demo_som"
  note d = wp_okD [OF decompose_effect demo_som_run]
  have aw0: "awaiting {} (svc_id_of 1) (so_id_of 1) demo_som" using decomposed_awaits [OF d] by (simp add: demo_fresh)
  have sets: "set ?ts \<subseteq> set TASK_TYPES" "\<not> set TASK_TYPES \<subseteq> {}" "\<not> set TASK_TYPES \<subseteq> {} \<union> set ?ts" by (simp_all add: TASK_TYPES_def)
  have aw: "awaiting ({} \<union> set ?ts) (svc_id_of 1) (so_id_of 1) ?m"
    using complete_tasks_from [OF aw0 sets(1,2), of default_ctx 5 "[]", unfolded Let_def if_not_P [OF sets(3)]] by blast
  have "map so_id (sm_orders demo_som) = [so_id_of 1]" using d by (simp add: decomposed_def demo_fresh empty_som_db_def)
  then have "map so_id (sm_orders ?m) = [so_id_of 1]" unfolding complete_tasks_ids .
  then have "set (map so_id (sm_orders ?m)) = set [so_id_of 1]" by (rule arg_cong)
  then have none: "tbl_find so_id [] (sm_orders ?m) = None" unfolding tbl_find_None_iff set_map by (simp add: so_id_of_def)
  have tt: "''ESIM_PROFILE_PREPARE'' \<in> set TASK_TYPES" "set TASK_TYPES \<subseteq> insert ''ESIM_PROFILE_PREPARE'' ({} \<union> set ?ts)"
    by (simp_all add: TASK_TYPES_def)
  have pv: "prov_inv demo_prov" "task_get demo_prov (task_id_of 1) = Some demo_stuck_task" "pt_state demo_stuck_task = ''stuck''"
    "pt_service demo_stuck_task = svc_id_of 1" "pt_type demo_stuck_task = ''ESIM_PROFILE_PREPARE''"
    "pt_payload demo_stuck_task = jget (task_payload demo_decompose ([], [], [], []) (svc_id_of 1) (so_id_of 1) ''ESIM_PROFILE_PREPARE'') ''payload''"
    "fault_get_active demo_prov ''ESIM_PROFILE_PREPARE'' = None" "\<not> list_all is_whitespace ''ok''" "outbox demo_prov = []"
    by (auto simp: demo_prov_def demo_stuck_task_def prov_inv_def task_get_def fault_get_active_def is_whitespace_def intro: exI [of _ "1 :: nat"])
  show ?thesis
    using resolved_task_strands_service_order [OF aw tt none pv(1-8), of "\<lambda>_. 0" None default_ctx 7 8] unfolding pv(9) append_Nil by blast
qed

definition promo_item :: item_row where
  "promo_item = demo_item\<lparr>it_code := Some ''SAVE'', it_offer_def := Some ''D1'', it_disc_type := Some ''percent'', it_disc_value := Some 50,
     it_disc_periods := Some 3, it_promo_offer := Some ''LO-1''\<rparr>"

definition promo_com :: com_db where
  "promo_com = demo_com\<lparr>co_orders := [demo_order\<lparr>or_state := ''in_progress''\<rparr>], co_items := [promo_item]\<rparr>"

definition demo_completed :: service_order_completed where
  "demo_completed = \<lparr>sc_order = ''ORD-0001'', sc_customer = ''C1'', sc_offering = ''PLAN_S'', sc_msisdn = ''900'', sc_iccid = ''89'',
     sc_method = ''PM'', sc_cfs = ''SVC-0001'', sc_price = None\<rparr>"

definition demo_snapshot :: "(string \<times> json) list" where
  "demo_snapshot = [(''priceAmount'', JDec 20), (''priceCurrency'', JStr ''SGD''), (''priceOfferingPriceId'', JStr ''P1'')]"

definition demo_stamped :: json where
  "demo_stamped = JObj (demo_snapshot @ [(''discountType'', JStr ''percent''), (''discountValue'', JDec 50),
     (''discountPeriodsTotal'', JInt 3), (''promoCode'', JStr ''SAVE''), (''promoOfferDefinitionId'', JStr ''D1'')])"

lemma demo_stamp:
  "item_price_snapshot promo_item = Some (JObj demo_snapshot)" "stamp_discount promo_item (JObj demo_snapshot) = Inr demo_stamped"
  by (simp_all add: promo_item_def demo_item_def item_price_snapshot_def demo_snapshot_def stamp_discount_def demo_stamped_def)

theorem promotion_settled_with_activation_witness:
  "\<exists>t. handle_service_order_completed (demo_com_env\<lparr>ce_create_sub := \<lambda>_ _. Inl TimeoutErr\<rparr>) default_ctx 5 demo_completed promo_com
      = (Inl (upstream TimeoutErr), t) \<and>
    calls t = [AdvanceOffer ''LO-1'' ''ORD-0001:claim'', CreateSub (activation_body demo_completed (Some demo_stamped)),
      RevokeOffer ''LO-1'' ''ORD-0001:revoke'']"
proof -
  let ?env = "demo_com_env\<lparr>ce_create_sub := \<lambda>_ _. Inl TimeoutErr\<rparr>" and ?o = "demo_order\<lparr>or_state := ''in_progress''\<rparr>"
  have h: "order_get_for_update promo_com (sc_order demo_completed) = Some (?o, Some promo_item)" "or_state ?o = ''in_progress''"
    "it_disc_type promo_item \<noteq> None" "it_code promo_item \<noteq> None" "it_promo_offer promo_item = Some ''LO-1''" "ce_loyalty ?env"
    "resolve_snapshot demo_completed (Some promo_item) = Some (JObj demo_snapshot)"
    by (simp_all add: order_get_for_update_def promo_com_def demo_completed_def demo_com_def demo_order_def items_for_def
        resolve_snapshot_def demo_stamp(1) demo_com_env_def) (simp_all add: promo_item_def demo_item_def)
  have facts: "ce_advance ?env x y = Inr (JObj [])" "ce_create_sub ?env k b = Inl TimeoutErr" "calls promo_com = []" "or_id ?o = ''ORD-0001''" for x y k b
    by (simp_all add: demo_com_env_def promo_com_def demo_com_def demo_order_def)
  obtain r t where rt: "handle_service_order_completed ?env default_ctx 5 demo_completed promo_com = (r, t)" by fastforce
  from promotion_settled_with_activation [OF h demo_stamp(2), of default_ctx 5, unfolded Let_def rt facts claim_key_def sum.case prod.case]
  show ?thesis using rt by simp
qed

theorem promotion_reaches_subscription_witness:
  "parse_create_request (\<lambda>_. None) (activation_body demo_completed (Some demo_stamped)) = Inr (activation_request demo_completed (Some
    \<lparr>pr_amount = 20, pr_currency = ''SGD'', pr_price_id = ''P1'', pr_disc_type = Some ''percent'', pr_disc_value = Some 50,
     pr_disc_periods = Some 3, pr_promo = Some ''SAVE'', pr_promo_def = Some ''D1''\<rparr>))"
proof -
  have h: "it_price promo_item = Some 20" "it_currency promo_item = Some ''SGD''" "it_price_id promo_item = Some ''P1''"
    "case it_disc_periods promo_item of None \<Rightarrow> True | Some n \<Rightarrow> in_i64 n"
    by (simp_all add: promo_item_def demo_item_def in_i64_def i64_min_def i64_max_def)
  have f: "it_disc_type promo_item = Some ''percent''" "it_disc_value promo_item = Some 50" "it_disc_periods promo_item = Some 3"
    "it_code promo_item = Some ''SAVE''" "it_offer_def promo_item = Some ''D1''"
    by (simp_all add: promo_item_def)
  show ?thesis by (rule promotion_reaches_subscription [OF h demo_stamp, unfolded f])
qed

end
