(* ===== verification/Payment.thy ===== *)
theory Payment
  imports SubRoutes TextUtil
begin

text \<open>
  \<open>services/payment\<close>: the payment methods on file and the charges made on them. Rows and
  queries (\<open>repo.rs\<close>), policies (\<open>policies.rs\<close>), the mock and the Stripe tokenizer
  (\<open>domain.rs\<close>, \<open>tokenizer.rs\<close>) with the boot guards that select one (\<open>select.rs\<close>), and
  the service operations (\<open>service.rs\<close>). Stripe's answers are a parameter, one for every
  request given the requests made before; a row of \<open>integrations.external_call\<close> is written
  on a connection of its own and so is recorded with the calls, which no rollback undoes.
  Latencies and error texts are left out.
\<close>

section \<open>State\<close>

record method_row =
  pm_id :: string
  pm_customer :: string
  pm_type :: string
  pm_token :: string
  pm_provider :: string
  pm_last4 :: string
  pm_brand :: "string option"
  pm_exp_month :: int
  pm_exp_year :: int
  pm_default :: bool
  pm_status :: string
  pm_created :: int

record attempt_row =
  pa_id :: string
  pa_customer :: string
  pa_method :: string
  pa_amount :: rat
  pa_currency :: string
  pa_purpose :: string
  pa_status :: string
  pa_gateway :: "string option"
  pa_reason :: "string option"
  pa_attempted :: int
  pa_call :: "string option"
  pa_code :: "string option"
  pa_key :: "string option"

record payer_row =
  py_id :: string
  py_ref :: "string option"
  py_ref_provider :: "string option"

record webhook_row =
  wh_provider :: string
  wh_event :: string
  wh_type :: string
  wh_body :: json
  wh_processed :: "int option"
  wh_outcome :: "string option"

record external_call =
  xc_operation :: string
  xc_agg_type :: "string option"
  xc_agg_id :: "string option"
  xc_success :: bool
  xc_call :: "string option"
  xc_error_code :: "string option"
  xc_error_message :: "string option"
  xc_payload :: "json option"

text \<open>The requests made of Stripe: \<open>StripeIntent\<close> carries the idempotency key and the form.\<close>

datatype pay_call =
    StripeIntent string int string string string string
  | StripeCustomer string string
  | StripeAttach string string
  | StripeDetach string
  | Forensic external_call

record pay_db = "pay_call base" +
  pd_att_seq :: nat
  pd_pm_seq :: nat
  pd_attempts :: "attempt_row list"
  pd_methods :: "method_row list"
  pd_payers :: "payer_row list"
  pd_webhooks :: "webhook_row list"

type_synonym 'a pay_prog = "(pay_db, api_error, 'a) prog"

text \<open>
  A transaction; the sequences are not part of it (\<open>nextval\<close> is never undone). What a failed
  charge leaves of them matters: the gateway's idempotency keys are made from them.
\<close>

definition pay_tx :: "'a pay_prog \<Rightarrow> 'a pay_prog" where
  "pay_tx m s = (case m s of (Inl e, t) \<Rightarrow> (Inl e, (rollback s t)\<lparr>pd_att_seq := pd_att_seq t, pd_pm_seq := pd_pm_seq t\<rparr>)
     | (Inr x, t) \<Rightarrow> (Inr x, t))"

lemma wp_pay_tx [wp_simps]:
  "wp (pay_tx m) Q E = (\<lambda>s. wp m Q (\<lambda>e t. E e ((rollback s t)\<lparr>pd_att_seq := pd_att_seq t, pd_pm_seq := pd_pm_seq t\<rparr>)) s)"
  by (rule ext) (auto simp: wp_def pay_tx_def split: prod.splits sum.splits)

section \<open>Repository\<close>

definition attempt_id :: "nat \<Rightarrow> string" where
  "attempt_id n = ''PAY-'' @ pad6 n"

definition next_attempt_id :: "string pay_prog" where
  "next_attempt_id = bindp (gets pd_att_seq) (\<lambda>n. bindp (modify (\<lambda>s. s\<lparr>pd_att_seq := n + 1\<rparr>)) (\<lambda>_. ret (attempt_id n)))"

definition insert_attempt :: "attempt_row \<Rightarrow> unit pay_prog" where
  "insert_attempt a =
     bindp (of_result (to_numeric 12 (pa_amount a))) (\<lambda>amount.
     bindp (gets pd_attempts) (\<lambda>rows.
       if pa_id a \<in> pa_id ` set rows then throw (db_error ''pk_payment_attempt'')
       else modify (\<lambda>s. s\<lparr>pd_attempts := pd_attempts s @ [a\<lparr>pa_amount := amount\<rparr>]\<rparr>)))"

definition get_attempt :: "pay_db \<Rightarrow> string \<Rightarrow> attempt_row option" where
  "get_attempt s aid = tbl_find pa_id aid (pd_attempts s)"

definition page :: "int option \<Rightarrow> int option \<Rightarrow> 'a list \<Rightarrow> api_error + 'a list" where
  "page limit offset rows =
     (if unwrap_or 0 limit < 0 \<or> unwrap_or 0 offset < 0 then Inl (db_error ''LIMIT or OFFSET must not be negative'')
      else (let rest = drop (nat (unwrap_or 0 offset)) rows
            in Inr (case limit of None \<Rightarrow> rest | Some n \<Rightarrow> take (nat n) rest)))"

definition list_attempts :: "pay_db \<Rightarrow> string \<Rightarrow> int option \<Rightarrow> int option \<Rightarrow> api_error + attempt_row list" where
  "list_attempts s customer_id limit offset =
     page limit offset (sort_key (\<lambda>a. - pa_attempted a) (filter (\<lambda>a. pa_customer a = customer_id) (pd_attempts s)))"

definition count_attempts :: "pay_db \<Rightarrow> string \<Rightarrow> nat" where
  "count_attempts s customer_id = length (filter (\<lambda>a. pa_customer a = customer_id) (pd_attempts s))"

definition get_attempt_by_provider_call_id :: "pay_db \<Rightarrow> string \<Rightarrow> (string \<times> string) option" where
  "get_attempt_by_provider_call_id s pi_id =
     map_option (\<lambda>a. (pa_id a, pa_status a)) (find (\<lambda>a. pa_call a = Some pi_id) (pd_attempts s))"

definition new_method_id :: "nat \<Rightarrow> string" where
  "new_method_id n = ''PM-'' @ pad4 n"

definition next_method_id :: "string pay_prog" where
  "next_method_id = bindp (gets pd_pm_seq) (\<lambda>n. bindp (modify (\<lambda>s. s\<lparr>pd_pm_seq := n + 1\<rparr>)) (\<lambda>_. ret (new_method_id n)))"

definition get_method :: "pay_db \<Rightarrow> string \<Rightarrow> method_row option" where
  "get_method s mid = tbl_find pm_id mid (pd_methods s)"

definition list_methods :: "pay_db \<Rightarrow> string \<Rightarrow> bool \<Rightarrow> method_row list" where
  "list_methods s customer_id include_removed =
     sort_key (\<lambda>m. - pm_created m) (filter (\<lambda>m. pm_customer m = customer_id \<and> (include_removed \<or> pm_status m = ''active'')) (pd_methods s))"

definition active_of :: "string \<Rightarrow> method_row list \<Rightarrow> method_row list" where
  "active_of customer_id rows = filter (\<lambda>m. pm_customer m = customer_id \<and> pm_status m = ''active'') rows"

definition count_active_methods :: "pay_db \<Rightarrow> string \<Rightarrow> nat" where
  "count_active_methods s customer_id = length (active_of customer_id (pd_methods s))"

definition insert_method :: "method_row \<Rightarrow> unit pay_prog" where
  "insert_method m =
     bindp (gets pd_methods) (\<lambda>rows.
       if pm_id m \<in> pm_id ` set rows then throw (db_error ''pk_payment_method'')
       else modify (\<lambda>s. s\<lparr>pd_methods := pd_methods s @ [m]\<rparr>))"

definition set_method_status :: "string \<Rightarrow> string \<Rightarrow> unit pay_prog" where
  "set_method_status mid status =
     modify (\<lambda>s. s\<lparr>pd_methods := tbl_update pm_id mid (\<lambda>m. m\<lparr>pm_status := status\<rparr>) (pd_methods s)\<rparr>)"

definition set_default :: "string \<Rightarrow> string \<Rightarrow> unit pay_prog" where
  "set_default customer_id mid =
     modify (\<lambda>s. s\<lparr>pd_methods := tbl_update pm_id mid (\<lambda>m. m\<lparr>pm_default := True\<rparr>)
       (map (\<lambda>m. if pm_customer m = customer_id \<and> pm_id m \<noteq> mid \<and> pm_default m then m\<lparr>pm_default := False\<rparr> else m)
         (pd_methods s))\<rparr>)"

definition list_active_mock_methods :: "pay_db \<Rightarrow> method_row list" where
  "list_active_mock_methods s = filter (\<lambda>m. pm_provider m = ''mock'' \<and> pm_status m = ''active'') (pd_methods s)"

definition lookup_customer_external_ref :: "pay_db \<Rightarrow> string \<Rightarrow> string option" where
  "lookup_customer_external_ref s customer_id = Option.bind (tbl_find py_id customer_id (pd_payers s)) py_ref"

definition lookup_customer_external_ref_for_provider :: "pay_db \<Rightarrow> string \<Rightarrow> string \<Rightarrow> string option" where
  "lookup_customer_external_ref_for_provider s customer_id provider =
     Option.bind (find (\<lambda>c. py_id c = customer_id \<and> py_ref_provider c = Some provider) (pd_payers s)) py_ref"

definition insert_payment_customer :: "string \<Rightarrow> string \<Rightarrow> string \<Rightarrow> unit pay_prog" where
  "insert_payment_customer customer_id external_ref provider =
     bindp (gets pd_payers) (\<lambda>rows.
       if customer_id \<in> py_id ` set rows then throw (db_error ''pk_customer'')
       else modify (\<lambda>s. s\<lparr>pd_payers := pd_payers s @ [\<lparr>py_id = customer_id, py_ref = Some external_ref, py_ref_provider = Some provider\<rparr>]\<rparr>))"

lemma attempt_id_inj: "inj attempt_id"
  by (auto intro!: injI simp: attempt_id_def)

lemma new_method_id_inj: "inj new_method_id"
  by (auto intro!: injI simp: new_method_id_def)

section \<open>Policies\<close>

definition MAX_METHODS_PER_CUSTOMER :: int where
  "MAX_METHODS_PER_CUSTOMER = 5"

definition check_method_active :: "method_row \<Rightarrow> api_error + unit" where
  "check_method_active m =
     (if pm_status m \<noteq> ''active''
      then Inl (violate ''payment.charge.method_active'' [(''payment_method_id'', JStr (pm_id m)), (''status'', JStr (pm_status m))])
      else Inr ())"

definition check_positive_amount :: "rat \<Rightarrow> api_error + unit" where
  "check_positive_amount amount =
     (if amount \<le> 0 then Inl (violate ''payment.charge.positive_amount'' [(''amount'', JDec amount)]) else Inr ())"

definition check_customer_matches_method :: "string \<Rightarrow> method_row \<Rightarrow> api_error + unit" where
  "check_customer_matches_method customer_id m =
     (if pm_customer m \<noteq> customer_id
      then Inl (violate ''payment.charge.customer_matches_method''
             [(''requested_customer_id'', JStr customer_id), (''method_customer_id'', JStr (pm_customer m)),
              (''payment_method_id'', JStr (pm_id m))])
      else Inr ())"

definition check_token_provider_matches_active :: "method_row \<Rightarrow> string \<Rightarrow> api_error + unit" where
  "check_token_provider_matches_active m adapter =
     (case (if adapter = ''MockTokenizerAdapter'' then Some ''mock''
            else if adapter = ''StripeTokenizerAdapter'' then Some ''stripe'' else None) of
        None \<Rightarrow> Inr ()
      | Some expected \<Rightarrow>
          (let actual = (if pm_provider m = [] then ''mock'' else pm_provider m) in
           if actual \<noteq> expected
           then Inl (violate ''payment.charge.token_provider_matches_active''
                  [(''payment_method_id'', JStr (pm_id m)), (''row_token_provider'', JStr actual),
                   (''active_adapter'', JStr adapter), (''expected_token_provider'', JStr expected)])
           else Inr ()))"

definition check_payer_exists :: "(string \<Rightarrow> client_error + json) \<Rightarrow> string \<Rightarrow> api_error + json" where
  "check_payer_exists crm customer_id = (case crm customer_id of
      Inr v \<Rightarrow> Inr v
    | Inl NotFoundErr \<Rightarrow> Inl (violate ''payment_method.add.customer_exists'' [(''customer_id'', JStr customer_id)])
    | Inl e \<Rightarrow> Inl (violate ''payment_method.add.customer_lookup_failed'' [(''customer_id'', JStr customer_id)]))"

definition check_customer_active_or_pending :: "json \<Rightarrow> api_error + unit" where
  "check_customer_active_or_pending customer =
     (let status = get_str_or customer ''status'' [] in
      if status \<noteq> ''active'' \<and> status \<noteq> ''pending''
      then Inl (violate ''payment_method.add.customer_active_or_pending'' [(''status'', JStr status)]) else Inr ())"

definition check_card_not_expired :: "int \<Rightarrow> int \<Rightarrow> int \<Rightarrow> api_error + unit" where
  "check_card_not_expired now exp_month exp_year =
     (let (year, month) = year_month now in
      if exp_year < year \<or> (exp_year = year \<and> exp_month < month)
      then Inl (violate ''payment_method.add.card_not_expired'' [(''exp_month'', JInt exp_month), (''exp_year'', JInt exp_year)])
      else Inr ())"

definition check_at_most_n_methods :: "string \<Rightarrow> int \<Rightarrow> api_error + unit" where
  "check_at_most_n_methods customer_id active_count =
     (if active_count \<ge> MAX_METHODS_PER_CUSTOMER
      then Inl (violate ''payment_method.add.at_most_n_methods''
             [(''customer_id'', JStr customer_id), (''current_count'', JInt active_count), (''max'', JInt MAX_METHODS_PER_CUSTOMER)])
      else Inr ())"

section \<open>Tokenizers\<close>

record charge_result =
  ct_status :: string
  ct_gateway :: string
  ct_reason :: "string option"
  ct_call :: string
  ct_code :: "string option"

definition decide_mock_charge :: "string \<Rightarrow> string \<times> string option \<times> string option" where
  "decide_mock_charge token =
     (if contains token ''FAIL'' \<or> contains token ''DECLINE''
      then (''declined'', Some ''card_declined_by_issuer'', Some ''card_declined'') else (''approved'', None, None))"

definition event_type_for_status :: "string \<Rightarrow> string" where
  "event_type_for_status status =
     (if status = ''approved'' then ''payment.charged'' else if status = ''declined'' then ''payment.declined'' else ''payment.errored'')"

datatype tokenizer_error = TokValue | TokTransport | TokNotSupported

record card_details =
  cd_last4 :: string
  cd_brand :: string
  cd_month :: "int option"
  cd_year :: "int option"

record stripe_config =
  sc_api_key :: string
  sc_publishable :: string
  sc_webhook_secret :: string
  sc_allow_reuse :: bool

datatype tokenizer = Mock | Stripe stripe_config

text \<open>
  \<open>pe_post\<close> answers a request to Stripe (\<open>None\<close>: the transport failed or the body is not
  JSON), \<open>pe_card\<close> the read of a payment method; \<open>pe_uuid\<close> is the random id drawn.
\<close>

record pay_env =
  pe_tokenizer :: tokenizer
  pe_crm :: "string \<Rightarrow> client_error + json"
  pe_post :: "pay_call list \<Rightarrow> pay_call \<Rightarrow> json option"
  pe_card :: "string \<Rightarrow> json option"
  pe_uuid :: string
  pe_decimal :: "string \<Rightarrow> rat option"

type_synonym 'a tok_prog = "(pay_db, tokenizer_error, 'a) prog"

definition class_name :: "tokenizer \<Rightarrow> string" where
  "class_name t = (case t of Mock \<Rightarrow> ''MockTokenizerAdapter'' | Stripe _ \<Rightarrow> ''StripeTokenizerAdapter'')"

fun redact_stripe :: "json \<Rightarrow> json" and redact_fields :: "(string \<times> json) list \<Rightarrow> (string \<times> json) list"
  and redact_items :: "json list \<Rightarrow> json list" where
  "redact_stripe (JObj kvs) = JObj (redact_fields kvs)"
| "redact_stripe (JArr vs) = JArr (redact_items vs)"
| "redact_stripe v = v"
| "redact_fields [] = []"
| "redact_fields ((k, v) # kvs) =
     (k, if to_lowercase k \<in> {''email'', ''name'', ''phone'', ''address'', ''billing_details'', ''number'', ''cvc'', ''cvv''}
         then JStr ''[redacted]'' else redact_stripe v) # redact_fields kvs"
| "redact_items [] = []"
| "redact_items (v # vs) = redact_stripe v # redact_items vs"

definition record_external_call :: "string \<Rightarrow> string option \<Rightarrow> bool \<Rightarrow> string option \<Rightarrow> string option \<Rightarrow> string option \<Rightarrow> json option
    \<Rightarrow> unit tok_prog" where
  "record_external_call operation aggregate_id success provider_call_id error_code error_message redacted =
     call_ext (Forensic \<lparr>xc_operation = operation,
       xc_agg_type = (if operation = ''charge'' then Some ''payment_attempt''
         else if operation = ''attach'' \<or> operation = ''attach_test_relink'' then Some ''payment_method''
         else if operation = ''ensure_customer'' then Some ''customer'' else None),
       xc_agg_id = aggregate_id, xc_success = success, xc_call = provider_call_id, xc_error_code = error_code,
       xc_error_message = error_message, xc_payload = redacted\<rparr>) ()"

definition stripe_post :: "pay_env \<Rightarrow> pay_call \<Rightarrow> json tok_prog" where
  "stripe_post env c = bindp (gets calls) (\<lambda>made. bindp (call_ext c (pe_post env made c)) (\<lambda>r.
     case r of None \<Rightarrow> throw TokTransport | Some body \<Rightarrow> ret body))"

definition stripe_charge :: "pay_env \<Rightarrow> string \<Rightarrow> rat \<Rightarrow> string \<Rightarrow> string \<Rightarrow> string \<Rightarrow> string option \<Rightarrow> charge_result tok_prog" where
  "stripe_charge env token amount currency key purpose customer_ref =
     (if amount \<le> 0 then throw TokValue else
      case customer_ref of None \<Rightarrow> throw TokValue | Some customer \<Rightarrow>
      if customer = [] then throw TokValue else
      (let amount_minor = round_even (amount * 100) in
       if \<not> in_i64 amount_minor then throw TokValue else
       bindp (stripe_post env (StripeIntent key amount_minor (to_lowercase currency) customer token purpose)) (\<lambda>body.
       case jget body ''error'' of
         Some err \<Rightarrow>
           if get_str_or err ''type'' [] = ''card_error'' then
             (let pi_id = unwrap_or ''pi_unknown'' (Option.bind (jget err ''payment_intent'') (\<lambda>p. get_str p ''id''));
                  code = get_str_or err ''code'' ''card_declined''; reason = get_str_or err ''message'' ''card declined'' in
              bindp (record_external_call ''charge'' (Some key) False (Some pi_id) (Some code) (Some reason)
                (Some (JObj [(''declined'', JBool True), (''decline_code'', JStr code)]))) (\<lambda>_.
              ret \<lparr>ct_status = ''declined'', ct_gateway = pi_id, ct_reason = Some reason, ct_call = pi_id, ct_code = Some code\<rparr>))
           else throw TokTransport
       | None \<Rightarrow>
           (let pi_id = get_str_or body ''id'' []; status = get_str_or body ''status'' [] in
            bindp (record_external_call ''charge'' (Some key) True (Some pi_id) None None (Some (redact_stripe body))) (\<lambda>_.
            ret (if status = ''succeeded''
                 then \<lparr>ct_status = ''approved'', ct_gateway = pi_id, ct_reason = None, ct_call = pi_id, ct_code = None\<rparr>
                 else \<lparr>ct_status = ''errored'', ct_gateway = pi_id,
                      ct_reason = Some (''unexpected sync status '' @ [CHR 0x27] @ status @ [CHR 0x27] @ '' on off-session confirm''),
                      ct_call = pi_id, ct_code = None\<rparr>))))))"

definition tok_charge :: "pay_env \<Rightarrow> string \<Rightarrow> rat \<Rightarrow> string \<Rightarrow> string \<Rightarrow> string \<Rightarrow> string option \<Rightarrow> charge_result tok_prog" where
  "tok_charge env token amount currency key purpose customer_ref = (case pe_tokenizer env of
      Mock \<Rightarrow>
        if amount \<le> 0 then throw TokValue else
        (let gateway_ref = ''mock_'' @ pe_uuid env; (status, reason, decline_code) = decide_mock_charge token in
         ret \<lparr>ct_status = status, ct_gateway = gateway_ref, ct_reason = reason, ct_call = gateway_ref, ct_code = decline_code\<rparr>)
    | Stripe cfg \<Rightarrow> stripe_charge env token amount currency key purpose customer_ref)"

definition stripe_ensure_customer :: "pay_env \<Rightarrow> string \<Rightarrow> string \<Rightarrow> string tok_prog" where
  "stripe_ensure_customer env customer_id email =
     bindp (gets (\<lambda>s. lookup_customer_external_ref_for_provider s customer_id ''stripe'')) (\<lambda>cached.
     if cached \<noteq> None \<and> cached \<noteq> Some [] then ret (unwrap_or [] cached) else
     bindp (stripe_post env (StripeCustomer customer_id email)) (\<lambda>body.
     case jget body ''error'' of Some _ \<Rightarrow> throw TokTransport | None \<Rightarrow>
     (case get_str body ''id'' of None \<Rightarrow> throw TokTransport | Some cus_id \<Rightarrow>
      bindp (record_external_call ''ensure_customer'' (Some customer_id) True (Some cus_id) None None (Some (redact_stripe body))) (\<lambda>_.
      bindp (ignore_err (insert_payment_customer customer_id cus_id ''stripe'')) (\<lambda>_. ret cus_id)))))"

definition ensure_customer :: "pay_env \<Rightarrow> string \<Rightarrow> string \<Rightarrow> string tok_prog" where
  "ensure_customer env customer_id email = (case pe_tokenizer env of
      Mock \<Rightarrow> ret (''cus_mock_'' @ customer_id) | Stripe cfg \<Rightarrow> stripe_ensure_customer env customer_id email)"

definition stripe_attach :: "stripe_config \<Rightarrow> pay_env \<Rightarrow> string \<Rightarrow> string \<Rightarrow> unit tok_prog" where
  "stripe_attach cfg env mid customer_id =
     (let failed = (\<lambda>err code. bindp (record_external_call ''attach'' (Some mid) False (Some mid) (Some code)
              (Some (get_str_or err ''message'' [])) None) (\<lambda>_. throw TokTransport))
      in bindp (stripe_post env (StripeAttach mid customer_id)) (\<lambda>body.
         case jget body ''error'' of
           Some err \<Rightarrow>
             (let code = get_str_or err ''code'' [] in
              if sc_allow_reuse cfg \<and> code = ''payment_method_already_attached'' then
                bindp (stripe_post env (StripeDetach mid)) (\<lambda>_.
                bindp (stripe_post env (StripeAttach mid customer_id)) (\<lambda>re.
                case jget re ''error'' of
                  Some e2 \<Rightarrow> failed e2 code
                | None \<Rightarrow> record_external_call ''attach_test_relink'' (Some mid) True (Some mid) None None None))
              else failed err code)
         | None \<Rightarrow> record_external_call ''attach'' (Some mid) True (Some mid) None None None))"

definition attach_payment_method :: "pay_env \<Rightarrow> string \<Rightarrow> string \<Rightarrow> unit tok_prog" where
  "attach_payment_method env mid customer_id = (case pe_tokenizer env of
      Mock \<Rightarrow> ret () | Stripe cfg \<Rightarrow> stripe_attach cfg env mid customer_id)"

definition stripe_retrieve_card :: "pay_env \<Rightarrow> string \<Rightarrow> tokenizer_error + card_details" where
  "stripe_retrieve_card env mid = (case pe_card env mid of None \<Rightarrow> Inl TokTransport | Some body \<Rightarrow>
     (case jget body ''error'' of Some _ \<Rightarrow> Inl TokTransport | None \<Rightarrow>
      (let card = unwrap_or JNull (jget body ''card'') in
       Inr \<lparr>cd_last4 = get_str_or card ''last4'' [], cd_brand = get_str_or card ''brand'' ''card'',
            cd_month = map_option wrap32 (get_i64 card ''exp_month''), cd_year = map_option wrap32 (get_i64 card ''exp_year'')\<rparr>)))"

definition retrieve_card :: "pay_env \<Rightarrow> string \<Rightarrow> tokenizer_error + card_details" where
  "retrieve_card env mid = (case pe_tokenizer env of Mock \<Rightarrow> Inl TokNotSupported | Stripe cfg \<Rightarrow> stripe_retrieve_card env mid)"

subsection \<open>Selecting one at boot\<close>

record pay_settings =
  st_env :: string
  st_provider :: string
  st_api_key :: string
  st_publishable :: string
  st_webhook_secret :: string
  st_allow_reuse :: bool

definition build_stripe :: "pay_settings \<Rightarrow> string + tokenizer" where
  "build_stripe st =
     (let api_key = st_api_key st; publishable = st_publishable st;
          is_test_secret = (starts_with api_key ''sk_test_'' \<or> starts_with api_key ''rk_test_'');
          is_live_secret = (starts_with api_key ''sk_live_'' \<or> starts_with api_key ''rk_live_'');
          is_test_pub = starts_with publishable ''pk_test_''; is_live_pub = starts_with publishable ''pk_live_''
      in if api_key = [] then Inl ''requires BSS_PAYMENT_STRIPE_API_KEY''
         else if publishable = [] then Inl ''requires BSS_PAYMENT_STRIPE_PUBLISHABLE_KEY''
         else if st_webhook_secret st = [] then Inl ''requires BSS_PAYMENT_STRIPE_WEBHOOK_SECRET''
         else if \<not> (is_test_secret \<or> is_live_secret) then Inl ''BSS_PAYMENT_STRIPE_API_KEY prefix''
         else if \<not> (is_test_pub \<or> is_live_pub) then Inl ''BSS_PAYMENT_STRIPE_PUBLISHABLE_KEY prefix''
         else if is_test_secret \<noteq> is_test_pub then Inl ''Stripe key mode mismatch''
         else if st_env st = ''production'' \<and> is_test_secret then Inl ''sk_test refused in production''
         else if st_allow_reuse st \<and> is_live_secret then Inl ''ALLOW_TEST_CARD_REUSE refused with sk_live''
         else Inr (Stripe \<lparr>sc_api_key = api_key, sc_publishable = publishable, sc_webhook_secret = st_webhook_secret st,
                   sc_allow_reuse = st_allow_reuse st\<rparr>))"

definition select_tokenizer :: "pay_settings \<Rightarrow> string + tokenizer" where
  "select_tokenizer st =
     (if st_provider st = ''mock'' then Inr Mock
      else if st_provider st = ''stripe'' then build_stripe st else Inl ''Unknown BSS_PAYMENT_PROVIDER'')"

end
