(* ===== verification/PayService.thy ===== *)
theory PayService
  imports Payment
begin

text \<open>
  \<open>services/payment/src/service.rs\<close>: charging a method, registering one, making it the
  default, removing it, and the cutover that invalidates the mock tokens; and the routes over
  them (\<open>routes.rs\<close>, \<open>schemas.rs\<close>). A provider error other than a decline is a 500.
\<close>

definition tok_internal :: "tokenizer_error \<Rightarrow> api_error" where
  "tok_internal e = InternalE ''tokenizer error''"

section \<open>Charge\<close>

definition attempt_key :: "string \<Rightarrow> string" where
  "attempt_key aid = ''ATT-'' @ aid @ ''-r0''"

definition charge_payload :: "string \<Rightarrow> string \<Rightarrow> rat \<Rightarrow> string \<Rightarrow> string \<Rightarrow> charge_result \<Rightarrow> json" where
  "charge_payload customer_id method_id amount currency purpose r = JObj
     [(''customer_id'', JStr customer_id), (''payment_method_id'', JStr method_id), (''amount'', JDec amount),
      (''currency'', JStr currency), (''purpose'', JStr purpose), (''status'', JStr (ct_status r)),
      (''gateway_ref'', JStr (ct_gateway r)), (''provider_call_id'', JStr (ct_call r)),
      (''decline_code'', opt_json JStr (ct_code r))]"

definition charge_method :: "pay_env \<Rightarrow> request_ctx \<Rightarrow> int \<Rightarrow> string \<Rightarrow> string \<Rightarrow> rat \<Rightarrow> string \<Rightarrow> string \<Rightarrow> attempt_row pay_prog" where
  "charge_method env ctx now customer_id method_id amount currency purpose =
     bindp (gets (\<lambda>s. get_method s method_id)) (\<lambda>found.
     case found of None \<Rightarrow> throw (violate ''payment.charge.method_not_found'' [(''payment_method_id'', JStr method_id)])
     | Some m \<Rightarrow>
       bindp (of_result (check_method_active m)) (\<lambda>_.
       bindp (of_result (check_positive_amount amount)) (\<lambda>_.
       bindp (of_result (check_customer_matches_method customer_id m)) (\<lambda>_.
       bindp (of_result (check_token_provider_matches_active m (class_name (pe_tokenizer env)))) (\<lambda>_.
       bindp (gets (\<lambda>s. lookup_customer_external_ref s customer_id)) (\<lambda>customer_ref.
       pay_tx (
         bindp next_attempt_id (\<lambda>aid.
         let key = attempt_key aid in
         bindp (map_err tok_internal (tok_charge env (pm_token m) amount currency key purpose customer_ref)) (\<lambda>r.
         let row = \<lparr>pa_id = aid, pa_customer = customer_id, pa_method = method_id, pa_amount = amount, pa_currency = currency,
               pa_purpose = purpose, pa_status = ct_status r, pa_gateway = Some (ct_gateway r), pa_reason = ct_reason r,
               pa_attempted = now, pa_call = Some (ct_call r), pa_code = ct_code r, pa_key = Some key\<rparr> in
         bindp (insert_attempt row) (\<lambda>_.
         bindp (stage ctx now (event_type_for_status (ct_status r)) ''payment_attempt'' aid
           (charge_payload customer_id method_id amount currency purpose r)) (\<lambda>_.
         ret row)))))))))))"

section \<open>Payment methods\<close>

record card_summary =
  cs_brand :: string
  cs_last4 :: string
  cs_month :: int
  cs_year :: int

record method_request =
  mq_customer :: string
  mq_type :: string
  mq_provider :: string
  mq_token :: string
  mq_card :: card_summary

definition customer_email :: "json \<Rightarrow> string \<Rightarrow> string" where
  "customer_email customer customer_id =
     (case Option.bind (get_array customer ''contactMedium'') (\<lambda>a. case a of [] \<Rightarrow> None | m # _ \<Rightarrow> get_str m ''emailAddress'') of
        Some email \<Rightarrow> email
      | None \<Rightarrow> (case get_str customer ''email'' of Some email \<Rightarrow> email | None \<Rightarrow> customer_id @ ''@bss-cli.local''))"

definition fetched_or :: "string \<Rightarrow> string \<Rightarrow> string \<Rightarrow> string" where
  "fetched_or fetched current fallback = (if fetched \<noteq> [] then fetched else if current = [] then fallback else current)"

definition card_of_stripe :: "tokenizer_error + card_details \<Rightarrow> card_summary \<Rightarrow> card_summary" where
  "card_of_stripe r c = (case r of
      Inr details \<Rightarrow> \<lparr>cs_brand = fetched_or (cd_brand details) (cs_brand c) ''card'', cs_last4 = fetched_or (cd_last4 details) (cs_last4 c) ''stripe'',
        cs_month = (case cd_month details of Some v \<Rightarrow> (if v \<noteq> 0 then v else cs_month c) | None \<Rightarrow> cs_month c),
        cs_year = (case cd_year details of Some v \<Rightarrow> (if v \<noteq> 0 then v else cs_year c) | None \<Rightarrow> cs_year c)\<rparr>
    | Inl _ \<Rightarrow> \<lparr>cs_brand = (if cs_brand c = [] then ''card'' else cs_brand c), cs_last4 = (if cs_last4 c = [] then ''stripe'' else cs_last4 c),
        cs_month = (if cs_month c = 0 then 12 else cs_month c), cs_year = (if cs_year c = 0 then 2099 else cs_year c)\<rparr>)"

definition after_write :: "string \<Rightarrow> method_row pay_prog" where
  "after_write mid = bindp (gets (\<lambda>s. get_method s mid)) (\<lambda>r. case r of
     None \<Rightarrow> throw (InternalE ''payment_method vanished'') | Some m \<Rightarrow> ret m)"

definition provider_card :: "pay_env \<Rightarrow> json \<Rightarrow> method_request \<Rightarrow> card_summary pay_prog" where
  "provider_card env customer body =
     (if mq_provider body = ''stripe'' then map_err tok_internal
        (bindp (ensure_customer env (mq_customer body) (customer_email customer (mq_customer body))) (\<lambda>cus_ref.
         bindp (attach_payment_method env (mq_token body) cus_ref) (\<lambda>_.
         ret (card_of_stripe (retrieve_card env (mq_token body)) (mq_card body)))))
      else ret (mq_card body))"

definition store_method :: "request_ctx \<Rightarrow> int \<Rightarrow> method_request \<Rightarrow> string \<Rightarrow> bool \<Rightarrow> card_summary \<Rightarrow> string pay_prog" where
  "store_method ctx now body token_provider is_default summary =
     pay_tx (
       bindp next_method_id (\<lambda>mid.
       bindp (insert_method \<lparr>pm_id = mid, pm_customer = mq_customer body, pm_type = mq_type body, pm_token = mq_token body,
           pm_provider = token_provider, pm_last4 = cs_last4 summary, pm_brand = Some (cs_brand summary),
           pm_exp_month = wrap16 (cs_month summary), pm_exp_year = wrap16 (cs_year summary), pm_default = is_default,
           pm_status = ''active'', pm_created = now\<rparr>) (\<lambda>_.
       bindp (stage ctx now ''payment_method.added'' ''payment_method'' mid
         (JObj [(''customer_id'', JStr (mq_customer body)), (''brand'', JStr (cs_brand summary)), (''last4'', JStr (cs_last4 summary)),
                (''tokenization_provider'', JStr (mq_provider body)), (''token_provider'', JStr token_provider)])) (\<lambda>_.
       ret mid))))"

definition register_method :: "pay_env \<Rightarrow> request_ctx \<Rightarrow> int \<Rightarrow> method_request \<Rightarrow> method_row pay_prog" where
  "register_method env ctx now body =
     bindp (of_result (check_payer_exists (pe_crm env) (mq_customer body))) (\<lambda>customer.
     bindp (of_result (check_customer_active_or_pending customer)) (\<lambda>_.
     let stripe = (mq_provider body = ''stripe''); token_provider = (if stripe then ''stripe'' else ''mock'') in
     bindp (if \<not> stripe then of_result (check_card_not_expired now (cs_month (mq_card body)) (cs_year (mq_card body))) else ret ()) (\<lambda>_.
     bindp (gets (\<lambda>s. count_active_methods s (mq_customer body))) (\<lambda>active_count.
     bindp (of_result (check_at_most_n_methods (mq_customer body) (int active_count))) (\<lambda>_.
     bindp (provider_card env customer body) (\<lambda>summary.
     bindp (store_method ctx now body token_provider (active_count = 0) summary) after_write))))))"

definition method_event :: "method_row \<Rightarrow> json" where
  "method_event m = JObj [(''customer_id'', JStr (pm_customer m)), (''last4'', JStr (pm_last4 m))]"

definition find_live_method :: "string \<Rightarrow> string \<Rightarrow> string \<Rightarrow> method_row pay_prog" where
  "find_live_method mid missing_rule removed_rule =
     bindp (gets (\<lambda>s. get_method s mid)) (\<lambda>r. case r of
       None \<Rightarrow> throw (violate missing_rule [(''payment_method_id'', JStr mid)])
     | Some m \<Rightarrow> if pm_status m = ''removed'' then throw (violate removed_rule [(''payment_method_id'', JStr mid)]) else ret m)"

definition set_default_method :: "request_ctx \<Rightarrow> int \<Rightarrow> string \<Rightarrow> method_row pay_prog" where
  "set_default_method ctx now mid =
     bindp (find_live_method mid ''payment_method.set_default.not_found'' ''payment_method.set_default.removed'') (\<lambda>m.
     bindp (in_tx (
       bindp (set_default (pm_customer m) mid) (\<lambda>_.
       stage ctx now ''payment_method.default_changed'' ''payment_method'' mid (method_event m)))) (\<lambda>_.
     after_write mid))"

definition remove_method :: "request_ctx \<Rightarrow> int \<Rightarrow> string \<Rightarrow> method_row pay_prog" where
  "remove_method ctx now mid =
     bindp (find_live_method mid ''payment_method.remove.not_found'' ''payment_method.remove.already_removed'') (\<lambda>m.
     bindp (in_tx (
       bindp (set_method_status mid ''removed'') (\<lambda>_.
       stage ctx now ''payment_method.removed'' ''payment_method'' mid (method_event m)))) (\<lambda>_.
     after_write mid))"

definition cutover_invalidate_mock_tokens :: "request_ctx \<Rightarrow> int \<Rightarrow> bool \<Rightarrow> json pay_prog" where
  "cutover_invalidate_mock_tokens ctx now dry_run =
     bindp (gets list_active_mock_methods) (\<lambda>rows.
     let affected = JArr (map (\<lambda>m. JStr (pm_id m)) rows); n = JInt (int (length rows)) in
     if dry_run \<or> rows = []
     then ret (JObj [(''candidate_count'', n), (''candidate_ids'', affected), (''invalidated_count'', JInt 0), (''invalidated_ids'', JArr [])])
     else
       bindp (in_tx (for_each rows (\<lambda>m.
         bindp (set_method_status (pm_id m) ''expired'') (\<lambda>_.
         stage ctx now ''payment_method.cutover_invalidated'' ''payment_method'' (pm_id m)
           (JObj [(''customer_id'', JStr (pm_customer m)), (''last4'', JStr (pm_last4 m)), (''brand'', opt_json JStr (pm_brand m)),
                  (''token_provider'', JStr (pm_provider m)), (''reason'', JStr ''operator_cutover'')]))))) (\<lambda>_.
       ret (JObj [(''candidate_count'', n), (''candidate_ids'', affected), (''invalidated_count'', n), (''invalidated_ids'', affected)])))"

section \<open>Routes\<close>

definition payment_response :: "attempt_row \<Rightarrow> json" where
  "payment_response a = JObj
     [(''id'', JStr (pa_id a)), (''href'', JStr (''/tmf-api/paymentManagement/v4/payment/'' @ pa_id a)),
      (''customerId'', JStr (pa_customer a)), (''paymentMethodId'', JStr (pa_method a)), (''amount'', JDec (pa_amount a)),
      (''currency'', JStr (pa_currency a)), (''purpose'', JStr (pa_purpose a)), (''status'', JStr (pa_status a)),
      (''gatewayRef'', opt_json JStr (pa_gateway a)), (''declineReason'', opt_json JStr (pa_reason a)),
      (''attemptedAt'', JTime (pa_attempted a)), (''@type'', JStr ''Payment'')]"

definition method_response :: "string option \<Rightarrow> method_row \<Rightarrow> json" where
  "method_response tokenization_provider m = JObj
     [(''id'', JStr (pm_id m)), (''href'', JStr (''/tmf-api/paymentMethodManagement/v4/paymentMethod/'' @ pm_id m)),
      (''customerId'', JStr (pm_customer m)), (''type'', JStr (pm_type m)),
      (''tokenizationProvider'', opt_json JStr tokenization_provider), (''providerToken'', JStr (pm_token m)),
      (''cardSummary'', JObj [(''brand'', JStr (unwrap_or ''unknown'' (pm_brand m))), (''last4'', JStr (pm_last4 m)),
         (''expMonth'', JInt (pm_exp_month m)), (''expYear'', JInt (pm_exp_year m)), (''country'', JNull)]),
      (''isDefault'', JBool (pm_default m)), (''status'', JStr (pm_status m)), (''createdAt'', JTime (pm_created m)),
      (''@type'', JStr ''PaymentMethod'')]"

record charge_request =
  cq_customer :: string
  cq_method :: string
  cq_amount :: rat
  cq_currency :: string
  cq_purpose :: string

definition de_defaulted :: "json \<Rightarrow> string \<Rightarrow> string \<Rightarrow> string + string" where
  "de_defaulted body name d = then_parse (field body name name) (\<lambda>v.
     case v of None \<Rightarrow> Inr d | Some v \<Rightarrow> (case as_str v of None \<Rightarrow> Inl ''invalid type'' | Some x \<Rightarrow> Inr x))"

definition parse_charge_request :: "(string \<Rightarrow> rat option) \<Rightarrow> json \<Rightarrow> string + charge_request" where
  "parse_charge_request parse body =
     then_parse (de_str body ''customerId'' ''customer_id'') (\<lambda>customer.
     then_parse (de_str body ''paymentMethodId'' ''payment_method_id'') (\<lambda>mid.
     then_parse (field body ''amount'' ''amount'') (\<lambda>amount_field.
     then_parse (case amount_field of None \<Rightarrow> Inl ''missing field'' | Some v \<Rightarrow> de_decimal parse v) (\<lambda>amount.
     then_parse (de_defaulted body ''currency'' ''SGD'') (\<lambda>currency.
     then_parse (de_str body ''purpose'' ''purpose'') (\<lambda>purpose.
     Inr \<lparr>cq_customer = customer, cq_method = mid, cq_amount = amount, cq_currency = currency, cq_purpose = purpose\<rparr>))))))"

definition de_i32 :: "json \<Rightarrow> string \<Rightarrow> string \<Rightarrow> string + int" where
  "de_i32 body name alias = then_parse (field body name alias) (\<lambda>v.
     case v of None \<Rightarrow> Inl ''missing field'' | Some v \<Rightarrow> (case as_i64 v of None \<Rightarrow> Inl ''invalid type''
       | Some n \<Rightarrow> if wrap32 n = n then Inr n else Inl ''invalid value''))"

definition parse_card_summary :: "json \<Rightarrow> string + card_summary" where
  "parse_card_summary v =
     (if as_object v = None then Inl ''invalid type'' else
      then_parse (de_str v ''brand'' ''brand'') (\<lambda>brand.
      then_parse (de_str v ''last4'' ''last4'') (\<lambda>last4.
      then_parse (de_i32 v ''expMonth'' ''exp_month'') (\<lambda>month.
      then_parse (de_i32 v ''expYear'' ''exp_year'') (\<lambda>year.
      then_parse (de_opt as_str v ''country'' ''country'') (\<lambda>_.
      Inr \<lparr>cs_brand = brand, cs_last4 = last4, cs_month = month, cs_year = year\<rparr>))))))"

definition parse_method_request :: "json \<Rightarrow> string + method_request" where
  "parse_method_request body =
     then_parse (de_str body ''customerId'' ''customer_id'') (\<lambda>customer.
     then_parse (de_defaulted body ''type'' ''card'') (\<lambda>ty.
     then_parse (de_str body ''tokenizationProvider'' ''tokenization_provider'') (\<lambda>provider.
     then_parse (de_str body ''providerToken'' ''provider_token'') (\<lambda>token.
     then_parse (field body ''cardSummary'' ''card_summary'') (\<lambda>card_field.
     then_parse (case card_field of None \<Rightarrow> Inl ''missing field'' | Some v \<Rightarrow> parse_card_summary v) (\<lambda>summary.
     Inr \<lparr>mq_customer = customer, mq_type = ty, mq_provider = provider, mq_token = token, mq_card = summary\<rparr>))))))"

definition route_charge :: "pay_env \<Rightarrow> request_ctx \<Rightarrow> int \<Rightarrow> json \<Rightarrow> pay_db \<Rightarrow> response \<times> pay_db" where
  "route_charge env ctx now body s = (case parse_charge_request (pe_decimal env) body of
      Inl _ \<Rightarrow> (refused, s)
    | Inr q \<Rightarrow> answer 201 payment_response
        (charge_method env ctx now (cq_customer q) (cq_method q) (cq_amount q) (cq_currency q) (cq_purpose q)) s)"

definition route_list_payments :: "string \<Rightarrow> int option \<Rightarrow> int option \<Rightarrow> pay_db \<Rightarrow> response" where
  "route_list_payments customer_id limit offset s = (case list_attempts s customer_id limit offset of
      Inl e \<Rightarrow> into_response [] e | Inr rows \<Rightarrow> (200, Some (JArr (map payment_response rows))))"

definition route_count_payments :: "string \<Rightarrow> pay_db \<Rightarrow> response" where
  "route_count_payments customer_id s = (200, Some (JObj [(''count'', JInt (int (count_attempts s customer_id)))]))"

definition route_get_payment :: "string \<Rightarrow> pay_db \<Rightarrow> response" where
  "route_get_payment aid s = (case get_attempt s aid of
      None \<Rightarrow> into_response [] (NotFoundE ''Payment attempt not found'') | Some a \<Rightarrow> (200, Some (payment_response a)))"

definition route_create_method :: "pay_env \<Rightarrow> request_ctx \<Rightarrow> int \<Rightarrow> json \<Rightarrow> pay_db \<Rightarrow> response \<times> pay_db" where
  "route_create_method env ctx now body s = (case parse_method_request body of
      Inl _ \<Rightarrow> (refused, s)
    | Inr q \<Rightarrow> answer 201 (method_response (Some (mq_provider q))) (register_method env ctx now q) s)"

definition route_list_methods :: "string \<Rightarrow> pay_db \<Rightarrow> response" where
  "route_list_methods customer_id s = (200, Some (JArr (map (method_response None) (list_methods s customer_id False))))"

definition route_get_method :: "string \<Rightarrow> pay_db \<Rightarrow> response" where
  "route_get_method mid s = (case get_method s mid of
      None \<Rightarrow> into_response [] (NotFoundE ''Payment method not found'') | Some m \<Rightarrow> (200, Some (method_response None m)))"

definition route_remove_method :: "request_ctx \<Rightarrow> int \<Rightarrow> string \<Rightarrow> pay_db \<Rightarrow> response \<times> pay_db" where
  "route_remove_method ctx now mid s = answer 200 (method_response None) (remove_method ctx now mid) s"

definition route_set_default :: "request_ctx \<Rightarrow> int \<Rightarrow> string \<Rightarrow> pay_db \<Rightarrow> response \<times> pay_db" where
  "route_set_default ctx now mid s = answer 200 (method_response None) (set_default_method ctx now mid) s"

definition route_cutover :: "request_ctx \<Rightarrow> int \<Rightarrow> bool \<Rightarrow> pay_db \<Rightarrow> response \<times> pay_db" where
  "route_cutover ctx now dry_run s = answer 200 (\<lambda>doc. doc) (cutover_invalidate_mock_tokens ctx now dry_run) s"

definition route_ensure_customer :: "pay_env \<Rightarrow> json \<Rightarrow> pay_db \<Rightarrow> response \<times> pay_db" where
  "route_ensure_customer env body s =
     (case then_parse (de_str body ''customer_id'' ''customerId'') (\<lambda>c. then_parse (de_str body ''email'' ''email'') (\<lambda>e. Inr (c, e))) of
        Inl _ \<Rightarrow> (refused, s)
      | Inr (customer_id, email) \<Rightarrow>
          answer 200 (\<lambda>cus. JObj [(''customer_external_ref'', JStr cus),
              (''provider'', JStr (if class_name (pe_tokenizer env) = ''StripeTokenizerAdapter'' then ''stripe'' else ''mock''))])
            (map_err tok_internal (ensure_customer env customer_id email)) s)"

end
