(* ===== verification/PayWebhook.thy ===== *)
theory PayWebhook
  imports PayService
begin

text \<open>
  \<open>services/payment/src/webhooks.rs\<close>: the Stripe webhook. The signature check over the
  header's fields, the idempotent store of events, the reconciliation of a charge event with
  the attempt it names, refunds and disputes (recorded only). HMAC-SHA256 and the JSON parser
  are parameters; bytes are the characters of a string. The diagnostic log lines are left out.
\<close>

record webhook_env =
  we_secret :: string
  we_hmac :: "string \<Rightarrow> string \<Rightarrow> string"
  we_json :: "string \<Rightarrow> json option"

section \<open>Signature\<close>

definition MAX_SKEW_SECONDS :: int where
  "MAX_SKEW_SECONDS = 300"

text \<open>The \<open>t=\<close> and \<open>v1=\<close> fields of the header; a later \<open>t=\<close> replaces an earlier one.\<close>

definition sig_part :: "string \<Rightarrow> int option \<times> string list \<Rightarrow> int option \<times> string list" where
  "sig_part part acc = (case acc of (timestamp, candidates) \<Rightarrow>
     (case split_once CHR ''='' part of None \<Rightarrow> acc | Some (k, v) \<Rightarrow>
        if trim k = ''t'' then (parse_i64 (trim v), candidates)
        else if trim k = ''v1'' then (timestamp, candidates @ [trim v]) else acc))"

definition sig_fields :: "string \<Rightarrow> int option \<times> string list" where
  "sig_fields header = fold sig_part (split_at_char CHR '','' header) (None, [])"

text \<open>The check runs on \<open>i64\<close>: a difference or an absolute value past its range wraps.\<close>

definition skew :: "int \<Rightarrow> int \<Rightarrow> int" where
  "skew now_unix ts = wrap64 \<bar>wrap64 (now_unix - (if ts > 1000000000000 then ts div 1000 else ts))\<bar>"

definition verify_stripe_signature :: "(string \<Rightarrow> string \<Rightarrow> string) \<Rightarrow> string \<Rightarrow> string \<Rightarrow> string option \<Rightarrow> int \<Rightarrow> string + unit" where
  "verify_stripe_signature hmac secret body sig_header now_unix =
     (case sig_header of None \<Rightarrow> Inl ''missing_header'' | Some header \<Rightarrow>
      (case sig_fields header of (timestamp, candidates) \<Rightarrow>
       (case timestamp of None \<Rightarrow> Inl ''malformed_header'' | Some ts \<Rightarrow>
        if candidates = [] then Inl ''malformed_header''
        else if skew now_unix ts > MAX_SKEW_SECONDS then Inl ''replay_window''
        else (let expected = hex_bytes (hmac secret (show_int ts @ ''.'' @ body)) in
              if expected \<in> set candidates then Inr () else Inl ''signature_mismatch''))))"

section \<open>The event store\<close>

definition persist_event :: "string \<Rightarrow> string \<Rightarrow> json \<Rightarrow> bool pay_prog" where
  "persist_event event_id event_type body =
     bindp (gets pd_webhooks) (\<lambda>rows.
       if list_ex (\<lambda>w. wh_provider w = ''stripe'' \<and> wh_event w = event_id) rows then ret False
       else bindp (modify (\<lambda>s. s\<lparr>pd_webhooks := pd_webhooks s @ [\<lparr>wh_provider = ''stripe'', wh_event = event_id,
              wh_type = event_type, wh_body = body, wh_processed = None, wh_outcome = None\<rparr>]\<rparr>)) (\<lambda>_. ret True))"

definition mark_processed :: "int \<Rightarrow> string \<Rightarrow> string \<Rightarrow> unit pay_prog" where
  "mark_processed now event_id outcome =
     modify (\<lambda>s. s\<lparr>pd_webhooks := tbl_update (\<lambda>w. (wh_provider w, wh_event w)) (''stripe'', event_id)
       (\<lambda>w. w\<lparr>wh_outcome := Some outcome, wh_processed := Some now\<rparr>) (pd_webhooks s)\<rparr>)"

section \<open>Reconciliation\<close>

definition object_intent :: "json \<Rightarrow> string option" where
  "object_intent d = (case get_str d ''payment_intent'' of Some p \<Rightarrow> Some p | None \<Rightarrow> get_str d ''id'')"

definition route_terminal_charge :: "request_ctx \<Rightarrow> int \<Rightarrow> string \<Rightarrow> json \<Rightarrow> string pay_prog" where
  "route_terminal_charge ctx now event_type d =
     (case object_intent d of None \<Rightarrow> ret ''noop'' | Some pi_id \<Rightarrow>
      (let expected_status = (if event_type = ''charge.succeeded'' then ''approved'' else ''declined'') in
       bindp (gets (\<lambda>s. get_attempt_by_provider_call_id s pi_id)) (\<lambda>r.
       case r of None \<Rightarrow> ret ''noop'' | Some (aid, row_status) \<Rightarrow>
         if row_status = expected_status then ret ''reconciled''
         else bindp (stage ctx now ''payment.attempt_state_drift'' ''payment_attempt'' aid
           (JObj [(''row_status'', JStr row_status), (''webhook_status'', JStr expected_status),
                  (''stripe_event_type'', JStr event_type), (''provider_call_id'', JStr pi_id)])) (\<lambda>_.
         ret ''drift''))))"

definition route_refund :: "request_ctx \<Rightarrow> int \<Rightarrow> json \<Rightarrow> string pay_prog" where
  "route_refund ctx now d =
     (case object_intent d of None \<Rightarrow> ret ''noop'' | Some pi_id \<Rightarrow>
      bindp (gets (\<lambda>s. map_option fst (get_attempt_by_provider_call_id s pi_id))) (\<lambda>aid.
      bindp (stage ctx now ''payment.refunded'' ''payment_attempt'' (unwrap_or pi_id aid)
        (JObj [(''provider_call_id'', JStr pi_id), (''amount_refunded_minor'', unwrap_or (JInt 0) (jget d ''amount_refunded'')),
               (''currency'', unwrap_or JNull (jget d ''currency'')),
               (''reason'', unwrap_or JNull (Option.bind (Option.bind (jget d ''refunds'') (\<lambda>r. get_array r ''data''))
                  (\<lambda>a. case a of [] \<Rightarrow> None | r # _ \<Rightarrow> jget r ''reason'')))])) (\<lambda>_.
      ret ''reconciled'')))"

definition route_dispute :: "request_ctx \<Rightarrow> int \<Rightarrow> json \<Rightarrow> string pay_prog" where
  "route_dispute ctx now d =
     (let charge_id = get_str d ''charge''; pi_id = get_str d ''payment_intent''; dispute_id = get_str d ''id'' in
      bindp (gets (\<lambda>s. Option.bind pi_id (\<lambda>p. map_option fst (get_attempt_by_provider_call_id s p)))) (\<lambda>aid.
      bindp (stage ctx now ''payment.dispute_opened'' ''payment_attempt''
        (case aid of Some a \<Rightarrow> a | None \<Rightarrow> (case dispute_id of Some x \<Rightarrow> x | None \<Rightarrow> unwrap_or ''unknown'' charge_id))
        (JObj [(''stripe_dispute_id'', opt_json JStr dispute_id), (''stripe_charge_id'', opt_json JStr charge_id),
               (''provider_call_id'', opt_json JStr pi_id), (''amount_minor'', unwrap_or JNull (jget d ''amount'')),
               (''currency'', unwrap_or JNull (jget d ''currency'')), (''reason'', unwrap_or JNull (jget d ''reason'')),
               (''status'', unwrap_or JNull (jget d ''status''))])) (\<lambda>_.
      ret ''reconciled'')))"

definition route_event :: "request_ctx \<Rightarrow> int \<Rightarrow> string \<Rightarrow> json \<Rightarrow> string pay_prog" where
  "route_event ctx now event_type d =
     (if event_type \<in> {''charge.succeeded'', ''charge.failed'', ''payment_intent.payment_failed''}
      then route_terminal_charge ctx now event_type d
      else if event_type = ''charge.refunded'' then route_refund ctx now d
      else if event_type = ''charge.dispute.created'' then route_dispute ctx now d
      else ret ''noop'')"

section \<open>Handler\<close>

definition code_body :: "string \<Rightarrow> json option" where
  "code_body c = Some (JObj [(''code'', JStr c)])"

definition event_object :: "json \<Rightarrow> json" where
  "event_object payload = unwrap_or JNull (Option.bind (jget payload ''data'') (\<lambda>d. jget d ''object''))"

definition store_event :: "request_ctx \<Rightarrow> int \<Rightarrow> string \<Rightarrow> json \<Rightarrow> response pay_prog" where
  "store_event ctx now event_id payload =
     (let event_type = get_str_or payload ''type'' ''unknown'' in
      bindp (persist_event event_id event_type payload) (\<lambda>inserted.
      if \<not> inserted then ret (200, Some (JObj [(''received'', JBool True), (''deduped'', JBool True)]))
      else bindp (route_event ctx now event_type (event_object payload)) (\<lambda>outcome.
           bindp (mark_processed now event_id outcome) (\<lambda>_.
           ret (200, Some (JObj [(''received'', JBool True)]))))))"

definition webhook_stripe :: "webhook_env \<Rightarrow> request_ctx \<Rightarrow> int \<Rightarrow> string option \<Rightarrow> string \<Rightarrow> pay_db \<Rightarrow> response \<times> pay_db" where
  "webhook_stripe env ctx now sig_header body s =
     (if we_secret env = [] then ((401, code_body ''webhook_secret_unset''), s) else
      case verify_stripe_signature (we_hmac env) (we_secret env) body sig_header (now div 1000000) of
        Inl code \<Rightarrow> ((401, code_body code), s)
      | Inr _ \<Rightarrow>
          (case we_json env body of None \<Rightarrow> ((400, code_body ''malformed_body''), s) | Some payload \<Rightarrow>
           (case get_str payload ''id'' of None \<Rightarrow> ((400, code_body ''missing_event_id''), s) | Some event_id \<Rightarrow>
            (case in_tx (store_event ctx now event_id payload) s of
               (Inl e, t) \<Rightarrow> ((500, None), t) | (Inr resp, t) \<Rightarrow> (resp, t)))))"

end
