(* ===== verification/PayProps.thy ===== *)
theory PayProps
  imports PayWebhook
begin

text \<open>
  What the payment service guarantees over any sequence of its operations: the bounds on
  methods and defaults, the ledger of attempts and its events, fresh idempotency keys; that
  redelivered webhooks count once and never rewrite the ledger; what the gateway is charged.
\<close>

section \<open>Runs of the service\<close>

datatype pay_op =
    OpCharge pay_env request_ctx int string string rat string string
  | OpRegister pay_env request_ctx int method_request
  | OpSetDefault request_ctx int string
  | OpRemove request_ctx int string
  | OpCutover request_ctx int bool
  | OpEnsure pay_env string string
  | OpHook webhook_env request_ctx int "string option" string

fun pay_step :: "pay_op \<Rightarrow> pay_db \<Rightarrow> pay_db" where
  "pay_step (OpCharge env ctx now c m a cur p) s = snd (charge_method env ctx now c m a cur p s)"
| "pay_step (OpRegister env ctx now body) s = snd (register_method env ctx now body s)"
| "pay_step (OpSetDefault ctx now m) s = snd (set_default_method ctx now m s)"
| "pay_step (OpRemove ctx now m) s = snd (remove_method ctx now m s)"
| "pay_step (OpCutover ctx now dry) s = snd (cutover_invalidate_mock_tokens ctx now dry s)"
| "pay_step (OpEnsure env c email) s = snd (ensure_customer env c email s)"
| "pay_step (OpHook env ctx now sig body) s = snd (webhook_stripe env ctx now sig body s)"

definition pay_run :: "pay_op list \<Rightarrow> pay_db \<Rightarrow> pay_db" where
  "pay_run ops s = fold pay_step ops s"

definition empty_pay :: pay_db where
  "empty_pay = \<lparr>outbox = [], inbox = [], calls = [], pd_att_seq = 1, pd_pm_seq = 1, pd_attempts = [], pd_methods = [],
     pd_payers = [], pd_webhooks = []\<rparr>"

section \<open>The invariant\<close>

definition methods_ok :: "method_row list \<Rightarrow> bool" where
  "methods_ok rows \<longleftrightarrow> distinct (map pm_id rows) \<and>
     (\<forall>c. length (active_of c rows) \<le> 5 \<and> length (filter pm_default (active_of c rows)) \<le> 1)"

definition is_charge_event :: "event \<Rightarrow> bool" where
  "is_charge_event e \<longleftrightarrow> ev_type e \<in> {''payment.charged'', ''payment.declined'', ''payment.errored''}"

definition ledger_ok :: "method_row list \<Rightarrow> attempt_row list \<Rightarrow> event list \<Rightarrow> bool" where
  "ledger_ok methods attempts evs \<longleftrightarrow>
     distinct (map pa_id attempts) \<and>
     (\<forall>a \<in> set attempts. pa_key a = Some (attempt_key (pa_id a)) \<and>
        (\<exists>m \<in> set methods. pm_id m = pa_method a \<and> pm_customer m = pa_customer a)) \<and>
     map (\<lambda>e. (ev_agg_id e, ev_type e)) (filter is_charge_event evs) =
       map (\<lambda>a. (pa_id a, event_type_for_status (pa_status a))) attempts"

definition intent_keys :: "pay_call list \<Rightarrow> string list" where
  "intent_keys cs = concat (map (\<lambda>c. case c of StripeIntent k _ _ _ _ _ \<Rightarrow> [k] | _ \<Rightarrow> []) cs)"

definition below_seq :: "nat \<Rightarrow> string set \<Rightarrow> (nat \<Rightarrow> string) \<Rightarrow> bool" where
  "below_seq n ids mk \<longleftrightarrow> ids \<subseteq> mk ` {..<n}"

definition keys_ok :: "pay_db \<Rightarrow> bool" where
  "keys_ok s \<longleftrightarrow> distinct (intent_keys (calls s)) \<and>
     below_seq (pd_att_seq s) (set (intent_keys (calls s))) (attempt_key \<circ> attempt_id) \<and>
     below_seq (pd_att_seq s) (pa_id ` set (pd_attempts s)) attempt_id \<and>
     below_seq (pd_pm_seq s) (pm_id ` set (pd_methods s)) new_method_id"

definition pay_inv :: "pay_db \<Rightarrow> bool" where
  "pay_inv s \<longleftrightarrow> methods_ok (pd_methods s) \<and> ledger_ok (pd_methods s) (pd_attempts s) (outbox s) \<and> keys_ok s"

lemma intent_keys_simps [simp]:
  "intent_keys [] = []" "intent_keys (xs @ ys) = intent_keys xs @ intent_keys ys"
  "intent_keys [StripeIntent k a b c d e] = [k]" "intent_keys [StripeCustomer p q] = []"
  "intent_keys [StripeAttach p q] = []" "intent_keys [StripeDetach p] = []" "intent_keys [Forensic x] = []"
  by (simp_all add: intent_keys_def)

lemma keys_ok_calls: "keys_ok s \<Longrightarrow> intent_keys cs = intent_keys (calls s) \<Longrightarrow> keys_ok (s\<lparr>calls := cs\<rparr>)"
  by (simp add: keys_ok_def)

lemma pay_inv_calls: "pay_inv s \<Longrightarrow> intent_keys cs = intent_keys (calls s) \<Longrightarrow> pay_inv (s\<lparr>calls := cs\<rparr>)"
  by (simp add: pay_inv_def keys_ok_calls)

lemma pay_inv_frame:
  "pay_inv s \<Longrightarrow> pay_inv (s\<lparr>pd_payers := x\<rparr>)" "pay_inv s \<Longrightarrow> pay_inv (s\<lparr>pd_webhooks := w\<rparr>)"
  by (simp_all add: pay_inv_def keys_ok_def)

text \<open>An event that is not a charge's leaves the ledger as it is.\<close>

lemma pay_inv_stage:
  assumes "pay_inv s" "ty \<notin> {''payment.charged'', ''payment.declined'', ''payment.errored''}"
  shows "pay_inv (s\<lparr>outbox := outbox s @ [stage_event ctx now i ty a b p]\<rparr>)"
  using assms by (auto simp: pay_inv_def ledger_ok_def keys_ok_def is_charge_event_def)

lemma keeps_pay_call:
  assumes "intent_keys [c] = []"
  shows "keeps pay_inv (call_ext c r)"
  unfolding keeps_def call_ext_def using assms by (auto intro!: pay_inv_calls)

lemma keeps_pay_stage:
  "ty \<notin> {''payment.charged'', ''payment.declined'', ''payment.errored''} \<Longrightarrow> keeps pay_inv (stage ctx now ty a b p)"
  unfolding stage_def by (rule keeps_modify) (rule pay_inv_stage)

lemma keeps_pay_in_tx: "keeps pay_inv m \<Longrightarrow> (\<And>s. snd (m s) = s \<or> intent_keys (calls (snd (m s))) = intent_keys (calls s)) \<Longrightarrow> keeps pay_inv (in_tx m)"
  unfolding keeps_def in_tx_def rollback_def
  by (auto split: prod.splits sum.splits) (metis pay_inv_calls snd_conv)+

section \<open>Preservation\<close>

lemma keeps_record [intro]: "keeps pay_inv (record_external_call a b c d e f g)"
  unfolding record_external_call_def by (rule keeps_pay_call) simp

lemma keeps_post: "intent_keys [c] = [] \<Longrightarrow> keeps pay_inv (stripe_post env c)"
  unfolding stripe_post_def by (intro keeps_bindp keeps_gets keeps_pay_call keeps_case_option keeps_throw keeps_ret)

lemma keeps_ensure: "keeps pay_inv (ensure_customer env c email)"
  unfolding ensure_customer_def stripe_ensure_customer_def insert_payment_customer_def
  by (auto split: tokenizer.split intro!: keeps_bindp keeps_post keeps_modify keeps_ignore_err keeps_case_option keeps_if keeps_record simp: pay_inv_frame)

lemma keeps_attach: "keeps pay_inv (attach_payment_method env m c)"
  unfolding attach_payment_method_def stripe_attach_def Let_def
  by (auto split: tokenizer.split intro!: keeps_bindp keeps_post keeps_case_option keeps_if keeps_record)

text \<open>A tokenizer's charge makes at most one payment intent, with the key it is given.\<close>

lemma tok_charge_effect:
  "wp (tok_charge env token amount currency key purpose ref)
     (\<lambda>r t. \<exists>cs. t = s\<lparr>calls := calls s @ cs\<rparr> \<and> (intent_keys cs = [] \<or> intent_keys cs = [key]))
     (\<lambda>e t. \<exists>cs. t = s\<lparr>calls := calls s @ cs\<rparr> \<and> (intent_keys cs = [] \<or> intent_keys cs = [key])) s"
proof -
  have none: "\<exists>cs. s = s\<lparr>calls := calls s @ cs\<rparr> \<and> (intent_keys cs = [] \<or> intent_keys cs = [key])" by (rule exI [of _ "[]"]) simp
  show ?thesis
    by (simp add: tok_charge_def stripe_charge_def stripe_post_def record_external_call_def decide_mock_charge_def Let_def wp_simps none
        split: tokenizer.splits option.splits)
      (use none in \<open>auto simp: intent_keys_def\<close>)
qed

lemma below_seqD: "below_seq n ids mk \<Longrightarrow> inj mk \<Longrightarrow> mk n \<notin> ids"
  unfolding below_seq_def by (metis imageE injD lessThan_iff less_irrefl subsetD)

lemma below_seq_Suc: "below_seq n ids mk \<Longrightarrow> below_seq (Suc n) ids mk" "below_seq n ids mk \<Longrightarrow> below_seq (Suc n) (insert (mk n) ids) mk"
  by (auto simp: below_seq_def)

lemma keys_ok_new:
  assumes "keys_ok s" "intent_keys cs = [] \<or> intent_keys cs = [attempt_key (attempt_id (pd_att_seq s))]"
  shows "keys_ok (s\<lparr>pd_att_seq := Suc (pd_att_seq s), calls := calls s @ cs\<rparr>)"
proof -
  have inj: "inj (attempt_key \<circ> attempt_id)" by (auto intro!: injI dest: injD [OF attempt_id_inj] simp: attempt_key_def)
  show ?thesis
    using assms below_seqD [OF _ inj, of "pd_att_seq s" "set (intent_keys (calls s))"]
    by (auto simp: keys_ok_def below_seq_Suc intro!: below_seq_Suc(2) [where mk = "attempt_key \<circ> attempt_id", simplified])
qed

lemma get_method_SomeD: "get_method s mid = Some m \<Longrightarrow> m \<in> set (pd_methods s) \<and> pm_id m = mid"
  unfolding get_method_def by (rule tbl_find_SomeD)

text \<open>What a charge writes: its row, the event of its outcome and nothing else of the ledger.\<close>

lemma pay_inv_failed_charge:
  assumes "pay_inv s" "intent_keys cs = [] \<or> intent_keys cs = [attempt_key (attempt_id (pd_att_seq s))]"
  shows "pay_inv (s\<lparr>calls := calls s @ cs, pd_att_seq := Suc (pd_att_seq s)\<rparr>)"
  using assms keys_ok_new [of s cs] by (simp add: pay_inv_def keys_ok_def)

lemma pay_inv_charged:
  assumes inv: "pay_inv s" and m: "get_method s mid = Some m" "pm_customer m = pa_customer a" "mid = pa_method a"
    and cs: "intent_keys cs = [] \<or> intent_keys cs = [attempt_key (attempt_id (pd_att_seq s))]"
    and names: "st = pa_status a" "aid = pa_id a"
    and a: "pa_id a = attempt_id (pd_att_seq s)" "pa_key a = Some (attempt_key (pa_id a))"
  shows "pay_inv (s\<lparr>pd_att_seq := Suc (pd_att_seq s), calls := calls s @ cs, pd_attempts := pd_attempts s @ [a],
    outbox := outbox s @ [stage_event ctx now i (event_type_for_status st) b aid p]\<rparr>)"
proof -
  from inv have "pa_id a \<notin> pa_id ` set (pd_attempts s)"
    using below_seqD [OF _ attempt_id_inj, of "pd_att_seq s" "pa_id ` set (pd_attempts s)"] a by (simp add: pay_inv_def keys_ok_def)
  moreover have "is_charge_event (stage_event ctx now i (event_type_for_status (pa_status a)) b (pa_id a) p)"
    by (simp add: is_charge_event_def event_type_for_status_def)
  moreover have "keys_ok (s\<lparr>pd_att_seq := Suc (pd_att_seq s), calls := calls s @ cs\<rparr>)"
    using inv cs by (intro keys_ok_new) (simp_all add: pay_inv_def)
  moreover have "below_seq (Suc (pd_att_seq s)) (insert (pa_id a) (pa_id ` set (pd_attempts s))) attempt_id"
    using inv below_seq_Suc(2) [where mk = "attempt_id"] a by (simp add: pay_inv_def keys_ok_def)
  ultimately show ?thesis
    using inv m a names get_method_SomeD [OF m(1)] by (auto simp: pay_inv_def ledger_ok_def keys_ok_def)
qed

lemma keeps_charge: "keeps pay_inv (charge_method env ctx now c mid amount cur p)"
proof (rule keepsI)
  fix s assume inv: "pay_inv s"
  show "wp (charge_method env ctx now c mid amount cur p) (\<lambda>_. pay_inv) (\<lambda>_. pay_inv) s"
  proof (cases "get_method s mid")
    case None
    then show ?thesis using inv by (simp add: charge_method_def wp_simps)
  next
    case (Some m)
    let ?n = "pd_att_seq s" and ?aid = "attempt_id (pd_att_seq s)"
    let ?s1 = "s\<lparr>pd_att_seq := Suc ?n\<rparr>"
    let ?P = "\<lambda>t. \<exists>cs. t = ?s1\<lparr>calls := calls ?s1 @ cs\<rparr> \<and> (intent_keys cs = [] \<or> intent_keys cs = [attempt_key ?aid])"
    have eff: "wp (tok_charge env (pm_token m) amount cur (attempt_key ?aid) p r) (\<lambda>_. ?P) (\<lambda>_. ?P) ?s1" for r
      using tok_charge_effect [of env "pm_token m" amount cur "attempt_key ?aid" p r ?s1] by simp
    have fail: "pay_inv ((rollback s t)\<lparr>pd_att_seq := pd_att_seq t, pd_pm_seq := pd_pm_seq t\<rparr>)" if "?P t" for t
      using that pay_inv_failed_charge [OF inv] by (auto simp: rollback_def)
    have undone: "pay_inv ((rollback s (s\<lparr>pd_att_seq := Suc ?n, calls := calls s @ cs\<rparr>))\<lparr>pd_att_seq := Suc ?n, pd_pm_seq := pd_pm_seq s\<rparr>)"
      if "intent_keys cs = [] \<or> intent_keys cs = [attempt_key ?aid]" for cs
      using fail [of "?s1\<lparr>calls := calls ?s1 @ cs\<rparr>"] that by auto
    show ?thesis
      using inv Some
      apply (simp add: charge_method_def wp_simps next_attempt_id_def Let_def split: sum.splits)
      apply (intro impI allI)
      apply (rule wp_mono [OF eff])
       apply (clarsimp simp: insert_attempt_def wp_simps split: sum.splits)
       apply (intro conjI impI allI)
         apply (erule undone)
        apply (erule undone)
       apply (rule pay_inv_charged [OF inv Some])
             apply (simp_all add: check_customer_matches_method_def fail split: if_splits)
      done
  qed
qed

lemma keeps_conj: "keeps P m \<Longrightarrow> keeps Q m \<Longrightarrow> keeps (\<lambda>s. P s \<and> Q s) m"
  by (simp add: keeps_def)

text \<open>The provider's part of a registration does not touch the methods.\<close>

lemma keeps_methods_post: "keeps (\<lambda>t. pd_methods t = ms) (stripe_post env c)"
  unfolding stripe_post_def by (intro keeps_bindp keeps_gets keeps_call_ext keeps_case_option keeps_throw keeps_ret) simp

lemma keeps_methods_record: "keeps (\<lambda>t. pd_methods t = ms) (record_external_call a b c d e f g)"
  unfolding record_external_call_def by (rule keeps_call_ext) simp

lemma keeps_methods_ensure: "keeps (\<lambda>t. pd_methods t = ms) (ensure_customer env c email)"
  unfolding ensure_customer_def stripe_ensure_customer_def insert_payment_customer_def
  by (auto split: tokenizer.split
      intro!: keeps_bindp keeps_methods_post keeps_modify keeps_ignore_err keeps_case_option keeps_if keeps_methods_record)

lemma keeps_methods_attach: "keeps (\<lambda>t. pd_methods t = ms) (attach_payment_method env m c)"
  unfolding attach_payment_method_def stripe_attach_def Let_def
  by (auto split: tokenizer.split intro!: keeps_bindp keeps_methods_post keeps_case_option keeps_if keeps_methods_record)

lemma active_of_append: "active_of c (xs @ ys) = active_of c xs @ active_of c ys"
  by (simp add: active_of_def)

lemma pay_inv_registered:
  assumes inv: "pay_inv s" and few: "length (active_of (pm_customer m) (pd_methods s)) < 5"
    and m: "pm_id m = new_method_id (pd_pm_seq s)" "pm_default m \<longleftrightarrow> active_of (pm_customer m) (pd_methods s) = []"
    and ty: "ty \<notin> {''payment.charged'', ''payment.declined'', ''payment.errored''}"
  shows "pay_inv (s\<lparr>pd_pm_seq := Suc (pd_pm_seq s), pd_methods := pd_methods s @ [m],
    outbox := outbox s @ [stage_event ctx now i ty b d p]\<rparr>)"
proof -
  have fresh: "pm_id m \<notin> pm_id ` set (pd_methods s)"
    using inv below_seqD [OF _ new_method_id_inj, of "pd_pm_seq s" "pm_id ` set (pd_methods s)"] m(1) by (simp add: pay_inv_def keys_ok_def)
  have "length (active_of c (pd_methods s @ [m])) \<le> 5 \<and> length (filter pm_default (active_of c (pd_methods s @ [m]))) \<le> 1" for c
    using inv few m(2) by (cases "c = pm_customer m") (auto simp: pay_inv_def methods_ok_def active_of_append, auto simp: active_of_def)
  then have "methods_ok (pd_methods s @ [m])" using inv fresh by (auto simp: pay_inv_def methods_ok_def)
  moreover have "below_seq (Suc (pd_pm_seq s)) (insert (pm_id m) (pm_id ` set (pd_methods s))) new_method_id"
    using inv m(1) below_seq_Suc(2) [where mk = new_method_id] by (simp add: pay_inv_def keys_ok_def)
  ultimately show ?thesis using inv ty by (auto simp: pay_inv_def ledger_ok_def keys_ok_def is_charge_event_def)
qed

lemma keeps_after_write: "keeps P (after_write mid)"
  unfolding after_write_def by (intro keeps_bindp keeps_gets keeps_case_option keeps_throw keeps_ret)

lemma provider_card_keeps:
  "pay_inv s \<Longrightarrow> wp (provider_card env customer body) (\<lambda>_ t. pay_inv t \<and> pd_methods t = pd_methods s) (\<lambda>_. pay_inv) s"
proof -
  assume "pay_inv s"
  have "keeps (\<lambda>t. pay_inv t \<and> pd_methods t = pd_methods s) (provider_card env customer body)"
    unfolding provider_card_def
    by (intro keeps_conj keeps_if keeps_map_err keeps_bindp keeps_ensure keeps_attach keeps_methods_ensure keeps_methods_attach keeps_ret)
  from keeps_wp [OF this, of s] \<open>pay_inv s\<close> show ?thesis by (auto elim!: wp_mono)
qed

lemma store_method_keeps:
  assumes inv: "pay_inv s" and few: "length (active_of (mq_customer body) (pd_methods s)) < 5"
    and d: "is_default \<longleftrightarrow> active_of (mq_customer body) (pd_methods s) = []"
  shows "wp (store_method ctx now body tp is_default summary) (\<lambda>_. pay_inv) (\<lambda>_. pay_inv) s"
proof -
  have undone: "pay_inv ((rollback s (s\<lparr>pd_pm_seq := Suc (pd_pm_seq s)\<rparr>))\<lparr>pd_att_seq := pd_att_seq s, pd_pm_seq := Suc (pd_pm_seq s)\<rparr>)"
    using inv below_seq_Suc(1) by (auto simp: rollback_def pay_inv_def keys_ok_def)
  show ?thesis
    using few d
    by (auto simp: store_method_def next_method_id_def insert_method_def wp_simps undone intro!: pay_inv_registered [OF inv])
qed

lemma keeps_register: "keeps pay_inv (register_method env ctx now body)"
proof (rule keepsI)
  fix s assume inv: "pay_inv s"
  have tail: "wp (store_method ctx now body tp (count_active_methods s (mq_customer body) = 0) summary)
      (\<lambda>mid. wp (after_write mid) (\<lambda>_. pay_inv) (\<lambda>_. pay_inv)) (\<lambda>_. pay_inv) t"
    if "pay_inv t \<and> pd_methods t = pd_methods s" "check_at_most_n_methods (mq_customer body) (int (count_active_methods s (mq_customer body))) = Inr ()"
    for tp summary t
    by (rule wp_mono [OF store_method_keeps])
      (use that in \<open>auto simp: count_active_methods_def check_at_most_n_methods_def MAX_METHODS_PER_CUSTOMER_def
         intro: keeps_wp [OF keeps_after_write] split: if_splits\<close>)
  show "wp (register_method env ctx now body) (\<lambda>_. pay_inv) (\<lambda>_. pay_inv) s"
    using inv
    by (auto simp: register_method_def wp_simps Let_def split: sum.splits
        intro!: wp_mono [OF provider_card_keeps [OF inv]] tail)
qed

subsection \<open>Defaults, removal and cutover\<close>

lemma length_filter_update:
  "(\<And>r. key r = k \<Longrightarrow> P (f r) \<Longrightarrow> P r) \<Longrightarrow> length (filter P (tbl_update key k f rows)) \<le> length (filter P rows)"
  by (induction rows) auto

text \<open>A method that stops being active only lowers the counts.\<close>

lemma methods_ok_status:
  assumes "methods_ok rows" "status \<noteq> ''active''"
  shows "methods_ok (tbl_update pm_id mid (\<lambda>m. m\<lparr>pm_status := status\<rparr>) rows)"
proof -
  let ?f = "\<lambda>m. m\<lparr>pm_status := status\<rparr>"
  have "length (active_of c (tbl_update pm_id mid ?f rows)) \<le> length (active_of c rows)" for c
    unfolding active_of_def using assms(2) by (intro length_filter_update) simp
  moreover have "length (filter pm_default (active_of c (tbl_update pm_id mid ?f rows))) \<le> length (filter pm_default (active_of c rows))" for c
    unfolding active_of_def filter_filter using assms(2) by (intro length_filter_update) simp
  ultimately show ?thesis
    using assms(1) by (auto simp: methods_ok_def map_tbl_update intro: le_trans)
qed

lemma ledger_ok_methods:
  assumes "ledger_ok ms atts evs" "map (\<lambda>m. (pm_id m, pm_customer m)) ms' = map (\<lambda>m. (pm_id m, pm_customer m)) ms"
  shows "ledger_ok ms' atts evs"
proof -
  have pairs: "(\<exists>m \<in> set ms. pm_id m = i \<and> pm_customer m = c) \<longleftrightarrow> (i, c) \<in> set (map (\<lambda>m. (pm_id m, pm_customer m)) ms)" for ms i c by auto
  show ?thesis using assms(1) unfolding ledger_ok_def pairs assms(2) .
qed

text \<open>The methods may change in place, ids and owners kept.\<close>

lemma pay_inv_methods:
  assumes inv: "pay_inv s" and ok: "methods_ok ms"
    and same: "map (\<lambda>m. (pm_id m, pm_customer m)) ms = map (\<lambda>m. (pm_id m, pm_customer m)) (pd_methods s)"
  shows "pay_inv (s\<lparr>pd_methods := ms\<rparr>)"
proof -
  have "map fst (map (\<lambda>m. (pm_id m, pm_customer m)) ms) = map fst (map (\<lambda>m. (pm_id m, pm_customer m)) (pd_methods s))" using same by simp
  then have "pm_id ` set ms = pm_id ` set (pd_methods s)" by (metis (no_types, lifting) comp_def fst_conv list.map_comp list.map_cong0 list.set_map)
  then show ?thesis using inv ok same by (auto simp: pay_inv_def keys_ok_def intro: ledger_ok_methods)
qed

lemma keeps_set_status: "status \<noteq> ''active'' \<Longrightarrow> keeps pay_inv (set_method_status mid status)"
  unfolding set_method_status_def
  by (auto intro!: keeps_modify pay_inv_methods methods_ok_status simp: map_tbl_update pay_inv_def)

lemma distinct_filter_one: "distinct (map f xs) \<Longrightarrow> length (filter (\<lambda>x. f x = k) xs) \<le> 1"
proof (induction xs)
  case (Cons a xs)
  have "filter (\<lambda>x. f x = k) xs = []" if "f a = k"
    using Cons.prems that by (auto simp: filter_empty_conv) (metis image_eqI)
  then show ?case using Cons by auto
qed simp

lemma filter_map_same:
  "(\<And>r. r \<in> set rows \<Longrightarrow> P (g r) = P r) \<Longrightarrow> (\<And>r. r \<in> set rows \<Longrightarrow> P r \<Longrightarrow> g r = r) \<Longrightarrow> filter P (map g rows) = filter P rows"
  by (induction rows) auto

lemma methods_ok_default:
  assumes ok: "methods_ok rows" and m: "m \<in> set rows" "pm_id m = mid" "pm_customer m = c0"
  shows "methods_ok (tbl_update pm_id mid (\<lambda>m. m\<lparr>pm_default := True\<rparr>)
    (map (\<lambda>m. if pm_customer m = c0 \<and> pm_id m \<noteq> mid \<and> pm_default m then m\<lparr>pm_default := False\<rparr> else m) rows))"
    (is "methods_ok ?new")
proof -
  let ?g = "\<lambda>m. if pm_id m = mid then m\<lparr>pm_default := True\<rparr>
     else if pm_customer m = c0 \<and> pm_default m then m\<lparr>pm_default := False\<rparr> else m"
  have new: "?new = map ?g rows" by (auto simp: tbl_update_def)
  have ids: "map pm_id ?new = map pm_id rows" unfolding new by simp
  have dist: "distinct (map pm_id rows)" using ok by (simp add: methods_ok_def)
  have act: "length (active_of c ?new) = length (active_of c rows)" for c
    unfolding new active_of_def by (induction rows) auto
  have one: "length (filter pm_default (active_of c ?new)) \<le> 1" for c
  proof (cases "c = c0")
    case True
    have "length (filter pm_default (active_of c0 (map ?g rows))) \<le> length (filter (\<lambda>m. pm_id m = mid) rows)"
      unfolding active_of_def filter_filter by (induction rows) auto
    also have "\<dots> \<le> 1" using dist by (rule distinct_filter_one)
    finally show ?thesis using True new by simp
  next
    case False
    have other: "pm_customer r = c0" if "r \<in> set rows" "pm_id r = mid" for r
      using dist m that by (auto simp: distinct_map inj_on_def)
    have "filter pm_default (active_of c (map ?g rows)) = filter pm_default (active_of c rows)"
      unfolding active_of_def filter_filter by (rule filter_map_same) (use False other in auto)
    then show ?thesis using ok new by (simp add: methods_ok_def)
  qed
  show ?thesis using ok ids act one by (simp add: methods_ok_def)
qed

lemma keeps_find_live: "keeps P (find_live_method mid a b)"
  unfolding find_live_method_def by (intro keeps_bindp keeps_gets keeps_case_option keeps_throw keeps_if keeps_ret)

lemma keeps_quiet_stage [intro]:
  "keeps pay_inv (stage ctx now ''payment_method.default_changed'' a b p)" "keeps pay_inv (stage ctx now ''payment_method.removed'' a b p)"
  "keeps pay_inv (stage ctx now ''payment_method.cutover_invalidated'' a b p)" "keeps pay_inv (stage ctx now ''payment.attempt_state_drift'' a b p)"
  "keeps pay_inv (stage ctx now ''payment.refunded'' a b p)" "keeps pay_inv (stage ctx now ''payment.dispute_opened'' a b p)"
  by (auto intro!: keeps_pay_stage)

text \<open>Programs that make no call roll back to where they began.\<close>

definition callless :: "'a pay_prog \<Rightarrow> bool" where
  "callless m \<longleftrightarrow> (\<forall>cs. keeps (\<lambda>t. calls t = cs) m)"

lemma keeps_tx_callless: "keeps pay_inv m \<Longrightarrow> callless m \<Longrightarrow> keeps pay_inv (in_tx m)"
  by (rule keeps_pay_in_tx) (auto simp: callless_def keeps_def)

lemma callless_intros [intro]:
  "callless (stage ctx now a b c p)" "callless (set_method_status mid st)" "callless (set_default c mid)"
  "callless (gets f)" "callless (ret x)"
  by (auto simp: callless_def stage_def set_method_status_def set_default_def intro!: keeps_modify)

lemma callless_bindp [intro]: "callless m \<Longrightarrow> (\<And>x. callless (f x)) \<Longrightarrow> callless (bindp m f)"
  unfolding callless_def by (intro allI keeps_bindp) blast+

lemma callless_if: "callless m \<Longrightarrow> callless n \<Longrightarrow> callless (if b then m else n)"
  by simp

lemma callless_case_option: "callless m \<Longrightarrow> (\<And>x. callless (n x)) \<Longrightarrow> callless (case v of None \<Rightarrow> m | Some x \<Rightarrow> n x)"
  by (cases v) auto

lemma callless_case_prod: "(\<And>a b. callless (m a b)) \<Longrightarrow> callless (case p of (a, b) \<Rightarrow> m a b)"
  by (cases p) auto

lemma callless_modify: "(\<And>s. calls (f s) = calls s) \<Longrightarrow> callless (modify f)"
  by (auto simp: callless_def intro: keeps_modify)

lemma callless_for_each [intro]: "(\<And>x. callless (f x)) \<Longrightarrow> callless (for_each xs f)"
  unfolding callless_def by (intro allI keeps_for_each) blast

lemma keeps_remove: "keeps pay_inv (remove_method ctx now mid)"
  unfolding remove_method_def
  by (intro keeps_bindp keeps_find_live keeps_after_write keeps_tx_callless keeps_set_status keeps_quiet_stage callless_bindp callless_intros) simp

lemma keeps_cutover: "keeps pay_inv (cutover_invalidate_mock_tokens ctx now dry)"
  unfolding cutover_invalidate_mock_tokens_def Let_def
  by (intro keeps_bindp keeps_gets keeps_if keeps_ret keeps_tx_callless keeps_for_each keeps_set_status keeps_quiet_stage
      callless_for_each callless_bindp callless_intros) simp

lemma keeps_default: "keeps pay_inv (set_default_method ctx now mid)"
proof (rule keepsI)
  fix s assume inv: "pay_inv s"
  show "wp (set_default_method ctx now mid) (\<lambda>_. pay_inv) (\<lambda>_. pay_inv) s"
  proof (cases "get_method s mid")
    case None
    then show ?thesis using inv by (simp add: set_default_method_def find_live_method_def wp_simps)
  next
    case (Some m)
    from get_method_SomeD [OF this] have m: "m \<in> set (pd_methods s)" "pm_id m = mid" by auto
    have "pay_inv (s\<lparr>pd_methods := tbl_update pm_id mid (\<lambda>m. m\<lparr>pm_default := True\<rparr>)
      (map (\<lambda>m'. if pm_customer m' = pm_customer m \<and> pm_id m' \<noteq> mid \<and> pm_default m' then m'\<lparr>pm_default := False\<rparr> else m')
        (pd_methods s))\<rparr>)" 
      using inv m by (intro pay_inv_methods methods_ok_default) (auto simp: pay_inv_def tbl_update_def)
    from pay_inv_stage [OF this, of "''payment_method.default_changed''"] show ?thesis
      using Some inv
      by (auto simp: set_default_method_def find_live_method_def set_default_def wp_simps split: if_splits
          intro!: keeps_wp [OF keeps_after_write])
  qed
qed

subsection \<open>Webhooks\<close>

lemma route_event_keeps: "keeps pay_inv (route_event ctx now ty d)"
  unfolding route_event_def route_terminal_charge_def route_refund_def route_dispute_def Let_def
  by (intro keeps_if keeps_case_option keeps_bindp keeps_gets keeps_ret keeps_case_prod keeps_quiet_stage)

lemma route_event_callless: "callless (route_event ctx now ty d)"
  unfolding route_event_def route_terminal_charge_def route_refund_def route_dispute_def Let_def
  by (intro callless_if callless_case_option callless_bindp callless_intros callless_case_prod)

lemma store_event_keeps: "keeps pay_inv (store_event ctx now eid payload)"
  unfolding store_event_def persist_event_def mark_processed_def Let_def
  by (intro keeps_bindp keeps_gets keeps_if keeps_ret keeps_modify route_event_keeps) (simp_all add: pay_inv_frame)

lemma store_event_callless: "callless (store_event ctx now eid payload)"
  unfolding store_event_def persist_event_def mark_processed_def Let_def
  by (intro callless_bindp callless_if callless_intros callless_modify route_event_callless) simp_all

lemma webhook_inv: "pay_inv s \<Longrightarrow> pay_inv (snd (webhook_stripe env ctx now sig body s))"
proof -
  assume "pay_inv s"
  then have h: "in_tx (store_event ctx now eid payload) s = (r, t) \<Longrightarrow> pay_inv t" for eid payload r t
    using keepsD [OF keeps_tx_callless [OF store_event_keeps store_event_callless], of s] by (metis snd_conv)
  show ?thesis
    using h \<open>pay_inv s\<close> by (auto simp: webhook_stripe_def split: sum.split option.split prod.split)
qed

lemma pay_step_inv: "pay_inv s \<Longrightarrow> pay_inv (pay_step p s)"
  by (cases p) (auto intro: keepsD [OF keeps_charge] keepsD [OF keeps_register] keepsD [OF keeps_default] keepsD [OF keeps_remove]
      keepsD [OF keeps_cutover] keepsD [OF keeps_ensure] webhook_inv)

lemma pay_run_inv: "pay_inv s \<Longrightarrow> pay_inv (pay_run ops s)"
  unfolding pay_run_def by (induction ops arbitrary: s) (auto intro: pay_step_inv)

lemma empty_pay_inv: "pay_inv empty_pay"
  by (simp add: empty_pay_def pay_inv_def methods_ok_def ledger_ok_def keys_ok_def below_seq_def active_of_def)

section \<open>Properties\<close>


section \<open>Webhooks count once\<close>

text \<open>A delivery, the event id it is accepted for, and the store's known ids.\<close>

type_synonym hook = "request_ctx \<times> int \<times> string option \<times> string"

definition accepted_event :: "webhook_env \<Rightarrow> hook \<Rightarrow> string option" where
  "accepted_event env h = (case h of (ctx, now, sig, body) \<Rightarrow>
     if we_secret env \<noteq> [] \<and> verify_stripe_signature (we_hmac env) (we_secret env) body sig (now div 1000000) = Inr ()
     then Option.bind (we_json env body) (\<lambda>p. get_str p ''id'') else None)"

definition deliver_hook :: "webhook_env \<Rightarrow> hook \<Rightarrow> pay_db \<Rightarrow> pay_db" where
  "deliver_hook env h s = (case h of (ctx, now, sig, body) \<Rightarrow> snd (webhook_stripe env ctx now sig body s))"

definition known_events :: "pay_db \<Rightarrow> string set" where
  "known_events s = wh_event ` {w \<in> set (pd_webhooks s). wh_provider w = ''stripe''}"

text \<open>The first delivery of every event that is not known yet.\<close>

fun first_deliveries :: "webhook_env \<Rightarrow> string set \<Rightarrow> hook list \<Rightarrow> hook list" where
  "first_deliveries env seen [] = []"
| "first_deliveries env seen (h # hs) = (case accepted_event env h of
     None \<Rightarrow> first_deliveries env seen hs
   | Some i \<Rightarrow> if i \<in> seen then first_deliveries env seen hs else h # first_deliveries env (insert i seen) hs)"

lemma route_event_hooks: "keeps (\<lambda>t. pd_webhooks t = ws) (route_event ctx now ty d)"
  unfolding route_event_def route_terminal_charge_def route_refund_def route_dispute_def Let_def
  by (intro keeps_if keeps_case_option keeps_bindp keeps_gets keeps_ret keeps_case_prod keeps_stage) simp_all

lemma route_event_returns: "fst (route_event ctx now ty d s) \<noteq> Inl e"
  by (auto simp: route_event_def route_terminal_charge_def route_refund_def route_dispute_def Let_def stage_def modify_def
      ret_def bindp_def gets_def split: option.splits)

lemma store_event_known: "eid \<in> known_events s \<Longrightarrow>
    store_event ctx now eid payload s = (Inr (200, Some (JObj [(''received'', JBool True), (''deduped'', JBool True)])), s)"
  by (auto simp: store_event_def persist_event_def known_events_def bindp_def gets_def ret_def list_ex_iff Let_def)

lemma known_events_alt:
  "known_events s = snd ` {p \<in> set (map (\<lambda>w. (wh_provider w, wh_event w)) (pd_webhooks s)). fst p = ''stripe''}"
  by (force simp: known_events_def)

lemma store_event_new:
  assumes "eid \<notin> known_events s"
  shows "wp (store_event ctx now eid payload) (\<lambda>_ t. known_events t = insert eid (known_events s)) (\<lambda>_ _. False) s"
proof -
  let ?w = "\<lparr>wh_provider = ''stripe'', wh_event = eid, wh_type = get_str_or payload ''type'' ''unknown'', wh_body = payload,
     wh_processed = None, wh_outcome = None\<rparr>"
  have new: "\<not> list_ex (\<lambda>w. wh_provider w = ''stripe'' \<and> wh_event w = eid) (pd_webhooks s)"
    using assms by (auto simp: known_events_def list_ex_iff)
  have route: "wp (route_event ctx now ty d) (\<lambda>_ t. pd_webhooks t = pd_webhooks s @ [?w]) (\<lambda>_ _. False)
      (s\<lparr>pd_webhooks := pd_webhooks s @ [?w]\<rparr>)" for ty d
    using keeps_wp [OF route_event_hooks, of "s\<lparr>pd_webhooks := pd_webhooks s @ [?w]\<rparr>" "pd_webhooks s @ [?w]" ctx now ty d]
      route_event_returns [of ctx now ty d "s\<lparr>pd_webhooks := pd_webhooks s @ [?w]\<rparr>"]
    by (auto simp: wp_def split: prod.splits sum.splits)
  have marked: "known_events (t\<lparr>pd_webhooks := tbl_update (\<lambda>w. (wh_provider w, wh_event w)) k
      (\<lambda>w. w\<lparr>wh_outcome := x, wh_processed := y\<rparr>) (pd_webhooks t)\<rparr>) = known_events t" for t k x y
    by (simp add: known_events_alt map_tbl_update)
  show ?thesis
    by (auto simp: store_event_def persist_event_def mark_processed_def Let_def wp_simps new marked
        intro!: wp_mono [OF route]) (force simp: known_events_def)+
qed

lemma deliver_rejected: "accepted_event env h = None \<Longrightarrow> deliver_hook env h s = s"
  by (cases h) (auto simp: accepted_event_def deliver_hook_def webhook_stripe_def split: if_splits sum.splits option.splits)

lemma deliver_accepted:
  assumes "accepted_event env h = Some i"
  shows "i \<in> known_events s \<Longrightarrow> deliver_hook env h s = s"
    and "known_events (deliver_hook env h s) = insert i (known_events s)"
proof -
  obtain ctx now sig body payload where h: "h = (ctx, now, sig, body)" "we_json env body = Some payload" "get_str payload ''id'' = Some i"
    and ok: "we_secret env \<noteq> []" "verify_stripe_signature (we_hmac env) (we_secret env) body sig (now div 1000000) = Inr ()"
    using assms by (cases h) (auto simp: accepted_event_def split: if_splits Option.bind_splits)
  have run: "deliver_hook env h s = snd (in_tx (store_event ctx now i payload) s)" for s
    using h ok by (auto simp: deliver_hook_def webhook_stripe_def split: prod.splits sum.splits)
  have returns: "\<not> isl (fst (store_event ctx now i payload s))" for s
    using store_event_new [of i s ctx now payload]
    by (cases "i \<in> known_events s") (auto simp: store_event_known wp_def split: prod.splits sum.splits)
  have tx: "snd (in_tx (store_event ctx now i payload) s) = snd (store_event ctx now i payload s)" for s
    using returns [where s = s] by (auto simp: in_tx_def split: prod.splits sum.splits)
  show known: "deliver_hook env h s = s" if "i \<in> known_events s" using that by (simp add: run tx store_event_known)
  show "known_events (deliver_hook env h s) = insert i (known_events s)"
  proof (cases "i \<in> known_events s")
    case True
    then show ?thesis by (simp add: known insert_absorb)
  next
    case False
    from store_event_new [OF this, of ctx now payload] show ?thesis
      by (auto simp: run tx wp_def split: prod.splits sum.splits)
  qed
qed

text \<open>
  C27: Stripe delivers at least once, in any order and with repetitions. Running the handler on
  any sequence of deliveries (forged and malformed ones included) leaves the database exactly as
  running it on the first accepted delivery of each event does: a repeated event stages no second
  refund, dispute or drift event, and after it every accepted event is on record.
\<close>

theorem webhook_deliveries_count_once:
  "fold (deliver_hook env) hs s = fold (deliver_hook env) (first_deliveries env (known_events s) hs) s \<and>
   known_events (fold (deliver_hook env) hs s) = known_events s \<union> {i. Some i \<in> accepted_event env ` set hs}"
proof (induction hs arbitrary: s)
  case (Cons h hs)
  show ?case
  proof (cases "accepted_event env h")
    case None
    then show ?thesis using Cons [of s] by (auto simp: deliver_rejected)
  next
    case (Some i)
    note step = deliver_accepted [OF Some]
    show ?thesis
      using Cons [of "deliver_hook env h s"] Some step(2) [of s] step(1) [of s]
      by (cases "i \<in> known_events s") (auto simp: insert_absorb)
  qed
qed simp

section \<open>Only signed and recent deliveries\<close>

lemma parse_i64_range: "parse_i64 s = Some i \<Longrightarrow> in_i64 i"
  by (auto simp: parse_i64_def Let_def split: list.splits if_splits option.splits)

lemma sig_fields_range: "fst (sig_fields header) = Some ts \<Longrightarrow> in_i64 ts"
proof -
  have "fst (fold sig_part parts acc) = Some ts \<Longrightarrow> (fst acc = Some ts \<Longrightarrow> in_i64 ts) \<Longrightarrow> in_i64 ts" for parts acc
  proof (induction parts arbitrary: acc)
    case (Cons p parts)
    have "fst (sig_part p acc) = Some ts \<Longrightarrow> in_i64 ts"
      using Cons.prems(2) by (auto simp: sig_part_def split: prod.splits option.splits if_splits dest: parse_i64_range)
    from Cons.IH [OF _ this] Cons.prems(1) show ?case by simp
  qed simp
  then show "fst (sig_fields header) = Some ts \<Longrightarrow> in_i64 ts" unfolding sig_fields_def by fastforce
qed

definition stamp_seconds :: "int \<Rightarrow> int" where
  "stamp_seconds ts = (if ts > 1000000000000 then ts div 1000 else ts)"

lemma wrap64_over:
  assumes "i64_max < x" "x < 27670116110564327424"
  shows "wrap64 x = x - 18446744073709551616"
proof -
  have "(x + 9223372036854775808) mod 18446744073709551616 = (x - 9223372036854775808 + 18446744073709551616) mod 18446744073709551616"
    by (simp add: algebra_simps)
  also have "\<dots> = x - 9223372036854775808" using assms by (subst mod_add_self2) (simp add: i64_max_def)
  finally show ?thesis by (simp add: wrap64_def)
qed

lemma skew_bound:
  assumes "in_i64 ts" "0 \<le> now" "now < 4611686018427387904" "skew now ts \<le> 300"
  shows "\<bar>now - stamp_seconds ts\<bar> \<le> 300 \<or> ts = now + i64_min"
proof -
  let ?u = "stamp_seconds ts"
  have u: "i64_min \<le> ?u" "?u \<le> i64_max" "ts \<le> 1000000000000 \<Longrightarrow> ?u = ts" "\<not> ts \<le> 1000000000000 \<Longrightarrow> 0 \<le> ?u"
    using assms(1) by (auto simp: stamp_seconds_def in_i64_def i64_min_def i64_max_def)
  have sk: "skew now ts = wrap64 \<bar>wrap64 (now - ?u)\<bar>" by (simp add: skew_def stamp_seconds_def)
  consider "now - ?u \<le> i64_max" | "now - ?u = i64_max + 1" | "i64_max + 1 < now - ?u" by linarith
  then show ?thesis
  proof cases
    case 1
    then have "in_i64 (now - ?u)" "in_i64 \<bar>now - ?u\<bar>" using u assms(2) by (auto simp: in_i64_def i64_min_def i64_max_def)
    then have "skew now ts = \<bar>now - ?u\<bar>" by (simp add: sk wrap64_id)
    then show ?thesis using assms(4) by simp
  next
    case 2
    then have "ts \<le> 1000000000000" using u(4) assms(3) by (cases "ts \<le> 1000000000000") (simp_all add: i64_max_def)
    then show ?thesis using 2 u(3) by (simp add: i64_min_def i64_max_def)
  next
    case 3
    let ?w = "now - ?u - 18446744073709551616"
    have "wrap64 (now - ?u) = ?w"
      using 3 u(1) assms(3) by (intro wrap64_over) (simp_all add: i64_min_def)
    moreover have "in_i64 \<bar>?w\<bar>" "\<bar>?w\<bar> > 300" using 3 u assms(3) by (auto simp: in_i64_def i64_min_def i64_max_def)
    ultimately show ?thesis using assms(4) by (simp add: sk wrap64_id)
  qed
qed

text \<open>
  C28: A delivery that changes the database was signed: the header has a timestamp and a \<open>v1\<close>
  entry that is the hexadecimal HMAC, under the configured secret, of that timestamp and the
  very body received. And it was signed within 300 seconds of now, except for one timestamp, the
  one \<open>i64::MIN\<close> seconds from now, for which the difference and its absolute value wrap.
\<close>

theorem webhook_changes_need_fresh_signature:
  assumes "snd (webhook_stripe env ctx now sig body s) \<noteq> s" and "0 \<le> now" "now div 1000000 < 4611686018427387904"
  shows "\<exists>header ts candidates. sig = Some header \<and> sig_fields header = (Some ts, candidates) \<and> we_secret env \<noteq> [] \<and>
     hex_bytes (we_hmac env (we_secret env) (show_int ts @ ''.'' @ body)) \<in> set candidates \<and>
     (\<bar>now div 1000000 - stamp_seconds ts\<bar> \<le> 300 \<or> ts = now div 1000000 + i64_min)"
proof -
  have secret: "we_secret env \<noteq> []" and ok: "verify_stripe_signature (we_hmac env) (we_secret env) body sig (now div 1000000) = Inr ()"
    using assms(1) by (auto simp: webhook_stripe_def split: if_splits sum.splits)
  then obtain header ts candidates where h: "sig = Some header" "sig_fields header = (Some ts, candidates)"
      and sk: "skew (now div 1000000) ts \<le> 300" and mac: "hex_bytes (we_hmac env (we_secret env) (show_int ts @ ''.'' @ body)) \<in> set candidates"
    by (auto simp: verify_stripe_signature_def MAX_SKEW_SECONDS_def Let_def split: option.splits prod.splits if_splits)
  have "in_i64 ts" using h(2) sig_fields_range [of header ts] by simp
  from skew_bound [OF this _ assms(3) sk] assms(2) h mac secret show ?thesis
    by (auto simp: pos_imp_zdiv_nonneg_iff)
qed

definition demo_hooks :: webhook_env where
  "demo_hooks = \<lparr>we_secret = ''w'', we_hmac = (\<lambda>k m. take 1 m), we_json = (\<lambda>b. Some (JObj [(''id'', JStr b), (''type'', JStr ''ping'')]))\<rparr>"

theorem webhook_changes_need_fresh_signature_witness:
  "\<exists>ts candidates. sig_fields ''t=7, v1=37'' = (Some ts, candidates) \<and>
     hex_bytes (we_hmac demo_hooks (we_secret demo_hooks) (show_int ts @ ''.b'')) \<in> set candidates"
proof -
  let ?now = "5000000" and ?sig = "''t=7, v1=37''"
  have run: "snd (webhook_stripe demo_hooks default_ctx ?now (Some ?sig) ''b'' empty_pay) \<noteq> empty_pay"
  proof -
    have "pd_webhooks (snd (webhook_stripe demo_hooks default_ctx ?now (Some ?sig) ''b'' empty_pay)) \<noteq> []" by code_simp
    then show ?thesis by (auto simp: empty_pay_def)
  qed
  have "(0 :: int) \<le> ?now" "(?now :: int) div 1000000 < 4611686018427387904" by simp_all
  from webhook_changes_need_fresh_signature [OF run this] obtain header ts candidates
    where "Some ?sig = Some header" "sig_fields header = (Some ts, candidates)"
      "hex_bytes (we_hmac demo_hooks (we_secret demo_hooks) (show_int ts @ ''.'' @ ''b'')) \<in> set candidates"
    by (elim exE conjE)
  then show ?thesis by simp
qed

text \<open>That one timestamp does pass the window.\<close>

lemma minimum_stamp_passes: "0 \<le> now \<Longrightarrow> now < 4611686018427387904 \<Longrightarrow> skew now (now + i64_min) \<le> 300"
  by (simp add: skew_def i64_min_def wrap64_def)

end
