(* ===== verification/Charging.thy ===== *)
theory Charging
  imports PayProps SubWitness
begin

text \<open>
  The payment service under its callers. A successful charge appends exactly one row to the
  ledger; what Stripe is asked for is that row's amount in cents; and the subscription service,
  charging through the typed client and the payment routes, activates a subscription only
  against an approved attempt of the same customer, card and amount.
\<close>

section \<open>A charge on the ledger\<close>

definition ledger_row :: "attempt_row \<Rightarrow> attempt_row" where
  "ledger_row a = a\<lparr>pa_amount := round2 (pa_amount a)\<rparr>"

text \<open>What a charge that returns has written, and what it has checked.\<close>

definition charged_to :: "pay_db \<Rightarrow> string \<Rightarrow> string \<Rightarrow> rat \<Rightarrow> string \<Rightarrow> string \<Rightarrow> attempt_row \<Rightarrow> pay_db \<Rightarrow> bool" where
  "charged_to s c mid amount cur p a t \<longleftrightarrow>
     (\<exists>m. get_method s mid = Some m \<and> pm_status m = ''active'' \<and> pm_customer m = c) \<and> 0 < amount \<and>
     pa_id a = attempt_id (pd_att_seq s) \<and> pa_customer a = c \<and> pa_method a = mid \<and> pa_amount a = amount \<and>
     pa_currency a = cur \<and> pa_purpose a = p \<and>
     pd_attempts t = pd_attempts s @ [ledger_row a] \<and> pd_methods t = pd_methods s \<and> pd_att_seq t = Suc (pd_att_seq s)"

lemma tok_charge_frame:
  "wp (tok_charge env token amount currency key purpose ref)
     (\<lambda>r t. \<exists>cs. t = s\<lparr>calls := cs\<rparr>) (\<lambda>e t. \<exists>cs. t = s\<lparr>calls := cs\<rparr>) s"
  by (rule wp_mono [OF tok_charge_effect]) auto

lemma to_numeric_InrD: "to_numeric n q = Inr r \<Longrightarrow> r = round2 q"
  by (simp add: to_numeric_def Let_def split: if_splits)

lemma charge_method_ok: "wp (charge_method env ctx now c mid amount cur p) (\<lambda>a t. charged_to s c mid amount cur p a t) (\<lambda>_ _. True) s"
proof (cases "get_method s mid")
  case None
  then show ?thesis by (simp add: charge_method_def wp_simps)
next
  case (Some m)
  have tail: "wp (tok_charge env tok amount cur key p r) Q E t"
    if "\<And>x cs. Q x (t\<lparr>calls := cs\<rparr>)" "\<And>e u. E e u" for tok key r t Q E
    by (rule wp_mono [OF tok_charge_frame]) (use that in auto)
  show ?thesis
    using Some
    by (auto simp: charge_method_def wp_simps next_attempt_id_def Let_def insert_attempt_def charged_to_def ledger_row_def
        check_method_active_def check_positive_amount_def check_customer_matches_method_def
        dest: to_numeric_InrD split: sum.splits if_splits intro!: tail)
qed

section \<open>What Stripe is asked for\<close>

text \<open>A Stripe charge that returns has made one payment intent, of the amount in cents rounded half to even.\<close>

lemma stripe_charge_calls:
  "pe_tokenizer env = Stripe cfg \<Longrightarrow>
   wp (tok_charge env token amount cur key p ref)
     (\<lambda>r t. \<exists>customer x. ref = Some customer \<and> t = s\<lparr>calls := calls s @ [StripeIntent key (round_even (amount * 100)) (to_lowercase cur) customer token p, Forensic x]\<rparr>)
     (\<lambda>_ _. True) s"
  by (auto simp: tok_charge_def stripe_charge_def stripe_post_def record_external_call_def Let_def wp_simps split: option.splits)

lemma charge_method_stripe:
  assumes "pe_tokenizer env = Stripe cfg"
  shows "wp (charge_method env ctx now c mid amount cur p) (\<lambda>a t. \<exists>customer token x. calls t = calls s @
      [StripeIntent (attempt_key (pa_id a)) (round_even (amount * 100)) (to_lowercase cur) customer token p, Forensic x]) (\<lambda>_ _. True) s"
proof -
  have tail: "wp (tok_charge env tok amount cur key p r) Q E t"
    if "\<And>x y customer cs. Q x (t\<lparr>calls := calls t @ [StripeIntent key (round_even (amount * 100)) (to_lowercase cur) customer tok p, Forensic y]\<rparr>)" "\<And>e u. E e u"
    for tok key r t Q E
    by (rule wp_mono [OF stripe_charge_calls [OF assms]]) (use that in auto)
  show ?thesis
    by (auto simp: charge_method_def wp_simps next_attempt_id_def Let_def insert_attempt_def split: sum.splits option.splits intro!: tail)
qed

lemma cents_round: "round2 (of_int n / 100) = of_int n / 100" "round_even (of_int n / 100 * 100) = n"
  by (simp_all add: round2_cents)

text \<open>
  C29: A charge of a whole number of cents that returns has asked Stripe once, under a key made
  from the attempt's own id, for exactly the number of cents the ledger's new row records, in the
  currency and for the purpose it records, whatever the outcome was.
\<close>

theorem stripe_charged_as_recorded:
  assumes "pe_tokenizer env = Stripe cfg" "charge_method env ctx now c mid (of_int n / 100) cur p s = (Inr a, t)"
  shows "\<exists>row customer token x. pd_attempts t = pd_attempts s @ [row] \<and> pa_id row = pa_id a \<and> pa_status row = pa_status a \<and>
     pa_amount row = of_int n / 100 \<and> pa_currency row = cur \<and> pa_purpose row = p \<and>
     calls t = calls s @ [StripeIntent (attempt_key (pa_id row)) n (to_lowercase cur) customer token p, Forensic x]"
proof -
  have led: "charged_to s c mid (of_int n / 100) cur p a t" by (rule wp_okD [OF charge_method_ok assms(2)])
  obtain customer token x where made: "calls t = calls s @
      [StripeIntent (attempt_key (pa_id a)) (round_even (of_int n / 100 * 100)) (to_lowercase cur) customer token p, Forensic x]"
    using wp_okD [OF charge_method_stripe [OF assms(1)] assms(2)] by blast
  have amount: "pa_amount a = of_int n / 100" using led by (simp only: charged_to_def)
  have "pa_amount (ledger_row a) = of_int n / 100" unfolding ledger_row_def amount cents_round by simp
  moreover have "pd_attempts t = pd_attempts s @ [ledger_row a]" "pa_currency a = cur" "pa_purpose a = p"
    using led by (simp_all only: charged_to_def)
  moreover have "pa_id (ledger_row a) = pa_id a" "pa_status (ledger_row a) = pa_status a"
    "pa_currency (ledger_row a) = pa_currency a" "pa_purpose (ledger_row a) = pa_purpose a" by (simp_all add: ledger_row_def)
  ultimately show ?thesis using made unfolding cents_round by metis
qed

definition demo_stripe :: pay_env where
  "demo_stripe = \<lparr>pe_tokenizer = Stripe \<lparr>sc_api_key = ''sk_test_1'', sc_publishable = ''pk_test_1'', sc_webhook_secret = ''w'', sc_allow_reuse = False\<rparr>,
     pe_crm = (\<lambda>_. Inl NotFoundErr),
     pe_post = (\<lambda>_ _. Some (JObj [(''id'', JStr ''pi_1''), (''status'', JStr ''succeeded'')])), pe_card = (\<lambda>_. None), pe_uuid = ''u'',
     pe_decimal = (\<lambda>_. None)\<rparr>"

definition demo_method :: method_row where
  "demo_method = \<lparr>pm_id = ''PM-0001'', pm_customer = ''C1'', pm_type = ''card'', pm_token = ''pm_x'', pm_provider = ''stripe'', pm_last4 = ''4242'',
     pm_brand = Some ''visa'', pm_exp_month = 12, pm_exp_year = 2030, pm_default = True, pm_status = ''active'', pm_created = 0\<rparr>"

definition demo_pay :: pay_db where
  "demo_pay = \<lparr>outbox = [], inbox = [], calls = [], pd_att_seq = 1, pd_pm_seq = 2, pd_attempts = [], pd_methods = [demo_method],
     pd_payers = [\<lparr>py_id = ''C1'', py_ref = Some ''cus_1'', py_ref_provider = Some ''stripe''\<rparr>], pd_webhooks = []\<rparr>"

lemmas demo_pay_defs = demo_stripe_def demo_method_def demo_pay_def

lemmas pay_run_simps = charge_method_def wp_simps next_attempt_id_def Let_def insert_attempt_def get_method_def check_method_active_def
  check_positive_amount_def check_customer_matches_method_def check_token_provider_matches_active_def class_name_def
  lookup_customer_external_ref_def tok_charge_def stripe_charge_def stripe_post_def record_external_call_def get_str_or_def get_str_def

lemma demo_amounts: "round2 (25 / 2) = 25 / 2" "\<lfloor>25 / 2 :: rat\<rfloor> = 12" "\<lfloor>27 / 2 :: rat\<rfloor> = 13"
  using round2_cents [of 1250] by simp_all (rule floor_unique; simp)+

lemma demo_charge:
  "wp (charge_method demo_stripe default_ctx 0 ''C1'' ''PM-0001'' (of_int 1250 / 100) ''SGD'' ''renewal'')
     (\<lambda>a t. pa_status a = ''approved'') (\<lambda>_ _. False) demo_pay"
  by (simp add: pay_run_simps demo_pay_defs to_numeric_def demo_amounts in_i64_def i64_min_def i64_max_def round_even_def)

theorem stripe_charged_as_recorded_witness:
  "\<exists>(t :: pay_db) (row :: attempt_row) customer token x. pd_attempts t = [row] \<and> pa_status row = ''approved'' \<and> pa_amount row = 25 / 2 \<and>
     calls t = [StripeIntent (attempt_key (pa_id row)) 1250 ''sgd'' customer token ''renewal'', Forensic x]"
proof -
  obtain a t where run: "charge_method demo_stripe default_ctx 0 ''C1'' ''PM-0001'' (of_int 1250 / 100) ''SGD'' ''renewal'' demo_pay = (Inr a, t)"
    and ok: "pa_status a = ''approved''"
    using demo_charge by (auto simp: wp_def split: prod.splits sum.splits)
  have low: "to_lowercase ''SGD'' = ''sgd''" by code_simp
  have stripe: "pe_tokenizer demo_stripe = Stripe \<lparr>sc_api_key = ''sk_test_1'', sc_publishable = ''pk_test_1'', sc_webhook_secret = ''w'', sc_allow_reuse = False\<rparr>"
    by (simp add: demo_stripe_def)
  have start: "pd_attempts demo_pay = []" "calls demo_pay = []" by (simp_all add: demo_pay_def)
  have amount: "(of_int 1250 / 100 :: rat) = 25 / 2" by simp
  obtain row customer token x where "pd_attempts t = [row]" "pa_status row = ''approved''" "pa_amount row = 25 / 2"
      "calls t = [StripeIntent (attempt_key (pa_id row)) 1250 ''sgd'' customer token ''renewal'', Forensic x]"
    using stripe_charged_as_recorded [OF stripe run] unfolding low start amount ok append_Nil by (elim exE conjE)
  then show ?thesis by (intro exI conjI)
qed

text \<open>An amount with a fraction of a cent is rounded one way for Stripe and another for the ledger.\<close>

lemma fraction_charged_otherwise:
  "wp (charge_method demo_stripe default_ctx 0 ''C1'' ''PM-0001'' (1 / 8) ''SGD'' ''renewal'')
     (\<lambda>a t. map pa_amount (pd_attempts t) = [13 / 100] \<and>
        (\<exists>k cu cus tok p x. calls t = [StripeIntent k 12 cu cus tok p, Forensic x])) (\<lambda>_ _. False) demo_pay"
  by (simp add: pay_run_simps demo_pay_defs to_numeric_def round2_def demo_amounts in_i64_def i64_min_def i64_max_def round_even_def)

section \<open>The subscription service over the payment routes\<close>

text \<open>\<open>PaymentClient::charge\<close>: the body it posts; calls other than charges do not reach the payment service.\<close>

fun charge_body :: "sub_call \<Rightarrow> json" where
  "charge_body (Charge customer_id mid amount currency purpose) = JObj
     [(''customerId'', JStr customer_id), (''paymentMethodId'', JStr mid), (''amount'', JDec amount),
      (''currency'', JStr currency), (''purpose'', JStr purpose)]"
| "charge_body _ = JNull"

fun is_charge :: "sub_call \<Rightarrow> bool" where
  "is_charge (Charge _ _ _ _ _) = True"
| "is_charge _ = False"

definition serve_charge :: "pay_env \<Rightarrow> request_ctx \<Rightarrow> int \<Rightarrow> sub_call \<Rightarrow> pay_db \<Rightarrow> response \<times> pay_db" where
  "serve_charge penv pctx pnow c p = (if is_charge c then route_charge penv pctx pnow (charge_body c) p else ((404, None), p))"

text \<open>The payment database after a sequence of calls, and the answer to one more.\<close>

fun pay_from :: "(sub_call list \<Rightarrow> pay_env) \<Rightarrow> request_ctx \<Rightarrow> int \<Rightarrow> sub_call list \<Rightarrow> sub_call list \<Rightarrow> pay_db \<Rightarrow> pay_db" where
  "pay_from penvs pctx pnow before [] p = p"
| "pay_from penvs pctx pnow before (c # cs) p = pay_from penvs pctx pnow (before @ [c]) cs (snd (serve_charge (penvs before) pctx pnow c p))"

definition ledger_charge :: "(sub_call list \<Rightarrow> pay_env) \<Rightarrow> request_ctx \<Rightarrow> int \<Rightarrow> pay_db \<Rightarrow> sub_call list \<Rightarrow> sub_call \<Rightarrow> client_error + json" where
  "ledger_charge penvs pctx pnow p made c =
     fst (client_call (serve_charge (penvs made) pctx pnow c (pay_from penvs pctx pnow [] made p)))"

lemma pay_from_append:
  "pay_from penvs pctx pnow before (xs @ ys) p = pay_from penvs pctx pnow (before @ xs) ys (pay_from penvs pctx pnow before xs p)"
  by (induction xs arbitrary: before p) simp_all

lemma serve_other: "\<not> is_charge c \<Longrightarrow> snd (serve_charge penv pctx pnow c p) = p"
  by (simp add: serve_charge_def)

lemma parse_charge_body:
  "parse_charge_request parse (charge_body (Charge c m a cur p)) =
     Inr \<lparr>cq_customer = c, cq_method = m, cq_amount = a, cq_currency = cur, cq_purpose = p\<rparr>"
  by (simp add: parse_charge_request_def de_str_def de_defaulted_def de_decimal_def field_def then_parse_def)

lemma serve_charge_ok:
  assumes "fst (client_call (serve_charge penv pctx pnow (Charge c m a cur pur) p)) = Inr doc"
  shows "\<exists>row. doc = payment_response row \<and>
     charged_to p c m a cur pur row (snd (serve_charge penv pctx pnow (Charge c m a cur pur) p))"
proof -
  have run: "serve_charge penv pctx pnow (Charge c m a cur pur) p = answer 201 payment_response (charge_method penv pctx pnow c m a cur pur) p"
    by (simp add: serve_charge_def route_charge_def parse_charge_body [simplified])
  obtain row t where "charge_method penv pctx pnow c m a cur pur p = (Inr row, t)"
    using assms by (cases "charge_method penv pctx pnow c m a cur pur p") (auto simp: run client_call_answer split: sum.splits api_error.splits)
  with wp_okD [OF charge_method_ok this] assms show ?thesis by (auto simp: run client_call_answer) (auto simp: answer_def)
qed

text \<open>What an approved answer of the payment service means on its ledger.\<close>

definition paid_on_ledger :: "pay_db \<Rightarrow> pay_db \<Rightarrow> string \<Rightarrow> string \<Rightarrow> rat \<Rightarrow> string \<Rightarrow> string \<Rightarrow> json \<Rightarrow> bool" where
  "paid_on_ledger p0 p1 c m amount cur pur doc \<longleftrightarrow>
     (\<exists>row. pd_attempts p1 = pd_attempts p0 @ [row] \<and> pa_status row = ''approved'' \<and> pa_customer row = c \<and> pa_method row = m \<and>
        pa_amount row = round2 amount \<and> pa_currency row = cur \<and> pa_purpose row = pur \<and> get_str_or doc ''id'' [] = pa_id row)"

lemma approved_is_paid:
  assumes "ledger_charge penvs pctx pnow p made (Charge c m a cur pur) = Inr doc" "approved doc"
  shows "paid_on_ledger (pay_from penvs pctx pnow [] made p) (pay_from penvs pctx pnow [] (made @ [Charge c m a cur pur]) p) c m a cur pur doc"
  using serve_charge_ok [of "penvs made" pctx pnow c m a cur pur "pay_from penvs pctx pnow [] made p" doc] assms
  by (auto simp: ledger_charge_def paid_on_ledger_def pay_from_append charged_to_def ledger_row_def payment_response_def approved_def
      get_str_def get_str_or_def)

lemma create_tx_event:
  "wp (create_tx ctx req offering i now price charge_amount doc)
     (\<lambda>_ t. jget (ev_payload (last (outbox t))) ''paymentAttemptId'' = Some (JStr (get_str_or doc ''id'' [])) \<and>
            jget (ev_payload (last (outbox t))) ''amountCharged'' = Some (JDec charge_amount) \<and>
            ev_type (last (outbox t)) = ''subscription.activated'' \<and> calls t = calls s)
     (\<lambda>_ _. True) s"
proof -
  have one: "wp (insert_bal b) (\<lambda>_ t. calls t = k) (\<lambda>_ _. True) u" if "calls u = k" for b u k
    using that by (simp add: insert_bal_def wp_simps)
  have loop: "wp (insert_bundle i specs now e) (\<lambda>_ t. calls t = k) (\<lambda>_ _. True) u" if "calls u = k" for specs e u k
    unfolding insert_bundle_def by (rule wp_for_each) (auto intro: one that)
  show ?thesis
    by (auto simp: create_tx_def insert_sub_def add_state_history_def wp_simps Let_def split: prod.splits sum.splits option.splits
        intro!: wp_mono [OF loop])
qed

text \<open>
  C30: When the subscription service charges through the payment client and the payment service's
  own routes, a subscription that \<open>create\<close> returns for a new order is paid for on the payment
  ledger: the run has added exactly one attempt, approved, of the requested customer and card,
  in SGD for the activation, of the charged amount in cents, and the activation event names that
  attempt and that amount.
\<close>

theorem activation_is_paid_on_the_ledger:
  assumes "env_charge env = ledger_charge penvs pctx pnow p"
    and "Option.bind (cr_order req) (get_by_commercial_order s) = None"
    and "create env ctx now req s = (Inr full, t)"
  shows "\<exists>amount doc. paid_on_ledger (pay_from penvs pctx pnow [] (calls s) p) (pay_from penvs pctx pnow [] (calls t) p)
       (cr_customer req) (cr_method req) amount ''SGD'' ''activation'' doc \<and>
     ev_type (last (outbox t)) = ''subscription.activated'' \<and>
     jget (ev_payload (last (outbox t))) ''amountCharged'' = Some (JDec amount) \<and>
     jget (ev_payload (last (outbox t))) ''paymentAttemptId'' = Some (JStr (get_str_or doc ''id'' []))"
    (is "?paid t")
proof -
  let ?P = "\<lambda>(_ :: sub_full) u. ?paid u"
  have tx: "wp (create_tx ctx req offering i now price ca doc) (\<lambda>_. wp (reread i what) ?P (\<lambda>_ _. True)) (\<lambda>_ _. True) u"
    if "paid_on_ledger (pay_from penvs pctx pnow [] (calls s) p) (pay_from penvs pctx pnow [] (calls u) p)
          (cr_customer req) (cr_method req) ca ''SGD'' ''activation'' doc" for offering i price ca doc what u
    by (rule wp_mono [OF create_tx_event]) (use that in \<open>auto simp: reread_def wp_simps split: option.splits\<close>)
  have paid: "paid_on_ledger (pay_from penvs pctx pnow [] (calls s) p)
      (pay_from penvs pctx pnow [] (calls s @ [Charge (cr_customer req) (cr_method req) ca ''SGD'' ''activation'', AssignMsisdn x, AssignEsim y z]) p)
      (cr_customer req) (cr_method req) ca ''SGD'' ''activation'' doc"
    if "env_charge env (calls s) (Charge (cr_customer req) (cr_method req) ca ''SGD'' ''activation'') = Inr doc" "approved doc" for ca doc x y z
    using approved_is_paid [OF that [unfolded assms(1)]] by (simp add: pay_from_append serve_other)
  have "wp (create env ctx now req) ?P (\<lambda>_ _. True) s"
    unfolding create_def using assms(2)
    by (auto simp: wp_simps wp_charge next_id_def Let_def split: sum.splits option.splits intro!: tx paid)
  from wp_okD [OF this assms(3)] show ?thesis .
qed

definition paid_env :: sub_env where
  "paid_env = demo_env\<lparr>env_charge := ledger_charge (\<lambda>_. demo_stripe) default_ctx 0 demo_pay\<rparr>"

theorem activation_is_paid_on_the_ledger_witness:
  "\<exists>t amount doc. paid_on_ledger demo_pay (pay_from (\<lambda>_. demo_stripe) default_ctx 0 [] (calls (t :: sub_db)) demo_pay)
     ''C1'' ''PM-0001'' amount ''SGD'' ''activation'' doc"
proof -
  let ?req = "demo_request\<lparr>cr_method := ''PM-0001''\<rparr>"
  have "case create paid_env default_ctx 0 ?req empty_sub_db of (r, t) \<Rightarrow> \<not> isl r" by code_simp
  then obtain full t where run: "create paid_env default_ctx 0 ?req empty_sub_db = (Inr full, t)"
    by (cases "create paid_env default_ctx 0 ?req empty_sub_db"; cases "fst (create paid_env default_ctx 0 ?req empty_sub_db)") auto
  have env: "env_charge paid_env = ledger_charge (\<lambda>_. demo_stripe) default_ctx 0 demo_pay" by (simp add: paid_env_def)
  have fresh: "Option.bind (cr_order ?req) (get_by_commercial_order empty_sub_db) = None" by code_simp
  have "calls empty_sub_db = []" by (simp add: empty_sub_db_def)
  with activation_is_paid_on_the_ledger [OF env fresh run] show ?thesis by (auto simp: demo_request_def)
qed

end
