(* ===== verification/CrmState.thy ===== *)
theory CrmState
  imports SubRoutes TextUtil "HOL-Library.List_Lexorder" "HOL-Library.Char_ord"
begin

text \<open>
  \<open>services/crm\<close>: its tables, state machines (\<open>domain.rs\<close>), value checks (\<open>policies.rs\<close>)
  and queries (\<open>repo.rs\<close>). Ids are minted from random digits: the environment gives the
  digits of every draw, and the number of draws made is kept with the database though no
  rollback undoes it. Timestamps of creation and update are kept only where they are read.
\<close>

section \<open>State machines\<close>

type_synonym transition_table = "(string \<times> string \<times> string) list"

definition case_transitions :: transition_table where
  "case_transitions =
     [(''take'', ''open'', ''in_progress''), (''await_customer'', ''in_progress'', ''pending_customer''),
      (''resume'', ''pending_customer'', ''in_progress''), (''resolve'', ''in_progress'', ''resolved''),
      (''resolve'', ''open'', ''resolved''), (''close'', ''resolved'', ''closed''), (''cancel'', ''open'', ''closed''),
      (''cancel'', ''in_progress'', ''closed''), (''cancel'', ''pending_customer'', ''closed'')]"

definition ticket_transitions :: transition_table where
  "ticket_transitions =
     [(''ack'', ''open'', ''acknowledged''), (''start'', ''acknowledged'', ''in_progress''), (''wait'', ''in_progress'', ''pending''),
      (''resume'', ''pending'', ''in_progress''), (''resolve'', ''in_progress'', ''resolved''), (''close'', ''resolved'', ''closed''),
      (''reopen'', ''resolved'', ''in_progress''), (''cancel'', ''open'', ''cancelled''), (''cancel'', ''acknowledged'', ''cancelled''),
      (''cancel'', ''in_progress'', ''cancelled''), (''cancel'', ''pending'', ''cancelled'')]"

definition ticket_cancellable :: "string list" where
  "ticket_cancellable = [''open'', ''acknowledged'', ''in_progress'', ''pending'']"

definition esim_transitions :: transition_table where
  "esim_transitions =
     [(''reserve'', ''available'', ''reserved''), (''assign_msisdn'', ''reserved'', ''reserved''), (''download'', ''reserved'', ''downloaded''),
      (''activate'', ''downloaded'', ''activated''), (''suspend'', ''activated'', ''suspended''), (''activate'', ''suspended'', ''activated''),
      (''recycle'', ''activated'', ''recycled''), (''release'', ''reserved'', ''available'')]"

definition port_transitions :: transition_table where
  "port_transitions =
     [(''validate'', ''requested'', ''validated''), (''complete'', ''requested'', ''completed''), (''complete'', ''validated'', ''completed''),
      (''reject'', ''requested'', ''rejected''), (''reject'', ''validated'', ''rejected'')]"

definition is_valid_transition :: "transition_table \<Rightarrow> string \<Rightarrow> string \<Rightarrow> bool" where
  "is_valid_transition table from_state trigger \<longleftrightarrow> list_ex (\<lambda>(t, s, d). t = trigger \<and> s = from_state) table"

definition get_next_state :: "transition_table \<Rightarrow> string \<Rightarrow> string \<Rightarrow> string option" where
  "get_next_state table from_state trigger = map_option (\<lambda>(t, s, d). d) (find (\<lambda>(t, s, d). t = trigger \<and> s = from_state) table)"

lemma next_state_valid: "is_valid_transition table s t \<longleftrightarrow> get_next_state table s t \<noteq> None"
  by (auto simp: is_valid_transition_def get_next_state_def list_ex_iff find_None_iff)

section \<open>State\<close>

record customer_row =
  cu_id :: string
  cu_party :: string
  cu_status :: string
  cu_reason :: "string option"
  cu_since :: "int option"
  cu_kyc :: string
  cu_kyc_at :: "int option"
  cu_kyc_method :: "string option"
  cu_kyc_ref :: "string option"

record individual_row =
  iv_party :: string
  iv_given :: string
  iv_family :: string
  iv_dob :: "int option"

record medium_row =
  cm_id :: string
  cm_party :: string
  cm_type :: string
  cm_value :: string
  cm_primary :: bool
  cm_from :: "int option"
  cm_to :: "int option"

record agent_row =
  ag_id :: string
  ag_name :: string
  ag_email :: "string option"
  ag_role :: "string option"
  ag_status :: string

record interaction_row =
  ix_id :: string
  ix_customer :: string
  ix_channel :: "string option"
  ix_direction :: "string option"
  ix_summary :: string
  ix_body :: "string option"
  ix_agent :: "string option"
  ix_case :: "string option"
  ix_ticket :: "string option"
  ix_at :: int

record case_row =
  ca_id :: string
  ca_customer :: string
  ca_subject :: string
  ca_description :: "string option"
  ca_state :: string
  ca_priority :: "string option"
  ca_category :: "string option"
  ca_resolution :: "string option"
  ca_opened_by :: "string option"
  ca_opened_at :: int
  ca_closed_at :: "int option"
  ca_transcript :: "string option"

record note_row =
  nt_id :: string
  nt_case :: string
  nt_author :: "string option"
  nt_body :: string
  nt_created :: int

record ticket_row =
  tk_id :: string
  tk_case :: "string option"
  tk_customer :: string
  tk_type :: "string option"
  tk_subject :: string
  tk_description :: "string option"
  tk_state :: string
  tk_priority :: "string option"
  tk_assignee :: "string option"
  tk_notes :: "string option"
  tk_opened_at :: int
  tk_resolved_at :: "int option"
  tk_closed_at :: "int option"

record ticket_hist =
  th_ticket :: string
  th_from :: "string option"
  th_to :: string
  th_by :: "string option"
  th_reason :: string

record port_row =
  pq_id :: string
  pq_direction :: string
  pq_carrier :: string
  pq_msisdn :: string
  pq_target :: "string option"
  pq_date :: int
  pq_state :: string
  pq_reason :: "string option"
  pq_tenant :: string

record msisdn_row =
  mn_number :: string
  mn_status :: string
  mn_reserved_at :: "int option"
  mn_sub :: "string option"
  mn_until :: "int option"
  mn_for :: "string option"
  mn_tenant :: string

record open_order_row =
  oo_id :: string
  oo_owner :: string
  oo_customer :: "string option"
  oo_plan :: string
  oo_msisdn :: "string option"
  oo_iccid :: "string option"
  oo_step :: string
  oo_status :: string
  oo_until :: "int option"
  oo_tenant :: string

record esim_row =
  es_iccid :: string
  es_imsi :: string
  es_state :: string
  es_smdp :: "string option"
  es_matching :: "string option"
  es_code :: "string option"
  es_msisdn :: "string option"
  es_sub :: "string option"
  es_reserved_at :: "int option"
  es_downloaded_at :: "int option"
  es_activated_at :: "int option"
  es_tenant :: string

record identity_row =
  ci_customer :: string
  ci_type :: string
  ci_hash :: string
  ci_last4 :: string
  ci_country :: string
  ci_dob :: int
  ci_nationality :: "string option"
  ci_verified_by :: string
  ci_payload :: json
  ci_verified_at :: int
  ci_corroboration :: "string option"
  ci_tenant :: string

record corroboration_row =
  kc_id :: string
  kc_provider :: string
  kc_decision :: string
  kc_received :: int

record transcript_row =
  tr_hash :: string
  tr_customer :: string
  tr_body :: string
  tr_recorded :: int

text \<open>The calls that change another service: the loyalty registry and the subscription service.\<close>

datatype crm_call =
    RegisterLoyalty string
  | TerminateSub string json

record crm_db = "crm_call base" +
  cr_draws :: nat
  cr_customers :: "customer_row list"
  cr_individuals :: "individual_row list"
  cr_mediums :: "medium_row list"
  cr_agents :: "agent_row list"
  cr_interactions :: "interaction_row list"
  cr_cases :: "case_row list"
  cr_notes :: "note_row list"
  cr_tickets :: "ticket_row list"
  cr_ticket_hist :: "ticket_hist list"
  cr_ports :: "port_row list"
  cr_msisdns :: "msisdn_row list"
  cr_opens :: "open_order_row list"
  cr_esims :: "esim_row list"
  cr_identities :: "identity_row list"
  cr_corroborations :: "corroboration_row list"
  cr_transcripts :: "transcript_row list"

type_synonym 'a crm_prog = "(crm_db, api_error, 'a) prog"

text \<open>
  \<open>cv_hex n\<close>: the 32 hexadecimal digits of the \<open>n\<close>-th random id. \<open>cv_sha\<close> is SHA-256 in
  hexadecimal, \<open>cv_date\<close>, \<open>cv_time\<close> and \<open>cv_uuid\<close> the date and UUID parsers (\<open>None\<close>:
  refused).
\<close>

record crm_env =
  cv_hex :: "nat \<Rightarrow> string"
  cv_sub :: "string \<Rightarrow> client_error + json"
  cv_subs_of :: "string \<Rightarrow> client_error + json"
  cv_loyalty :: bool
  cv_pool_low :: int
  cv_prebaked :: bool
  cv_doc_reuse :: bool
  cv_sha :: "string \<Rightarrow> string"
  cv_date :: "string \<Rightarrow> int option"
  cv_time :: "string \<Rightarrow> int option"
  cv_uuid :: "string \<Rightarrow> string option"

text \<open>A transaction: an error undoes every row, not the calls made nor the ids drawn.\<close>

definition crm_tx :: "'a crm_prog \<Rightarrow> 'a crm_prog" where
  "crm_tx m s = (case m s of (Inl e, t) \<Rightarrow> (Inl e, (rollback s t)\<lparr>cr_draws := cr_draws t\<rparr>) | (Inr x, t) \<Rightarrow> (Inr x, t))"

lemma wp_crm_tx [wp_simps]:
  "wp (crm_tx m) Q E = (\<lambda>s. wp m Q (\<lambda>e t. E e ((rollback s t)\<lparr>cr_draws := cr_draws t\<rparr>)) s)"
  by (rule ext) (auto simp: wp_def crm_tx_def split: prod.splits sum.splits)

definition draw :: "crm_env \<Rightarrow> string crm_prog" where
  "draw env = bindp (gets cr_draws) (\<lambda>n. bindp (modify (\<lambda>s. s\<lparr>cr_draws := n + 1\<rparr>)) (\<lambda>_. ret (cv_hex env n)))"

definition next_crm_id :: "crm_env \<Rightarrow> string \<Rightarrow> string crm_prog" where
  "next_crm_id env prefix = bindp (draw env) (\<lambda>hex. ret (prefix @ ''-'' @ take 8 hex))"

definition next_port_id :: "crm_env \<Rightarrow> string crm_prog" where
  "next_port_id env = bindp (draw env) (\<lambda>hex. ret (''PORT-'' @ to_uppercase (take 8 hex)))"

end
