(* ===== verification/Inventory.thy ===== *)
theory Inventory
  imports CrmState
begin

text \<open>
  The number pool of \<open>services/crm\<close> (\<open>service.rs\<close>, \<open>repo.rs\<close>, \<open>policies.rs\<close>): hard
  reserves, soft holds, ranges and counts; and its eSIM profiles. \<open>LIKE prefix%\<close> is a test
  of the prefix, for prefixes without wildcards. Hold windows are taken to stay within the
  range of \<open>chrono\<close> dates.
\<close>

section \<open>Queries\<close>

definition get_msisdn :: "crm_db \<Rightarrow> string \<Rightarrow> msisdn_row option" where
  "get_msisdn s m = tbl_find mn_number m (cr_msisdns s)"

definition list_msisdns :: "crm_db \<Rightarrow> string option \<Rightarrow> string option \<Rightarrow> nat \<Rightarrow> nat \<Rightarrow> msisdn_row list" where
  "list_msisdns s status prefix limit offset =
     take limit (drop offset (sort_key mn_number (filter (\<lambda>r.
       (case status of None \<Rightarrow> True | Some x \<Rightarrow> mn_status r = x) \<and>
       (case prefix of None \<Rightarrow> True | Some p \<Rightarrow> starts_with (mn_number r) p)) (cr_msisdns s))))"

definition get_esim :: "crm_db \<Rightarrow> string \<Rightarrow> esim_row option" where
  "get_esim s iccid = tbl_find es_iccid iccid (cr_esims s)"

definition list_esims :: "crm_db \<Rightarrow> string option \<Rightarrow> nat \<Rightarrow> nat \<Rightarrow> esim_row list" where
  "list_esims s status limit offset =
     take limit (drop offset (sort_key es_iccid (filter (\<lambda>r. case status of None \<Rightarrow> True | Some x \<Rightarrow> es_state r = x) (cr_esims s))))"

text \<open>\<open>UPDATE inventory.msisdn_pool SET .. WHERE cond\<close>.\<close>

definition update_msisdns :: "(msisdn_row \<Rightarrow> bool) \<Rightarrow> (msisdn_row \<Rightarrow> msisdn_row) \<Rightarrow> unit crm_prog" where
  "update_msisdns cond f = modify (\<lambda>s. s\<lparr>cr_msisdns := map (\<lambda>r. if cond r then f r else r) (cr_msisdns s)\<rparr>)"

definition vanished :: "'a option \<Rightarrow> 'a crm_prog" where
  "vanished r = (case r of None \<Rightarrow> throw (InternalE ''vanished'') | Some x \<Rightarrow> ret x)"

section \<open>Hard reserves\<close>

definition maybe_emit_pool_low :: "crm_env \<Rightarrow> int \<Rightarrow> string \<Rightarrow> unit crm_prog" where
  "maybe_emit_pool_low env now tenant =
     bindp (gets (\<lambda>s. int (length (filter (\<lambda>r. mn_status r = ''available'' \<and> mn_tenant r = tenant) (cr_msisdns s))))) (\<lambda>available.
     if available \<le> cv_pool_low env
     then stage default_ctx now ''inventory.msisdn.pool_low'' ''msisdn_pool'' ''DEFAULT''
            (JObj [(''available'', JInt available), (''threshold'', JInt (cv_pool_low env))])
     else ret ())"

definition reserve_msisdn :: "crm_env \<Rightarrow> request_ctx \<Rightarrow> int \<Rightarrow> string \<Rightarrow> msisdn_row crm_prog" where
  "reserve_msisdn env ctx now m =
     bindp (crm_tx (
       bindp (gets (\<lambda>s. find (\<lambda>r. mn_number r = m \<and> mn_status r = ''available'' \<and> mn_tenant r = rc_tenant ctx) (cr_msisdns s))) (\<lambda>picked.
       case picked of None \<Rightarrow> throw (violate ''msisdn.reserve.status_must_be_available'' [(''msisdn'', JStr m)])
       | Some _ \<Rightarrow> update_msisdns (\<lambda>r. mn_number r = m) (\<lambda>r. r\<lparr>mn_status := ''reserved'', mn_reserved_at := Some now\<rparr>)))) (\<lambda>_.
     bindp (maybe_emit_pool_low env now (rc_tenant ctx)) (\<lambda>_.
     bindp (gets (\<lambda>s. get_msisdn s m)) vanished))"

definition pick_next :: "crm_db \<Rightarrow> string \<Rightarrow> string option \<Rightarrow> string option" where
  "pick_next s tenant preference = (case preference of
      Some p \<Rightarrow> map_option mn_number (find (\<lambda>r. mn_number r = p \<and> mn_tenant r = tenant \<and>
        (mn_status r = ''available'' \<or> (mn_status r = ''reserved'' \<and> mn_until r \<noteq> None))) (cr_msisdns s))
    | None \<Rightarrow> (case sort_key mn_number (filter (\<lambda>r. mn_status r = ''available'' \<and> mn_tenant r = tenant) (cr_msisdns s)) of
        [] \<Rightarrow> None | r # _ \<Rightarrow> Some (mn_number r)))"

definition reserve_next_msisdn :: "crm_env \<Rightarrow> request_ctx \<Rightarrow> int \<Rightarrow> string option \<Rightarrow> msisdn_row crm_prog" where
  "reserve_next_msisdn env ctx now preference =
     bindp (crm_tx (
       bindp (gets (\<lambda>s. pick_next s (rc_tenant ctx) preference)) (\<lambda>picked.
       case picked of None \<Rightarrow> throw (violate ''msisdn.reserve.no_available'' [(''preference'', opt_json JStr preference)])
       | Some m \<Rightarrow>
           bindp (update_msisdns (\<lambda>r. mn_number r = m)
             (\<lambda>r. r\<lparr>mn_status := ''reserved'', mn_reserved_at := Some now, mn_until := None, mn_for := None\<rparr>)) (\<lambda>_. ret m)))) (\<lambda>m.
     bindp (maybe_emit_pool_low env now (rc_tenant ctx)) (\<lambda>_.
     bindp (gets (\<lambda>s. get_msisdn s m)) vanished))"

definition assign_msisdn :: "string \<Rightarrow> msisdn_row crm_prog" where
  "assign_msisdn m =
     bindp (crm_tx (
       bindp (gets (\<lambda>s. get_msisdn s m)) (\<lambda>found.
       case found of None \<Rightarrow> throw (violate ''msisdn.assign.not_found'' [(''msisdn'', JStr m)])
       | Some r \<Rightarrow>
           if mn_status r \<noteq> ''reserved'' \<and> mn_status r \<noteq> ''assigned''
           then throw (violate ''msisdn.assign.must_be_reserved'' [(''msisdn'', JStr m), (''status'', JStr (mn_status r))])
           else update_msisdns (\<lambda>r. mn_number r = m) (\<lambda>r. r\<lparr>mn_status := ''assigned''\<rparr>)))) (\<lambda>_.
     bindp (gets (\<lambda>s. get_msisdn s m)) vanished)"

definition check_msisdn_releasable :: "string \<Rightarrow> string \<Rightarrow> api_error + unit" where
  "check_msisdn_releasable status m =
     (if status = ''ported_out'' then Inl (violate ''msisdn.release.terminal_status'' [(''msisdn'', JStr m), (''status'', JStr status)])
      else if status \<noteq> ''reserved'' \<and> status \<noteq> ''assigned''
      then Inl (violate ''msisdn.release.only_if_reserved_or_assigned'' [(''msisdn'', JStr m), (''status'', JStr status)])
      else Inr ())"

definition release_msisdn :: "string \<Rightarrow> msisdn_row crm_prog" where
  "release_msisdn m =
     bindp (crm_tx (
       bindp (gets (\<lambda>s. get_msisdn s m)) (\<lambda>found.
       case found of None \<Rightarrow> throw (violate ''msisdn.release.not_found'' [(''msisdn'', JStr m)])
       | Some r \<Rightarrow>
           bindp (of_result (check_msisdn_releasable (mn_status r) m)) (\<lambda>_.
           update_msisdns (\<lambda>r. mn_number r = m) (\<lambda>r. r\<lparr>mn_status := ''available'', mn_reserved_at := None, mn_sub := None\<rparr>))))) (\<lambda>_.
     bindp (gets (\<lambda>s. get_msisdn s m)) vanished)"

section \<open>Soft holds\<close>

definition holdable :: "string \<Rightarrow> string \<Rightarrow> int \<Rightarrow> string \<Rightarrow> msisdn_row \<Rightarrow> bool" where
  "holdable m owner now tenant r \<longleftrightarrow> mn_number r = m \<and> mn_tenant r = tenant \<and>
     (mn_status r = ''available'' \<or> mn_for r = Some owner \<or>
      (mn_status r = ''reserved'' \<and> (case mn_until r of None \<Rightarrow> False | Some u \<Rightarrow> u < now)))"

definition take_hold :: "string \<Rightarrow> string \<Rightarrow> int \<Rightarrow> int \<Rightarrow> string \<Rightarrow> bool crm_prog" where
  "take_hold m owner until now tenant =
     bindp (gets (\<lambda>s. list_ex (holdable m owner now tenant) (cr_msisdns s))) (\<lambda>any.
     bindp (update_msisdns (holdable m owner now tenant)
       (\<lambda>r. r\<lparr>mn_status := ''reserved'', mn_reserved_at := Some now, mn_until := Some until, mn_for := Some owner\<rparr>)) (\<lambda>_.
     ret any))"

definition held_by :: "string \<Rightarrow> msisdn_row \<Rightarrow> bool" where
  "held_by owner r \<longleftrightarrow> mn_for r = Some owner \<and> mn_status r = ''reserved'' \<and> mn_until r \<noteq> None"

definition release_holds_for :: "string \<Rightarrow> string list crm_prog" where
  "release_holds_for owner =
     bindp (gets (\<lambda>s. map mn_number (filter (held_by owner) (cr_msisdns s)))) (\<lambda>released.
     bindp (update_msisdns (held_by owner)
       (\<lambda>r. r\<lparr>mn_status := ''available'', mn_reserved_at := None, mn_until := None, mn_for := None\<rparr>)) (\<lambda>_.
     ret released))"

definition stage_released :: "request_ctx \<Rightarrow> int \<Rightarrow> string \<Rightarrow> string list \<Rightarrow> unit crm_prog" where
  "stage_released ctx now owner released = for_each released (\<lambda>m.
     stage ctx now ''inventory.msisdn.released'' ''msisdn'' m (JObj [(''msisdn'', JStr m), (''reserved_for'', JStr owner)]))"

definition seconds :: "int \<Rightarrow> int" where
  "seconds n = n * 1000000"

definition hold_msisdn :: "request_ctx \<Rightarrow> int \<Rightarrow> string \<Rightarrow> string \<Rightarrow> int \<Rightarrow> msisdn_row crm_prog" where
  "hold_msisdn ctx now m owner ttl_secs =
     (let until = now + seconds ttl_secs in
      bindp (crm_tx (
        bindp (take_hold m owner until now (rc_tenant ctx)) (\<lambda>held.
        if \<not> held then throw (violate ''msisdn.hold.unavailable'' [(''msisdn'', JStr m)])
        else stage ctx now ''inventory.msisdn.reserved'' ''msisdn'' m
               (JObj [(''msisdn'', JStr m), (''reserved_for'', JStr owner), (''reserved_until'', JTime until)])))) (\<lambda>_.
      bindp (gets (\<lambda>s. get_msisdn s m)) vanished))"

definition release_msisdn_hold :: "request_ctx \<Rightarrow> int \<Rightarrow> string \<Rightarrow> json crm_prog" where
  "release_msisdn_hold ctx now owner =
     crm_tx (
       bindp (release_holds_for owner) (\<lambda>released.
       bindp (stage_released ctx now owner released) (\<lambda>_.
       ret (JObj [(''reserved_for'', JStr owner), (''released'', JArr (map JStr released))]))))"

section \<open>Ranges and counts\<close>

definition check_sane_prefix :: "string \<Rightarrow> int \<Rightarrow> api_error + unit" where
  "check_sane_prefix prefix n =
     (if list_ex (\<lambda>c. digit_val c = None) prefix \<or> prefix = []
      then Inl (violate ''msisdn.add_range.sane_prefix'' [(''prefix'', JStr prefix)])
      else if \<not> (4 \<le> length prefix \<and> length prefix \<le> 7)
      then Inl (violate ''msisdn.add_range.sane_prefix'' [(''prefix'', JStr prefix), (''length'', JInt (int (length prefix)))])
      else if \<not> (1 \<le> n \<and> n \<le> 10000)
      then Inl (violate ''msisdn.add_range.sane_prefix'' [(''count'', JInt n)])
      else Inr ())"

definition fresh_number :: "string \<Rightarrow> string \<Rightarrow> msisdn_row" where
  "fresh_number tenant m = \<lparr>mn_number = m, mn_status = ''available'', mn_reserved_at = None, mn_sub = None, mn_until = None,
     mn_for = None, mn_tenant = tenant\<rparr>"

text \<open>\<open>INSERT .. ON CONFLICT (msisdn) DO NOTHING\<close>, with the number of rows inserted.\<close>

definition insert_number :: "string \<Rightarrow> string \<Rightarrow> msisdn_row list \<Rightarrow> msisdn_row list" where
  "insert_number tenant m rows = (if tbl_find mn_number m rows = None then rows @ [fresh_number tenant m] else rows)"

definition range_rows :: "string \<Rightarrow> string \<Rightarrow> nat \<Rightarrow> msisdn_row list \<Rightarrow> msisdn_row list" where
  "range_rows tenant prefix n rows = fold (\<lambda>i. insert_number tenant (prefix @ pad4 i)) [0..<n] rows"

definition add_msisdn_range :: "request_ctx \<Rightarrow> int \<Rightarrow> string \<Rightarrow> int \<Rightarrow> json crm_prog" where
  "add_msisdn_range ctx now prefix n =
     bindp (of_result (check_sane_prefix prefix n)) (\<lambda>_.
     crm_tx (
       bindp (gets (\<lambda>s. length (cr_msisdns s))) (\<lambda>before.
       bindp (modify (\<lambda>s. s\<lparr>cr_msisdns := range_rows (rc_tenant ctx) prefix (nat n) (cr_msisdns s)\<rparr>)) (\<lambda>_.
       bindp (gets (\<lambda>s. int (length (cr_msisdns s)) - int before)) (\<lambda>inserted.
       let report = JObj [(''prefix'', JStr prefix), (''count'', JInt n), (''inserted'', JInt inserted),
             (''skipped'', JInt (n - inserted)), (''first'', JStr (prefix @ pad4 0)), (''last'', JStr (prefix @ pad4 (nat (n - 1))))] in
       bindp (stage ctx now ''inventory.msisdn.range_added'' ''msisdn_pool'' prefix report) (\<lambda>_.
       ret report))))))"

definition count_status :: "string \<Rightarrow> msisdn_row list \<Rightarrow> int" where
  "count_status status rows = int (length (filter (\<lambda>r. mn_status r = status) rows))"

definition count_msisdns :: "request_ctx \<Rightarrow> string option \<Rightarrow> crm_db \<Rightarrow> json" where
  "count_msisdns ctx prefix s =
     (let rows = filter (\<lambda>r. mn_tenant r = rc_tenant ctx \<and>
            (case prefix of None \<Rightarrow> True | Some p \<Rightarrow> starts_with (mn_number r) p)) (cr_msisdns s)
      in JObj [(''available'', JInt (count_status ''available'' rows)), (''reserved'', JInt (count_status ''reserved'' rows)),
           (''assigned'', JInt (count_status ''assigned'' rows)), (''ported_out'', JInt (count_status ''ported_out'' rows)),
           (''total'', JInt (int (length rows))), (''prefix'', opt_json JStr prefix)])"

section \<open>eSIM profiles\<close>

definition update_esim :: "string \<Rightarrow> (esim_row \<Rightarrow> esim_row) \<Rightarrow> unit crm_prog" where
  "update_esim iccid f = modify (\<lambda>s. s\<lparr>cr_esims := tbl_update es_iccid iccid f (cr_esims s)\<rparr>)"

definition reserve_esim :: "request_ctx \<Rightarrow> int \<Rightarrow> esim_row crm_prog" where
  "reserve_esim ctx now =
     bindp (crm_tx (
       bindp (gets (\<lambda>s. sort_key es_iccid (filter (\<lambda>r. es_state r = ''available'' \<and> es_tenant r = rc_tenant ctx) (cr_esims s)))) (\<lambda>free.
       case free of [] \<Rightarrow> throw (violate ''esim.reserve.status_must_be_available'' [])
       | r # _ \<Rightarrow> bindp (update_esim (es_iccid r) (\<lambda>r. r\<lparr>es_state := ''reserved'', es_reserved_at := Some now\<rparr>)) (\<lambda>_. ret (es_iccid r))))) (\<lambda>iccid.
     bindp (gets (\<lambda>s. get_esim s iccid)) vanished)"

definition find_esim :: "string \<Rightarrow> esim_row crm_prog" where
  "find_esim iccid = bindp (gets (\<lambda>s. get_esim s iccid)) (\<lambda>r. case r of
     None \<Rightarrow> throw (violate ''esim.not_found'' [(''iccid'', JStr iccid)]) | Some e \<Rightarrow> ret e)"

definition check_msisdn_reserved_for_assign :: "string \<Rightarrow> string \<Rightarrow> api_error + unit" where
  "check_msisdn_reserved_for_assign status m =
     (if status \<noteq> ''reserved'' \<and> status \<noteq> ''assigned''
      then Inl (violate ''esim.assign_msisdn.msisdn_must_be_reserved'' [(''msisdn'', JStr m), (''status'', JStr status)])
      else Inr ())"

definition assign_msisdn_to_esim :: "string \<Rightarrow> string \<Rightarrow> esim_row crm_prog" where
  "assign_msisdn_to_esim iccid m =
     bindp (crm_tx (
       bindp (find_esim iccid) (\<lambda>e.
       if es_state e \<noteq> ''reserved''
       then throw (violate ''esim.assign_msisdn.esim_must_be_reserved'' [(''iccid'', JStr iccid), (''state'', JStr (es_state e))])
       else
         bindp (gets (\<lambda>s. get_msisdn s m)) (\<lambda>found.
         case found of None \<Rightarrow> throw (violate ''esim.assign_msisdn.msisdn_not_found'' [(''msisdn'', JStr m)])
         | Some r \<Rightarrow>
             bindp (of_result (check_msisdn_reserved_for_assign (mn_status r) m)) (\<lambda>_.
             update_esim iccid (\<lambda>r. r\<lparr>es_state := ''reserved'', es_msisdn := Some m\<rparr>)))))) (\<lambda>_.
     bindp (gets (\<lambda>s. get_esim s iccid)) vanished)"

definition esim_side_effects :: "int \<Rightarrow> string \<Rightarrow> esim_row \<Rightarrow> esim_row" where
  "esim_side_effects now new_state r =
     (if new_state = ''downloaded'' then r\<lparr>es_state := new_state, es_downloaded_at := Some now\<rparr>
      else if new_state = ''activated'' then r\<lparr>es_state := new_state, es_activated_at := Some now\<rparr>
      else if new_state = ''available'' then r\<lparr>es_state := new_state, es_reserved_at := None, es_msisdn := None, es_sub := None\<rparr>
      else r\<lparr>es_state := new_state\<rparr>)"

definition transition_esim :: "int \<Rightarrow> string \<Rightarrow> string \<Rightarrow> esim_row crm_prog" where
  "transition_esim now iccid trigger =
     bindp (crm_tx (
       bindp (find_esim iccid) (\<lambda>e.
       if \<not> is_valid_transition esim_transitions (es_state e) trigger
       then throw (violate ''esim.transition.invalid''
              [(''iccid'', JStr iccid), (''state'', JStr (es_state e)), (''trigger'', JStr trigger)])
       else case get_next_state esim_transitions (es_state e) trigger of
           None \<Rightarrow> throw (InternalE ''esim transition produced no state'')
         | Some new_state \<Rightarrow> update_esim iccid (esim_side_effects now new_state)))) (\<lambda>_.
     bindp (gets (\<lambda>s. get_esim s iccid)) vanished)"

definition get_activation_code :: "string \<Rightarrow> esim_row crm_prog" where
  "get_activation_code iccid = find_esim iccid"

end
