(* ===== verification/OpenOrders.thy ===== *)
theory OpenOrders
  imports Inventory
begin

text \<open>
  The open orders of \<open>services/crm\<close>: the record of a signup funnel, keyed by its owner's
  verified email, that owns a soft hold on a number (\<open>service.rs\<close>, \<open>repo.rs\<close>), and the
  sweep that expires them (\<open>worker.rs\<close>). The routes over the inventory (\<open>routes.rs\<close>,
  \<open>schemas.rs\<close>) are at the end.
\<close>

section \<open>Queries\<close>

definition get_open_order_row :: "crm_db \<Rightarrow> string \<Rightarrow> open_order_row option" where
  "get_open_order_row s oid = tbl_find oo_id oid (cr_opens s)"

definition get_open_order_by_identity :: "crm_db \<Rightarrow> string \<Rightarrow> string \<Rightarrow> open_order_row option" where
  "get_open_order_by_identity s identity tenant =
     find (\<lambda>r. oo_owner r = identity \<and> oo_status r = ''open'' \<and> oo_tenant r = tenant) (cr_opens s)"

text \<open>
  The partial unique index allows one open row per owner, whatever the tenant: an insert that
  would break it is skipped, an update that would break it fails.
\<close>

definition insert_open_order :: "string \<Rightarrow> string \<Rightarrow> string \<Rightarrow> string \<Rightarrow> int \<Rightarrow> string \<Rightarrow> bool crm_prog" where
  "insert_open_order oid identity plan_code m until tenant =
     bindp (gets cr_opens) (\<lambda>rows.
     if list_ex (\<lambda>r. oo_owner r = identity \<and> oo_status r = ''open'') rows then ret False
     else if tbl_find oo_id oid rows \<noteq> None then throw (InternalE ''open_order_pkey'')
     else
       bindp (modify (\<lambda>s. s\<lparr>cr_opens := cr_opens s @ [\<lparr>oo_id = oid, oo_owner = identity, oo_customer = None, oo_plan = plan_code,
         oo_msisdn = Some m, oo_iccid = None, oo_step = ''pending_customer'', oo_status = ''open'', oo_until = Some until,
         oo_tenant = tenant\<rparr>]\<rparr>)) (\<lambda>_. ret True))"

definition lock_expired_open_orders :: "crm_db \<Rightarrow> int \<Rightarrow> nat \<Rightarrow> string \<Rightarrow> string list" where
  "lock_expired_open_orders s now limit tenant =
     map oo_id (take limit (sort_key (\<lambda>r. the (oo_until r)) (filter (\<lambda>r. oo_status r = ''open'' \<and> oo_tenant r = tenant \<and>
       (case oo_until r of None \<Rightarrow> False | Some u \<Rightarrow> u \<le> now)) (cr_opens s))))"

definition one_open_per_owner :: "open_order_row list \<Rightarrow> bool" where
  "one_open_per_owner rows \<longleftrightarrow> distinct (map oo_owner (filter (\<lambda>r. oo_status r = ''open'') rows))"

definition update_open_order :: "string \<Rightarrow> (open_order_row \<Rightarrow> open_order_row) \<Rightarrow> unit crm_prog" where
  "update_open_order oid f =
     bindp (gets (\<lambda>s. tbl_update oo_id oid f (cr_opens s))) (\<lambda>rows.
     if \<not> one_open_per_owner rows then throw (InternalE ''uq_open_order_owner_open'')
     else modify (\<lambda>s. s\<lparr>cr_opens := rows\<rparr>))"

definition set_customer :: "string \<Rightarrow> string \<Rightarrow> unit crm_prog" where
  "set_customer oid customer_id = update_open_order oid (\<lambda>r. r\<lparr>oo_customer := Some customer_id\<rparr>)"

definition set_open_order_state :: "string \<Rightarrow> string option \<Rightarrow> string option \<Rightarrow> int option \<Rightarrow> unit crm_prog" where
  "set_open_order_state oid step status until = update_open_order oid
     (\<lambda>r. r\<lparr>oo_step := unwrap_or (oo_step r) step, oo_status := unwrap_or (oo_status r) status,
            oo_until := (case until of None \<Rightarrow> oo_until r | Some u \<Rightarrow> Some u)\<rparr>)"

section \<open>Operations\<close>

definition open_order_fields :: "open_order_row \<Rightarrow> (string \<times> json) list" where
  "open_order_fields r =
     [(''id'', JStr (oo_id r)), (''owner_identity'', JStr (oo_owner r)), (''customer_id'', opt_json JStr (oo_customer r)),
      (''plan_code'', JStr (oo_plan r)), (''msisdn'', opt_json JStr (oo_msisdn r)), (''iccid'', opt_json JStr (oo_iccid r)),
      (''step'', JStr (oo_step r)), (''status'', JStr (oo_status r)), (''reserved_until'', opt_json JTime (oo_until r))]"

definition open_order_json :: "open_order_row \<Rightarrow> json" where
  "open_order_json r = JObj (open_order_fields r)"

definition open_order_reply :: "bool \<Rightarrow> string \<Rightarrow> json crm_prog" where
  "open_order_reply resumed oid =
     bindp (bindp (gets (\<lambda>s. get_open_order_row s oid)) vanished) (\<lambda>r.
     ret (jinsert ''resumed'' (JBool resumed) (open_order_json r)))"

definition resume_open_order :: "request_ctx \<Rightarrow> int \<Rightarrow> open_order_row \<Rightarrow> string \<Rightarrow> int \<Rightarrow> unit crm_prog" where
  "resume_open_order ctx now existing m until =
     (if oo_msisdn existing \<noteq> Some m
      then throw (violate ''open_order.already_open''
             [(''open_order_id'', JStr (oo_id existing)), (''msisdn'', opt_json JStr (oo_msisdn existing))])
      else
        bindp (take_hold m (oo_id existing) until now (rc_tenant ctx)) (\<lambda>_.
        set_open_order_state (oo_id existing) None None (Some until)))"

definition start_open_order :: "request_ctx \<Rightarrow> int \<Rightarrow> string \<Rightarrow> string \<Rightarrow> string \<Rightarrow> string \<Rightarrow> int \<Rightarrow> bool crm_prog" where
  "start_open_order ctx now oid identity plan_code m until =
     bindp (insert_open_order oid identity plan_code m until (rc_tenant ctx)) (\<lambda>inserted.
     if \<not> inserted then ret False
     else
       bindp (take_hold m oid until now (rc_tenant ctx)) (\<lambda>held.
       if \<not> held then throw (violate ''inventory.msisdn.unavailable'' [(''msisdn'', JStr m)])
       else
         bindp (stage ctx now ''open_order.opened'' ''open_order'' oid
           (JObj [(''open_order_id'', JStr oid), (''owner_identity'', JStr identity), (''msisdn'', JStr m), (''plan_code'', JStr plan_code)])) (\<lambda>_.
         ret True)))"

text \<open>One round of \<open>create_or_resume_open_order\<close>; \<open>None\<close>: the insert was refused, and the function calls itself.\<close>

definition try_open_order :: "crm_env \<Rightarrow> request_ctx \<Rightarrow> int \<Rightarrow> string \<Rightarrow> string \<Rightarrow> string \<Rightarrow> int \<Rightarrow> json option crm_prog" where
  "try_open_order env ctx now identity plan_code m ttl_secs =
     (let until = now + seconds ttl_secs in
      bindp (gets (\<lambda>s. get_open_order_by_identity s identity (rc_tenant ctx))) (\<lambda>found.
      case found of
        Some existing \<Rightarrow>
          bindp (crm_tx (resume_open_order ctx now existing m until)) (\<lambda>_.
          bindp (open_order_reply True (oo_id existing)) (\<lambda>out. ret (Some out)))
      | None \<Rightarrow>
          bindp (draw env) (\<lambda>hex.
          let oid = ''OO-'' @ hex in
          bindp (crm_tx (start_open_order ctx now oid identity plan_code m until)) (\<lambda>inserted.
          if \<not> inserted then ret None
          else bindp (open_order_reply False oid) (\<lambda>out. ret (Some out))))))"

partial_function (option) create_or_resume_open_order ::
    "crm_env \<Rightarrow> request_ctx \<Rightarrow> int \<Rightarrow> string \<Rightarrow> string \<Rightarrow> string \<Rightarrow> int \<Rightarrow> crm_db \<Rightarrow> ((api_error + json) \<times> crm_db) option" where
  "create_or_resume_open_order env ctx now identity plan_code m ttl_secs s =
     (case try_open_order env ctx now identity plan_code m ttl_secs s of
        (Inl e, t) \<Rightarrow> Some (Inl e, t)
      | (Inr (Some out), t) \<Rightarrow> Some (Inr out, t)
      | (Inr None, t) \<Rightarrow> create_or_resume_open_order env ctx now identity plan_code m ttl_secs t)"

definition link_open_order_customer :: "string \<Rightarrow> string \<Rightarrow> json crm_prog" where
  "link_open_order_customer oid customer_id =
     crm_tx (bindp (set_customer oid customer_id) (\<lambda>_.
       ret (JObj [(''open_order_id'', JStr oid), (''customer_id'', JStr customer_id)])))"

definition advance_open_order_step :: "string \<Rightarrow> string \<Rightarrow> json crm_prog" where
  "advance_open_order_step oid step =
     crm_tx (bindp (set_open_order_state oid (Some step) None None) (\<lambda>_.
       ret (JObj [(''open_order_id'', JStr oid), (''step'', JStr step)])))"

definition complete_open_order :: "request_ctx \<Rightarrow> int \<Rightarrow> string \<Rightarrow> json crm_prog" where
  "complete_open_order ctx now oid =
     crm_tx (
       bindp (set_open_order_state oid (Some ''completed'') (Some ''completed'') None) (\<lambda>_.
       bindp (stage ctx now ''open_order.completed'' ''open_order'' oid (JObj [(''open_order_id'', JStr oid)])) (\<lambda>_.
       ret (JObj [(''open_order_id'', JStr oid), (''status'', JStr ''completed'')]))))"

text \<open>The shared body of a cancel and of one step of the sweep.\<close>

definition end_open_order :: "request_ctx \<Rightarrow> int \<Rightarrow> string \<Rightarrow> string \<Rightarrow> string list crm_prog" where
  "end_open_order ctx now oid terminal_status =
     bindp (release_holds_for oid) (\<lambda>released.
     bindp (stage_released ctx now oid released) (\<lambda>_.
     bindp (set_open_order_state oid None (Some terminal_status) None) (\<lambda>_.
     bindp (stage ctx now (''open_order.'' @ terminal_status) ''open_order'' oid
       (JObj [(''open_order_id'', JStr oid), (''released'', JArr (map JStr released))])) (\<lambda>_.
     ret released))))"

definition cancel_open_order :: "request_ctx \<Rightarrow> int \<Rightarrow> string \<Rightarrow> string \<Rightarrow> json crm_prog" where
  "cancel_open_order ctx now oid terminal_status =
     crm_tx (bindp (end_open_order ctx now oid terminal_status) (\<lambda>released.
       ret (JObj [(''open_order_id'', JStr oid), (''status'', JStr terminal_status), (''released'', JArr (map JStr released))])))"

definition get_open_order :: "crm_db \<Rightarrow> string \<Rightarrow> json option" where
  "get_open_order s oid = map_option open_order_json (get_open_order_row s oid)"

definition get_open_order_for_identity :: "request_ctx \<Rightarrow> string \<Rightarrow> crm_db \<Rightarrow> json option" where
  "get_open_order_for_identity ctx identity s = map_option open_order_json (get_open_order_by_identity s identity (rc_tenant ctx))"

section \<open>The sweep\<close>

definition sweep_ctx :: request_ctx where
  "sweep_ctx = default_ctx\<lparr>rc_actor := ''system:open_order_sweep'', rc_channel := ''system''\<rparr>"

definition sweep_expired :: "string \<Rightarrow> int \<Rightarrow> unit crm_prog" where
  "sweep_expired tenant now =
     crm_tx (
       bindp (gets (\<lambda>s. lock_expired_open_orders s now 100 tenant)) (\<lambda>ids.
       for_each ids (\<lambda>oid. bindp (end_open_order sweep_ctx now oid ''expired'') (\<lambda>_. ret ()))))"

definition sweep_tick :: "string \<Rightarrow> int \<Rightarrow> unit crm_prog" where
  "sweep_tick tenant now = ignore_err (sweep_expired tenant now)"

end
