(* ===== verification/PoolSpec.thy ===== *)
theory PoolSpec
  imports OpenOrders
begin

text \<open>
  The abstract specification of the number pool: a number is free, softly held by an owner
  until an instant, hard reserved, in use, or gone; and the relation \<open>books\<close> that says what
  each operation of the pool may do. The model refines it: an operation succeeds exactly when
  the specification allows it, and then does what the specification says.
\<close>

section \<open>The specification\<close>

datatype slot = Free | Soft string int | Hard | Used | Gone

definition slot_of :: "msisdn_row \<Rightarrow> slot" where
  "slot_of r =
     (if mn_status r = ''available'' then Free
      else if mn_status r = ''assigned'' then Used
      else if mn_status r = ''reserved'' then
        (case (mn_for r, mn_until r) of (Some owner, Some until) \<Rightarrow> Soft owner until | _ \<Rightarrow> Hard)
      else Gone)"

type_synonym pool = "string \<Rightarrow> (string \<times> slot) option"

definition pool_of :: "msisdn_row list \<Rightarrow> pool" where
  "pool_of rows m = map_option (\<lambda>r. (mn_tenant r, slot_of r)) (tbl_find mn_number m rows)"

datatype pool_op =
    Reserve request_ctx int string
  | ReserveNext request_ctx int "string option"
  | Assign string
  | Release string
  | Hold request_ctx int string string int
  | ReleaseHold request_ctx int string
  | AddRange request_ctx int string int

definition can_hold :: "string \<Rightarrow> int \<Rightarrow> slot \<Rightarrow> bool" where
  "can_hold owner now x \<longleftrightarrow> (case x of Free \<Rightarrow> True | Soft owner' until \<Rightarrow> owner' = owner \<or> until < now | _ \<Rightarrow> False)"

definition is_soft :: "slot \<Rightarrow> bool" where
  "is_soft x \<longleftrightarrow> (case x of Soft _ _ \<Rightarrow> True | _ \<Rightarrow> False)"

definition freed :: "string \<Rightarrow> pool \<Rightarrow> pool" where
  "freed owner p m = (case p m of Some (tenant, Soft owner' until) \<Rightarrow> Some (tenant, if owner' = owner then Free else Soft owner' until) | x \<Rightarrow> x)"

definition extended :: "string \<Rightarrow> string \<Rightarrow> nat \<Rightarrow> pool \<Rightarrow> pool" where
  "extended tenant prefix n p m = (case p m of
      None \<Rightarrow> if \<exists>i<n. m = prefix @ pad4 i then Some (tenant, Free) else None
    | Some x \<Rightarrow> Some x)"

inductive books :: "pool_op \<Rightarrow> pool \<Rightarrow> pool \<Rightarrow> bool" where
  reserve: "p m = Some (rc_tenant ctx, Free) \<Longrightarrow> books (Reserve ctx now m) p (p(m \<mapsto> (rc_tenant ctx, Hard)))"
| preferred: "p m = Some (rc_tenant ctx, x) \<Longrightarrow> x = Free \<or> is_soft x \<Longrightarrow>
    books (ReserveNext ctx now (Some m)) p (p(m \<mapsto> (rc_tenant ctx, Hard)))"
| least: "p m = Some (rc_tenant ctx, Free) \<Longrightarrow> (\<And>m'. p m' = Some (rc_tenant ctx, Free) \<Longrightarrow> m \<le> m') \<Longrightarrow>
    books (ReserveNext ctx now None) p (p(m \<mapsto> (rc_tenant ctx, Hard)))"
| assign: "p m = Some (tenant, x) \<Longrightarrow> x = Hard \<or> x = Used \<or> is_soft x \<Longrightarrow> books (Assign m) p (p(m \<mapsto> (tenant, Used)))"
| release: "p m = Some (tenant, x) \<Longrightarrow> x = Hard \<or> x = Used \<or> is_soft x \<Longrightarrow> books (Release m) p (p(m \<mapsto> (tenant, Free)))"
| hold: "p m = Some (rc_tenant ctx, x) \<Longrightarrow> can_hold owner now x \<Longrightarrow>
    books (Hold ctx now m owner ttl) p (p(m \<mapsto> (rc_tenant ctx, Soft owner (now + seconds ttl))))"
| release_hold: "books (ReleaseHold ctx now owner) p (freed owner p)"
| add_range: "check_sane_prefix prefix n = Inr () \<Longrightarrow> books (AddRange ctx now prefix n) p (extended (rc_tenant ctx) prefix (nat n) p)"

inductive_simps books_simps:
  "books (Reserve ctx now m) p q" "books (ReserveNext ctx now (Some m)) p q" "books (ReserveNext ctx now None) p q"
  "books (Assign m) p q" "books (Release m) p q" "books (Hold ctx now m owner ttl) p q"
  "books (ReleaseHold ctx now owner) p q" "books (AddRange ctx now prefix n) p q"

section \<open>Running the model\<close>

definition succeeded :: "('e + 'a) \<times> crm_db \<Rightarrow> bool \<times> crm_db" where
  "succeeded r = (\<not> isl (fst r), snd r)"

fun pool_step :: "crm_env \<Rightarrow> pool_op \<Rightarrow> crm_db \<Rightarrow> bool \<times> crm_db" where
  "pool_step env (Reserve ctx now m) s = succeeded (reserve_msisdn env ctx now m s)"
| "pool_step env (ReserveNext ctx now pref) s = succeeded (reserve_next_msisdn env ctx now pref s)"
| "pool_step env (Assign m) s = succeeded (assign_msisdn m s)"
| "pool_step env (Release m) s = succeeded (release_msisdn m s)"
| "pool_step env (Hold ctx now m owner ttl) s = succeeded (hold_msisdn ctx now m owner ttl s)"
| "pool_step env (ReleaseHold ctx now owner) s = succeeded (release_msisdn_hold ctx now owner s)"
| "pool_step env (AddRange ctx now prefix n) s = succeeded (add_msisdn_range ctx now prefix n s)"

text \<open>Every row is free of stale markers, and no number occurs twice.\<close>

definition clean_row :: "msisdn_row \<Rightarrow> bool" where
  "clean_row r \<longleftrightarrow> (mn_for r = None \<and> mn_until r = None) \<or> (mn_status r = ''reserved'' \<and> mn_for r \<noteq> None \<and> mn_until r \<noteq> None)"

definition clean_pool :: "msisdn_row list \<Rightarrow> bool" where
  "clean_pool rows \<longleftrightarrow> distinct (map mn_number rows) \<and> list_all clean_row rows"

text \<open>Not an assignment or a release of a number that is only softly held.\<close>

fun undisturbed :: "pool_op \<Rightarrow> pool \<Rightarrow> bool" where
  "undisturbed (Assign m) p = (case p m of Some (_, x) \<Rightarrow> \<not> is_soft x | None \<Rightarrow> True)"
| "undisturbed (Release m) p = (case p m of Some (_, x) \<Rightarrow> \<not> is_soft x | None \<Rightarrow> True)"
| "undisturbed _ p = True"

section \<open>Lemmas on rows\<close>

lemma slot_simps [simp]:
  "slot_of r = Free \<longleftrightarrow> mn_status r = ''available''"
  "slot_of r = Used \<longleftrightarrow> mn_status r = ''assigned''"
  "slot_of r = Soft owner until \<longleftrightarrow> mn_status r = ''reserved'' \<and> mn_for r = Some owner \<and> mn_until r = Some until"
  "slot_of r = Hard \<longleftrightarrow> mn_status r = ''reserved'' \<and> (mn_for r = None \<or> mn_until r = None)"
  by (auto simp: slot_of_def split: option.splits)

lemma is_soft_slot: "is_soft (slot_of r) \<longleftrightarrow> mn_status r = ''reserved'' \<and> mn_for r \<noteq> None \<and> mn_until r \<noteq> None"
  by (auto simp: is_soft_def slot_of_def split: option.splits)

lemma find_mapped:
  fixes g :: "msisdn_row \<Rightarrow> msisdn_row" and rows :: "msisdn_row list"
  shows "(\<And>r. mn_number (g r) = mn_number r) \<Longrightarrow> tbl_find mn_number m (map g rows) = map_option g (tbl_find mn_number m rows)"
  by (induction rows) simp_all

lemma find_distinct:
  "distinct (map mn_number rows) \<Longrightarrow> r \<in> set rows \<Longrightarrow> tbl_find mn_number (mn_number r) rows = Some r"
  by (induction rows) (auto simp: image_iff)

lemma clean_mapped:
  assumes "clean_pool rows" "\<And>r. mn_number (g r) = mn_number r" "\<And>r. r \<in> set rows \<Longrightarrow> clean_row r \<Longrightarrow> clean_row (g r)"
  shows "clean_pool (map g rows)"
  using assms by (simp add: clean_pool_def list_all_iff comp_def)

lemma pool_mapped:
  fixes g :: "msisdn_row \<Rightarrow> msisdn_row"
  assumes "\<And>r. mn_number (g r) = mn_number r" "\<And>r. mn_tenant (g r) = mn_tenant r"
  shows "pool_of (map g rows) m = map_option (\<lambda>r. (mn_tenant r, slot_of (g r))) (tbl_find mn_number m rows)"
  by (simp add: pool_of_def find_mapped [OF assms(1)] option.map_comp comp_def assms(2))

lemma clean_find: "clean_pool rows \<Longrightarrow> tbl_find mn_number m rows = Some r \<Longrightarrow> clean_row r"
  by (auto simp: clean_pool_def list_all_iff dest: tbl_find_SomeD)

text \<open>Writing one number's row.\<close>

lemma pool_update_one:
  assumes "tbl_find mn_number m rows = Some r" "\<And>r. mn_number (f r) = mn_number r" "\<And>r. mn_tenant (f r) = mn_tenant r"
  shows "pool_of (map (\<lambda>r. if mn_number r = m then f r else r) rows) = (pool_of rows)(m \<mapsto> (mn_tenant r, slot_of (f r)))"
proof (rule ext)
  fix m'
  have "pool_of (map (\<lambda>r. if mn_number r = m then f r else r) rows) m'
      = map_option (\<lambda>r. (mn_tenant r, slot_of (if mn_number r = m then f r else r))) (tbl_find mn_number m' rows)"
    by (rule pool_mapped) (simp_all add: assms)
  then show "pool_of (map (\<lambda>r. if mn_number r = m then f r else r) rows) m' = ((pool_of rows)(m \<mapsto> (mn_tenant r, slot_of (f r)))) m'"
    using assms(1) tbl_find_SomeD [of mn_number m' rows] by (cases "tbl_find mn_number m' rows") (auto simp: pool_of_def dest: tbl_find_SomeD)
qed

lemma pool_update_to:
  assumes "tbl_find mn_number m rows = Some r" "slot_of (f r) = x"
    "\<And>r. mn_number (f r) = mn_number r" "\<And>r. mn_tenant (f r) = mn_tenant r"
  shows "pool_of (map (\<lambda>r. if mn_number r = m then f r else r) rows) = (pool_of rows)(m \<mapsto> (mn_tenant r, x))"
  using pool_update_one [of m rows r f] assms by simp

end
