(* ===== verification/PoolProps.thy ===== *)
theory PoolProps
  imports PoolSpec
begin

text \<open>The number pool refines its specification, operation by operation and over runs.\<close>

section \<open>Each operation\<close>

definition refines :: "pool_op \<Rightarrow> crm_db \<Rightarrow> bool \<times> crm_db \<Rightarrow> bool" where
  "refines op s r = (case r of
      (True, t) \<Rightarrow> books op (pool_of (cr_msisdns s)) (pool_of (cr_msisdns t)) \<and> clean_pool (cr_msisdns t)
    | (False, t) \<Rightarrow> cr_msisdns t = cr_msisdns s \<and> (\<forall>q. \<not> books op (pool_of (cr_msisdns s)) q))"

abbreviation done_ok :: "pool_op \<Rightarrow> crm_db \<Rightarrow> 'a \<Rightarrow> crm_db \<Rightarrow> bool" where
  "done_ok op s \<equiv> \<lambda>_ t. books op (pool_of (cr_msisdns s)) (pool_of (cr_msisdns t)) \<and> clean_pool (cr_msisdns t)"

abbreviation refused_ok :: "pool_op \<Rightarrow> crm_db \<Rightarrow> 'a \<Rightarrow> crm_db \<Rightarrow> bool" where
  "refused_ok op s \<equiv> \<lambda>_ t. cr_msisdns t = cr_msisdns s \<and> (\<forall>q. \<not> books op (pool_of (cr_msisdns s)) q)"

lemma refinesI:
  assumes "wp m (done_ok op s) (refused_ok op s) s"
  shows "refines op s (succeeded (m s))"
proof (cases "m s")
  case (Pair r t)
  then show ?thesis using assms by (cases r) (simp_all add: refines_def succeeded_def wp_def)
qed

lemma wp_update_msisdns [wp_simps]:
  "wp (update_msisdns cond f) Q E = (\<lambda>s. Q () (s\<lparr>cr_msisdns := map (\<lambda>r. if cond r then f r else r) (cr_msisdns s)\<rparr>))"
  by (simp add: update_msisdns_def wp_simps)

lemma wp_vanished [wp_simps]:
  "wp (vanished v) Q E = (\<lambda>s. case v of None \<Rightarrow> E (InternalE ''vanished'') s | Some x \<Rightarrow> Q x s)"
  by (rule ext) (simp add: vanished_def wp_simps split: option.splits)

lemma rollback_msisdns [simp]: "cr_msisdns (rollback s t) = cr_msisdns s"
  by (simp add: rollback_def)

lemma wp_pool_low:
  "wp (maybe_emit_pool_low env now tenant) (\<lambda>_. Q) E s"
  if "\<And>x. Q (s\<lparr>outbox := x\<rparr>)" "Q s"
  using that by (simp add: maybe_emit_pool_low_def wp_simps)

text \<open>Reading the number just written finds it.\<close>

lemma reread:
  fixes rows :: "msisdn_row list" and f :: "msisdn_row \<Rightarrow> msisdn_row"
  assumes "tbl_find mn_number m rows = Some r" "\<And>r. mn_number (f r) = mn_number r"
  shows "tbl_find mn_number m (map (\<lambda>r. if mn_number r = m then f r else r) rows) = Some (f r)"
  using assms tbl_find_SomeD [OF assms(1)] find_mapped [of "\<lambda>r. if mn_number r = m then f r else r" m rows] by simp

lemma clean_update_one:
  fixes f :: "msisdn_row \<Rightarrow> msisdn_row"
  assumes "clean_pool rows" "tbl_find mn_number m rows = Some r" "\<And>r. mn_number (f r) = mn_number r" "clean_row (f r)"
  shows "clean_pool (map (\<lambda>r. if mn_number r = m then f r else r) rows)"
proof (rule clean_mapped [OF assms(1)])
  fix r' assume r': "r' \<in> set rows" "clean_row r'"
  show "clean_row (if mn_number r' = m then f r' else r')"
    using r' assms find_distinct [of rows r'] by (auto simp: clean_pool_def)
qed (simp add: assms)

text \<open>A handler that picks a row, writes it, and reads it back.\<close>

lemma pool_eq: "tbl_find mn_number m rows = Some r \<Longrightarrow> pool_of rows m = Some (mn_tenant r, slot_of r)"
  by (simp add: pool_of_def)

lemma find_number:
  fixes rows :: "msisdn_row list"
  assumes "distinct (map mn_number rows)"
  shows "find (\<lambda>r. mn_number r = m \<and> Q r) rows
       = (case tbl_find mn_number m rows of None \<Rightarrow> None | Some r \<Rightarrow> if Q r then Some r else None)"
  using assms
proof (induction rows)
  case (Cons a rows)
  have "tbl_find mn_number m rows = None" if "mn_number a = m"
    using Cons.prems that by (auto simp: tbl_find_None_iff)
  then show ?case using Cons by (auto split: option.splits)
qed simp

lemma any_find: "list_ex P rows \<longleftrightarrow> find P rows \<noteq> None"
  by (auto simp: list_ex_iff find_None_iff)

lemma release_refines:
  assumes "clean_pool (cr_msisdns s)" "undisturbed (Release m) (pool_of (cr_msisdns s))"
  shows "refines (Release m) s (succeeded (release_msisdn m s))"
proof (rule refinesI, cases "tbl_find mn_number m (cr_msisdns s)")
  case None
  then show "wp (release_msisdn m) (done_ok (Release m) s) (refused_ok (Release m) s) s"
    by (simp add: release_msisdn_def wp_simps get_msisdn_def books_simps pool_of_def)
next
  case (Some r)
  let ?f = "\<lambda>r. r\<lparr>mn_status := ''available'', mn_reserved_at := None, mn_sub := None\<rparr>"
  have c: "clean_row r" using assms(1) Some by (rule clean_find)
  have soft: "\<not> is_soft (slot_of r)" using assms(2) by (simp add: pool_eq [OF Some])
  then have f: "slot_of (?f r) = Free" "clean_row (?f r)" using c by (auto simp: clean_row_def is_soft_slot)
  show "wp (release_msisdn m) (done_ok (Release m) s) (refused_ok (Release m) s) s"
    using soft c f(2) clean_update_one [OF assms(1) Some, of ?f] f
    by (auto simp: release_msisdn_def wp_simps get_msisdn_def Some check_msisdn_releasable_def books_simps pool_eq [OF Some]
          reread [OF Some] pool_update_one [OF Some] is_soft_slot clean_row_def split: sum.splits if_splits)
qed

lemma assign_refines:
  assumes "clean_pool (cr_msisdns s)" "undisturbed (Assign m) (pool_of (cr_msisdns s))"
  shows "refines (Assign m) s (succeeded (assign_msisdn m s))"
proof (rule refinesI, cases "tbl_find mn_number m (cr_msisdns s)")
  case None
  then show "wp (assign_msisdn m) (done_ok (Assign m) s) (refused_ok (Assign m) s) s"
    by (simp add: assign_msisdn_def wp_simps get_msisdn_def books_simps pool_of_def)
next
  case (Some r)
  let ?f = "\<lambda>r. r\<lparr>mn_status := ''assigned''\<rparr>"
  have c: "clean_row r" using assms(1) Some by (rule clean_find)
  have soft: "\<not> is_soft (slot_of r)" using assms(2) by (simp add: pool_eq [OF Some])
  then have f: "slot_of (?f r) = Used" "clean_row (?f r)" using c by (auto simp: clean_row_def is_soft_slot)
  show "wp (assign_msisdn m) (done_ok (Assign m) s) (refused_ok (Assign m) s) s"
    using soft c f(2) clean_update_one [OF assms(1) Some, of ?f] f
    by (auto simp: assign_msisdn_def wp_simps get_msisdn_def Some books_simps pool_eq [OF Some]
          reread [OF Some] pool_update_one [OF Some] is_soft_slot clean_row_def split: sum.splits if_splits)
qed

lemma reserve_refines:
  assumes "clean_pool (cr_msisdns s)"
  shows "refines (Reserve ctx now m) s (succeeded (reserve_msisdn env ctx now m s))"
proof (rule refinesI)
  let ?rows = "cr_msisdns s" and ?f = "\<lambda>r. r\<lparr>mn_status := ''reserved'', mn_reserved_at := Some now\<rparr>"
  have d: "distinct (map mn_number ?rows)" using assms by (simp add: clean_pool_def)
  show "wp (reserve_msisdn env ctx now m) (done_ok (Reserve ctx now m) s) (refused_ok (Reserve ctx now m) s) s"
  proof (cases "tbl_find mn_number m ?rows")
    case None
    then show ?thesis by (simp add: reserve_msisdn_def wp_simps find_number [OF d] books_simps pool_of_def)
  next
    case (Some r)
    have c: "clean_row r" using assms Some by (rule clean_find)
    show ?thesis
    proof (cases "mn_status r = ''available'' \<and> mn_tenant r = rc_tenant ctx")
      case True
      have m: "mn_number r = m" using tbl_find_SomeD [OF Some] by simp
      have f: "slot_of (?f r) = Hard" "clean_row (?f r)" using c True by (auto simp: clean_row_def)
      have pl: "pool_of (map (\<lambda>r. if mn_number r = m then ?f r else r) ?rows) = (pool_of ?rows)(m \<mapsto> (mn_tenant r, Hard))"
        by (rule pool_update_to [OF Some, where f = ?f and x = Hard]) (use f in simp_all)
      show ?thesis
        using True f(2) c clean_update_one [OF assms Some, of ?f] pl
        by (simp add: reserve_msisdn_def wp_simps find_number [OF d] Some m maybe_emit_pool_low_def get_msisdn_def
            reread [OF Some] books_simps pool_eq [OF Some])
    next
      case False
      then show ?thesis
        by (auto simp: reserve_msisdn_def wp_simps find_number [OF d] Some books_simps pool_eq [OF Some])
    qed
  qed
qed

text \<open>What a preference, or the lack of one, picks.\<close>

lemma pick_preferred:
  assumes "distinct (map mn_number (cr_msisdns s))"
  shows "pick_next s tenant (Some p) = (case tbl_find mn_number p (cr_msisdns s) of None \<Rightarrow> None
    | Some r \<Rightarrow> if mn_tenant r = tenant \<and> (mn_status r = ''available'' \<or> (mn_status r = ''reserved'' \<and> mn_until r \<noteq> None)) then Some p else None)"
  using tbl_find_SomeD [of mn_number p "cr_msisdns s"]
  by (auto simp: pick_next_def find_number [OF assms] split: option.splits)

lemma pick_least:
  assumes "clean_pool (cr_msisdns s)"
  shows "case pick_next s tenant None of
      None \<Rightarrow> (\<forall>m. pool_of (cr_msisdns s) m \<noteq> Some (tenant, Free))
    | Some m \<Rightarrow> pool_of (cr_msisdns s) m = Some (tenant, Free) \<and> (\<forall>m'. pool_of (cr_msisdns s) m' = Some (tenant, Free) \<longrightarrow> m \<le> m')"
proof -
  let ?rows = "cr_msisdns s"
  let ?free = "filter (\<lambda>r. mn_status r = ''available'' \<and> mn_tenant r = tenant) ?rows"
  have free: "pool_of ?rows m = Some (tenant, Free) \<longleftrightarrow> (\<exists>r \<in> set ?free. mn_number r = m)" for m
  proof
    assume "pool_of ?rows m = Some (tenant, Free)"
    then obtain r where "tbl_find mn_number m ?rows = Some r" "mn_tenant r = tenant" "slot_of r = Free"
      by (auto simp: pool_of_def)
    then show "\<exists>r \<in> set ?free. mn_number r = m" using tbl_find_SomeD [of mn_number m ?rows r] by auto
  next
    assume "\<exists>r \<in> set ?free. mn_number r = m"
    then obtain r where r: "r \<in> set ?rows" "mn_status r = ''available''" "mn_tenant r = tenant" "mn_number r = m" by auto
    have "tbl_find mn_number (mn_number r) ?rows = Some r"
      using assms r(1) by (intro find_distinct) (simp_all add: clean_pool_def)
    then have "pool_of ?rows m = Some (mn_tenant r, slot_of r)" using r(4) by (simp add: pool_of_def)
    moreover have "slot_of r = Free" using r(2) by simp
    ultimately show "pool_of ?rows m = Some (tenant, Free)" using r(3) by (simp only:)
  qed
  show ?thesis
  proof (cases "sort_key mn_number ?free")
    case Nil
    have "set ?free = {}" using arg_cong [OF Nil, of set] by (simp only: set_sort list.set)
    then have "\<not> (\<exists>r \<in> set ?free. mn_number r = m)" for m by (simp only: bex_simps simp_thms)
    then show ?thesis unfolding pick_next_def option.case Nil list.case free by (intro allI)
  next
    case (Cons r rest)
    have set: "set (r # rest) = set ?free" using arg_cong [OF Cons, of set] by (simp only: set_sort)
    have "sorted (map mn_number (r # rest))" unfolding Cons [symmetric] by (rule sorted_sort_key)
    then have "\<forall>r' \<in> set ?free. mn_number r \<le> mn_number r'" unfolding set [symmetric] by auto
    moreover have "r \<in> set ?free" using set by auto
    ultimately show ?thesis unfolding pick_next_def option.case Cons list.case free by blast
  qed
qed

lemma reserve_next_refines:
  assumes "clean_pool (cr_msisdns s)"
  shows "refines (ReserveNext ctx now pref) s (succeeded (reserve_next_msisdn env ctx now pref s))"
proof (rule refinesI)
  let ?rows = "cr_msisdns s" and ?T = "rc_tenant ctx"
  let ?f = "\<lambda>r. r\<lparr>mn_status := ''reserved'', mn_reserved_at := Some now, mn_until := None, mn_for := None\<rparr>"
  have d: "distinct (map mn_number ?rows)" using assms by (simp add: clean_pool_def)
  let ?goal = "wp (reserve_next_msisdn env ctx now pref) (done_ok (ReserveNext ctx now pref) s) (refused_ok (ReserveNext ctx now pref) s) s"
  show ?goal
  proof (cases "pick_next s ?T pref")
    case None
    have "\<not> books (ReserveNext ctx now pref) (pool_of ?rows) q" for q
    proof (cases pref)
      case pref: None
      then show ?thesis using pick_least [OF assms, of ?T] None by (simp add: books_simps)
    next
      case pref: (Some p)
      then show ?thesis using None clean_find [OF assms, of p]
        by (auto simp: pick_preferred [OF d] books_simps pool_of_def is_soft_slot clean_row_def split: option.splits if_splits)
    qed
    then show ?thesis using None by (simp add: reserve_next_msisdn_def wp_simps)
  next
    case (Some m)
    obtain r where r: "tbl_find mn_number m ?rows = Some r" "mn_tenant r = ?T"
      and books: "books (ReserveNext ctx now pref) (pool_of ?rows) ((pool_of ?rows)(m \<mapsto> (?T, Hard)))"
    proof (cases pref)
      case None
      have "pool_of ?rows m = Some (?T, Free)" and "\<forall>m'. pool_of ?rows m' = Some (?T, Free) \<longrightarrow> m \<le> m'"
        using pick_least [OF assms, of ?T] Some None by simp_all
      then show ?thesis using that None books.least [of "pool_of ?rows" m ctx now] by (auto simp: pool_of_def)
    next
      case pref: (Some p)
      obtain r where r: "tbl_find mn_number p ?rows = Some r" "p = m" "mn_tenant r = ?T"
          "mn_status r = ''available'' \<or> (mn_status r = ''reserved'' \<and> mn_until r \<noteq> None)"
        using Some pref by (auto simp: pick_preferred [OF d] split: option.splits if_splits)
      have "clean_row r" using assms r(1) by (rule clean_find)
      then have "slot_of r = Free \<or> is_soft (slot_of r)" using r(4) by (auto simp: is_soft_slot clean_row_def)
      then show ?thesis using that r pref books.preferred [of "pool_of ?rows" m ctx "slot_of r" now] by (simp add: pool_eq)
    qed
    have f: "slot_of (?f r) = Hard" "clean_row (?f r)" by (simp_all add: clean_row_def)
    have pl: "pool_of (map (\<lambda>r. if mn_number r = m then ?f r else r) ?rows) = (pool_of ?rows)(m \<mapsto> (?T, Hard))"
      using pool_update_to [OF r(1), of ?f Hard] f(1) r(2) by simp
    show ?thesis
      using f(2) books clean_update_one [OF assms r(1), of ?f] pl
      by (simp add: reserve_next_msisdn_def wp_simps Some maybe_emit_pool_low_def get_msisdn_def reread [OF r(1)])
  qed
qed

text \<open>A write guarded by a condition on one number, as \<open>hold_msisdn\<close>'s \<open>UPDATE\<close>.\<close>

lemma guarded_update:
  fixes rows :: "msisdn_row list"
  assumes "distinct (map mn_number rows)"
  shows "map (\<lambda>r. if mn_number r = m \<and> Q r then f r else r) rows =
    (case tbl_find mn_number m rows of None \<Rightarrow> rows
     | Some r \<Rightarrow> if Q r then map (\<lambda>r. if mn_number r = m then f r else r) rows else rows)"
  using assms
proof (induction rows)
  case (Cons a rows)
  have "tbl_find mn_number m rows = None" "map (\<lambda>r. if mn_number r = m then f r else r) rows = rows" if "mn_number a = m"
    using Cons.prems that by (auto simp: tbl_find_None_iff image_iff intro!: map_idI)
  then show ?case using Cons by (auto split: option.splits)
qed simp

lemma can_hold_row:
  "clean_row r \<Longrightarrow> can_hold owner now (slot_of r) \<longleftrightarrow>
     mn_status r = ''available'' \<or> mn_for r = Some owner \<or>
     (mn_status r = ''reserved'' \<and> (case mn_until r of None \<Rightarrow> False | Some u \<Rightarrow> u < now))"
  by (auto simp: can_hold_def slot_of_def clean_row_def split: option.splits)

lemma holdable_number:
  "holdable m owner now tenant = (\<lambda>r. mn_number r = m \<and> (mn_tenant r = tenant \<and> (mn_status r = ''available'' \<or> mn_for r = Some owner \<or>
     (mn_status r = ''reserved'' \<and> (case mn_until r of None \<Rightarrow> False | Some u \<Rightarrow> u < now)))))"
  by (rule ext) (simp add: holdable_def)

text \<open>The hold itself, as the pool sees it: taken exactly when the number can be held.\<close>

definition hold_taken :: "string \<Rightarrow> string \<Rightarrow> int \<Rightarrow> string \<Rightarrow> pool \<Rightarrow> bool" where
  "hold_taken m owner now tenant p \<longleftrightarrow> (\<exists>x. p m = Some (tenant, x) \<and> can_hold owner now x)"

lemma wp_take_hold:
  assumes "clean_pool (cr_msisdns s)"
    and "\<And>rows. hold_taken m owner now tenant (pool_of (cr_msisdns s)) \<Longrightarrow>
      pool_of rows = (pool_of (cr_msisdns s))(m \<mapsto> (tenant, Soft owner until)) \<Longrightarrow> clean_pool rows \<Longrightarrow>
      tbl_find mn_number m rows \<noteq> None \<Longrightarrow> Q True (s\<lparr>cr_msisdns := rows\<rparr>)"
    and "\<not> hold_taken m owner now tenant (pool_of (cr_msisdns s)) \<Longrightarrow> Q False s"
  shows "wp (take_hold m owner until now tenant) Q E s"
proof -
  let ?rows = "cr_msisdns s"
  let ?f = "\<lambda>r. r\<lparr>mn_status := ''reserved'', mn_reserved_at := Some now, mn_until := Some until, mn_for := Some owner\<rparr>"
  let ?new = "map (\<lambda>r. if holdable m owner now tenant r then ?f r else r) ?rows"
  have d: "distinct (map mn_number ?rows)" using assms(1) by (simp add: clean_pool_def)
  have goal: "wp (take_hold m owner until now tenant) Q E s \<longleftrightarrow> Q (list_ex (holdable m owner now tenant) ?rows) (s\<lparr>cr_msisdns := ?new\<rparr>)"
    by (simp add: take_hold_def wp_simps)
  show ?thesis
  proof (cases "\<exists>r. tbl_find mn_number m ?rows = Some r \<and> mn_tenant r = tenant \<and> can_hold owner now (slot_of r)")
    case True
    then obtain r where r: "tbl_find mn_number m ?rows = Some r" "mn_tenant r = tenant" "can_hold owner now (slot_of r)" by blast
    have c: "clean_row r" using assms(1) r(1) by (rule clean_find)
    have h: "holdable m owner now tenant r" using r c tbl_find_SomeD [OF r(1)] by (simp add: holdable_def can_hold_row)
    then have any: "list_ex (holdable m owner now tenant) ?rows" using tbl_find_SomeD [OF r(1)] by (auto simp: list_ex_iff)
    have new: "?new = map (\<lambda>r. if mn_number r = m then ?f r else r) ?rows"
      using h guarded_update [OF d, of m _ ?f] r(1) unfolding holdable_number by simp
    have "pool_of ?new = (pool_of ?rows)(m \<mapsto> (tenant, Soft owner until))"
      unfolding new using pool_update_to [OF r(1), of ?f "Soft owner until"] r(2) by simp
    moreover have "clean_pool ?new"
      unfolding new by (rule clean_update_one [OF assms(1) r(1)]) (simp_all add: clean_row_def)
    moreover have "tbl_find mn_number m ?new \<noteq> None" unfolding new by (simp add: reread [OF r(1)])
    moreover have "hold_taken m owner now tenant (pool_of ?rows)"
      using r by (simp add: hold_taken_def pool_eq)
    ultimately show ?thesis unfolding goal using any assms(2) [of ?new] by simp
  next
    case False
    have "\<not> hold_taken m owner now tenant (pool_of ?rows)" using False by (auto simp: hold_taken_def pool_of_def)
    moreover have "\<not> holdable m owner now tenant r" if "r \<in> set ?rows" for r
    proof
      assume h: "holdable m owner now tenant r"
      then have "mn_number r = m" by (simp add: holdable_def)
      then have found: "tbl_find mn_number m ?rows = Some r" using find_distinct [OF d that] by simp
      with h False clean_find [OF assms(1) found] show False by (auto simp: holdable_def can_hold_row)
    qed
    then have "\<not> list_ex (holdable m owner now tenant) ?rows" "?new = ?rows" by (auto simp: list_ex_iff intro: map_idI)
    ultimately show ?thesis unfolding goal using assms(3) by simp
  qed
qed

lemma hold_refines:
  assumes "clean_pool (cr_msisdns s)"
  shows "refines (Hold ctx now m owner ttl) s (succeeded (hold_msisdn ctx now m owner ttl s))"
  unfolding hold_msisdn_def Let_def
  by (rule refinesI, simp add: wp_simps, rule wp_take_hold [OF assms])
     (auto simp: wp_simps get_msisdn_def books_simps hold_taken_def)

text \<open>Releasing an owner's holds.\<close>

abbreviation unheld :: "string \<Rightarrow> msisdn_row \<Rightarrow> msisdn_row" where
  "unheld owner \<equiv> \<lambda>r. if held_by owner r then r\<lparr>mn_status := ''available'', mn_reserved_at := None, mn_until := None, mn_for := None\<rparr> else r"

lemma freed_pool:
  assumes "clean_pool rows"
  shows "pool_of (map (unheld owner) rows) = freed owner (pool_of rows)" and "clean_pool (map (unheld owner) rows)"
proof -
  let ?g = "unheld owner"
  show "pool_of (map ?g rows) = freed owner (pool_of rows)"
  proof (rule ext)
    fix m
    have "pool_of (map ?g rows) m = map_option (\<lambda>r. (mn_tenant r, slot_of (?g r))) (tbl_find mn_number m rows)"
      by (rule pool_mapped) simp_all
    also have "\<dots> = freed owner (pool_of rows) m"
    proof (cases "tbl_find mn_number m rows")
      case (Some r)
      have "clean_row r" using assms Some by (rule clean_find)
      then show ?thesis using Some
        by (auto simp: freed_def pool_of_def slot_of_def held_by_def clean_row_def split: option.splits)
    qed (simp add: freed_def pool_of_def)
    finally show "pool_of (map ?g rows) m = freed owner (pool_of rows) m" .
  qed
  show "clean_pool (map ?g rows)" by (rule clean_mapped [OF assms]) (auto simp: clean_row_def)
qed

lemma wp_release_holds:
  assumes "clean_pool (cr_msisdns s)"
    and "\<And>released rows. pool_of rows = freed owner (pool_of (cr_msisdns s)) \<Longrightarrow> clean_pool rows \<Longrightarrow> Q released (s\<lparr>cr_msisdns := rows\<rparr>)"
  shows "wp (release_holds_for owner) Q E s"
  using assms(2) [OF freed_pool [OF assms(1)]] by (simp add: release_holds_for_def wp_simps)

lemma wp_stage_released:
  assumes "P s" "\<And>t x. P t \<Longrightarrow> P (t\<lparr>outbox := x\<rparr>)"
  shows "wp (stage_released ctx now owner released) (\<lambda>_. P) E s"
  unfolding stage_released_def using assms by (intro wp_for_each) (simp_all add: wp_simps)

lemma release_hold_refines:
  assumes "clean_pool (cr_msisdns s)"
  shows "refines (ReleaseHold ctx now owner) s (succeeded (release_msisdn_hold ctx now owner s))"
  unfolding release_msisdn_hold_def
  by (rule refinesI, simp add: wp_simps, rule wp_release_holds [OF assms], rule wp_stage_released)
     (auto simp: books_simps)

lemma insert_number_effect:
  assumes "clean_pool rows"
  shows "pool_of (insert_number tenant m rows) m' = (if m' = m \<and> pool_of rows m = None then Some (tenant, Free) else pool_of rows m')"
    and "clean_pool (insert_number tenant m rows)"
proof -
  have "m \<notin> mn_number ` set rows" if "tbl_find mn_number m rows = None" using that by (simp add: tbl_find_None_iff)
  then show "pool_of (insert_number tenant m rows) m' = (if m' = m \<and> pool_of rows m = None then Some (tenant, Free) else pool_of rows m')"
      and "clean_pool (insert_number tenant m rows)"
    using assms by (auto simp: insert_number_def pool_of_def tbl_find_append fresh_number_def clean_pool_def clean_row_def
        split: option.splits)
qed

lemma range_rows_effect:
  assumes "clean_pool rows"
  shows "pool_of (range_rows tenant prefix n rows) = extended tenant prefix n (pool_of rows) \<and> clean_pool (range_rows tenant prefix n rows)"
proof (induction n)
  case 0
  show ?case using assms by (auto simp: range_rows_def extended_def split: option.splits)
next
  case (Suc n)
  have step: "range_rows tenant prefix (Suc n) rows = insert_number tenant (prefix @ pad4 n) (range_rows tenant prefix n rows)"
    by (simp add: range_rows_def)
  show ?case unfolding step using Suc insert_number_effect [of "range_rows tenant prefix n rows" tenant "prefix @ pad4 n"]
    by (auto simp: extended_def less_Suc_eq fun_eq_iff split: option.splits if_splits)
qed

lemma add_range_refines:
  assumes "clean_pool (cr_msisdns s)"
  shows "refines (AddRange ctx now prefix n) s (succeeded (add_msisdn_range ctx now prefix n s))"
  unfolding add_msisdn_range_def Let_def
  by (rule refinesI) (simp add: wp_simps books_simps range_rows_effect [OF assms] split: sum.splits)

lemma step_refines:
  assumes "clean_pool (cr_msisdns s)" "undisturbed op (pool_of (cr_msisdns s))"
  shows "refines op s (pool_step env op s)"
  using assms
  by (cases op) (simp_all add: reserve_refines reserve_next_refines assign_refines release_refines hold_refines
      release_hold_refines add_range_refines)

section \<open>Runs\<close>

text \<open>A run of the specification: an operation it does not allow is refused and changes nothing.\<close>

inductive serves :: "pool_op list \<Rightarrow> pool \<Rightarrow> bool list \<Rightarrow> pool \<Rightarrow> bool" where
  idle: "serves [] p [] p"
| granted: "books op p p' \<Longrightarrow> serves ops p' rs q \<Longrightarrow> serves (op # ops) p (True # rs) q"
| denied: "(\<And>p'. \<not> books op p p') \<Longrightarrow> serves ops p rs q \<Longrightarrow> serves (op # ops) p (False # rs) q"

fun pool_run :: "crm_env \<Rightarrow> pool_op list \<Rightarrow> crm_db \<Rightarrow> bool list \<times> crm_db" where
  "pool_run env [] s = ([], s)"
| "pool_run env (op # ops) s =
     (let (ok, t) = pool_step env op s; (oks, u) = pool_run env ops t in (ok # oks, u))"

fun never_disturbed :: "crm_env \<Rightarrow> pool_op list \<Rightarrow> crm_db \<Rightarrow> bool" where
  "never_disturbed env [] s = True"
| "never_disturbed env (op # ops) s =
     (undisturbed op (pool_of (cr_msisdns s)) \<and> never_disturbed env ops (snd (pool_step env op s)))"

text \<open>
  C5: the number pool refines its reservation specification: over any sequence of operations
  from rows without stale hold markers, as long as no number that is only softly held is
  assigned or released, every operation succeeds exactly when the specification allows it
  (who may hold, reserve, assign or free a number, and which number is picked when none is
  asked for), a refused one changes no number, and the state reached is the specification's.
\<close>
theorem pool_refines_reservations:
  assumes "clean_pool (cr_msisdns s)" and "never_disturbed env ops s" and "pool_run env ops s = (oks, t)"
  shows "serves ops (pool_of (cr_msisdns s)) oks (pool_of (cr_msisdns t)) \<and> clean_pool (cr_msisdns t)"
  using assms
proof (induction ops arbitrary: s oks)
  case Nil
  then show ?case by (simp add: serves.idle)
next
  case (Cons op ops)
  obtain ok u where step: "pool_step env op s = (ok, u)" by fastforce
  obtain rest where run: "pool_run env ops u = (rest, t)" "oks = ok # rest"
    using Cons.prems(3) step by (auto split: prod.splits)
  have r: "refines op s (ok, u)" using step_refines [of s op env] Cons.prems step by simp
  have nd: "never_disturbed env ops u" using Cons.prems(2) step by simp
  show ?case
  proof (cases ok)
    case True
    then show ?thesis using Cons.IH [OF _ nd run(1)] r run(2) serves.granted by (simp add: refines_def) blast
  next
    case False
    then show ?thesis using Cons.IH [OF _ nd run(1)] r run(2) Cons.prems(1) by (simp add: refines_def serves.denied)
  qed
qed

end
