(* ===== verification/OrderHolds.thy ===== *)
theory OrderHolds
  imports PoolProps
begin

text \<open>
  The open orders and their holds: every soft hold on a number is backed by the order that
  owns it, whatever the sequence of operations; the sweep drains the expired orders and frees
  their numbers; starting an order returns.
\<close>

section \<open>Runs\<close>

datatype order_op =
    OpenIt crm_env request_ctx int string string string int
  | LinkIt string string
  | AdvanceIt string string
  | CompleteIt request_ctx int string
  | CancelIt request_ctx int string string
  | SweepIt string int
  | PoolIt crm_env pool_op

text \<open>A request that never returns changes nothing.\<close>

fun order_step :: "order_op \<Rightarrow> crm_db \<Rightarrow> crm_db" where
  "order_step (OpenIt env ctx now identity plan m ttl) s =
     (case create_or_resume_open_order env ctx now identity plan m ttl s of None \<Rightarrow> s | Some r \<Rightarrow> snd r)"
| "order_step (LinkIt oid c) s = snd (link_open_order_customer oid c s)"
| "order_step (AdvanceIt oid step) s = snd (advance_open_order_step oid step s)"
| "order_step (CompleteIt ctx now oid) s = snd (complete_open_order ctx now oid s)"
| "order_step (CancelIt ctx now oid st) s = snd (cancel_open_order ctx now oid st s)"
| "order_step (SweepIt tenant now) s = snd (sweep_tick tenant now s)"
| "order_step (PoolIt env op) s = snd (pool_step env op s)"

fun admissible :: "order_op \<Rightarrow> crm_db \<Rightarrow> bool" where
  "admissible (PoolIt env (Hold _ _ _ _ _)) s = False"
| "admissible (PoolIt env op) s = undisturbed op (pool_of (cr_msisdns s))"
| "admissible _ s = True"

fun admissible_run :: "order_op list \<Rightarrow> crm_db \<Rightarrow> bool" where
  "admissible_run [] s = True"
| "admissible_run (op # ops) s = (admissible op s \<and> admissible_run ops (order_step op s))"

section \<open>Every hold is backed\<close>

definition backs :: "open_order_row \<Rightarrow> string \<Rightarrow> string \<Rightarrow> int \<Rightarrow> bool" where
  "backs r m tenant until \<longleftrightarrow> oo_msisdn r = Some m \<and> oo_tenant r = tenant \<and> oo_until r = Some until \<and>
     oo_status r \<in> {''open'', ''completed''}"

definition backed :: "pool \<Rightarrow> open_order_row list \<Rightarrow> bool" where
  "backed p opens \<longleftrightarrow> (\<forall>m tenant oid until. p m = Some (tenant, Soft oid until) \<longrightarrow>
     (\<exists>r. tbl_find oo_id oid opens = Some r \<and> backs r m tenant until))"

lemma backedD: "backed p opens \<Longrightarrow> p m = Some (tenant, Soft oid until) \<Longrightarrow> \<exists>r. tbl_find oo_id oid opens = Some r \<and> backs r m tenant until"
  unfolding backed_def by blast

definition holds_ok :: "crm_db \<Rightarrow> bool" where
  "holds_ok s \<longleftrightarrow> clean_pool (cr_msisdns s) \<and> one_open_per_owner (cr_opens s) \<and> distinct (map oo_id (cr_opens s)) \<and>
     backed (pool_of (cr_msisdns s)) (cr_opens s)"

lemma holds_ok_frame [simp]:
  "holds_ok (s\<lparr>outbox := x\<rparr>) = holds_ok s" "holds_ok (s\<lparr>calls := c\<rparr>) = holds_ok s" "holds_ok (s\<lparr>cr_draws := d\<rparr>) = holds_ok s"
  "holds_ok (rollback s t) = holds_ok s"
  by (simp_all add: holds_ok_def rollback_def)

lemma keeps_crm_tx: "keeps holds_ok m \<Longrightarrow> keeps holds_ok (crm_tx m)"
  by (rule keepsI) (auto simp: wp_simps dest!: keeps_wp elim!: wp_mono)

lemma keeps_holds_stage [intro, simp]: "keeps holds_ok (stage ctx now a b c p)"
  by (rule keeps_stage) simp

subsection \<open>Operations of the pool\<close>

definition shrinks :: "pool \<Rightarrow> pool \<Rightarrow> bool" where
  "shrinks p q \<longleftrightarrow> (\<forall>m tenant oid until. q m = Some (tenant, Soft oid until) \<longrightarrow> p m = Some (tenant, Soft oid until))"

lemma backed_shrinks: "backed p opens \<Longrightarrow> shrinks p q \<Longrightarrow> backed q opens"
  by (simp add: backed_def shrinks_def)

lemma freed_shrinks: "shrinks p (freed owner p)"
  by (auto simp: shrinks_def freed_def split: option.splits prod.splits slot.splits if_splits)

lemma freed_owner: "freed owner p m \<noteq> Some (tenant, Soft owner until)"
  by (auto simp: freed_def split: option.splits prod.splits slot.splits if_splits)

lemma books_shrinks: "books op p q \<Longrightarrow> \<not> (\<exists>ctx now m owner ttl. op = Hold ctx now m owner ttl) \<Longrightarrow> shrinks p q"
  by (induction rule: books.induct)
     (auto simp: shrinks_def extended_def freed_def split: option.splits prod.splits slot.splits if_splits)

lemma keeps_opens_tx: "keeps (\<lambda>t. cr_opens t = z) m \<Longrightarrow> keeps (\<lambda>t. cr_opens t = z) (crm_tx m)"
  by (rule keepsI) (auto simp: wp_simps rollback_def dest!: keeps_wp elim!: wp_mono)

lemma keeps_opens_basic [intro]:
  "keeps (\<lambda>t. cr_opens t = z) (stage ctx now a b c p)" "keeps (\<lambda>t. cr_opens t = z) (update_msisdns cond f)"
  "keeps (\<lambda>t. cr_opens t = z) (maybe_emit_pool_low env now tenant)" "keeps (\<lambda>t. cr_opens t = z) (vanished v)"
  by (auto simp: maybe_emit_pool_low_def update_msisdns_def vanished_def intro!: keeps_stage keeps_modify keeps_bindp keeps_if keeps_case_option)

lemmas keeps_opens_rules = keeps_opens_tx keeps_opens_basic keeps_bindp keeps_gets keeps_ret keeps_throw keeps_if keeps_case_option
  keeps_of_result keeps_for_each

lemma keeps_opens_holds [intro]:
  "keeps (\<lambda>t. cr_opens t = z) (release_holds_for owner)" "keeps (\<lambda>t. cr_opens t = z) (take_hold m owner until now tenant)"
  "keeps (\<lambda>t. cr_opens t = z) (stage_released ctx now owner released)"
  unfolding release_holds_for_def take_hold_def stage_released_def by (intro keeps_opens_rules)+

lemma keeps_opens_pool:
  "keeps (\<lambda>t. cr_opens t = z) (reserve_msisdn env ctx now m)" "keeps (\<lambda>t. cr_opens t = z) (reserve_next_msisdn env ctx now pref)"
  "keeps (\<lambda>t. cr_opens t = z) (assign_msisdn m)" "keeps (\<lambda>t. cr_opens t = z) (release_msisdn m)"
  "keeps (\<lambda>t. cr_opens t = z) (release_msisdn_hold ctx now owner)" "keeps (\<lambda>t. cr_opens t = z) (hold_msisdn ctx now m owner ttl)"
  unfolding reserve_msisdn_def reserve_next_msisdn_def assign_msisdn_def release_msisdn_def release_msisdn_hold_def hold_msisdn_def Let_def
  by (intro keeps_opens_rules keeps_opens_holds)+

lemma keeps_opens_range: "keeps (\<lambda>t. cr_opens t = z) (add_msisdn_range ctx now prefix n)"
  unfolding add_msisdn_range_def Let_def by (intro keeps_opens_rules keeps_modify) simp

lemma pool_step_opens: "cr_opens (snd (pool_step env op s)) = cr_opens s"
  using keepsD [where s = s, OF keeps_opens_pool(1) refl] keepsD [where s = s, OF keeps_opens_pool(2) refl] keepsD [where s = s, OF keeps_opens_pool(3) refl]
    keepsD [where s = s, OF keeps_opens_pool(4) refl] keepsD [where s = s, OF keeps_opens_pool(5) refl] keepsD [where s = s, OF keeps_opens_pool(6) refl]
    keepsD [where s = s, OF keeps_opens_range refl]
  by (cases op) (simp_all add: succeeded_def)

lemma pool_step_holds:
  assumes "holds_ok s" "admissible (PoolIt env op) s"
  shows "holds_ok (snd (pool_step env op s))"
proof -
  have nh: "\<not> (\<exists>ctx now m owner ttl. op = Hold ctx now m owner ttl)" using assms(2) by auto
  have u: "undisturbed op (pool_of (cr_msisdns s))" using assms(2) by (cases op) auto
  have r: "refines op s (pool_step env op s)" using assms(1) u by (intro step_refines) (simp_all add: holds_ok_def)
  obtain ok t where t: "pool_step env op s = (ok, t)" by fastforce
  have o: "cr_opens t = cr_opens s" using pool_step_opens [of env op s] t by simp
  show ?thesis
  proof (cases ok)
    case True
    then have "books op (pool_of (cr_msisdns s)) (pool_of (cr_msisdns t))" "clean_pool (cr_msisdns t)" using r t by (simp_all add: refines_def)
    then show ?thesis using assms(1) t o books_shrinks [OF _ nh] by (auto simp: holds_ok_def intro: backed_shrinks)
  next
    case False
    then show ?thesis using r t o assms(1) by (simp add: refines_def holds_ok_def)
  qed
qed

subsection \<open>Operations on orders\<close>

lemma wp_update_open [wp_simps]:
  "wp (update_open_order oid f) Q E = (\<lambda>s. if one_open_per_owner (tbl_update oo_id oid f (cr_opens s))
     then Q () (s\<lparr>cr_opens := tbl_update oo_id oid f (cr_opens s)\<rparr>) else E (InternalE ''uq_open_order_owner_open'') s)"
  by (rule ext) (simp add: update_open_order_def wp_simps)

text \<open>A change of one order that still backs what the order held.\<close>

lemma update_holds:
  assumes "holds_ok s" "\<And>r. oo_id (f r) = oo_id r"
    and "\<And>r m tenant until. tbl_find oo_id oid (cr_opens s) = Some r \<Longrightarrow> backs r m tenant until \<Longrightarrow>
      pool_of (cr_msisdns s) m = Some (tenant, Soft oid until) \<Longrightarrow> backs (f r) m tenant until"
  shows "wp (update_open_order oid f) (\<lambda>_. holds_ok) (\<lambda>_. holds_ok) s"
proof -
  have "backed (pool_of (cr_msisdns s)) (tbl_update oo_id oid f (cr_opens s))"
    unfolding backed_def
  proof (intro allI impI)
    fix m tenant oid' until
    assume h: "pool_of (cr_msisdns s) m = Some (tenant, Soft oid' until)"
    have "backed (pool_of (cr_msisdns s)) (cr_opens s)" using assms(1) by (simp add: holds_ok_def)
    with h obtain r where r: "tbl_find oo_id oid' (cr_opens s) = Some r" "backs r m tenant until"
      unfolding backed_def by blast
    show "\<exists>r. tbl_find oo_id oid' (tbl_update oo_id oid f (cr_opens s)) = Some r \<and> backs r m tenant until"
      using assms(3) [of r m tenant until] h r by (auto simp: tbl_find_update assms(2))
  qed
  moreover have "map oo_id (tbl_update oo_id oid f (cr_opens s)) = map oo_id (cr_opens s)"
    by (simp add: map_tbl_update assms(2))
  ultimately show ?thesis using assms(1) by (simp add: wp_simps holds_ok_def)
qed

lemma link_holds: "holds_ok s \<Longrightarrow> holds_ok (snd (link_open_order_customer oid c s))"
  by (rule keepsD [OF _], unfold link_open_order_customer_def set_customer_def)
     (intro keeps_crm_tx keeps_bindp keeps_ret, rule keepsI, rule update_holds, simp_all add: backs_def)

lemma advance_holds: "holds_ok s \<Longrightarrow> holds_ok (snd (advance_open_order_step oid step s))"
  by (rule keepsD [OF _], unfold advance_open_order_step_def set_open_order_state_def)
     (intro keeps_crm_tx keeps_bindp keeps_ret, rule keepsI, rule update_holds, simp_all add: backs_def)

lemma complete_holds: "holds_ok s \<Longrightarrow> holds_ok (snd (complete_open_order ctx now oid s))"
  by (rule keepsD [OF _], unfold complete_open_order_def set_open_order_state_def)
     (intro keeps_crm_tx keeps_bindp keeps_ret keeps_holds_stage, rule keepsI, rule update_holds, simp_all add: backs_def)

lemma end_holds: "keeps holds_ok (end_open_order ctx now oid st)"
proof (rule keepsI)
  fix s assume inv: "holds_ok s"
  have rest: "wp (stage_released ctx now oid released) (\<lambda>_. wp (set_open_order_state oid None (Some st) None)
      (\<lambda>_. holds_ok) (\<lambda>_. holds_ok)) (\<lambda>_. holds_ok) (s\<lparr>cr_msisdns := rows\<rparr>)"
    if p: "pool_of rows = freed oid (pool_of (cr_msisdns s))" "clean_pool rows" for released rows
  proof (rule wp_stage_released)
    have inv': "holds_ok (s\<lparr>cr_msisdns := rows\<rparr>)"
      using inv p freed_shrinks by (auto simp: holds_ok_def intro: backed_shrinks)
    show "wp (set_open_order_state oid None (Some st) None) (\<lambda>_. holds_ok) (\<lambda>_. holds_ok) (s\<lparr>cr_msisdns := rows\<rparr>)"
      unfolding set_open_order_state_def
      by (rule update_holds [OF inv']) (simp_all add: p(1) freed_owner)
  next
    fix t x
    assume "wp (set_open_order_state oid None (Some st) None) (\<lambda>_. holds_ok) (\<lambda>_. holds_ok) t"
    then show "wp (set_open_order_state oid None (Some st) None) (\<lambda>_. holds_ok) (\<lambda>_. holds_ok) (t\<lparr>outbox := x\<rparr>)"
      by (auto simp: set_open_order_state_def wp_simps holds_ok_def split: if_splits)
  qed
  show "wp (end_open_order ctx now oid st) (\<lambda>_. holds_ok) (\<lambda>_. holds_ok) s"
    unfolding end_open_order_def wp_simps
    by (rule wp_release_holds, use inv in \<open>simp add: holds_ok_def\<close>)
       (rule wp_mono [OF rest], assumption+, erule wp_mono, simp_all)
qed

lemma cancel_holds: "holds_ok s \<Longrightarrow> holds_ok (snd (cancel_open_order ctx now oid st s))"
  by (rule keepsD, unfold cancel_open_order_def, intro keeps_crm_tx keeps_bindp end_holds keeps_ret)

lemma sweep_holds: "holds_ok s \<Longrightarrow> holds_ok (snd (sweep_tick tenant now s))"
  by (rule keepsD, unfold sweep_tick_def sweep_expired_def,
      intro keeps_ignore_err keeps_crm_tx keeps_bindp keeps_gets keeps_for_each end_holds keeps_ret)

lemma keeps_update_until:
  assumes "holds_ok s" "tbl_find oo_id oid (cr_opens s) = Some existing" "oo_msisdn existing = Some m"
    "\<And>tenant u. pool_of (cr_msisdns s) m = Some (tenant, Soft oid u) \<Longrightarrow> u = until"
  shows "wp (set_open_order_state oid None None (Some until)) (\<lambda>_. holds_ok) (\<lambda>_. holds_ok) s"
  unfolding set_open_order_state_def
  by (rule update_holds [OF assms(1)]) (use assms in \<open>auto simp: backs_def\<close>)

text \<open>Resuming takes the hold again before it moves the order's window.\<close>

lemma resume_holds:
  assumes inv: "holds_ok s" and found: "tbl_find oo_id oid (cr_opens s) = Some existing" "oo_id existing = oid"
    "oo_tenant existing = rc_tenant ctx" "oo_status existing = ''open''"
  shows "wp (resume_open_order ctx now existing m until) (\<lambda>_. holds_ok) (\<lambda>_. holds_ok) s"
proof (cases "oo_msisdn existing = Some m")
  case True
  let ?T = "rc_tenant ctx" and ?p = "pool_of (cr_msisdns s)"
  let ?f = "\<lambda>r. r\<lparr>oo_step := unwrap_or (oo_step r) None, oo_status := unwrap_or (oo_status r) None, oo_until := Some until\<rparr>"
  let ?opens = "tbl_update oo_id oid ?f (cr_opens s)"
  have clean: "clean_pool (cr_msisdns s)" and one: "one_open_per_owner (cr_opens s)"
    and ids: "distinct (map oo_id (cr_opens s))" and backed: "backed ?p (cr_opens s)"
    using inv by (simp_all add: holds_ok_def)
  have stat: "map (\<lambda>r. (oo_status r, oo_owner r)) ?opens = map (\<lambda>r. (oo_status r, oo_owner r)) (cr_opens s)"
    by (rule map_tbl_update) simp
  have "map oo_owner (filter (\<lambda>r. oo_status r = ''open'') rows) = map snd (filter (\<lambda>x. fst x = ''open'') (map (\<lambda>r. (oo_status r, oo_owner r)) rows))"
    for rows :: "open_order_row list" by (induction rows) auto
  then have one': "one_open_per_owner ?opens" using one unfolding one_open_per_owner_def by (simp only: stat)
  have ids': "map oo_id ?opens = map oo_id (cr_opens s)" by (rule map_tbl_update) simp
  have held: "pool_of (cr_msisdns s) m = Some (tenant, Soft oid u) \<Longrightarrow> hold_taken m oid now ?T ?p" for tenant u
  proof -
    assume h: "pool_of (cr_msisdns s) m = Some (tenant, Soft oid u)"
    then have "tenant = ?T" using backedD [OF backed h] found by (auto simp: backs_def)
    with h show ?thesis by (simp add: hold_taken_def can_hold_def)
  qed
  have still: "\<exists>r. tbl_find oo_id oid' ?opens = Some r \<and> backs r m' tenant u"
    if h: "?p m' = Some (tenant, Soft oid' u)" and other: "m' \<noteq> m" for m' tenant oid' u
  proof -
    obtain r where r: "tbl_find oo_id oid' (cr_opens s) = Some r" "backs r m' tenant u"
      using backedD [OF backed h] by blast
    then have "oid' \<noteq> oid" using found True other by (auto simp: backs_def)
    then show ?thesis using r by (auto simp: tbl_find_update)
  qed
  show ?thesis
    unfolding resume_open_order_def using True found(2)
  proof (simp add: wp_simps, intro wp_take_hold [OF clean], goal_cases)
    case (1 rows)
    have pl: "pool_of rows = ?p(m \<mapsto> (?T, Soft oid until))" "clean_pool rows" using 1 by simp_all
    have "tbl_find oo_id oid ?opens = Some (?f existing)" using found by (auto simp: tbl_find_update)
    then have new: "\<exists>r. tbl_find oo_id oid ?opens = Some r \<and> backs r m ?T until" using found True by (auto simp: backs_def)
    have "backed (pool_of rows) ?opens"
      unfolding backed_def
    proof (intro allI impI)
      fix m' tenant oid' u assume "pool_of rows m' = Some (tenant, Soft oid' u)"
      then show "\<exists>r. tbl_find oo_id oid' ?opens = Some r \<and> backs r m' tenant u"
        using pl(1) still new by (cases "m' = m") auto
    qed
    then show ?case using pl found(2) one' ids ids' by (simp add: set_open_order_state_def wp_simps holds_ok_def)
  next
    case 2
    have none: "\<not> hold_taken m oid now ?T ?p" using 2 by simp
    have "backed ?p ?opens"
      unfolding backed_def
    proof (intro allI impI)
      fix m' tenant oid' u assume h: "?p m' = Some (tenant, Soft oid' u)"
      show "\<exists>r. tbl_find oo_id oid' ?opens = Some r \<and> backs r m' tenant u"
      proof (cases "m' = m")
        case same: True
        have "oid' \<noteq> oid" using h same none held by blast
        moreover obtain r where "tbl_find oo_id oid' (cr_opens s) = Some r" "backs r m' tenant u"
          using backedD [OF backed h] by blast
        ultimately show ?thesis by (auto simp: tbl_find_update)
      qed (use still h in blast)
    qed
    then show ?case using clean found(2) one' ids ids' by (simp add: set_open_order_state_def wp_simps holds_ok_def)
  qed
qed (use inv in \<open>simp add: resume_open_order_def wp_simps\<close>)

lemma start_holds:
  assumes inv: "holds_ok s"
  shows "wp (start_open_order ctx now oid identity plan m until) (\<lambda>_. holds_ok) (\<lambda>_ _. True) s"
proof -
  let ?row = "\<lparr>oo_id = oid, oo_owner = identity, oo_customer = None, oo_plan = plan, oo_msisdn = Some m, oo_iccid = None,
    oo_step = ''pending_customer'', oo_status = ''open'', oo_until = Some until, oo_tenant = rc_tenant ctx\<rparr>"
  have clean: "clean_pool (cr_msisdns s)" and one: "one_open_per_owner (cr_opens s)"
    and ids: "distinct (map oo_id (cr_opens s))" and backed: "backed (pool_of (cr_msisdns s)) (cr_opens s)"
    using inv by (simp_all add: holds_ok_def)
  have ok: "wp (take_hold m oid until now (rc_tenant ctx)) (\<lambda>held t. held \<longrightarrow> holds_ok t) (\<lambda>_ _. True) (s\<lparr>cr_opens := cr_opens s @ [?row]\<rparr>)"
    if fresh: "tbl_find oo_id oid (cr_opens s) = None" "\<not> list_ex (\<lambda>r. oo_owner r = identity \<and> oo_status r = ''open'') (cr_opens s)"
  proof (rule wp_take_hold)
    fix rows
    assume p: "pool_of rows = (pool_of (cr_msisdns (s\<lparr>cr_opens := cr_opens s @ [?row]\<rparr>)))(m \<mapsto> (rc_tenant ctx, Soft oid until))" "clean_pool rows"
    have "backed (pool_of rows) (cr_opens s @ [?row])"
      unfolding backed_def
    proof (intro allI impI)
      fix m' tenant oid' u assume h: "pool_of rows m' = Some (tenant, Soft oid' u)"
      show "\<exists>r. tbl_find oo_id oid' (cr_opens s @ [?row]) = Some r \<and> backs r m' tenant u"
      proof (cases "m' = m")
        case True
        then show ?thesis using h p(1) fresh(1) by (auto simp: tbl_find_append backs_def)
      next
        case False
        then have "pool_of (cr_msisdns s) m' = Some (tenant, Soft oid' u)" using h p(1) by simp
        then obtain r where "tbl_find oo_id oid' (cr_opens s) = Some r" "backs r m' tenant u"
          using backedD [OF backed] by blast
        then show ?thesis by (auto simp: tbl_find_append)
      qed
    qed
    moreover have "distinct (map oo_id (cr_opens s @ [?row]))" using ids fresh(1) by (auto simp: tbl_find_None_iff)
    moreover have "one_open_per_owner (cr_opens s @ [?row])" using one fresh(2) by (auto simp: one_open_per_owner_def list_ex_iff)
    ultimately show "True \<longrightarrow> holds_ok (s\<lparr>cr_opens := cr_opens s @ [?row], cr_msisdns := rows\<rparr>)" using p(2) by (simp add: holds_ok_def)
  qed (use clean in simp_all)
  have held: "wp (take_hold m oid until now (rc_tenant ctx))
      (\<lambda>held. wp (if \<not> held then throw (violate ''inventory.msisdn.unavailable'' [(''msisdn'', JStr m)])
         else bindp (stage ctx now ''open_order.opened'' ''open_order'' oid j) (\<lambda>_. ret True)) (\<lambda>_. holds_ok) (\<lambda>_ _. True))
      (\<lambda>_ _. True) (s\<lparr>cr_opens := cr_opens s @ [?row]\<rparr>)"
    if "tbl_find oo_id oid (cr_opens s) = None" "\<not> list_ex (\<lambda>r. oo_owner r = identity \<and> oo_status r = ''open'') (cr_opens s)" for j
    by (rule wp_mono [OF ok [OF that]]) (simp_all add: wp_simps)
  show ?thesis
    unfolding start_open_order_def insert_open_order_def
    using held inv by (simp add: wp_bindp wp_gets wp_if wp_ret wp_throw wp_modify del: not_None_eq)
qed

lemma wp_reply [wp_simps]:
  "wp (open_order_reply resumed oid) Q E = (\<lambda>s. case get_open_order_row s oid of None \<Rightarrow> E (InternalE ''vanished'') s
     | Some r \<Rightarrow> Q (jinsert ''resumed'' (JBool resumed) (open_order_json r)) s)"
  by (rule ext) (simp add: open_order_reply_def wp_simps)

lemma identity_found:
  assumes "get_open_order_by_identity s identity tenant = Some r"
  shows "r \<in> set (cr_opens s)" "oo_owner r = identity" "oo_status r = ''open''" "oo_tenant r = tenant"
  using assms unfolding get_open_order_by_identity_def by (auto simp: find_Some_iff)

lemma find_open_id: "distinct (map oo_id rows) \<Longrightarrow> r \<in> set rows \<Longrightarrow> tbl_find oo_id (oo_id r) rows = Some r"
  by (induction rows) (auto simp: image_iff)

lemma try_holds:
  assumes inv: "holds_ok s"
  shows "wp (try_open_order env ctx now identity plan m ttl) (\<lambda>_. holds_ok) (\<lambda>_. holds_ok) s"
proof (cases "get_open_order_by_identity s identity (rc_tenant ctx)")
  case None
  have start: "wp (start_open_order ctx now oid identity plan m (now + seconds ttl)) (\<lambda>_. holds_ok) (\<lambda>_ _. True)
      (s\<lparr>cr_draws := Suc (cr_draws s)\<rparr>)" for oid
    by (rule start_holds) (simp add: inv)
  show ?thesis
    unfolding try_open_order_def Let_def draw_def
    by (simp add: wp_simps None, rule wp_mono [OF start]) (auto simp: inv wp_simps split: option.splits)
next
  case (Some r)
  note r = identity_found [OF Some]
  have "tbl_find oo_id (oo_id r) (cr_opens s) = Some r" using inv r(1) by (simp add: find_open_id holds_ok_def)
  then have resume: "wp (resume_open_order ctx now r m (now + seconds ttl)) (\<lambda>_. holds_ok) (\<lambda>_. holds_ok) s"
    using r by (intro resume_holds [OF inv]) auto
  show ?thesis
    unfolding try_open_order_def Let_def
    by (simp add: wp_simps Some, rule wp_mono [OF resume]) (auto simp: inv split: option.splits)
qed

lemma create_holds:
  assumes "create_or_resume_open_order env ctx now identity plan m ttl s = Some r" "holds_ok s"
  shows "holds_ok (snd r)"
  using assms
proof (induction arbitrary: rule: create_or_resume_open_order.raw_induct [rotated, of env ctx now identity plan m ttl s r, consumes 1])
  case (1 create env ctx now identity plan m ttl s r)
  have w: "wp (try_open_order env ctx now identity plan m ttl) (\<lambda>_. holds_ok) (\<lambda>_. holds_ok) s" by (rule try_holds) (rule 1(3))
  show ?case
  proof (cases "try_open_order env ctx now identity plan m ttl s")
    case (Pair out t)
    then have "holds_ok t" using w by (cases out) (simp_all add: wp_def)
    then show ?thesis using 1 Pair by (auto split: sum.splits option.splits)
  qed
qed

lemma order_step_holds: "holds_ok s \<Longrightarrow> admissible op s \<Longrightarrow> holds_ok (order_step op s)"
  by (cases op) (auto simp: link_holds advance_holds complete_holds cancel_holds sweep_holds pool_step_holds
      split: option.splits dest!: create_holds)

text \<open>
  C31: every soft hold on a number is backed by an order: over any sequence of starting,
  resuming, linking, advancing, completing, cancelling and sweeping open orders, mixed with
  every operation of the number pool but a hold under a name of the caller's choice (and never
  assigning or releasing a number that is only held), a number held for an order is the number
  that order asked for, in its tenant, until the instant the order shows, the order is still
  open or was completed, and no owner has two open orders.
\<close>
theorem every_hold_is_backed:
  assumes "holds_ok s" and "admissible_run ops s"
  shows "holds_ok (fold order_step ops s)"
  using assms by (induction ops arbitrary: s) (simp_all add: order_step_holds)

section \<open>Starting an order returns\<close>

abbreviation has_open :: "string \<Rightarrow> crm_db \<Rightarrow> bool" where
  "has_open identity s \<equiv> list_ex (\<lambda>r. oo_owner r = identity \<and> oo_status r = ''open'') (cr_opens s)"

text \<open>An open order in another tenant refuses the insert, and nothing but the draw changes.\<close>

lemma try_refused:
  assumes "get_open_order_by_identity s identity (rc_tenant ctx) = None" "has_open identity s"
  shows "try_open_order env ctx now identity plan m ttl s = (Inr None, s\<lparr>cr_draws := Suc (cr_draws s)\<rparr>)"
  using assms
  by (simp add: try_open_order_def Let_def bindp_def gets_def draw_def modify_def ret_def crm_tx_def start_open_order_def
      insert_open_order_def)

lemma try_settles:
  assumes "get_open_order_by_identity s identity (rc_tenant ctx) \<noteq> None \<or> \<not> has_open identity s"
  shows "wp (try_open_order env ctx now identity plan m ttl) (\<lambda>out _. out \<noteq> None) (\<lambda>_ _. True) s"
proof (cases "get_open_order_by_identity s identity (rc_tenant ctx)")
  case (Some r)
  have "wp (resume_open_order ctx now r m (now + seconds ttl)) (\<lambda>_ _. True) (\<lambda>_ _. True) s"
    by (rule wp_I) simp_all
  then show ?thesis
    unfolding try_open_order_def Let_def
    by (simp add: wp_simps Some) (erule wp_mono, auto split: option.splits)
next
  case None
  then have free: "\<not> has_open identity s" using assms by simp
  have "wp (take_hold m oid until now (rc_tenant ctx)) (\<lambda>_ _. True) (\<lambda>_ _. True) t" for oid until t
    by (rule wp_I) simp_all
  then have "wp (take_hold m oid until now (rc_tenant ctx)) (\<lambda>held. wp (if \<not> held then throw (violate ''inventory.msisdn.unavailable'' [(''msisdn'', JStr m)])
       else bindp (stage ctx now ''open_order.opened'' ''open_order'' oid j) (\<lambda>_. ret True)) (\<lambda>ok _. ok) (\<lambda>_ _. True)) (\<lambda>_ _. True) t" for oid until j t
    by (rule wp_mono) (simp_all add: wp_simps)
  then have start: "wp (start_open_order ctx now oid identity plan m until) (\<lambda>ok _. ok) (\<lambda>_ _. True) (s\<lparr>cr_draws := d\<rparr>)" for oid until d
    unfolding start_open_order_def insert_open_order_def
    using free by (simp add: wp_bindp wp_gets wp_if wp_ret wp_throw wp_modify del: not_None_eq)
  show ?thesis
    unfolding try_open_order_def Let_def draw_def
    by (simp add: wp_simps None, rule wp_mono [OF start]) (auto simp: wp_simps split: option.splits)
qed

lemma never_returns:
  assumes "create_or_resume_open_order env ctx now identity plan m ttl s = Some r"
  shows "get_open_order_by_identity s identity (rc_tenant ctx) \<noteq> None \<or> \<not> has_open identity s"
  using assms
proof (induction rule: create_or_resume_open_order.raw_induct [rotated, of env ctx now identity plan m ttl s r, consumes 1])
  case (1 create env ctx now identity plan m ttl s r)
  show ?case
  proof (rule ccontr)
    assume stuck: "\<not> ?case"
    let ?t = "s\<lparr>cr_draws := Suc (cr_draws s)\<rparr>"
    have "create env ctx now identity plan m ttl ?t = Some r"
      using 1(2) stuck by (simp add: try_refused)
    from 1(1) [OF this] stuck show False by (simp add: get_open_order_by_identity_def)
  qed
qed

lemma request_returns:
  "(\<exists>r. create_or_resume_open_order env ctx now identity plan m ttl s = Some r) \<longleftrightarrow>
     get_open_order_by_identity s identity (rc_tenant ctx) \<noteq> None \<or>
     \<not> list_ex (\<lambda>r. oo_owner r = identity \<and> oo_status r = ''open'') (cr_opens s)"
proof
  assume "get_open_order_by_identity s identity (rc_tenant ctx) \<noteq> None \<or> \<not> has_open identity s"
  then have w: "wp (try_open_order env ctx now identity plan m ttl) (\<lambda>out _. out \<noteq> None) (\<lambda>_ _. True) s" by (rule try_settles)
  obtain out t where run: "try_open_order env ctx now identity plan m ttl s = (out, t)" by fastforce
  show "\<exists>r. create_or_resume_open_order env ctx now identity plan m ttl s = Some r"
  proof (cases out)
    case (Inl e)
    then show ?thesis by (subst create_or_resume_open_order.simps) (simp add: run)
  next
    case (Inr x)
    with w run obtain j where "x = Some j" by (auto simp: wp_def)
    with Inr show ?thesis by (subst create_or_resume_open_order.simps) (simp add: run)
  qed
qed (auto dest: never_returns)

text \<open>
  C32: a request to start or resume an open order fails to return (an order or an error)
  exactly when the owner has an open order, but not in the caller's tenant: then the insert
  loses its conflict on every round, and the function calls itself for ever. With an order of
  the owner in the tenant, or none at all, it returns.
\<close>
theorem open_order_request_returns:
  "create_or_resume_open_order env ctx now identity plan m ttl s = None \<longleftrightarrow>
     get_open_order_by_identity s identity (rc_tenant ctx) = None \<and>
     list_ex (\<lambda>r. oo_owner r = identity \<and> oo_status r = ''open'') (cr_opens s)"
proof -
  let ?run = "create_or_resume_open_order env ctx now identity plan m ttl s"
  have "?run = None \<longleftrightarrow> \<not> (\<exists>r. ?run = Some r)" by (cases ?run) simp_all
  then show ?thesis unfolding request_returns by blast
qed

section \<open>The sweep\<close>

definition expired_orders :: "crm_db \<Rightarrow> string \<Rightarrow> int \<Rightarrow> open_order_row list" where
  "expired_orders s tenant now = filter (\<lambda>r. oo_status r = ''open'' \<and> oo_tenant r = tenant \<and>
     (case oo_until r of None \<Rightarrow> False | Some u \<Rightarrow> u \<le> now)) (cr_opens s)"

abbreviation expire :: "open_order_row \<Rightarrow> open_order_row" where
  "expire \<equiv> \<lambda>r. r\<lparr>oo_step := unwrap_or (oo_step r) None, oo_status := unwrap_or (oo_status r) (Some ''expired''), oo_until := oo_until r\<rparr>"

lemma closing_keeps_unique:
  assumes "one_open_per_owner rows" "\<And>r. oo_status (f r) \<noteq> ''open''"
  shows "one_open_per_owner (tbl_update oo_id oid f rows)"
proof -
  have eq: "map oo_owner (filter (\<lambda>r. oo_status r = ''open'') (tbl_update oo_id oid f rows))
      = map oo_owner (filter (\<lambda>r. oo_id r \<noteq> oid) (filter (\<lambda>r. oo_status r = ''open'') rows))"
    using assms(2) by (induction rows) auto
  show ?thesis using assms(1) unfolding one_open_per_owner_def eq by (rule distinct_map_filter)
qed

lemma wp_end_order:
  assumes "one_open_per_owner (cr_opens s)"
  shows "wp (end_open_order ctx now oid ''expired'') (\<lambda>_ t. cr_opens t = tbl_update oo_id oid expire (cr_opens s)) (\<lambda>_ _. False) s"
proof -
  have one: "one_open_per_owner (tbl_update oo_id oid expire (cr_opens s))" by (rule closing_keeps_unique [OF assms]) simp
  have "wp (stage_released ctx now oid released) (\<lambda>_ t. cr_opens t = cr_opens s) (\<lambda>_ _. False) (s\<lparr>cr_msisdns := rows\<rparr>)" for released rows
    by (rule wp_stage_released) simp_all
  then have "wp (stage_released ctx now oid released) (\<lambda>_. wp (set_open_order_state oid None (Some ''expired'') None)
      (\<lambda>_ t. cr_opens t = tbl_update oo_id oid expire (cr_opens s)) (\<lambda>_ _. False)) (\<lambda>_ _. False) (s\<lparr>cr_msisdns := rows\<rparr>)" for released rows
    by (rule wp_mono) (use one in \<open>simp_all add: set_open_order_state_def wp_simps\<close>)
  then show ?thesis unfolding end_open_order_def release_holds_for_def by (simp add: wp_simps)
qed

lemma wp_expire_all:
  assumes "one_open_per_owner (cr_opens s)"
  shows "wp (for_each ids (\<lambda>oid. bindp (end_open_order ctx now oid ''expired'') (\<lambda>_. ret ())))
    (\<lambda>_ t. cr_opens t = map (\<lambda>r. if oo_id r \<in> set ids then expire r else r) (cr_opens s)) (\<lambda>_ _. False) s"
  using assms
proof (induction ids arbitrary: s)
  case Nil
  then show ?case by (simp add: wp_simps)
next
  case (Cons oid ids)
  have one: "one_open_per_owner (tbl_update oo_id oid expire (cr_opens s))" by (rule closing_keeps_unique [OF Cons.prems]) simp
  have eq: "map (\<lambda>r. if oo_id r \<in> set ids then expire r else r) (tbl_update oo_id oid expire (cr_opens s))
      = map (\<lambda>r. if oo_id r \<in> set (oid # ids) then expire r else r) (cr_opens s)"
    by (simp add: tbl_update_def)
  have "wp (for_each ids (\<lambda>oid. bindp (end_open_order ctx now oid ''expired'') (\<lambda>_. ret ())))
      (\<lambda>_ t. cr_opens t = map (\<lambda>r. if oo_id r \<in> set (oid # ids) then expire r else r) (cr_opens s)) (\<lambda>_ _. False) u"
    if "cr_opens u = tbl_update oo_id oid expire (cr_opens s)" for u
    using Cons.IH [of u] one eq that by simp
  then show ?case using wp_mono [OF wp_end_order [OF Cons.prems]] by (simp add: wp_simps)
qed

lemma filter_take_keys:
  "distinct (map k xs) \<Longrightarrow> filter (\<lambda>r. k r \<notin> k ` set (take n xs)) xs = drop n xs"
proof -
  assume d: "distinct (map k xs)"
  have "distinct (map k (take n xs @ drop n xs))" using d by simp
  then have "\<forall>r \<in> set (drop n xs). k r \<notin> k ` set (take n xs)" by (auto simp del: append_take_drop_id)
  then have "filter (\<lambda>r. k r \<notin> k ` set (take n xs)) (take n xs @ drop n xs) = drop n xs"
    unfolding filter_append by (simp add: filter_empty_conv)
  then show ?thesis by simp
qed

lemma expired_after:
  "filter (\<lambda>r. oo_status r = ''open'' \<and> P r) (map (\<lambda>r. if oo_id r \<in> ids then expire r else r) rows)
     = filter (\<lambda>r. oo_id r \<notin> ids) (filter (\<lambda>r. oo_status r = ''open'' \<and> P r) rows)"
  by (induction rows) auto

lemma sweep_takes_a_batch:
  assumes "holds_ok s"
  shows "length (expired_orders (snd (sweep_tick tenant now s)) tenant now) = length (expired_orders s tenant now) - 100"
    and "r \<in> set (cr_opens s) \<Longrightarrow> r \<notin> set (expired_orders s tenant now) \<Longrightarrow> r \<in> set (cr_opens (snd (sweep_tick tenant now s)))"
proof -
  let ?E = "expired_orders s tenant now" and ?t = "snd (sweep_tick tenant now s)"
  let ?S = "sort_key (\<lambda>r. the (oo_until r)) ?E"
  let ?ids = "lock_expired_open_orders s now 100 tenant"
  have ids: "?ids = map oo_id (take 100 ?S)" by (simp add: lock_expired_open_orders_def expired_orders_def)
  have "distinct (map oo_id (cr_opens s))" "one_open_per_owner (cr_opens s)" using assms by (simp_all add: holds_ok_def)
  then have "wp (sweep_expired tenant now) (\<lambda>_ t. cr_opens t = map (\<lambda>r. if oo_id r \<in> set ?ids then expire r else r) (cr_opens s)) (\<lambda>_ _. False) s"
    using wp_mono [OF wp_expire_all] by (simp add: sweep_expired_def wp_simps)
  then have opens: "cr_opens ?t = map (\<lambda>r. if oo_id r \<in> set ?ids then expire r else r) (cr_opens s)"
    unfolding sweep_tick_def ignore_err_def wp_def by (auto split: prod.splits sum.splits)
  have d: "distinct (map oo_id (cr_opens s))" using assms by (simp add: holds_ok_def)
  then have dE: "distinct (map oo_id ?E)" unfolding expired_orders_def by (rule distinct_map_filter)
  have "expired_orders ?t tenant now = filter (\<lambda>r. oo_id r \<notin> set ?ids) ?E"
    unfolding expired_orders_def opens by (rule expired_after)
  also have "length \<dots> = length (filter (\<lambda>r. oo_id r \<notin> set ?ids) ?S)"
    by (simp add: filter_sort)
  also have "filter (\<lambda>r. oo_id r \<notin> set ?ids) ?S = drop 100 ?S"
  proof -
    have "distinct (map oo_id ?S)" using dE by (simp add: distinct_map inj_on_def distinct_sort)
    then show ?thesis unfolding ids by (simp add: filter_take_keys)
  qed
  finally show "length (expired_orders ?t tenant now) = length ?E - 100" by simp
  show "r \<in> set (cr_opens ?t)" if r: "r \<in> set (cr_opens s)" "r \<notin> set ?E"
  proof -
    have "oo_id r \<notin> set ?ids"
    proof
      assume "oo_id r \<in> set ?ids"
      then obtain r' where r': "r' \<in> set ?S" "oo_id r' = oo_id r" unfolding ids by (auto dest: in_set_takeD)
      then have "r' \<in> set ?E" by simp
      then have "r' \<in> set (cr_opens s)" by (simp add: expired_orders_def)
      then have "r' = r" using find_open_id [OF d] r(1) r'(2) by (metis option.inject)
      with \<open>r' \<in> set ?E\<close> r(2) show False by simp
    qed
    then show ?thesis unfolding opens using r(1) by force
  qed
qed

fun sweeps :: "nat \<Rightarrow> string \<Rightarrow> int \<Rightarrow> crm_db \<Rightarrow> crm_db" where
  "sweeps 0 tenant now s = s"
| "sweeps (Suc n) tenant now s = sweeps n tenant now (snd (sweep_tick tenant now s))"

lemma sweeps_holds: "holds_ok s \<Longrightarrow> holds_ok (sweeps n tenant now s)"
  by (induction n arbitrary: s) (simp_all add: sweep_holds)

lemma sweeps_count: "holds_ok s \<Longrightarrow> length (expired_orders (sweeps n tenant now s) tenant now) = length (expired_orders s tenant now) - 100 * n"
  by (induction n arbitrary: s) (simp_all add: sweep_takes_a_batch(1) sweep_holds)

lemma sweep_drops_only_expired:
  assumes "holds_ok s" "r \<in> set (cr_opens s)" "r \<notin> set (expired_orders s tenant now)"
  shows "r \<notin> set (expired_orders (snd (sweep_tick tenant now s)) tenant now)"
  using assms(2,3) by (auto simp: expired_orders_def)

lemma sweeps_keep:
  assumes "holds_ok s" "r \<in> set (cr_opens s)" "r \<notin> set (expired_orders s tenant now)"
  shows "r \<in> set (cr_opens (sweeps n tenant now s))"
  using assms
proof (induction n arbitrary: s)
  case (Suc n)
  then show ?case using sweep_takes_a_batch(2) sweep_drops_only_expired sweep_holds by simp
qed simp

text \<open>
  C33: the sweep gives every expired number back: from any state whose holds are backed, enough
  ticks (one per hundred expired orders) leave no expired open order in the tenant, no number
  held past its window except for an order that was completed meanwhile, and every order that
  had not expired as it was.
\<close>
theorem sweeps_return_expired_numbers:
  assumes "holds_ok s" and "length (expired_orders s tenant now) \<le> 100 * n"
  shows "let t = sweeps n tenant now s in
    expired_orders t tenant now = [] \<and>
    (\<forall>m oid until. pool_of (cr_msisdns t) m = Some (tenant, Soft oid until) \<and> until \<le> now \<longrightarrow>
       (\<exists>r. tbl_find oo_id oid (cr_opens t) = Some r \<and> oo_status r = ''completed'')) \<and>
    (\<forall>r \<in> set (cr_opens s). r \<notin> set (expired_orders s tenant now) \<longrightarrow> r \<in> set (cr_opens t))"
proof -
  let ?t = "sweeps n tenant now s"
  have inv: "holds_ok ?t" using assms(1) by (rule sweeps_holds)
  have none: "expired_orders ?t tenant now = []" using sweeps_count [OF assms(1), of n tenant now] assms(2) by simp
  have "\<exists>r. tbl_find oo_id oid (cr_opens ?t) = Some r \<and> oo_status r = ''completed''"
    if h: "pool_of (cr_msisdns ?t) m = Some (tenant, Soft oid until)" "until \<le> now" for m oid until
  proof -
    obtain r where r: "tbl_find oo_id oid (cr_opens ?t) = Some r" "backs r m tenant until"
      using backedD [where p = "pool_of (cr_msisdns ?t)" and opens = "cr_opens ?t", OF _ h(1)] inv by (auto simp: holds_ok_def)
    moreover have "oo_status r \<noteq> ''open''"
    proof
      assume "oo_status r = ''open''"
      then have "r \<in> set (expired_orders ?t tenant now)"
        using r h(2) tbl_find_SomeD [OF r(1)] by (simp add: expired_orders_def backs_def)
      with none show False by simp
    qed
    ultimately show ?thesis by (auto simp: backs_def)
  qed
  with none sweeps_keep [OF assms(1)] show ?thesis unfolding Let_def by blast
qed

end
