(* ===== verification/InventoryProps.thy ===== *)
theory InventoryProps
  imports OrderHolds
begin

text \<open>
  Concrete instances of the inventory's theorems, and what happens outside their hypotheses: a
  number released while it is only held keeps the marker of the old hold.
\<close>

section \<open>A small shop\<close>

definition demo_env :: crm_env where
  "demo_env = \<lparr>cv_hex = (\<lambda>n. ''0''), cv_sub = (\<lambda>_. Inl NotFoundErr), cv_subs_of = (\<lambda>_. Inr (JArr [])), cv_loyalty = False,
     cv_pool_low = 0, cv_prebaked = False, cv_doc_reuse = False, cv_sha = (\<lambda>x. x), cv_date = (\<lambda>_. None),
     cv_time = (\<lambda>_. None), cv_uuid = (\<lambda>_. None)\<rparr>"

definition empty_crm :: crm_db where
  "empty_crm = \<lparr>outbox = [], inbox = [], calls = [], cr_draws = 0, cr_customers = [], cr_individuals = [], cr_mediums = [],
     cr_agents = [], cr_interactions = [], cr_cases = [], cr_notes = [], cr_tickets = [], cr_ticket_hist = [], cr_ports = [],
     cr_msisdns = [], cr_opens = [], cr_esims = [], cr_identities = [], cr_corroborations = [], cr_transcripts = []\<rparr>"

definition one_number :: crm_db where
  "one_number = empty_crm\<lparr>cr_msisdns := [fresh_number ''DEFAULT'' ''9'']\<rparr>"

lemmas demo_simps = demo_env_def empty_crm_def one_number_def fresh_number_def default_ctx_def

lemmas pool_code = succeeded_def bindp_def gets_def ret_def throw_def modify_def of_result_def crm_tx_def Let_def
  reserve_msisdn_def reserve_next_msisdn_def assign_msisdn_def release_msisdn_def hold_msisdn_def release_msisdn_hold_def
  maybe_emit_pool_low_def update_msisdns_def vanished_def get_msisdn_def take_hold_def holdable_def release_holds_for_def
  held_by_def stage_released_def stage_def pick_next_def check_msisdn_releasable_def rollback_def

lemma demo_clean: "clean_pool (cr_msisdns one_number)"
  by (simp add: clean_pool_def clean_row_def demo_simps)

lemma pool_refines_reservations_witness:
  "\<exists>oks t. pool_run demo_env [Hold default_ctx 0 ''9'' ''OO-1'' 5, ReserveNext default_ctx 1 (Some ''9''), Assign ''9'', Assign ''8''] one_number = (oks, t)
     \<and> oks = [True, True, True, False] \<and> serves [Hold default_ctx 0 ''9'' ''OO-1'' 5, ReserveNext default_ctx 1 (Some ''9''), Assign ''9'', Assign ''8'']
       (pool_of (cr_msisdns one_number)) oks (pool_of (cr_msisdns t))"
proof -
  let ?ops = "[Hold default_ctx 0 ''9'' ''OO-1'' 5, ReserveNext default_ctx 1 (Some ''9''), Assign ''9'', Assign ''8'']"
  obtain oks t where run: "pool_run demo_env ?ops one_number = (oks, t)" by fastforce
  have oks: "oks = [True, True, True, False]" using run by (simp add: pool_code demo_simps)
  have "never_disturbed demo_env ?ops one_number"
    by (simp add: pool_code demo_simps pool_of_def slot_of_def is_soft_def)
  from pool_refines_reservations [OF demo_clean this run] run oks show ?thesis by blast
qed

section \<open>A stale marker\<close>

abbreviation at_number :: "string \<Rightarrow> (msisdn_row \<Rightarrow> msisdn_row) \<Rightarrow> msisdn_row list \<Rightarrow> msisdn_row list" where
  "at_number m f rows \<equiv> map (\<lambda>r. if mn_number r = m then f r else r) rows"

lemma released_rows:
  assumes "tbl_find mn_number m (cr_msisdns s) = Some r" "mn_status r = ''reserved''"
  shows "cr_msisdns (snd (release_msisdn m s)) = at_number m (\<lambda>r. r\<lparr>mn_status := ''available'', mn_reserved_at := None, mn_sub := None\<rparr>) (cr_msisdns s)"
proof -
  have "wp (release_msisdn m) (\<lambda>_ t. cr_msisdns t = at_number m (\<lambda>r. r\<lparr>mn_status := ''available'', mn_reserved_at := None, mn_sub := None\<rparr>) (cr_msisdns s)) (\<lambda>_ _. False) s"
    using assms by (simp add: release_msisdn_def wp_simps get_msisdn_def check_msisdn_releasable_def reread)
  then show ?thesis by (auto simp: wp_def split: prod.splits sum.splits)
qed

lemma reserved_rows:
  assumes "distinct (map mn_number (cr_msisdns s))" "tbl_find mn_number m (cr_msisdns s) = Some r"
    "mn_status r = ''available''" "mn_tenant r = rc_tenant ctx"
  shows "\<not> isl (fst (reserve_msisdn env ctx now m s)) \<and> cr_msisdns (snd (reserve_msisdn env ctx now m s))
       = at_number m (\<lambda>r. r\<lparr>mn_status := ''reserved'', mn_reserved_at := Some now\<rparr>) (cr_msisdns s)"
proof -
  have "wp (reserve_msisdn env ctx now m) (\<lambda>_ t. cr_msisdns t = at_number m (\<lambda>r. r\<lparr>mn_status := ''reserved'', mn_reserved_at := Some now\<rparr>) (cr_msisdns s)) (\<lambda>_ _. False) s"
    using assms by (simp add: reserve_msisdn_def wp_simps find_number [OF assms(1)] maybe_emit_pool_low_def get_msisdn_def reread)
  then show ?thesis by (auto simp: wp_def split: prod.splits sum.splits)
qed

lemma unheld_rows: "cr_msisdns (snd (release_msisdn_hold ctx now owner s)) = map (unheld owner) (cr_msisdns s)"
proof -
  have "wp (stage_released ctx now owner released) (\<lambda>_ t. cr_msisdns t = map (unheld owner) (cr_msisdns s)) (\<lambda>_ _. False)
      (s\<lparr>cr_msisdns := map (unheld owner) (cr_msisdns s)\<rparr>)" for released
    by (rule wp_stage_released) simp_all
  then have "wp (release_msisdn_hold ctx now owner) (\<lambda>_ t. cr_msisdns t = map (unheld owner) (cr_msisdns s)) (\<lambda>_ _. False) s"
    unfolding release_msisdn_hold_def release_holds_for_def by (simp add: wp_simps)
  then show ?thesis by (auto simp: wp_def split: prod.splits sum.splits)
qed

text \<open>
  releasing a number that is only softly held leaves the hold's marker on it, and
  reserving it does not clear the marker either: when the old holder's order is cancelled or
  its holds are released, the number that somebody else has hard reserved in the meantime goes
  back to the free pool.
\<close>
theorem stale_marker_frees_hard_reserve:
  assumes clean: "clean_pool (cr_msisdns s)"
    and held: "pool_of (cr_msisdns s) m = Some (rc_tenant ctx, Soft owner until)"
  shows "let s1 = snd (release_msisdn m s);
             (r2, s2) = reserve_msisdn env ctx now m s1;
             s3 = snd (release_msisdn_hold ctx' now' owner s2)
         in \<not> isl r2 \<and> (\<exists>r. get_msisdn s2 m = Some r \<and> mn_status r = ''reserved'')
            \<and> (\<exists>r. get_msisdn s3 m = Some r \<and> mn_status r = ''available'')"
proof -
  let ?f1 = "\<lambda>r. r\<lparr>mn_status := ''available'', mn_reserved_at := None, mn_sub := None\<rparr>"
  let ?f2 = "\<lambda>r. r\<lparr>mn_status := ''reserved'', mn_reserved_at := Some now\<rparr>"
  define s1 where "s1 = snd (release_msisdn m s)"
  define s2 where "s2 = snd (reserve_msisdn env ctx now m s1)"
  obtain r where r: "tbl_find mn_number m (cr_msisdns s) = Some r" "mn_tenant r = rc_tenant ctx" "slot_of r = Soft owner until"
    using held by (auto simp: pool_of_def)
  then have row: "mn_status r = ''reserved''" "mn_for r = Some owner" "mn_until r = Some until" by simp_all
  have rows1: "cr_msisdns s1 = at_number m ?f1 (cr_msisdns s)" unfolding s1_def by (rule released_rows [OF r(1) row(1)])
  have find1: "tbl_find mn_number m (cr_msisdns s1) = Some (?f1 r)" unfolding rows1 by (rule reread [OF r(1)]) simp
  have "map mn_number (cr_msisdns s1) = map mn_number (cr_msisdns s)" unfolding rows1 by simp
  then have d: "distinct (map mn_number (cr_msisdns s1))" using clean by (simp add: clean_pool_def)
  have two: "\<not> isl (fst (reserve_msisdn env ctx now m s1))" "cr_msisdns s2 = at_number m ?f2 (cr_msisdns s1)"
    using reserved_rows [OF d find1, of ctx env now] r(2) by (simp_all add: s2_def)
  have find2: "tbl_find mn_number m (cr_msisdns s2) = Some (?f2 (?f1 r))" unfolding two(2) by (rule reread [OF find1]) simp
  have "tbl_find mn_number m (cr_msisdns (snd (release_msisdn_hold ctx' now' owner s2))) = Some (unheld owner (?f2 (?f1 r)))"
    unfolding unheld_rows using find_mapped [of "unheld owner" m "cr_msisdns s2"] find2 by simp
  then have "\<exists>r. get_msisdn (snd (release_msisdn_hold ctx' now' owner s2)) m = Some r \<and> mn_status r = ''available''"
    using row by (simp add: get_msisdn_def held_by_def)
  then show ?thesis using two(1) find2
    by (simp add: Let_def s1_def [symmetric] case_prod_unfold get_msisdn_def flip: s2_def)
qed

lemma stale_marker_frees_hard_reserve_witness:
  "\<exists>s :: crm_db. pool_of (cr_msisdns s) ''9'' = Some (''DEFAULT'', Soft ''OO-1'' 5) \<and>
     (\<exists>r. get_msisdn (snd (release_msisdn_hold default_ctx 3 ''OO-1'' (snd (reserve_msisdn demo_env default_ctx 2 ''9'' (snd (release_msisdn ''9'' s)))))) ''9''
       = Some r \<and> mn_status r = ''available'')"
proof -
  let ?s = "empty_crm\<lparr>cr_msisdns := [(fresh_number ''DEFAULT'' ''9'')\<lparr>mn_status := ''reserved'', mn_until := Some 5, mn_for := Some ''OO-1''\<rparr>]\<rparr>"
  have clean: "clean_pool (cr_msisdns ?s)" by (simp add: clean_pool_def clean_row_def demo_simps)
  have held: "pool_of (cr_msisdns ?s) ''9'' = Some (rc_tenant default_ctx, Soft ''OO-1'' 5)"
    by (simp add: pool_of_def slot_of_def demo_simps)
  show ?thesis
    using held stale_marker_frees_hard_reserve [OF clean held, of demo_env 2 default_ctx 3]
    by (intro exI [of _ ?s]) (simp add: Let_def case_prod_unfold default_ctx_def)
qed

section \<open>Orders\<close>

lemma demo_holds: "holds_ok one_number"
  by (simp add: holds_ok_def demo_clean) (simp add: demo_simps one_open_per_owner_def backed_def pool_of_def slot_of_def)

lemma every_hold_is_backed_witness:
  "\<exists>t. t = fold order_step [CancelIt default_ctx 1 ''OO-0'' ''cancelled'', PoolIt demo_env (Reserve default_ctx 2 ''9''), SweepIt ''DEFAULT'' 3] one_number
     \<and> holds_ok t"
  using every_hold_is_backed [OF demo_holds,
      of "[CancelIt default_ctx 1 ''OO-0'' ''cancelled'', PoolIt demo_env (Reserve default_ctx 2 ''9''), SweepIt ''DEFAULT'' 3]"] by simp

definition expired_shop :: crm_db where
  "expired_shop = empty_crm\<lparr>
     cr_msisdns := [(fresh_number ''DEFAULT'' ''9'')\<lparr>mn_status := ''reserved'', mn_until := Some 5, mn_for := Some ''OO-1''\<rparr>],
     cr_opens := [\<lparr>oo_id = ''OO-1'', oo_owner = ''a'', oo_customer = None, oo_plan = ''S'', oo_msisdn = Some ''9'', oo_iccid = None,
       oo_step = ''pending_customer'', oo_status = ''open'', oo_until = Some 5, oo_tenant = ''DEFAULT''\<rparr>]\<rparr>"

lemma sweeps_return_expired_numbers_witness:
  "length (expired_orders expired_shop ''DEFAULT'' 7) = 1 \<and> expired_orders (sweeps 1 ''DEFAULT'' 7 expired_shop) ''DEFAULT'' 7 = []"
proof -
  have one: "length (expired_orders expired_shop ''DEFAULT'' 7) = 1" by (simp add: expired_orders_def expired_shop_def)
  have "holds_ok expired_shop"
    by (auto simp: holds_ok_def clean_pool_def clean_row_def demo_simps expired_shop_def one_open_per_owner_def backed_def backs_def
        pool_of_def slot_of_def split: if_splits)
  from sweeps_return_expired_numbers [OF this, of "''DEFAULT''" 7 1] one show ?thesis by (simp only: Let_def)
qed

end
