(* ===== verification/Customers.thy ===== *)
theory Customers
  imports Inventory
begin

text \<open>
  Customers of \<open>services/crm\<close>: the record, its contact mediums and display name, the log of
  interactions, identity verification and chat transcripts (\<open>service.rs\<close>, \<open>repo.rs\<close>). A party
  is its individual row. Uniqueness and foreign keys within the schema are checked by the
  writes, as the database does; a violation is an internal error.
\<close>

section \<open>Queries\<close>

record customer_full =
  cf_customer :: customer_row
  cf_individual :: "individual_row option"
  cf_mediums :: "medium_row list"

definition get_customer :: "crm_db \<Rightarrow> string \<Rightarrow> customer_row option" where
  "get_customer s cid = tbl_find cu_id cid (cr_customers s)"

definition individual_for :: "crm_db \<Rightarrow> string \<Rightarrow> individual_row option" where
  "individual_for s party = tbl_find iv_party party (cr_individuals s)"

definition active_mediums :: "crm_db \<Rightarrow> string \<Rightarrow> medium_row list" where
  "active_mediums s party = filter (\<lambda>r. cm_party r = party \<and> cm_to r = None) (cr_mediums s)"

definition full_of :: "crm_db \<Rightarrow> customer_row \<Rightarrow> customer_full" where
  "full_of s c = \<lparr>cf_customer = c, cf_individual = individual_for s (cu_party c), cf_mediums = active_mediums s (cu_party c)\<rparr>"

definition get_customer_full :: "crm_db \<Rightarrow> string \<Rightarrow> customer_full option" where
  "get_customer_full s cid = map_option (full_of s) (get_customer s cid)"

text \<open>\<open>ILIKE %name%\<close> on the names, for patterns without wildcards.\<close>

definition ilike :: "string \<Rightarrow> string \<Rightarrow> bool" where
  "ilike x p \<longleftrightarrow> contains (to_lowercase x) (to_lowercase p)"

definition named_like :: "crm_db \<Rightarrow> string \<Rightarrow> customer_row \<Rightarrow> bool" where
  "named_like s name c \<longleftrightarrow> (case individual_for s (cu_party c) of None \<Rightarrow> False | Some i \<Rightarrow> ilike (iv_given i) name \<or> ilike (iv_family i) name)"

definition list_customers :: "crm_db \<Rightarrow> string option \<Rightarrow> string option \<Rightarrow> nat \<Rightarrow> nat \<Rightarrow> customer_full list" where
  "list_customers s status name_contains limit offset =
     map (full_of s) (take limit (drop offset (sort_key cu_id (filter (\<lambda>c.
       (case status of None \<Rightarrow> True | Some x \<Rightarrow> cu_status c = x) \<and>
       (case name_contains of None \<Rightarrow> True | Some n \<Rightarrow> named_like s n c)) (cr_customers s)))))"

definition active_email :: "string \<Rightarrow> medium_row \<Rightarrow> bool" where
  "active_email email r \<longleftrightarrow> cm_type r = ''email'' \<and> cm_value r = email \<and> cm_to r = None"

definition find_customer_by_email :: "crm_db \<Rightarrow> string \<Rightarrow> string option" where
  "find_customer_by_email s email =
     map_option cu_id (find (\<lambda>c. list_ex (\<lambda>r. cm_party r = cu_party c \<and> active_email email r) (cr_mediums s)) (cr_customers s))"

definition get_contact_medium :: "crm_db \<Rightarrow> string \<Rightarrow> medium_row option" where
  "get_contact_medium s mid = tbl_find cm_id mid (cr_mediums s)"

definition get_agent :: "crm_db \<Rightarrow> string \<Rightarrow> agent_row option" where
  "get_agent s aid = tbl_find ag_id aid (cr_agents s)"

definition list_agents :: "crm_db \<Rightarrow> string option \<Rightarrow> nat \<Rightarrow> nat \<Rightarrow> agent_row list" where
  "list_agents s status limit offset =
     take limit (drop offset (sort_key ag_id (filter (\<lambda>a. case status of None \<Rightarrow> True | Some x \<Rightarrow> ag_status a = x) (cr_agents s))))"

definition list_interactions :: "crm_db \<Rightarrow> string \<Rightarrow> nat \<Rightarrow> nat \<Rightarrow> interaction_row list" where
  "list_interactions s customer_id limit offset =
     take limit (drop offset (sort_key (\<lambda>r. - ix_at r) (filter (\<lambda>r. ix_customer r = customer_id) (cr_interactions s))))"

definition found_or :: "'a option \<Rightarrow> string \<Rightarrow> (string \<times> json) list \<Rightarrow> 'a crm_prog" where
  "found_or r rname kvs = (case r of None \<Rightarrow> throw (violate rname kvs) | Some x \<Rightarrow> ret x)"

definition reread_or :: "string \<Rightarrow> 'a option \<Rightarrow> 'a crm_prog" where
  "reread_or what r = (case r of None \<Rightarrow> throw (InternalE what) | Some x \<Rightarrow> ret x)"

definition require :: "bool \<Rightarrow> string \<Rightarrow> unit crm_prog" where
  "require b constraint = (if b then ret () else throw (InternalE constraint))"

section \<open>Interactions\<close>

text \<open>A foreign key that is null or names a row of the table.\<close>

definition fk :: "string list \<Rightarrow> string option \<Rightarrow> bool" where
  "fk ids v \<longleftrightarrow> (case v of None \<Rightarrow> True | Some x \<Rightarrow> list_ex (\<lambda>y. y = x) ids)"

definition insert_interaction :: "interaction_row \<Rightarrow> unit crm_prog" where
  "insert_interaction r =
     bindp (gets (\<lambda>s. tbl_find ix_id (ix_id r) (cr_interactions s) = None \<and> fk (map cu_id (cr_customers s)) (Some (ix_customer r)) \<and>
       fk (map ag_id (cr_agents s)) (ix_agent r) \<and> fk (map ca_id (cr_cases s)) (ix_case r) \<and> fk (map tk_id (cr_tickets s)) (ix_ticket r))) (\<lambda>ok.
     bindp (require ok ''crm.interaction'') (\<lambda>_.
     modify (\<lambda>s. s\<lparr>cr_interactions := cr_interactions s @ [r]\<rparr>)))"

definition log_interaction :: "crm_env \<Rightarrow> request_ctx \<Rightarrow> int \<Rightarrow> string \<Rightarrow> string \<Rightarrow> string option \<Rightarrow> string option \<Rightarrow> unit crm_prog" where
  "log_interaction env ctx now customer_id summary case_id ticket_id =
     bindp (next_crm_id env ''INT'') (\<lambda>iid.
     insert_interaction \<lparr>ix_id = iid, ix_customer = customer_id, ix_channel = Some (rc_channel ctx), ix_direction = Some ''inbound'',
       ix_summary = summary, ix_body = None, ix_agent = None, ix_case = case_id, ix_ticket = ticket_id, ix_at = now\<rparr>)"

record interaction_request =
  iq_customer :: string
  iq_channel :: "string option"
  iq_direction :: string
  iq_summary :: string
  iq_body :: "string option"
  iq_agent :: "string option"
  iq_case :: "string option"
  iq_ticket :: "string option"

definition create_interaction :: "crm_env \<Rightarrow> request_ctx \<Rightarrow> int \<Rightarrow> interaction_request \<Rightarrow> interaction_row crm_prog" where
  "create_interaction env ctx now q =
     bindp (next_crm_id env ''INT'') (\<lambda>iid.
     let channel = (case iq_channel q of Some c \<Rightarrow> (if c \<noteq> [] then c else rc_channel ctx) | None \<Rightarrow> rc_channel ctx) in
     bindp (crm_tx (insert_interaction \<lparr>ix_id = iid, ix_customer = iq_customer q, ix_channel = Some channel, ix_direction = Some (iq_direction q),
       ix_summary = iq_summary q, ix_body = iq_body q, ix_agent = iq_agent q, ix_case = iq_case q, ix_ticket = iq_ticket q, ix_at = now\<rparr>)) (\<lambda>_.
     bindp (gets (\<lambda>s. tbl_find ix_id iid (list_interactions s (iq_customer q) 50 0))) (reread_or ''interaction vanished'')))"

section \<open>Customers\<close>

record new_medium =
  nm_type :: string
  nm_value :: string
  nm_primary :: bool

definition insert_medium :: "medium_row \<Rightarrow> unit crm_prog" where
  "insert_medium r =
     bindp (gets (\<lambda>s. tbl_find cm_id (cm_id r) (cr_mediums s) = None \<and>
       \<not> (cm_type r = ''email'' \<and> list_ex (active_email (cm_value r)) (cr_mediums s)))) (\<lambda>ok.
     bindp (require ok ''crm.contact_medium'') (\<lambda>_.
     modify (\<lambda>s. s\<lparr>cr_mediums := cr_mediums s @ [r]\<rparr>)))"

definition new_medium_row :: "string \<Rightarrow> string \<Rightarrow> int \<Rightarrow> new_medium \<Rightarrow> medium_row" where
  "new_medium_row mid party now m = \<lparr>cm_id = mid, cm_party = party, cm_type = nm_type m, cm_value = nm_value m, cm_primary = nm_primary m,
     cm_from = Some now, cm_to = None\<rparr>"

definition check_email_unique :: "string \<Rightarrow> unit crm_prog" where
  "check_email_unique email = bindp (gets (\<lambda>s. find_customer_by_email s email)) (\<lambda>r.
     if r \<noteq> None then throw (violate ''customer.create.email_unique'' [(''email'', JStr email)]) else ret ())"

definition insert_party :: "string \<Rightarrow> string \<Rightarrow> string \<Rightarrow> int option \<Rightarrow> unit crm_prog" where
  "insert_party party given family dob =
     bindp (gets (\<lambda>s. tbl_find iv_party party (cr_individuals s) = None)) (\<lambda>ok.
     bindp (require ok ''crm.party'') (\<lambda>_.
     modify (\<lambda>s. s\<lparr>cr_individuals := cr_individuals s @ [\<lparr>iv_party = party, iv_given = given, iv_family = family, iv_dob = dob\<rparr>]\<rparr>)))"

definition insert_customer :: "string \<Rightarrow> string \<Rightarrow> int \<Rightarrow> unit crm_prog" where
  "insert_customer cid party now =
     bindp (gets (\<lambda>s. tbl_find cu_id cid (cr_customers s) = None)) (\<lambda>ok.
     bindp (require ok ''crm.customer'') (\<lambda>_.
     modify (\<lambda>s. s\<lparr>cr_customers := cr_customers s @ [\<lparr>cu_id = cid, cu_party = party, cu_status = ''active'', cu_reason = None,
       cu_since = Some now, cu_kyc = ''not_verified'', cu_kyc_at = None, cu_kyc_method = None, cu_kyc_ref = None\<rparr>]\<rparr>)))"

definition parse_birth_date :: "crm_env \<Rightarrow> string option \<Rightarrow> int option crm_prog" where
  "parse_birth_date env date = (case date of None \<Rightarrow> ret None | Some d \<Rightarrow>
     if d = [] then ret None else (case cv_date env d of None \<Rightarrow> throw (BadRequestE ''bad date_of_birth'') | Some x \<Rightarrow> ret (Some x)))"

definition create_customer :: "crm_env \<Rightarrow> request_ctx \<Rightarrow> int \<Rightarrow> string \<Rightarrow> string \<Rightarrow> string option \<Rightarrow> new_medium list \<Rightarrow> customer_full crm_prog" where
  "create_customer env ctx now given family birth mediums =
     (if mediums = [] then throw (violate ''customer.create.requires_contact_medium'' [])
      else
        bindp (for_each (filter (\<lambda>m. nm_type m = ''email'') mediums) (\<lambda>m. check_email_unique (nm_value m))) (\<lambda>_.
        bindp (next_crm_id env ''PTY'') (\<lambda>party.
        bindp (next_crm_id env ''CUST'') (\<lambda>cid.
        bindp (parse_birth_date env birth) (\<lambda>dob.
        bindp (crm_tx (
          bindp (insert_party party given family dob) (\<lambda>_.
          bindp (insert_customer cid party now) (\<lambda>_.
          bindp (for_each mediums (\<lambda>m. bindp (next_crm_id env ''CM'') (\<lambda>mid. insert_medium (new_medium_row mid party now m)))) (\<lambda>_.
          bindp (stage ctx now ''customer.created'' ''customer'' cid (JObj [(''given_name'', JStr given), (''family_name'', JStr family)])) (\<lambda>_.
          log_interaction env ctx now cid (''Customer created: '' @ given @ '' '' @ family) None None)))))) (\<lambda>_.
        bindp (if cv_loyalty env then call_ext (RegisterLoyalty cid) () else ret ()) (\<lambda>_.
        bindp (gets (\<lambda>s. get_customer_full s cid)) (reread_or ''customer vanished after create''))))))))"

definition find_by_msisdn :: "crm_env \<Rightarrow> crm_db \<Rightarrow> string \<Rightarrow> customer_full option" where
  "find_by_msisdn env s m = (case tbl_find mn_number m (cr_msisdns s) of None \<Rightarrow> None
     | Some row \<Rightarrow> (case mn_sub row of None \<Rightarrow> None
       | Some sub \<Rightarrow> (case cv_sub env sub of Inl _ \<Rightarrow> None
         | Inr doc \<Rightarrow> (case get_str doc ''customerId'' of None \<Rightarrow> None | Some cid \<Rightarrow> get_customer_full s cid))))"

definition find_by_email :: "crm_db \<Rightarrow> string \<Rightarrow> customer_full option" where
  "find_by_email s email = (case find_customer_by_email s email of None \<Rightarrow> None | Some cid \<Rightarrow> get_customer_full s cid)"

definition join_comma :: "string list \<Rightarrow> string" where
  "join_comma xs = (case xs of [] \<Rightarrow> [] | x # rest \<Rightarrow> x @ concat (map (\<lambda>y. '', '' @ y) rest))"

definition live_subscriptions :: "json \<Rightarrow> string list" where
  "live_subscriptions subs = List.map_filter (\<lambda>j. get_str j ''id'')
     (filter (\<lambda>j. get_str j ''state'' = Some ''active'' \<or> get_str j ''state'' = Some ''pending'') (unwrap_or [] (as_array subs)))"

definition check_no_active_subscriptions :: "crm_env \<Rightarrow> customer_row \<Rightarrow> string option \<Rightarrow> unit crm_prog" where
  "check_no_active_subscriptions env c status = (case status of None \<Rightarrow> ret () | Some new_status \<Rightarrow>
     if new_status \<noteq> ''active'' \<and> cu_status c = ''active''
     then (case cv_subs_of env (cu_id c) of Inl e \<Rightarrow> throw (upstream e)
       | Inr subs \<Rightarrow> (let active = live_subscriptions subs in
           if active \<noteq> [] then throw (violate ''customer.close.no_active_subscriptions''
              [(''customer_id'', JStr (cu_id c)), (''active_subscriptions'', JArr (map JStr active))])
           else ret ()))
     else ret ())"

definition update_customer :: "crm_env \<Rightarrow> request_ctx \<Rightarrow> int \<Rightarrow> string \<Rightarrow> string option \<Rightarrow> string option \<Rightarrow> customer_full crm_prog" where
  "update_customer env ctx now cid status reason =
     bindp (gets (\<lambda>s. get_customer s cid)) (\<lambda>found.
     bindp (found_or found ''customer.update.not_found'' [(''customer_id'', JStr cid)]) (\<lambda>c.
     bindp (check_no_active_subscriptions env c status) (\<lambda>_.
     let fields = (if status \<noteq> None then [''status''] else []) @ (if reason \<noteq> None then [''status_reason''] else []) in
     bindp (crm_tx (
       bindp (modify (\<lambda>s. s\<lparr>cr_customers := tbl_update cu_id cid
         (\<lambda>r. r\<lparr>cu_status := unwrap_or (cu_status r) status, cu_reason := (if reason = None then cu_reason r else reason)\<rparr>) (cr_customers s)\<rparr>)) (\<lambda>_.
       bindp (stage ctx now ''customer.updated'' ''customer'' cid (JObj [(''fields_updated'', JArr (map JStr fields))])) (\<lambda>_.
       log_interaction env ctx now cid (''Customer updated: '' @ join_comma fields) None None)))) (\<lambda>_.
     bindp (gets (\<lambda>s. get_customer_full s cid)) (reread_or ''customer vanished'')))))"

section \<open>Contact mediums and names\<close>

definition require_customer_party :: "string \<Rightarrow> string crm_prog" where
  "require_customer_party cid = bindp (gets (\<lambda>s. get_customer s cid)) (\<lambda>found.
     bindp (found_or found ''customer.contact.not_found'' [(''customer_id'', JStr cid)]) (\<lambda>c. ret (cu_party c)))"

definition add_contact_medium :: "crm_env \<Rightarrow> request_ctx \<Rightarrow> int \<Rightarrow> string \<Rightarrow> new_medium \<Rightarrow> medium_row crm_prog" where
  "add_contact_medium env ctx now cid m =
     bindp (require_customer_party cid) (\<lambda>party.
     bindp (if nm_type m = ''email'' then check_email_unique (nm_value m) else ret ()) (\<lambda>_.
     bindp (next_crm_id env ''CM'') (\<lambda>mid.
     bindp (crm_tx (
       bindp (insert_medium (new_medium_row mid party now m)) (\<lambda>_.
       bindp (stage ctx now ''customer.contact_medium_added'' ''customer'' cid (JObj [(''medium_type'', JStr (nm_type m))])) (\<lambda>_.
       log_interaction env ctx now cid (''Contact medium added: '' @ nm_type m) None None)))) (\<lambda>_.
     bindp (gets (\<lambda>s. get_contact_medium s mid)) (reread_or ''cm vanished'')))))"

definition medium_of_party :: "string \<Rightarrow> string \<Rightarrow> string \<Rightarrow> string \<Rightarrow> medium_row crm_prog" where
  "medium_of_party cid mid party rname = bindp (gets (\<lambda>s. get_contact_medium s mid)) (\<lambda>r.
     found_or (case r of None \<Rightarrow> None | Some m \<Rightarrow> if cm_party m = party then Some m else None) rname
       [(''customer_id'', JStr cid), (''cm_id'', JStr mid)])"

definition remove_contact_medium :: "request_ctx \<Rightarrow> int \<Rightarrow> string \<Rightarrow> string \<Rightarrow> unit crm_prog" where
  "remove_contact_medium ctx now cid mid =
     bindp (require_customer_party cid) (\<lambda>party.
     bindp (medium_of_party cid mid party ''customer.contact.medium_not_found'') (\<lambda>_.
     crm_tx (
       bindp (modify (\<lambda>s. s\<lparr>cr_mediums := filter (\<lambda>r. cm_id r \<noteq> mid) (cr_mediums s)\<rparr>)) (\<lambda>_.
       stage ctx now ''customer.contact_medium_removed'' ''customer'' cid (JObj [(''cm_id'', JStr mid)])))))"

definition update_contact_medium :: "crm_env \<Rightarrow> request_ctx \<Rightarrow> int \<Rightarrow> string \<Rightarrow> string \<Rightarrow> string \<Rightarrow> medium_row crm_prog" where
  "update_contact_medium env ctx now cid mid v =
     bindp (require_customer_party cid) (\<lambda>party.
     bindp (medium_of_party cid mid party ''customer.contact_medium.unknown'') (\<lambda>m.
     if cm_type m = ''email''
     then throw (violate ''customer.contact_medium.email_must_use_change_flow'' [(''customer_id'', JStr cid), (''cm_id'', JStr mid)])
     else
       bindp (crm_tx (
         bindp (modify (\<lambda>s. s\<lparr>cr_mediums := tbl_update cm_id mid (\<lambda>r. r\<lparr>cm_value := v\<rparr>) (cr_mediums s)\<rparr>)) (\<lambda>_.
         bindp (stage ctx now ''customer.contact_medium_updated'' ''customer'' cid (JObj [(''cm_id'', JStr mid), (''medium_type'', JStr (cm_type m))])) (\<lambda>_.
         log_interaction env ctx now cid (''Contact medium updated: '' @ cm_type m) None None)))) (\<lambda>_.
       bindp (gets (\<lambda>s. get_contact_medium s mid)) (reread_or ''cm vanished''))))"

definition update_individual_name :: "crm_env \<Rightarrow> request_ctx \<Rightarrow> int \<Rightarrow> string \<Rightarrow> string option \<Rightarrow> string option \<Rightarrow> unit crm_prog" where
  "update_individual_name env ctx now cid given family =
     (if given = None \<and> family = None then throw (violate ''customer.individual.update.no_fields'' [(''customer_id'', JStr cid)])
      else
        bindp (require_customer_party cid) (\<lambda>party.
        crm_tx (
          bindp (gets (\<lambda>s. individual_for s party)) (\<lambda>row.
          bindp (modify (\<lambda>s. s\<lparr>cr_individuals := tbl_update iv_party party
            (\<lambda>r. r\<lparr>iv_given := unwrap_or (iv_given r) given, iv_family := unwrap_or (iv_family r) family\<rparr>) (cr_individuals s)\<rparr>)) (\<lambda>_.
          if row = None then throw (violate ''customer.individual.not_found'' [(''customer_id'', JStr cid)])
          else
            bindp (stage ctx now ''customer.individual_updated'' ''customer'' cid (JObj [(''fields'', JArr (map JStr
              ((if given \<noteq> None then [''given_name''] else []) @ (if family \<noteq> None then [''family_name''] else []))))])) (\<lambda>_.
            log_interaction env ctx now cid ''Customer updated their display name'' None None))))))"

end
