(* ===== verification/Identity.thy ===== *)
theory Identity
  imports Customers
begin

text \<open>
  Identity verification of \<open>services/crm\<close> (\<open>attest_kyc\<close> and its checks), the status it
  reports, and the store of chat transcripts (\<open>service.rs\<close>). The two environment switches
  are fields of the environment. Text is taken to be ASCII where the code slices it.
\<close>

section \<open>Attestations\<close>

record attestation =
  at_provider :: string
  at_reference :: string
  at_type :: string
  at_number :: "string option"
  at_last4 :: "string option"
  at_hash :: "string option"
  at_country :: string
  at_birth :: string
  at_nationality :: "string option"
  at_verified :: string
  at_payload :: json
  at_corroboration :: "string option"

definition last_four :: "string \<Rightarrow> string" where
  "last_four x = (if length x \<ge> 4 then drop (length x - 4) x else x)"

text \<open>The stored form of a document number: its last four characters and a digest.\<close>

definition reduce_document :: "crm_env \<Rightarrow> attestation \<Rightarrow> api_error + string \<times> string" where
  "reduce_document env a = (case (at_last4 a, at_hash a) of
      (Some l, Some h) \<Rightarrow> Inr (l, h)
    | _ \<Rightarrow> (case at_number a of
        None \<Rightarrow> Inl (violate ''customer.attest_kyc.document_required'' [(''provider'', JStr (at_provider a))])
      | Some raw \<Rightarrow> (let normalized = trim (to_uppercase raw) in
          Inr (last_four normalized, cv_sha env (normalized @ ''|'' @ at_country a @ ''|'' @ at_provider a)))))"

definition uncorroborated :: "(string \<times> json) list \<Rightarrow> api_error" where
  "uncorroborated kvs = violate ''kyc.attestation.uncorroborated'' kvs"

definition corroboration_row :: "crm_db \<Rightarrow> string \<Rightarrow> corroboration_row option" where
  "corroboration_row s cid = find (\<lambda>r. kc_id r = cid \<and> kc_provider r = ''didit'') (cr_corroborations s)"

definition check_attestation_signature :: "crm_env \<Rightarrow> crm_db \<Rightarrow> int \<Rightarrow> string \<Rightarrow> json \<Rightarrow> string option \<Rightarrow> api_error + unit" where
  "check_attestation_signature env s now provider payload corroboration_id =
     (if provider = ''didit'' then
        (case corroboration_id of None \<Rightarrow> Inl (uncorroborated [(''provider'', JStr provider)])
         | Some raw \<Rightarrow> (case cv_uuid env raw of None \<Rightarrow> Inl (uncorroborated [(''provider'', JStr provider)])
           | Some cid \<Rightarrow> (case corroboration_row s cid of None \<Rightarrow> Inl (uncorroborated [(''corroboration_id'', JStr cid)])
             | Some r \<Rightarrow>
                 if kc_decision r \<noteq> ''Approved'' then Inl (uncorroborated [(''decision_status'', JStr (kc_decision r))])
                 else if now - kc_received r > seconds 1800 then Inl (uncorroborated [(''age_seconds'', JInt ((now - kc_received r) div 1000000))])
                 else Inr ())))
      else if \<not> cv_prebaked env then Inl (uncorroborated [(''provider'', JStr provider)])
      else if jget payload ''signature'' = None then Inl (uncorroborated [])
      else Inr ())"

definition same_document :: "string \<Rightarrow> string \<Rightarrow> string \<Rightarrow> identity_row \<Rightarrow> bool" where
  "same_document tenant doc_type hash r \<longleftrightarrow> ci_tenant r = tenant \<and> ci_type r = doc_type \<and> ci_hash r = hash"

definition kyc_find_by_hash :: "crm_db \<Rightarrow> string \<Rightarrow> string \<Rightarrow> string \<Rightarrow> string option" where
  "kyc_find_by_hash s tenant doc_type hash = map_option ci_customer (find (same_document tenant doc_type hash) (cr_identities s))"

definition insert_identity :: "identity_row \<Rightarrow> unit crm_prog" where
  "insert_identity r =
     bindp (gets (\<lambda>s. tbl_find ci_customer (ci_customer r) (cr_identities s) = None \<and>
       \<not> list_ex (same_document (ci_tenant r) (ci_type r) (ci_hash r)) (cr_identities s) \<and> length (ci_last4 r) \<le> 4)) (\<lambda>ok.
     bindp (require ok ''crm.customer_identity'') (\<lambda>_.
     modify (\<lambda>s. s\<lparr>cr_identities := cr_identities s @ [r]\<rparr>)))"

definition parsed :: "string \<Rightarrow> 'a option \<Rightarrow> 'a crm_prog" where
  "parsed what v = (case v of None \<Rightarrow> throw (BadRequestE what) | Some x \<Rightarrow> ret x)"

definition parse_corroboration :: "crm_env \<Rightarrow> string option \<Rightarrow> string option crm_prog" where
  "parse_corroboration env c = (case c of None \<Rightarrow> ret None
     | Some raw \<Rightarrow> bindp (parsed ''bad corroboration_id'' (cv_uuid env raw)) (\<lambda>cid. ret (Some cid)))"

definition mark_verified :: "string \<Rightarrow> int \<Rightarrow> attestation \<Rightarrow> unit crm_prog" where
  "mark_verified customer_id now a = modify (\<lambda>s. s\<lparr>cr_customers := tbl_update cu_id customer_id
     (\<lambda>r. r\<lparr>cu_kyc := ''verified'', cu_kyc_at := Some now, cu_kyc_method := Some (at_provider a), cu_kyc_ref := Some (at_reference a)\<rparr>)
     (cr_customers s)\<rparr>)"

definition attest_kyc :: "crm_env \<Rightarrow> request_ctx \<Rightarrow> int \<Rightarrow> string \<Rightarrow> attestation \<Rightarrow> json crm_prog" where
  "attest_kyc env ctx now customer_id a =
     bindp (of_result (reduce_document env a)) (\<lambda>(last4, hash).
     bindp (gets (\<lambda>s. get_customer s customer_id)) (\<lambda>found.
     bindp (found_or found ''customer.attest_kyc.customer_exists'' [(''customer_id'', JStr customer_id)]) (\<lambda>_.
     bindp (gets (\<lambda>s. check_attestation_signature env s now (at_provider a) (at_payload a) (at_corroboration a))) (\<lambda>signature.
     bindp (of_result signature) (\<lambda>_.
     bindp (gets (\<lambda>s. kyc_find_by_hash s (rc_tenant ctx) (at_type a) hash)) (\<lambda>existing.
     bindp (if \<not> cv_doc_reuse env \<and> existing \<noteq> None
       then throw (violate ''customer.attest_kyc.document_hash_unique_per_tenant'' [(''document_type'', JStr (at_type a))]) else ret ()) (\<lambda>_.
     bindp (parsed ''bad date_of_birth'' (cv_date env (at_birth a))) (\<lambda>dob.
     bindp (parsed ''bad verified_at'' (cv_time env (at_verified a))) (\<lambda>verified.
     bindp (parse_corroboration env (at_corroboration a)) (\<lambda>corroboration.
     crm_tx (
       bindp (if cv_doc_reuse env
         then modify (\<lambda>s. s\<lparr>cr_identities := filter (\<lambda>r. \<not> same_document (rc_tenant ctx) (at_type a) hash r) (cr_identities s)\<rparr>) else ret ()) (\<lambda>_.
       bindp (insert_identity \<lparr>ci_customer = customer_id, ci_type = at_type a, ci_hash = hash, ci_last4 = last4, ci_country = at_country a,
         ci_dob = dob, ci_nationality = at_nationality a, ci_verified_by = at_provider a, ci_payload = at_payload a,
         ci_verified_at = verified, ci_corroboration = corroboration, ci_tenant = rc_tenant ctx\<rparr>) (\<lambda>_.
       bindp (mark_verified customer_id now a) (\<lambda>_.
       bindp (stage ctx now ''customer.kyc_attested'' ''customer'' customer_id
         (JObj [(''provider'', JStr (at_provider a)), (''document_type'', JStr (at_type a)),
                (''document_country'', JStr (at_country a)), (''kyc_status'', JStr ''verified'')])) (\<lambda>_.
       bindp (log_interaction env ctx now customer_id (''KYC attested via '' @ at_provider a) None None) (\<lambda>_.
       ret (JObj [(''customer_id'', JStr customer_id), (''kyc_status'', JStr ''verified''), (''provider'', JStr (at_provider a)),
                  (''verified_at'', JTime now)])))))))))))))))))"

definition kyc_status :: "crm_db \<Rightarrow> string \<Rightarrow> api_error + json" where
  "kyc_status s customer_id = (case get_customer s customer_id of
      None \<Rightarrow> Inl (violate ''customer.kyc.not_found'' [(''customer_id'', JStr customer_id)])
    | Some c \<Rightarrow> Inr (JObj [(''customer_id'', JStr customer_id), (''kyc_status'', JStr (cu_kyc c)),
        (''kyc_verified_at'', opt_json JTime (cu_kyc_at c)), (''kyc_verification_method'', opt_json JStr (cu_kyc_method c)),
        (''kyc_reference'', opt_json JStr (cu_kyc_ref c))]))"

section \<open>Chat transcripts\<close>

definition get_transcript :: "crm_db \<Rightarrow> string \<Rightarrow> transcript_row option" where
  "get_transcript s hash = tbl_find tr_hash hash (cr_transcripts s)"

definition store_transcript :: "crm_env \<Rightarrow> int \<Rightarrow> string \<Rightarrow> string \<Rightarrow> string \<Rightarrow> transcript_row crm_prog" where
  "store_transcript env now hash customer_id body =
     (if cv_sha env body \<noteq> hash
      then throw (violate ''chat_transcript.hash_mismatch'' [(''provided'', JStr hash), (''expected'', JStr (cv_sha env body))])
      else crm_tx (
        bindp (modify (\<lambda>s. s\<lparr>cr_transcripts := (if get_transcript s hash = None
          then cr_transcripts s @ [\<lparr>tr_hash = hash, tr_customer = customer_id, tr_body = body, tr_recorded = now\<rparr>] else cr_transcripts s)\<rparr>)) (\<lambda>_.
        bindp (gets (\<lambda>s. get_transcript s hash)) (reread_or ''transcript vanished''))))"

end
