(* ===== verification/Cases.thy ===== *)
theory Cases
  imports Customers
begin

text \<open>
  Support cases, their notes and the trouble tickets of \<open>services/crm\<close> (\<open>service.rs\<close>,
  \<open>repo.rs\<close>, \<open>policies.rs\<close>), each moved by its state machine. The open tickets of a case
  are read in the transaction that moves the case.
\<close>

section \<open>Queries\<close>

definition get_case :: "crm_db \<Rightarrow> string \<Rightarrow> case_row option" where
  "get_case s cid = tbl_find ca_id cid (cr_cases s)"

record case_full =
  cl_case :: case_row
  cl_notes :: "note_row list"
  cl_tickets :: "string list"

definition case_full_of :: "crm_db \<Rightarrow> case_row \<Rightarrow> case_full" where
  "case_full_of s c = \<lparr>cl_case = c, cl_notes = filter (\<lambda>n. nt_case n = ca_id c) (cr_notes s),
     cl_tickets = map tk_id (filter (\<lambda>t. tk_case t = Some (ca_id c)) (cr_tickets s))\<rparr>"

definition get_case_full :: "crm_db \<Rightarrow> string \<Rightarrow> case_full option" where
  "get_case_full s cid = map_option (case_full_of s) (get_case s cid)"

definition is_filter :: "'a option \<Rightarrow> 'a \<Rightarrow> bool" where
  "is_filter f x \<longleftrightarrow> (case f of None \<Rightarrow> True | Some y \<Rightarrow> x = y)"

definition list_cases :: "crm_db \<Rightarrow> string option \<Rightarrow> string option \<Rightarrow> string option \<Rightarrow> nat \<Rightarrow> nat \<Rightarrow> case_full list" where
  "list_cases s customer_id state agent_id limit offset =
     map (case_full_of s) (take limit (drop offset (sort_key (\<lambda>c. - ca_opened_at c) (filter (\<lambda>c. is_filter customer_id (ca_customer c) \<and>
       is_filter state (ca_state c) \<and> (agent_id = None \<or> ca_opened_by c = agent_id)) (cr_cases s)))))"

definition ticket_is_open :: "ticket_row \<Rightarrow> bool" where
  "ticket_is_open t \<longleftrightarrow> tk_state t \<noteq> ''closed'' \<and> tk_state t \<noteq> ''cancelled''"

definition find_open_by_case :: "crm_db \<Rightarrow> string \<Rightarrow> ticket_row list" where
  "find_open_by_case s cid = sort_key tk_id (filter (\<lambda>t. tk_case t = Some cid \<and> ticket_is_open t) (cr_tickets s))"

definition get_ticket :: "crm_db \<Rightarrow> string \<Rightarrow> ticket_row option" where
  "get_ticket s tid = tbl_find tk_id tid (cr_tickets s)"

definition list_tickets :: "crm_db \<Rightarrow> string option \<Rightarrow> string option \<Rightarrow> string option \<Rightarrow> string option \<Rightarrow> nat \<Rightarrow> nat \<Rightarrow> ticket_row list" where
  "list_tickets s customer_id case_id state agent_id limit offset =
     take limit (drop offset (sort_key (\<lambda>t. - tk_opened_at t) (filter (\<lambda>t. is_filter customer_id (tk_customer t) \<and>
       (case_id = None \<or> tk_case t = case_id) \<and> is_filter state (tk_state t) \<and> (agent_id = None \<or> tk_assignee t = agent_id)) (cr_tickets s))))"

section \<open>Checks\<close>

definition check_case_transition :: "string \<Rightarrow> string \<Rightarrow> api_error + unit" where
  "check_case_transition state trigger = (if \<not> is_valid_transition case_transitions state trigger
     then Inl (violate ''case.transition.valid_from_state'' [(''current_state'', JStr state), (''trigger'', JStr trigger)]) else Inr ())"

definition blank :: "string option \<Rightarrow> bool" where
  "blank x \<longleftrightarrow> (case x of None \<Rightarrow> True | Some v \<Rightarrow> v = [])"

definition check_resolution_code :: "string option \<Rightarrow> api_error + unit" where
  "check_resolution_code code = (if blank code then Inl (violate ''case.close.requires_resolution_code'' []) else Inr ())"

definition check_case_not_closed :: "string \<Rightarrow> string \<Rightarrow> api_error + unit" where
  "check_case_not_closed cid state = (if state = ''closed''
     then Inl (violate ''case.update.case_is_closed'' [(''case_id'', JStr cid), (''state'', JStr state)]) else Inr ())"

definition check_priority_valid :: "string \<Rightarrow> api_error + unit" where
  "check_priority_valid p = (if p \<notin> {''low'', ''normal'', ''medium'', ''high'', ''critical''}
     then Inl (violate ''case.update.invalid_priority'' [(''priority'', JStr p)]) else Inr ())"

definition check_ticket_transition :: "string \<Rightarrow> string \<Rightarrow> api_error + unit" where
  "check_ticket_transition state trigger = (if \<not> is_valid_transition ticket_transitions state trigger
     then Inl (violate ''ticket.transition.valid_from_state'' [(''current_state'', JStr state), (''trigger'', JStr trigger)]) else Inr ())"

definition check_resolution_notes :: "string option \<Rightarrow> api_error + unit" where
  "check_resolution_notes notes = (if blank notes then Inl (violate ''ticket.resolve.requires_resolution_notes'' []) else Inr ())"

definition check_ticket_cancel_allowed :: "string \<Rightarrow> api_error + unit" where
  "check_ticket_cancel_allowed state = (if \<not> list_ex (\<lambda>x. x = state) ticket_cancellable
     then Inl (violate ''ticket.cancel.not_if_resolved_or_closed'' [(''current_state'', JStr state)]) else Inr ())"

definition check_agent_active :: "string \<Rightarrow> unit crm_prog" where
  "check_agent_active aid = bindp (gets (\<lambda>s. get_agent s aid)) (\<lambda>r. case r of
     None \<Rightarrow> throw (violate ''ticket.assign.agent_must_be_active'' [(''agent_id'', JStr aid)])
   | Some a \<Rightarrow> if ag_status a \<noteq> ''active''
       then throw (violate ''ticket.assign.agent_must_be_active'' [(''agent_id'', JStr aid), (''status'', JStr (ag_status a))]) else ret ())"

section \<open>Cases\<close>

definition update_case :: "string \<Rightarrow> (case_row \<Rightarrow> case_row) \<Rightarrow> unit crm_prog" where
  "update_case cid f = modify (\<lambda>s. s\<lparr>cr_cases := tbl_update ca_id cid f (cr_cases s)\<rparr>)"

definition insert_case :: "case_row \<Rightarrow> unit crm_prog" where
  "insert_case r = bindp (gets (\<lambda>s. tbl_find ca_id (ca_id r) (cr_cases s) = None \<and> fk (map cu_id (cr_customers s)) (Some (ca_customer r)) \<and>
       fk (map ag_id (cr_agents s)) (ca_opened_by r))) (\<lambda>ok.
     bindp (require ok ''crm.case'') (\<lambda>_. modify (\<lambda>s. s\<lparr>cr_cases := cr_cases s @ [r]\<rparr>)))"

definition check_customer_active :: "string \<Rightarrow> unit crm_prog" where
  "check_customer_active customer_id = bindp (gets (\<lambda>s. get_customer s customer_id)) (\<lambda>found. case found of
     None \<Rightarrow> throw (violate ''case.open.customer_must_be_active'' [(''customer_id'', JStr customer_id)])
   | Some c \<Rightarrow> if cu_status c \<noteq> ''active''
       then throw (violate ''case.open.customer_must_be_active'' [(''customer_id'', JStr customer_id), (''status'', JStr (cu_status c))]) else ret ())"

record case_request =
  kq_customer :: string
  kq_subject :: string
  kq_description :: "string option"
  kq_priority :: string
  kq_category :: string
  kq_agent :: "string option"
  kq_transcript :: "string option"

definition open_case :: "crm_env \<Rightarrow> request_ctx \<Rightarrow> int \<Rightarrow> case_request \<Rightarrow> case_full crm_prog" where
  "open_case env ctx now q =
     bindp (check_customer_active (kq_customer q)) (\<lambda>_.
     bindp (next_crm_id env ''CASE'') (\<lambda>cid.
     bindp (crm_tx (
       bindp (insert_case \<lparr>ca_id = cid, ca_customer = kq_customer q, ca_subject = kq_subject q, ca_description = kq_description q,
         ca_state = ''open'', ca_priority = Some (kq_priority q), ca_category = Some (kq_category q), ca_resolution = None,
         ca_opened_by = kq_agent q, ca_opened_at = now, ca_closed_at = None, ca_transcript = kq_transcript q\<rparr>) (\<lambda>_.
       bindp (stage ctx now ''case.opened'' ''case'' cid (JObj [(''customer_id'', JStr (kq_customer q)), (''subject'', JStr (kq_subject q))])) (\<lambda>_.
       log_interaction env ctx now (kq_customer q) (''Case opened: '' @ kq_subject q) (Some cid) None)))) (\<lambda>_.
     bindp (gets (\<lambda>s. get_case_full s cid)) (reread_or ''case vanished''))))"

definition find_case :: "string \<Rightarrow> case_row crm_prog" where
  "find_case cid = bindp (gets (\<lambda>s. get_case s cid)) (\<lambda>r. found_or r ''case.not_found'' [(''case_id'', JStr cid)])"

definition case_resolution :: "case_row \<Rightarrow> string \<Rightarrow> string option \<Rightarrow> string option crm_prog" where
  "case_resolution c trigger code =
     (if trigger = ''resolve'' then
        bindp (gets (\<lambda>s. map tk_id (find_open_by_case s (ca_id c)))) (\<lambda>ids.
        if ids \<noteq> [] then throw (violate ''case.close.requires_all_tickets_resolved''
             [(''case_id'', JStr (ca_id c)), (''open_tickets'', JArr (map JStr ids))])
        else ret (ca_resolution c))
      else if trigger = ''close'' then
        (let code' = (case code of None \<Rightarrow> ca_resolution c | Some x \<Rightarrow> Some x) in
         bindp (of_result (check_resolution_code code')) (\<lambda>_. ret code'))
      else ret (ca_resolution c))"

definition cancel_open_tickets :: "string \<Rightarrow> int \<Rightarrow> unit crm_prog" where
  "cancel_open_tickets cid now =
     bindp (gets (\<lambda>s. find_open_by_case s cid)) (\<lambda>tickets.
     for_each tickets (\<lambda>t. modify (\<lambda>s. s\<lparr>cr_tickets := tbl_update tk_id (tk_id t)
       (\<lambda>r. r\<lparr>tk_state := ''cancelled'', tk_closed_at := Some now\<rparr>) (cr_tickets s)\<rparr>)))"

definition arrow :: string where
  "arrow = [CHR '' '', CHR 0xE2, CHR 0x86, CHR 0x92, CHR '' '']"

definition transition_case :: "crm_env \<Rightarrow> request_ctx \<Rightarrow> int \<Rightarrow> string \<Rightarrow> string \<Rightarrow> string option \<Rightarrow> unit crm_prog" where
  "transition_case env ctx now cid trigger code =
     bindp (find_case cid) (\<lambda>c.
     bindp (of_result (check_case_transition (ca_state c) trigger)) (\<lambda>_.
     crm_tx (
       bindp (case_resolution c trigger code) (\<lambda>resolution.
       case get_next_state case_transitions (ca_state c) trigger of
         None \<Rightarrow> throw (InternalE ''case transition produced no state'')
       | Some new_state \<Rightarrow>
           bindp (update_case cid (\<lambda>r. r\<lparr>ca_state := new_state, ca_resolution := resolution,
             ca_closed_at := (if new_state = ''closed'' then Some now else ca_closed_at r)\<rparr>)) (\<lambda>_.
           bindp (if new_state = ''closed'' \<and> trigger = ''cancel'' then cancel_open_tickets cid now else ret ()) (\<lambda>_.
           bindp (stage ctx now (''case.'' @ trigger) ''case'' cid
             (JObj [(''from_state'', JStr (ca_state c)), (''to_state'', JStr new_state), (''trigger'', JStr trigger)])) (\<lambda>_.
           log_interaction env ctx now (ca_customer c) (''Case '' @ trigger @ '': '' @ ca_state c @ arrow @ new_state) (Some cid) None)))))))"

definition close_case :: "crm_env \<Rightarrow> request_ctx \<Rightarrow> int \<Rightarrow> string \<Rightarrow> string \<Rightarrow> unit crm_prog" where
  "close_case env ctx now cid code =
     bindp (find_case cid) (\<lambda>c.
     bindp (if is_valid_transition case_transitions (ca_state c) ''resolve'' then transition_case env ctx now cid ''resolve'' None else ret ()) (\<lambda>_.
     transition_case env ctx now cid ''close'' (Some code)))"

definition changed_field :: "string \<Rightarrow> string option \<Rightarrow> string option \<Rightarrow> (string \<times> json) list" where
  "changed_field name old new = (case new of None \<Rightarrow> []
     | Some v \<Rightarrow> if old \<noteq> Some v then [(name, JObj [(''from'', opt_json JStr old), (''to'', JStr v)])] else [])"

definition update_case_fields :: "request_ctx \<Rightarrow> int \<Rightarrow> string \<Rightarrow> string option \<Rightarrow> string option \<Rightarrow> unit crm_prog" where
  "update_case_fields ctx now cid priority category =
     bindp (find_case cid) (\<lambda>c.
     bindp (of_result (check_case_not_closed cid (ca_state c))) (\<lambda>_.
     bindp (case priority of None \<Rightarrow> ret () | Some p \<Rightarrow> of_result (check_priority_valid p)) (\<lambda>_.
     let changed = changed_field ''priority'' (ca_priority c) priority @ changed_field ''category'' (ca_category c) category in
     if changed = [] then ret ()
     else crm_tx (
       bindp (update_case cid (\<lambda>r. r\<lparr>ca_priority := (if changed_field ''priority'' (ca_priority c) priority \<noteq> [] then priority else ca_priority r),
         ca_category := (if changed_field ''category'' (ca_category c) category \<noteq> [] then category else ca_category r)\<rparr>)) (\<lambda>_.
       stage ctx now ''case.updated'' ''case'' cid (JObj [(''changed'', JObj changed)]))))))"

definition insert_note :: "note_row \<Rightarrow> unit crm_prog" where
  "insert_note r = bindp (gets (\<lambda>s. tbl_find nt_id (nt_id r) (cr_notes s) = None \<and> fk (map ca_id (cr_cases s)) (Some (nt_case r)) \<and>
       fk (map ag_id (cr_agents s)) (nt_author r))) (\<lambda>ok.
     bindp (require ok ''crm.case_note'') (\<lambda>_. modify (\<lambda>s. s\<lparr>cr_notes := cr_notes s @ [r]\<rparr>)))"

definition add_note :: "crm_env \<Rightarrow> request_ctx \<Rightarrow> int \<Rightarrow> string \<Rightarrow> string \<Rightarrow> string option \<Rightarrow> note_row crm_prog" where
  "add_note env ctx now cid body author =
     bindp (find_case cid) (\<lambda>c.
     if ca_state c = ''closed'' then throw (violate ''case.add_note.case_is_closed'' [(''case_id'', JStr cid), (''state'', JStr (ca_state c))])
     else
       bindp (next_crm_id env ''NOTE'') (\<lambda>nid.
       bindp (crm_tx (
         bindp (insert_note \<lparr>nt_id = nid, nt_case = cid, nt_author = author, nt_body = body, nt_created = now\<rparr>) (\<lambda>_.
         stage ctx now ''case.note_added'' ''case'' cid (JObj [(''note_id'', JStr nid)])))) (\<lambda>_.
       bindp (bindp (gets (\<lambda>s. get_case_full s cid)) (reread_or ''case vanished'')) (\<lambda>full.
       reread_or ''note vanished'' (tbl_find nt_id nid (cl_notes full))))))"

section \<open>Tickets\<close>

definition ticket_history :: "string \<Rightarrow> string option \<Rightarrow> string \<Rightarrow> string option \<Rightarrow> string \<Rightarrow> unit crm_prog" where
  "ticket_history tid from_state to_state changed_by reason =
     bindp (gets (\<lambda>s. fk (map tk_id (cr_tickets s)) (Some tid) \<and> fk (map ag_id (cr_agents s)) changed_by)) (\<lambda>ok.
     bindp (require ok ''crm.ticket_state_history'') (\<lambda>_.
     modify (\<lambda>s. s\<lparr>cr_ticket_hist := cr_ticket_hist s @ [\<lparr>th_ticket = tid, th_from = from_state, th_to = to_state,
       th_by = changed_by, th_reason = reason\<rparr>]\<rparr>)))"

definition insert_ticket :: "ticket_row \<Rightarrow> unit crm_prog" where
  "insert_ticket r = bindp (gets (\<lambda>s. tbl_find tk_id (tk_id r) (cr_tickets s) = None \<and> fk (map cu_id (cr_customers s)) (Some (tk_customer r)) \<and>
       fk (map ca_id (cr_cases s)) (tk_case r) \<and> fk (map ag_id (cr_agents s)) (tk_assignee r))) (\<lambda>ok.
     bindp (require ok ''crm.ticket'') (\<lambda>_. modify (\<lambda>s. s\<lparr>cr_tickets := cr_tickets s @ [r]\<rparr>)))"

record ticket_request =
  tq_customer :: string
  tq_subject :: string
  tq_description :: "string option"
  tq_type :: string
  tq_priority :: string
  tq_case :: "string option"
  tq_agent :: "string option"

definition open_ticket :: "crm_env \<Rightarrow> request_ctx \<Rightarrow> int \<Rightarrow> ticket_request \<Rightarrow> ticket_row crm_prog" where
  "open_ticket env ctx now q =
     bindp (gets (\<lambda>s. get_customer s (tq_customer q))) (\<lambda>customer.
     bindp (found_or customer ''ticket.open.requires_customer'' [(''customer_id'', JStr (tq_customer q))]) (\<lambda>_.
     bindp (case tq_agent q of None \<Rightarrow> ret () | Some a \<Rightarrow> check_agent_active a) (\<lambda>_.
     bindp (case tq_case q of None \<Rightarrow> ret () | Some cid \<Rightarrow>
       bindp (gets (\<lambda>s. get_case s cid)) (\<lambda>c. bindp (found_or c ''ticket.open.case_not_found'' [(''case_id'', JStr cid)]) (\<lambda>_. ret ()))) (\<lambda>_.
     bindp (next_crm_id env ''TKT'') (\<lambda>tid.
     bindp (crm_tx (
       bindp (insert_ticket \<lparr>tk_id = tid, tk_case = tq_case q, tk_customer = tq_customer q, tk_type = Some (tq_type q), tk_subject = tq_subject q,
         tk_description = tq_description q, tk_state = ''open'', tk_priority = Some (tq_priority q), tk_assignee = tq_agent q, tk_notes = None,
         tk_opened_at = now, tk_resolved_at = None, tk_closed_at = None\<rparr>) (\<lambda>_.
       bindp (ticket_history tid None ''open'' None ''Ticket created'') (\<lambda>_.
       bindp (stage ctx now ''ticket.opened'' ''ticket'' tid (JObj [(''customer_id'', JStr (tq_customer q)), (''case_id'', opt_json JStr (tq_case q)),
         (''subject'', JStr (tq_subject q))])) (\<lambda>_.
       log_interaction env ctx now (tq_customer q) (''Ticket opened: '' @ tq_subject q) (tq_case q) (Some tid)))))) (\<lambda>_.
     bindp (gets (\<lambda>s. get_ticket s tid)) (reread_or ''ticket vanished'')))))))"

definition find_ticket :: "string \<Rightarrow> ticket_row crm_prog" where
  "find_ticket tid = bindp (gets (\<lambda>s. get_ticket s tid)) (\<lambda>r. found_or r ''ticket.not_found'' [(''ticket_id'', JStr tid)])"

definition ticket_assignee :: "ticket_row \<Rightarrow> string \<Rightarrow> string option \<Rightarrow> string option crm_prog" where
  "ticket_assignee t trigger agent =
     (if trigger = ''ack'' \<and> tk_assignee t = None then
        (case (if blank agent then None else agent) of
           None \<Rightarrow> throw (violate ''ticket.ack.requires_agent'' [(''ticket_id'', JStr (tk_id t))])
         | Some a \<Rightarrow> bindp (check_agent_active a) (\<lambda>_. ret (Some a)))
      else ret (tk_assignee t))"

definition update_ticket_row :: "string \<Rightarrow> (ticket_row \<Rightarrow> ticket_row) \<Rightarrow> unit crm_prog" where
  "update_ticket_row tid f =
     bindp (modify (\<lambda>s. s\<lparr>cr_tickets := tbl_update tk_id tid f (cr_tickets s)\<rparr>)) (\<lambda>_.
     bindp (gets (\<lambda>s. list_all (\<lambda>t. tk_id t \<noteq> tid \<or> fk (map ag_id (cr_agents s)) (tk_assignee t)) (cr_tickets s))) (\<lambda>ok.
     require ok ''fk_ticket_assigned_to_agent_id_agent''))"

definition transition_ticket :: "crm_env \<Rightarrow> request_ctx \<Rightarrow> int \<Rightarrow> string \<Rightarrow> string \<Rightarrow> string option \<Rightarrow> string option \<Rightarrow> string option \<Rightarrow> ticket_row crm_prog" where
  "transition_ticket env ctx now tid trigger agent notes reason =
     bindp (find_ticket tid) (\<lambda>t.
     bindp (of_result (if trigger = ''cancel'' then check_ticket_cancel_allowed (tk_state t) else check_ticket_transition (tk_state t) trigger)) (\<lambda>_.
     bindp (ticket_assignee t trigger agent) (\<lambda>assignee.
     bindp (if trigger = ''resolve'' then of_result (check_resolution_notes notes) else ret ()) (\<lambda>_.
     case get_next_state ticket_transitions (tk_state t) trigger of
       None \<Rightarrow> throw (InternalE ''ticket transition produced no state'')
     | Some new_state \<Rightarrow>
         bindp (crm_tx (
           bindp (update_ticket_row tid (\<lambda>r. r\<lparr>tk_state := new_state, tk_assignee := assignee,
             tk_notes := (if trigger = ''resolve'' then notes else tk_notes t),
             tk_resolved_at := (if trigger = ''resolve'' then Some now else tk_resolved_at t),
             tk_closed_at := (if new_state = ''closed'' \<or> new_state = ''cancelled'' then Some now else tk_closed_at t)\<rparr>)) (\<lambda>_.
           bindp (ticket_history tid (Some (tk_state t)) new_state assignee (unwrap_or (''Trigger: '' @ trigger) reason)) (\<lambda>_.
           bindp (stage ctx now (''ticket.'' @ trigger) ''ticket'' tid
             (JObj [(''from_state'', JStr (tk_state t)), (''to_state'', JStr new_state), (''trigger'', JStr trigger)])) (\<lambda>_.
           log_interaction env ctx now (tk_customer t) (''Ticket '' @ trigger @ '': '' @ tk_state t @ arrow @ new_state) (tk_case t) (Some tid)))))) (\<lambda>_.
         bindp (gets (\<lambda>s. get_ticket s tid)) (reread_or ''ticket vanished''))))))"

definition update_ticket :: "string \<Rightarrow> string option \<Rightarrow> string option \<Rightarrow> string option \<Rightarrow> ticket_row crm_prog" where
  "update_ticket tid priority agent description =
     bindp (find_ticket tid) (\<lambda>_.
     bindp (case (if blank agent then None else agent) of None \<Rightarrow> ret () | Some a \<Rightarrow> check_agent_active a) (\<lambda>_.
     bindp (crm_tx (update_ticket_row tid (\<lambda>r. r\<lparr>tk_priority := (if priority = None then tk_priority r else priority),
       tk_assignee := (if agent = None then tk_assignee r else agent),
       tk_description := (if description = None then tk_description r else description)\<rparr>))) (\<lambda>_.
     bindp (gets (\<lambda>s. get_ticket s tid)) (reread_or ''ticket vanished''))))"

end
