(* ===== verification/Ports.thy ===== *)
theory Ports
  imports Customers
begin

text \<open>
  Number porting in \<open>services/crm\<close> (\<open>service.rs\<close>, \<open>repo.rs\<close>, \<open>policies.rs\<close>): a request
  is created, then approved or rejected. Approving one that brings a number in seeds the pool;
  approving one that takes a number out marks it gone and, after the commit, asks the
  subscription service to terminate the line and ignores the answer.
\<close>

definition get_port_request :: "crm_db \<Rightarrow> string \<Rightarrow> port_row option" where
  "get_port_request s pid = tbl_find pq_id pid (cr_ports s)"

text \<open>Rows are inserted in order of creation, which the list shows newest first.\<close>

definition list_port_requests :: "crm_db \<Rightarrow> string option \<Rightarrow> string option \<Rightarrow> nat \<Rightarrow> nat \<Rightarrow> port_row list" where
  "list_port_requests s state direction limit offset =
     take limit (drop offset (rev (filter (\<lambda>r. (case state of None \<Rightarrow> True | Some x \<Rightarrow> pq_state r = x) \<and>
       (case direction of None \<Rightarrow> True | Some x \<Rightarrow> pq_direction r = x)) (cr_ports s))))"

definition port_pending :: "port_row \<Rightarrow> bool" where
  "port_pending r \<longleftrightarrow> pq_state r = ''requested'' \<or> pq_state r = ''validated''"

definition active_port_for_donor :: "crm_db \<Rightarrow> string \<Rightarrow> string \<Rightarrow> port_row option" where
  "active_port_for_donor s donor tenant = find (\<lambda>r. pq_msisdn r = donor \<and> pq_tenant r = tenant \<and> port_pending r) (cr_ports s)"

section \<open>Checks\<close>

definition check_direction_valid :: "string \<Rightarrow> api_error + unit" where
  "check_direction_valid d = (if d \<noteq> ''port_in'' \<and> d \<noteq> ''port_out''
     then Inl (violate ''port_request.create.direction_valid'' [(''direction'', JStr d)]) else Inr ())"

definition empty_text :: "string option \<Rightarrow> bool" where
  "empty_text x \<longleftrightarrow> (case x of None \<Rightarrow> True | Some v \<Rightarrow> v = [])"

definition check_target_sub_required :: "string \<Rightarrow> string option \<Rightarrow> api_error + unit" where
  "check_target_sub_required d target = (if d = ''port_out'' \<and> empty_text target
     then Inl (violate ''port_request.create.target_sub_required_for_port_out'' [(''direction'', JStr d)]) else Inr ())"

definition check_donor_msisdn_unique :: "string \<Rightarrow> port_row option \<Rightarrow> api_error + unit" where
  "check_donor_msisdn_unique donor existing = (case existing of None \<Rightarrow> Inr ()
     | Some e \<Rightarrow> Inl (violate ''port_request.create.donor_msisdn_unique_among_pending''
         [(''donor_msisdn'', JStr donor), (''existing_id'', JStr (pq_id e)), (''existing_state'', JStr (pq_state e))]))"

definition check_pr_transition_valid :: "string \<Rightarrow> string \<Rightarrow> api_error + unit" where
  "check_pr_transition_valid state trigger = (if \<not> is_valid_transition port_transitions state trigger
     then Inl (violate ''port_request.transition.valid'' [(''from_state'', JStr state), (''trigger'', JStr trigger)]) else Inr ())"

definition check_reject_reason :: "string \<Rightarrow> api_error + unit" where
  "check_reject_reason reason = (if trim reason = [] then Inl (violate ''port_request.reject.requires_reason'' []) else Inr ())"

section \<open>Operations\<close>

record port_in_request =
  rq_direction :: string
  rq_carrier :: string
  rq_msisdn :: string
  rq_target :: "string option"
  rq_date :: int

definition insert_port :: "port_row \<Rightarrow> unit crm_prog" where
  "insert_port r = bindp (gets (\<lambda>s. tbl_find pq_id (pq_id r) (cr_ports s) = None \<and>
       active_port_for_donor s (pq_msisdn r) (pq_tenant r) = None)) (\<lambda>ok.
     bindp (require ok ''crm.port_request'') (\<lambda>_. modify (\<lambda>s. s\<lparr>cr_ports := cr_ports s @ [r]\<rparr>)))"

definition create_port_request :: "crm_env \<Rightarrow> request_ctx \<Rightarrow> int \<Rightarrow> port_in_request \<Rightarrow> port_row crm_prog" where
  "create_port_request env ctx now q =
     bindp (of_result (check_direction_valid (rq_direction q))) (\<lambda>_.
     bindp (of_result (check_target_sub_required (rq_direction q) (rq_target q))) (\<lambda>_.
     bindp (crm_tx (
       bindp (gets (\<lambda>s. active_port_for_donor s (rq_msisdn q) (rc_tenant ctx))) (\<lambda>existing.
       bindp (of_result (check_donor_msisdn_unique (rq_msisdn q) existing)) (\<lambda>_.
       bindp (next_port_id env) (\<lambda>pid.
       bindp (insert_port \<lparr>pq_id = pid, pq_direction = rq_direction q, pq_carrier = rq_carrier q, pq_msisdn = rq_msisdn q,
         pq_target = rq_target q, pq_date = rq_date q, pq_state = ''requested'', pq_reason = None, pq_tenant = rc_tenant ctx\<rparr>) (\<lambda>_.
       bindp (stage ctx now ''port_request.created'' ''port_request'' pid
         (JObj [(''portRequestId'', JStr pid), (''direction'', JStr (rq_direction q)), (''donorCarrier'', JStr (rq_carrier q)),
                (''donorMsisdn'', JStr (rq_msisdn q)), (''targetSubscriptionId'', opt_json JStr (rq_target q)), (''requestedPortDate'', JTime (rq_date q))])) (\<lambda>_.
       ret pid))))))) (\<lambda>pid.
     bindp (gets (\<lambda>s. get_port_request s pid)) (reread_or ''port request vanished''))))"

definition find_port :: "string \<Rightarrow> port_row crm_prog" where
  "find_port pid = bindp (gets (\<lambda>s. get_port_request s pid)) (\<lambda>r. found_or r ''port_request.not_found'' [(''port_request_id'', JStr pid)])"

definition update_port :: "string \<Rightarrow> (port_row \<Rightarrow> port_row) \<Rightarrow> unit crm_prog" where
  "update_port pid f = modify (\<lambda>s. s\<lparr>cr_ports := tbl_update pq_id pid f (cr_ports s)\<rparr>)"

definition port_number_in :: "request_ctx \<Rightarrow> int \<Rightarrow> port_row \<Rightarrow> unit crm_prog" where
  "port_number_in ctx now p =
     (let status = (if pq_target p \<noteq> None then ''assigned'' else ''available'') in
      bindp (modify (\<lambda>s. s\<lparr>cr_msisdns := (if tbl_find mn_number (pq_msisdn p) (cr_msisdns s) = None
        then cr_msisdns s @ [\<lparr>mn_number = pq_msisdn p, mn_status = status, mn_reserved_at = None, mn_sub = pq_target p, mn_until = None,
               mn_for = None, mn_tenant = rc_tenant ctx\<rparr>]
        else cr_msisdns s)\<rparr>)) (\<lambda>_.
      stage ctx now ''inventory.msisdn.seeded_from_port_in'' ''msisdn_pool'' (pq_msisdn p)
        (JObj [(''msisdn'', JStr (pq_msisdn p)), (''donorCarrier'', JStr (pq_carrier p)), (''portRequestId'', JStr (pq_id p)),
               (''targetSubscriptionId'', opt_json JStr (pq_target p)), (''status'', JStr status)])))"

definition port_number_out :: "request_ctx \<Rightarrow> int \<Rightarrow> port_row \<Rightarrow> unit crm_prog" where
  "port_number_out ctx now p = (case pq_target p of
      None \<Rightarrow> throw (violate ''port_request.create.target_sub_required_for_port_out'' [(''port_request_id'', JStr (pq_id p))])
    | Some sub \<Rightarrow>
        bindp (update_msisdns (\<lambda>r. mn_number r = pq_msisdn p) (\<lambda>r. r\<lparr>mn_status := ''ported_out'', mn_sub := Some sub\<rparr>)) (\<lambda>_.
        stage ctx now ''inventory.msisdn.ported_out'' ''msisdn_pool'' (pq_msisdn p)
          (JObj [(''msisdn'', JStr (pq_msisdn p)), (''donorCarrier'', JStr (pq_carrier p)), (''portRequestId'', JStr (pq_id p)),
                 (''targetSubscriptionId'', JStr sub), (''portedOutAt'', JTime now)])))"

definition terminate_body :: json where
  "terminate_body = JObj [(''reason'', JStr ''ported_out''), (''releaseInventory'', JBool False)]"

definition approve_port_request :: "request_ctx \<Rightarrow> int \<Rightarrow> string \<Rightarrow> unit crm_prog" where
  "approve_port_request ctx now pid =
     bindp (find_port pid) (\<lambda>p.
     bindp (of_result (check_pr_transition_valid (pq_state p) ''complete'')) (\<lambda>_.
     bindp (crm_tx (
       bindp (if pq_direction p = ''port_in'' then port_number_in ctx now p else port_number_out ctx now p) (\<lambda>_.
       bindp (update_port pid (\<lambda>r. r\<lparr>pq_state := ''completed''\<rparr>)) (\<lambda>_.
       bindp (stage ctx now ''port_request.approved'' ''port_request'' pid
         (JObj [(''portRequestId'', JStr (pq_id p)), (''direction'', JStr (pq_direction p)), (''donorMsisdn'', JStr (pq_msisdn p)),
                (''targetSubscriptionId'', opt_json JStr (pq_target p))])) (\<lambda>_.
       stage ctx now ''port_request.completed'' ''port_request'' pid
         (JObj [(''portRequestId'', JStr (pq_id p)), (''direction'', JStr (pq_direction p))])))))) (\<lambda>_.
     case pq_target p of
       Some sub \<Rightarrow> if pq_direction p = ''port_out'' then call_ext (TerminateSub sub terminate_body) () else ret ()
     | None \<Rightarrow> ret ())))"

definition reject_port_request :: "request_ctx \<Rightarrow> int \<Rightarrow> string \<Rightarrow> string \<Rightarrow> unit crm_prog" where
  "reject_port_request ctx now pid reason =
     bindp (find_port pid) (\<lambda>p.
     bindp (of_result (check_reject_reason reason)) (\<lambda>_.
     bindp (of_result (check_pr_transition_valid (pq_state p) ''reject'')) (\<lambda>_.
     crm_tx (
       bindp (update_port pid (\<lambda>r. r\<lparr>pq_state := ''rejected'', pq_reason := Some reason\<rparr>)) (\<lambda>_.
       stage ctx now ''port_request.rejected'' ''port_request'' pid
         (JObj [(''portRequestId'', JStr (pq_id p)), (''direction'', JStr (pq_direction p)), (''donorMsisdn'', JStr (pq_msisdn p)),
                (''reason'', JStr reason)]))))))"

end
