(* ===== verification/CrmRuns.thy ===== *)
theory CrmRuns
  imports InventoryProps Identity Cases Ports
begin

text \<open>
  Runs of \<open>services/crm\<close>: every operation of the service that changes state, as one datatype,
  and what its operations keep. A property of part of the database is kept by an operation
  that only writes the other tables: the locales state which tables a property does not look
  at, and give every operation on those tables once.
\<close>

section \<open>Operations\<close>

datatype crm_op =
    OrderIt order_op
  | TakeEsim request_ctx int
  | PairEsim string string
  | MoveEsim int string string
  | AddCustomer request_ctx int string string "string option" "new_medium list"
  | EditCustomer request_ctx int string "string option" "string option"
  | AddMedium request_ctx int string new_medium
  | DropMedium request_ctx int string string
  | EditMedium request_ctx int string string string
  | Rename request_ctx int string "string option" "string option"
  | LogIt request_ctx int interaction_request
  | OpenCase request_ctx int case_request
  | MoveCase request_ctx int string string "string option"
  | CloseCase request_ctx int string string
  | EditCase request_ctx int string "string option" "string option"
  | NoteCase request_ctx int string string "string option"
  | OpenTicket request_ctx int ticket_request
  | MoveTicket request_ctx int string string "string option" "string option" "string option"
  | EditTicket string "string option" "string option" "string option"
  | Attest request_ctx int string attestation
  | KeepTranscript int string string string
  | AskPort request_ctx int port_in_request
  | ApprovePort request_ctx int string
  | RejectPort request_ctx int string string

fun crm_step :: "crm_env \<Rightarrow> crm_op \<Rightarrow> crm_db \<Rightarrow> crm_db" where
  "crm_step env (OrderIt op) s = order_step op s"
| "crm_step env (TakeEsim ctx now) s = snd (reserve_esim ctx now s)"
| "crm_step env (PairEsim iccid m) s = snd (assign_msisdn_to_esim iccid m s)"
| "crm_step env (MoveEsim now iccid trigger) s = snd (transition_esim now iccid trigger s)"
| "crm_step env (AddCustomer ctx now given family birth ms) s = snd (create_customer env ctx now given family birth ms s)"
| "crm_step env (EditCustomer ctx now cid st reason) s = snd (update_customer env ctx now cid st reason s)"
| "crm_step env (AddMedium ctx now cid m) s = snd (add_contact_medium env ctx now cid m s)"
| "crm_step env (DropMedium ctx now cid mid) s = snd (remove_contact_medium ctx now cid mid s)"
| "crm_step env (EditMedium ctx now cid mid v) s = snd (update_contact_medium env ctx now cid mid v s)"
| "crm_step env (Rename ctx now cid given family) s = snd (update_individual_name env ctx now cid given family s)"
| "crm_step env (LogIt ctx now q) s = snd (create_interaction env ctx now q s)"
| "crm_step env (OpenCase ctx now q) s = snd (open_case env ctx now q s)"
| "crm_step env (MoveCase ctx now cid trigger code) s = snd (transition_case env ctx now cid trigger code s)"
| "crm_step env (CloseCase ctx now cid code) s = snd (close_case env ctx now cid code s)"
| "crm_step env (EditCase ctx now cid priority category) s = snd (update_case_fields ctx now cid priority category s)"
| "crm_step env (NoteCase ctx now cid body author) s = snd (add_note env ctx now cid body author s)"
| "crm_step env (OpenTicket ctx now q) s = snd (open_ticket env ctx now q s)"
| "crm_step env (MoveTicket ctx now tid trigger agent notes reason) s = snd (transition_ticket env ctx now tid trigger agent notes reason s)"
| "crm_step env (EditTicket tid priority agent description) s = snd (update_ticket tid priority agent description s)"
| "crm_step env (Attest ctx now cid a) s = snd (attest_kyc env ctx now cid a s)"
| "crm_step env (KeepTranscript now hash cid body) s = snd (store_transcript env now hash cid body s)"
| "crm_step env (AskPort ctx now q) s = snd (create_port_request env ctx now q s)"
| "crm_step env (ApprovePort ctx now pid) s = snd (approve_port_request ctx now pid s)"
| "crm_step env (RejectPort ctx now pid reason) s = snd (reject_port_request ctx now pid reason s)"

definition crm_run :: "crm_env \<Rightarrow> crm_op list \<Rightarrow> crm_db \<Rightarrow> crm_db" where
  "crm_run env ops s = fold (crm_step env) ops s"

lemma crm_run_keeps: "(\<And>op s. P s \<Longrightarrow> P (crm_step env op s)) \<Longrightarrow> P s \<Longrightarrow> P (crm_run env ops s)"
  unfolding crm_run_def by (induction ops arbitrary: s) simp_all

lemma keeps_case_list: "(keeps P m) \<Longrightarrow> (\<And>x xs. keeps P (n x xs)) \<Longrightarrow> keeps P (case v of [] \<Rightarrow> m | x # xs \<Rightarrow> n x xs)"
  by (simp split: list.splits)

section \<open>Properties that do not look at the messages\<close>

locale crm_view =
  fixes P :: "crm_db \<Rightarrow> bool"
  assumes on_outbox: "P s \<Longrightarrow> P (s\<lparr>outbox := x\<rparr>)"
    and on_calls: "P s \<Longrightarrow> P (s\<lparr>calls := k\<rparr>)"
    and on_draws: "P s \<Longrightarrow> P (s\<lparr>cr_draws := d\<rparr>)"

context crm_view begin

lemma tx: "keeps P m \<Longrightarrow> keeps P (crm_tx m)"
  by (rule keepsI) (auto simp: wp_simps rollback_def dest!: keeps_wp elim!: wp_mono intro: on_draws on_calls)

lemma stage_keeps: "keeps P (stage ctx now a b c p)"
  by (rule keeps_stage) (rule on_outbox)

lemma call_keeps: "keeps P (call_ext c r)"
  by (rule keeps_call_ext) (rule on_calls)

lemma draw_keeps: "keeps P (draw env)"
  unfolding draw_def by (intro keeps_bindp keeps_gets keeps_modify keeps_ret on_draws)

lemma id_keeps: "keeps P (next_crm_id env prefix)" "keeps P (next_port_id env)"
  unfolding next_crm_id_def next_port_id_def by (intro keeps_bindp draw_keeps keeps_ret)+

lemmas base_rules = tx stage_keeps call_keeps draw_keeps id_keeps keeps_bindp keeps_gets keeps_ret keeps_throw keeps_of_result
  keeps_map_err keeps_ignore_err keeps_for_each keeps_if keeps_case_option keeps_case_sum keeps_case_prod keeps_case_list

lemma checks_keep:
  "keeps P (found_or r n kvs)" "keeps P (reread_or n r)" "keeps P (require b n)" "keeps P (vanished r)" "keeps P (parsed n v)"
  "keeps P (parse_corroboration env c)" "keeps P (parse_birth_date env date)" "keeps P (check_email_unique email)"
  "keeps P (check_no_active_subscriptions env cr status)" "keeps P (check_agent_active aid)" "keeps P (check_customer_active cid)"
  "keeps P (maybe_emit_pool_low env now tenant)" "keeps P (stage_released ctx now owner released)"
  unfolding found_or_def reread_or_def require_def vanished_def parsed_def parse_corroboration_def parse_birth_date_def
    check_email_unique_def check_no_active_subscriptions_def check_agent_active_def check_customer_active_def
    maybe_emit_pool_low_def stage_released_def Let_def
  by (intro base_rules)+

lemma reads_keep:
  "keeps P (find_esim iccid)" "keeps P (require_customer_party cid)" "keeps P (medium_of_party cid mid party n)"
  "keeps P (find_case cid)" "keeps P (find_ticket tid)" "keeps P (find_port pid)" "keeps P (case_resolution c trigger code)"
  "keeps P (ticket_assignee t trigger agent)" "keeps P (open_order_reply resumed oid)"
  unfolding find_esim_def require_customer_party_def medium_of_party_def find_case_def find_ticket_def find_port_def
    case_resolution_def ticket_assignee_def open_order_reply_def Let_def
  by (intro base_rules checks_keep)+

lemmas step_rules = base_rules checks_keep reads_keep

end

section \<open>Properties of a few tables\<close>

text \<open>A property that looks at eSIM profiles, customers, cases and what belongs to them only.\<close>

locale still_view = crm_view +
  assumes on_msisdns: "P s \<Longrightarrow> P (s\<lparr>cr_msisdns := xm\<rparr>)"
    and on_opens: "P s \<Longrightarrow> P (s\<lparr>cr_opens := xo\<rparr>)"
    and on_individuals: "P s \<Longrightarrow> P (s\<lparr>cr_individuals := xi\<rparr>)"
    and on_mediums: "P s \<Longrightarrow> P (s\<lparr>cr_mediums := xd\<rparr>)"
    and on_interactions: "P s \<Longrightarrow> P (s\<lparr>cr_interactions := xn\<rparr>)"
    and on_tickets: "P s \<Longrightarrow> P (s\<lparr>cr_tickets := xt\<rparr>)"
    and on_ticket_hist: "P s \<Longrightarrow> P (s\<lparr>cr_ticket_hist := xh\<rparr>)"
    and on_ports: "P s \<Longrightarrow> P (s\<lparr>cr_ports := xp\<rparr>)"
    and on_transcripts: "P s \<Longrightarrow> P (s\<lparr>cr_transcripts := xs\<rparr>)"

context still_view begin

lemmas frames = on_msisdns on_opens on_individuals on_mediums on_interactions on_tickets on_ticket_hist on_ports on_transcripts

lemma writes_keep:
  "keeps P (update_msisdns cond f)" "keeps P (update_open_order oid g)"
  "keeps P (insert_party party given family dob)" "keeps P (insert_medium d)" "keeps P (insert_interaction i)"
  "keeps P (insert_ticket t)" "keeps P (update_ticket_row tid h)" "keeps P (ticket_history tid a b c r)"
  "keeps P (cancel_open_tickets cid now)" "keeps P (insert_port p)" "keeps P (update_port pid k)"
  unfolding update_msisdns_def update_open_order_def insert_party_def insert_medium_def insert_interaction_def
    insert_ticket_def update_ticket_row_def ticket_history_def cancel_open_tickets_def insert_port_def update_port_def
  by (intro step_rules keeps_modify frames, assumption?)+

lemma insert_open_keeps: "keeps P (insert_open_order oid identity plan m until tenant)"
  unfolding insert_open_order_def by (intro step_rules keeps_modify frames, assumption?)+

lemma seed_keeps: "keeps P (port_number_in ctx now p)" "keeps P (port_number_out ctx now p)"
  unfolding port_number_in_def port_number_out_def Let_def
  by (intro step_rules writes_keep keeps_modify frames, assumption?)+

lemma log_keeps: "keeps P (log_interaction env ctx now cid summary case_id ticket_id)"
  unfolding log_interaction_def by (intro step_rules writes_keep)

lemma holds_keep: "keeps P (take_hold m owner until now tenant)" "keeps P (release_holds_for owner)"
  unfolding take_hold_def release_holds_for_def by (intro step_rules writes_keep)+

lemmas op_rules = step_rules writes_keep insert_open_keeps seed_keeps log_keeps holds_keep

lemma end_keeps: "keeps P (end_open_order ctx now oid st)"
  unfolding end_open_order_def set_open_order_state_def by (intro op_rules)

lemma pool_keeps:
  "keeps P (reserve_msisdn env ctx now m)" "keeps P (reserve_next_msisdn env ctx now pref)" "keeps P (assign_msisdn m)"
  "keeps P (release_msisdn m)" "keeps P (hold_msisdn ctx now m owner ttl)" "keeps P (release_msisdn_hold ctx now owner)"
  "keeps P (add_msisdn_range ctx now prefix n)"
  unfolding reserve_msisdn_def reserve_next_msisdn_def assign_msisdn_def release_msisdn_def hold_msisdn_def
    release_msisdn_hold_def add_msisdn_range_def Let_def
  by (intro op_rules keeps_modify frames, assumption?)+

lemma opens_keep:
  "keeps P (link_open_order_customer oid c)" "keeps P (advance_open_order_step oid step)" "keeps P (complete_open_order ctx now oid)"
  "keeps P (cancel_open_order ctx now oid st)" "keeps P (sweep_tick tenant now)" "keeps P (try_open_order env ctx now identity plan m ttl)"
  unfolding link_open_order_customer_def advance_open_order_step_def complete_open_order_def cancel_open_order_def sweep_tick_def
    sweep_expired_def try_open_order_def resume_open_order_def start_open_order_def set_customer_def set_open_order_state_def Let_def
  by (intro op_rules end_keeps)+

lemma open_keeps:
  assumes "create_or_resume_open_order env ctx now identity plan m ttl s = Some r" "P s"
  shows "P (snd r)"
  using assms
proof (induction arbitrary: rule: create_or_resume_open_order.raw_induct [rotated, of env ctx now identity plan m ttl s r, consumes 1])
  case (1 create env ctx now identity plan m ttl s r)
  have "P (snd (try_open_order env ctx now identity plan m ttl s))" by (rule keepsD [OF opens_keep(6)]) (rule 1(3))
  then show ?case using 1
    by (cases "try_open_order env ctx now identity plan m ttl s") (auto split: sum.splits option.splits)
qed

lemma pool_step_keeps: "P s \<Longrightarrow> P (snd (pool_step env op s))"
  by (cases op) (simp_all add: succeeded_def keepsD [OF pool_keeps(1)] keepsD [OF pool_keeps(2)] keepsD [OF pool_keeps(3)]
    keepsD [OF pool_keeps(4)] keepsD [OF pool_keeps(5)] keepsD [OF pool_keeps(6)] keepsD [OF pool_keeps(7)])

lemma order_step_keeps: "P s \<Longrightarrow> P (order_step op s)"
  by (cases op) (auto simp: keepsD [OF opens_keep(1)] keepsD [OF opens_keep(2)] keepsD [OF opens_keep(3)] keepsD [OF opens_keep(4)]
    keepsD [OF opens_keep(5)] pool_step_keeps split: option.splits dest!: open_keeps)

lemma still_ops:
  "keeps P (add_contact_medium env ctx now cid nm)" "keeps P (remove_contact_medium ctx now cid mid)"
  "keeps P (update_contact_medium env ctx now cid mid v)" "keeps P (update_individual_name env ctx now cid given' family')"
  "keeps P (create_interaction env ctx now iq)" "keeps P (open_ticket env ctx now tq)"
  "keeps P (transition_ticket env ctx now tid trigger agent notes reason)" "keeps P (update_ticket tid priority agent description)"
  "keeps P (store_transcript env now hash cid body)" "keeps P (create_port_request env ctx now pq)"
  "keeps P (approve_port_request ctx now pid)" "keeps P (reject_port_request ctx now pid why)"
  unfolding add_contact_medium_def remove_contact_medium_def
    update_contact_medium_def update_individual_name_def create_interaction_def open_ticket_def transition_ticket_def
    update_ticket_def store_transcript_def create_port_request_def approve_port_request_def reject_port_request_def Let_def
  by (intro op_rules keeps_modify frames, assumption?)+

end

text \<open>One that looks at customers and cases only.\<close>

locale quiet_view = still_view +
  assumes on_esims: "P s \<Longrightarrow> P (s\<lparr>cr_esims := xe\<rparr>)"

context quiet_view begin

lemma update_esim_keeps: "keeps P (update_esim iccid e)"
  unfolding update_esim_def by (intro keeps_modify on_esims)

lemma esim_ops:
  "keeps P (reserve_esim ctx now)" "keeps P (assign_msisdn_to_esim iccid m)" "keeps P (transition_esim now iccid trigger)"
  unfolding reserve_esim_def assign_msisdn_to_esim_def transition_esim_def
  by (intro op_rules update_esim_keeps)+

lemmas quiet_ops = still_ops esim_ops

end

text \<open>One that does not look at the customers, and one that does not look at the cases.\<close>

locale customer_view = still_view +
  assumes on_customers: "P s \<Longrightarrow> P (s\<lparr>cr_customers := xc\<rparr>)"
    and on_identities: "P s \<Longrightarrow> P (s\<lparr>cr_identities := xk\<rparr>)"

context customer_view begin

lemma customer_ops_keep:
  "keeps P (create_customer env ctx now given family birth ms)" "keeps P (update_customer env ctx now cid st reason)"
  "keeps P (attest_kyc env ctx now cid a)"
  unfolding create_customer_def insert_customer_def update_customer_def attest_kyc_def insert_identity_def mark_verified_def Let_def
  by (intro op_rules keeps_modify on_customers on_identities, assumption?)+

end

locale support_view = still_view +
  assumes on_case_rows: "P s \<Longrightarrow> P (s\<lparr>cr_cases := xc\<rparr>)"
    and on_notes: "P s \<Longrightarrow> P (s\<lparr>cr_notes := xt\<rparr>)"

context support_view begin

lemma case_writes_keep: "keeps P (insert_case r)" "keeps P (update_case cid f)" "keeps P (insert_note n)"
  unfolding insert_case_def update_case_def insert_note_def
  by (intro op_rules keeps_modify on_case_rows on_notes, assumption?)+

lemma support_ops_keep:
  "keeps P (open_case env ctx now q)" "keeps P (transition_case env ctx now cid trigger code)"
  "keeps P (update_case_fields ctx now cid priority category)" "keeps P (add_note env ctx now cid body author)"
  unfolding open_case_def transition_case_def update_case_fields_def add_note_def Let_def
  by (intro op_rules case_writes_keep)+

lemma close_case_keeps: "keeps P (close_case env ctx now cid code')"
  unfolding close_case_def by (intro op_rules support_ops_keep)

end

text \<open>A property of the cases and their notes, one of the customers and what is known of them, one of the profiles.\<close>

locale case_view = quiet_view + customer_view +
  assumes on_cases: "keeps P (insert_case ca)" "keeps P (transition_case env ctx now cid trigger code)"
      "keeps P (update_case_fields ctx now cid priority category)" "keeps P (add_note env ctx now cid body author)"

context case_view begin

lemma case_ops_keep: "keeps P (open_case env ctx now q)" "keeps P (close_case env ctx now cid' code')"
  unfolding open_case_def close_case_def by (intro op_rules on_cases)+

lemma step_keeps: "P s \<Longrightarrow> P (crm_step env op s)"
  by (cases op) (simp_all add: order_step_keeps keepsD [where P = P] quiet_ops customer_ops_keep case_ops_keep on_cases)

end

locale kyc_view = quiet_view + support_view +
  assumes on_customer_ops: "keeps P (insert_customer cid party now)" "keeps P (update_customer env ctx now cid st reason)"

context kyc_view begin

lemma create_customer_keeps: "keeps P (create_customer env ctx now given family birth ms)"
  unfolding create_customer_def by (intro op_rules on_customer_ops)

text \<open>Every operation but an attestation.\<close>

lemma other_step_keeps: "P s \<Longrightarrow> \<not> (\<exists>ctx now cid a. op = Attest ctx now cid a) \<Longrightarrow> P (crm_step env op s)"
  by (cases op) (simp_all add: order_step_keeps keepsD [where P = P] quiet_ops support_ops_keep close_case_keeps create_customer_keeps on_customer_ops)

end

locale esim_view = customer_view + support_view

context esim_view begin

text \<open>Every operation but those of the profiles.\<close>

lemma other_step_keeps:
  "P s \<Longrightarrow> \<not> (\<exists>ctx now. op = TakeEsim ctx now) \<Longrightarrow> \<not> (\<exists>iccid m. op = PairEsim iccid m) \<Longrightarrow>
     \<not> (\<exists>now iccid trigger. op = MoveEsim now iccid trigger) \<Longrightarrow> P (crm_step env op s)"
  by (cases op) (simp_all add: order_step_keeps keepsD [where P = P] still_ops customer_ops_keep support_ops_keep close_case_keeps)

end

end
