(* ===== verification/CrmTypes.thy ===== *)
theory CrmTypes
  imports CrmRuns
begin

text \<open>
  The status columns of \<open>services/crm\<close>: in every run each row of the number pool, the eSIM
  profiles, the cases, the tickets, their history and the port requests holds a status of its
  state machine, and the closing times agree with the status.
\<close>

section \<open>Well-typed rows\<close>

definition statuses :: "transition_table \<Rightarrow> string \<Rightarrow> string list" where
  "statuses table initial = initial # map (\<lambda>(t, s, d). d) table"

definition msisdn_typed :: "msisdn_row \<Rightarrow> bool" where
  "msisdn_typed r \<longleftrightarrow> mn_status r \<in> {''available'', ''reserved'', ''assigned'', ''ported_out''}"

definition esim_typed :: "esim_row \<Rightarrow> bool" where
  "esim_typed r \<longleftrightarrow> es_state r \<in> set (statuses esim_transitions ''available'')"

definition case_typed :: "case_row \<Rightarrow> bool" where
  "case_typed r \<longleftrightarrow> ca_state r \<in> set (statuses case_transitions ''open'') \<and> (ca_state r = ''closed'' \<longleftrightarrow> ca_closed_at r \<noteq> None)"

definition ticket_over :: "string \<Rightarrow> bool" where
  "ticket_over st \<longleftrightarrow> st = ''closed'' \<or> st = ''cancelled''"

definition ticket_typed :: "ticket_row \<Rightarrow> bool" where
  "ticket_typed r \<longleftrightarrow> tk_state r \<in> set (statuses ticket_transitions ''open'') \<and> (ticket_over (tk_state r) \<longleftrightarrow> tk_closed_at r \<noteq> None)"

definition history_typed :: "ticket_hist \<Rightarrow> bool" where
  "history_typed h \<longleftrightarrow> th_to h \<in> set (statuses ticket_transitions ''open'') \<and>
     (case th_from h of None \<Rightarrow> th_to h = ''open'' | Some from \<Rightarrow> (\<exists>trigger. get_next_state ticket_transitions from trigger = Some (th_to h)))"

definition port_typed :: "port_row \<Rightarrow> bool" where
  "port_typed r \<longleftrightarrow> pq_state r \<in> set (statuses port_transitions ''requested'') \<and>
     (pq_direction r = ''port_in'' \<or> pq_direction r = ''port_out'' \<and> \<not> empty_text (pq_target r))"

definition crm_typed :: "crm_db \<Rightarrow> bool" where
  "crm_typed s \<longleftrightarrow> list_all msisdn_typed (cr_msisdns s) \<and> list_all esim_typed (cr_esims s) \<and> list_all case_typed (cr_cases s) \<and>
     list_all ticket_typed (cr_tickets s) \<and> list_all history_typed (cr_ticket_hist s) \<and> list_all port_typed (cr_ports s) \<and>
     distinct (map ca_id (cr_cases s))"

text \<open>A step of a state machine lands in one of its statuses.\<close>

lemma next_state_status: "get_next_state table s t = Some d \<Longrightarrow> d \<in> set (statuses table i)"
  by (force simp: get_next_state_def statuses_def find_Some_iff dest: nth_mem)

lemma list_all_update: "list_all Q rows \<Longrightarrow> (\<And>r. Q r \<Longrightarrow> Q (f r)) \<Longrightarrow> list_all Q (tbl_update key k f rows)"
  by (induction rows) simp_all

lemma list_all_map_if: "list_all Q rows \<Longrightarrow> (\<And>r. Q r \<Longrightarrow> Q (f r)) \<Longrightarrow> list_all Q (map (\<lambda>r. if c r then f r else r) rows)"
  by (induction rows) simp_all

interpretation typed: crm_view crm_typed
  by unfold_locales (simp_all add: crm_typed_def)

section \<open>The tables without a state machine\<close>

text \<open>What is written beside the typed tables is written freely.\<close>

lemma typed_frames:
  "crm_typed s \<Longrightarrow> crm_typed (s\<lparr>cr_opens := xo\<rparr>)" "crm_typed s \<Longrightarrow> crm_typed (s\<lparr>cr_individuals := xi\<rparr>)"
  "crm_typed s \<Longrightarrow> crm_typed (s\<lparr>cr_mediums := xd\<rparr>)" "crm_typed s \<Longrightarrow> crm_typed (s\<lparr>cr_interactions := xn\<rparr>)"
  "crm_typed s \<Longrightarrow> crm_typed (s\<lparr>cr_transcripts := xs\<rparr>)" "crm_typed s \<Longrightarrow> crm_typed (s\<lparr>cr_customers := xc\<rparr>)"
  "crm_typed s \<Longrightarrow> crm_typed (s\<lparr>cr_identities := xk\<rparr>)" "crm_typed s \<Longrightarrow> crm_typed (s\<lparr>cr_notes := xt\<rparr>)"
  by (simp_all add: crm_typed_def)

lemma typed_numbers:
  "crm_typed s \<Longrightarrow> list_all msisdn_typed rows \<Longrightarrow> crm_typed (s\<lparr>cr_msisdns := rows\<rparr>)"
  by (simp add: crm_typed_def)

lemma typed_update_msisdns:
  "(\<And>r. msisdn_typed r \<Longrightarrow> msisdn_typed (f r)) \<Longrightarrow> keeps crm_typed (update_msisdns cond f)"
  unfolding update_msisdns_def by (rule keeps_modify) (simp add: crm_typed_def list_all_map_if)

lemma typed_numbers_written:
  "keeps crm_typed (update_msisdns cond (\<lambda>r. r\<lparr>mn_status := ''reserved'', mn_reserved_at := a\<rparr>))"
  "keeps crm_typed (update_msisdns cond (\<lambda>r. r\<lparr>mn_status := ''reserved'', mn_reserved_at := a, mn_until := b, mn_for := c\<rparr>))"
  "keeps crm_typed (update_msisdns cond (\<lambda>r. r\<lparr>mn_status := ''assigned''\<rparr>))"
  "keeps crm_typed (update_msisdns cond (\<lambda>r. r\<lparr>mn_status := ''available'', mn_reserved_at := a, mn_sub := d\<rparr>))"
  "keeps crm_typed (update_msisdns cond (\<lambda>r. r\<lparr>mn_status := ''available'', mn_reserved_at := a, mn_until := b, mn_for := c\<rparr>))"
  "keeps crm_typed (update_msisdns cond (\<lambda>r. r\<lparr>mn_status := ''ported_out'', mn_sub := d\<rparr>))"
  by (rule typed_update_msisdns, simp add: msisdn_typed_def)+

lemma insert_number_typed: "list_all msisdn_typed rows \<Longrightarrow> list_all msisdn_typed (insert_number tenant m rows)"
  by (simp add: insert_number_def fresh_number_def msisdn_typed_def)

lemma range_typed: "list_all msisdn_typed rows \<Longrightarrow> list_all msisdn_typed (range_rows tenant prefix n rows)"
proof -
  have "list_all msisdn_typed rows \<Longrightarrow> list_all msisdn_typed (fold (\<lambda>i. insert_number tenant (prefix @ pad4 i)) is rows)" for "is"
    by (induction "is" arbitrary: rows) (simp_all add: insert_number_typed)
  then show "list_all msisdn_typed rows \<Longrightarrow> ?thesis" unfolding range_rows_def .
qed

lemma typed_writes:
  "keeps crm_typed (update_open_order oid g)" "keeps crm_typed (insert_party party given family dob)"
  "keeps crm_typed (insert_medium d)" "keeps crm_typed (insert_interaction i)" "keeps crm_typed (insert_customer cid party now)"
  "keeps crm_typed (insert_note nt)" "keeps crm_typed (insert_identity ir)" "keeps crm_typed (mark_verified cid now a)"
  "keeps crm_typed (insert_open_order oid identity plan m until tenant)"
  "keeps crm_typed (log_interaction env ctx now cid summary case_id ticket_id)"
  unfolding update_open_order_def insert_party_def insert_medium_def insert_interaction_def insert_customer_def insert_note_def
    insert_identity_def mark_verified_def insert_open_order_def log_interaction_def
  by (intro typed.step_rules keeps_modify typed_frames, assumption?)+

lemma typed_holds:
  "keeps crm_typed (take_hold m owner until now tenant)" "keeps crm_typed (release_holds_for owner)"
  unfolding take_hold_def release_holds_for_def by (intro typed.step_rules typed_numbers_written)+

lemmas typed_rules = typed.step_rules typed_writes typed_holds typed_numbers_written


section \<open>Numbers and profiles\<close>

lemma typed_end: "keeps crm_typed (end_open_order ctx now oid st)"
  unfolding end_open_order_def set_open_order_state_def by (intro typed_rules)

lemma typed_pool:
  "keeps crm_typed (reserve_msisdn env ctx now m)" "keeps crm_typed (reserve_next_msisdn env ctx now pref)"
  "keeps crm_typed (assign_msisdn m)" "keeps crm_typed (release_msisdn m)" "keeps crm_typed (hold_msisdn ctx now m owner ttl)"
  "keeps crm_typed (release_msisdn_hold ctx now owner)" "keeps crm_typed (add_msisdn_range ctx now prefix n)"
  unfolding reserve_msisdn_def reserve_next_msisdn_def assign_msisdn_def release_msisdn_def hold_msisdn_def
    release_msisdn_hold_def add_msisdn_range_def Let_def
  by (intro typed_rules keeps_modify, (simp add: crm_typed_def range_typed)?)+

lemma typed_opens:
  "keeps crm_typed (link_open_order_customer oid c)" "keeps crm_typed (advance_open_order_step oid step)"
  "keeps crm_typed (complete_open_order ctx now oid)" "keeps crm_typed (cancel_open_order ctx now oid st)"
  "keeps crm_typed (sweep_tick tenant now)" "keeps crm_typed (try_open_order env ctx now identity plan m ttl)"
  unfolding link_open_order_customer_def advance_open_order_step_def complete_open_order_def cancel_open_order_def sweep_tick_def
    sweep_expired_def try_open_order_def resume_open_order_def start_open_order_def set_customer_def set_open_order_state_def Let_def
  by (intro typed_rules typed_end)+

lemma typed_open:
  assumes "create_or_resume_open_order env ctx now identity plan m ttl s = Some r" "crm_typed s"
  shows "crm_typed (snd r)"
  using assms
proof (induction arbitrary: rule: create_or_resume_open_order.raw_induct [rotated, of env ctx now identity plan m ttl s r, consumes 1])
  case (1 create env ctx now identity plan m ttl s r)
  have "crm_typed (snd (try_open_order env ctx now identity plan m ttl s))" by (rule keepsD [OF typed_opens(6)]) (rule 1(3))
  then show ?case using 1
    by (cases "try_open_order env ctx now identity plan m ttl s") (auto split: sum.splits option.splits)
qed

lemma typed_pool_step: "crm_typed s \<Longrightarrow> crm_typed (snd (pool_step env op s))"
  by (cases op) (simp_all add: succeeded_def keepsD [OF typed_pool(1)] keepsD [OF typed_pool(2)] keepsD [OF typed_pool(3)]
    keepsD [OF typed_pool(4)] keepsD [OF typed_pool(5)] keepsD [OF typed_pool(6)] keepsD [OF typed_pool(7)])

lemma typed_order_step: "crm_typed s \<Longrightarrow> crm_typed (order_step op s)"
  by (cases op) (auto simp: keepsD [OF typed_opens(1)] keepsD [OF typed_opens(2)] keepsD [OF typed_opens(3)] keepsD [OF typed_opens(4)]
    keepsD [OF typed_opens(5)] typed_pool_step split: option.splits dest!: typed_open)

lemma typed_update_esim: "(\<And>r. esim_typed r \<Longrightarrow> esim_typed (f r)) \<Longrightarrow> keeps crm_typed (update_esim iccid f)"
  unfolding update_esim_def by (rule keeps_modify) (simp add: crm_typed_def list_all_update)

lemma esim_moved: "get_next_state esim_transitions x trigger = Some st \<Longrightarrow> esim_typed (esim_side_effects now st r)"
proof -
  have "es_state (esim_side_effects now st r) = st" by (simp add: esim_side_effects_def)
  then show "get_next_state esim_transitions x trigger = Some st \<Longrightarrow> ?thesis" using next_state_status by (simp add: esim_typed_def)
qed

lemma typed_esims:
  "keeps crm_typed (reserve_esim ctx now)" "keeps crm_typed (assign_msisdn_to_esim iccid m)" "keeps crm_typed (transition_esim now iccid trigger)"
  unfolding reserve_esim_def assign_msisdn_to_esim_def transition_esim_def
  by (intro typed_rules typed_update_esim, (erule esim_moved | simp add: esim_typed_def statuses_def esim_transitions_def)?)+

section \<open>Customers\<close>

lemma typed_customers:
  "keeps crm_typed (create_customer env ctx now given family birth ms)" "keeps crm_typed (update_customer env ctx now cid st reason)"
  "keeps crm_typed (add_contact_medium env ctx now cid nm)" "keeps crm_typed (remove_contact_medium ctx now cid mid)"
  "keeps crm_typed (update_contact_medium env ctx now cid mid v)" "keeps crm_typed (update_individual_name env ctx now cid given' family')"
  "keeps crm_typed (create_interaction env ctx now iq)" "keeps crm_typed (attest_kyc env ctx now cid a)"
  "keeps crm_typed (store_transcript env now hash cid body)"
  unfolding create_customer_def update_customer_def add_contact_medium_def remove_contact_medium_def update_contact_medium_def
    update_individual_name_def create_interaction_def attest_kyc_def store_transcript_def Let_def
  by (intro typed_rules keeps_modify typed_frames, assumption?)+


section \<open>Cases and tickets\<close>

lemma wp_update_case [wp_simps]:
  "wp (update_case cid f) Q E = (\<lambda>s. Q () (s\<lparr>cr_cases := tbl_update ca_id cid f (cr_cases s)\<rparr>))"
  by (rule ext) (simp add: update_case_def wp_simps)

lemma typed_insert_case:
  "ca_state r = ''open'' \<Longrightarrow> ca_closed_at r = None \<Longrightarrow> keeps crm_typed (insert_case r)"
  unfolding insert_case_def
  by (rule keepsI) (auto simp: wp_simps require_def crm_typed_def case_typed_def statuses_def tbl_find_None_iff)

lemma typed_cancel_tickets: "keeps crm_typed (cancel_open_tickets cid now)"
  unfolding cancel_open_tickets_def
  by (intro typed_rules keeps_modify)
     (simp add: crm_typed_def list_all_update ticket_typed_def ticket_over_def statuses_def ticket_transitions_def)

lemma typed_ticket_row:
  "(\<And>r. ticket_typed r \<Longrightarrow> ticket_typed (f r)) \<Longrightarrow> keeps crm_typed (update_ticket_row tid f)"
  unfolding update_ticket_row_def by (intro typed_rules keeps_modify) (simp add: crm_typed_def list_all_update)

lemma typed_history:
  "(case from of None \<Rightarrow> st = ''open'' | Some x \<Rightarrow> \<exists>trigger. get_next_state ticket_transitions x trigger = Some st) \<Longrightarrow>
     keeps crm_typed (ticket_history tid from st by why)"
  unfolding ticket_history_def
  by (intro typed_rules keeps_modify)
     (auto simp: crm_typed_def history_typed_def statuses_def [of _ "''open''"] dest: next_state_status [where i = "''open''"] split: option.splits)

lemma typed_insert_ticket: "tk_state r = ''open'' \<Longrightarrow> tk_closed_at r = None \<Longrightarrow> keeps crm_typed (insert_ticket r)"
  unfolding insert_ticket_def
  by (intro typed_rules keeps_modify) (simp add: crm_typed_def ticket_typed_def ticket_over_def statuses_def)

text \<open>A case that can still move is not closed, so its closing time is set only when it closes.\<close>

lemma case_moves_open: "get_next_state case_transitions x trigger = Some st \<Longrightarrow> x \<noteq> ''closed''"
  by (auto simp: get_next_state_def case_transitions_def split: if_splits)

lemma ticket_moves_open: "get_next_state ticket_transitions x trigger = Some st \<Longrightarrow> \<not> ticket_over x"
  by (auto simp: get_next_state_def ticket_transitions_def ticket_over_def split: if_splits)

lemma found_case: "distinct (map ca_id rows) \<Longrightarrow> r \<in> set rows \<Longrightarrow> tbl_find ca_id (ca_id r) rows = Some r"
  by (induction rows) (auto simp: image_iff)

lemma case_rows_moved:
  assumes "crm_typed s" "get_case s cid = Some c" "get_next_state case_transitions (ca_state c) trigger = Some st"
  shows "crm_typed (s\<lparr>cr_cases := tbl_update ca_id cid (\<lambda>r. r\<lparr>ca_state := st, ca_resolution := res,
    ca_closed_at := (if st = ''closed'' then Some now else ca_closed_at r)\<rparr>) (cr_cases s)\<rparr>)"
proof -
  have "case_typed (r\<lparr>ca_state := st, ca_resolution := res, ca_closed_at := (if st = ''closed'' then Some now else ca_closed_at r)\<rparr>)"
    if r: "r \<in> set (cr_cases s)" "ca_id r = cid" for r
  proof -
    have "r = c" using found_case [OF _ r(1)] assms(1,2) r(2) by (simp add: crm_typed_def get_case_def)
    moreover have "case_typed r" using assms(1) r(1) by (simp add: crm_typed_def list_all_iff)
    ultimately show ?thesis using case_moves_open [OF assms(3)] next_state_status [OF assms(3)] by (simp add: case_typed_def)
  qed
  moreover have "map ca_id (tbl_update ca_id cid f (cr_cases s)) = map ca_id (cr_cases s)" if "\<And>r. ca_id (f r) = ca_id r" for f
    by (rule map_tbl_update) (rule that)
  ultimately show ?thesis using assms(1) by (auto simp: crm_typed_def list_all_iff set_tbl_update)
qed


lemma wp_find_case [wp_simps]:
  "wp (find_case cid) Q E = (\<lambda>s. case get_case s cid of None \<Rightarrow> E (violate ''case.not_found'' [(''case_id'', JStr cid)]) s | Some c \<Rightarrow> Q c s)"
  by (rule ext) (simp add: find_case_def found_or_def wp_simps split: option.splits)

lemma wp_find_ticket [wp_simps]:
  "wp (find_ticket tid) Q E = (\<lambda>s. case get_ticket s tid of None \<Rightarrow> E (violate ''ticket.not_found'' [(''ticket_id'', JStr tid)]) s | Some t \<Rightarrow> Q t s)"
  by (rule ext) (simp add: find_ticket_def found_or_def wp_simps split: option.splits)

lemma wp_find_port [wp_simps]:
  "wp (find_port pid) Q E = (\<lambda>s. case get_port_request s pid of None \<Rightarrow> E (violate ''port_request.not_found'' [(''port_request_id'', JStr pid)]) s
     | Some r \<Rightarrow> Q r s)"
  by (rule ext) (simp add: find_port_def found_or_def wp_simps split: option.splits)

text \<open>Reading the resolution or the assignee changes nothing.\<close>

lemma pure_reads:
  "keeps (\<lambda>t. t = s) (case_resolution c trigger code)" "keeps (\<lambda>t. t = s) (ticket_assignee tk trigger agent)"
  "keeps (\<lambda>t. t = s) (check_agent_active aid)"
  unfolding case_resolution_def ticket_assignee_def check_agent_active_def Let_def
  by (intro keeps_bindp keeps_gets keeps_ret keeps_throw keeps_of_result keeps_if keeps_case_option)+

lemma wp_pure: "keeps (\<lambda>t. t = s) m \<Longrightarrow> (\<And>x. Q x s) \<Longrightarrow> (\<And>e. E e s) \<Longrightarrow> wp m Q E s"
  by (rule wp_mono [OF keeps_wp [where P = "\<lambda>t. t = s"]]) auto

lemma wp_typed_tx: "crm_typed s \<Longrightarrow> wp m (\<lambda>_. crm_typed) (\<lambda>_ _. True) s \<Longrightarrow> wp (crm_tx m) (\<lambda>_. crm_typed) (\<lambda>_. crm_typed) s"
  unfolding wp_crm_tx by (erule wp_mono) (simp_all add: rollback_def typed.on_draws typed.on_calls)

lemma typed_transition_case: "keeps crm_typed (transition_case env ctx now cid trigger code)"
proof (rule keepsI)
  fix s assume inv: "crm_typed s"
  have tail: "keeps crm_typed (bindp (if st = ''closed'' \<and> trigger = ''cancel'' then cancel_open_tickets cid now else ret ()) (\<lambda>_.
     bindp (stage ctx now e ''case'' cid j) (\<lambda>_. log_interaction env ctx now cu sm ci ti)))" for st e j cu sm ci ti
    by (intro typed_rules typed_cancel_tickets)
  have "wp (crm_tx (bindp (case_resolution c trigger code) (\<lambda>resolution.
       case get_next_state case_transitions (ca_state c) trigger of
         None \<Rightarrow> throw (InternalE ''case transition produced no state'')
       | Some new_state \<Rightarrow>
           bindp (update_case cid (\<lambda>r. r\<lparr>ca_state := new_state, ca_resolution := resolution,
             ca_closed_at := (if new_state = ''closed'' then Some now else ca_closed_at r)\<rparr>)) (\<lambda>_.
           bindp (if new_state = ''closed'' \<and> trigger = ''cancel'' then cancel_open_tickets cid now else ret ()) (\<lambda>_.
           bindp (stage ctx now (''case.'' @ trigger) ''case'' cid
             (JObj [(''from_state'', JStr (ca_state c)), (''to_state'', JStr new_state), (''trigger'', JStr trigger)])) (\<lambda>_.
           log_interaction env ctx now (ca_customer c) (''Case '' @ trigger @ '': '' @ ca_state c @ arrow @ new_state) (Some cid) None))))))
     (\<lambda>_. crm_typed) (\<lambda>_. crm_typed) s" if c: "get_case s cid = Some c" for c
  proof (rule wp_typed_tx [OF inv], unfold wp_bindp, rule wp_pure [OF pure_reads(1)])
    fix resolution
    show "wp (case get_next_state case_transitions (ca_state c) trigger of
         None \<Rightarrow> throw (InternalE ''case transition produced no state'')
       | Some new_state \<Rightarrow>
           bindp (update_case cid (\<lambda>r. r\<lparr>ca_state := new_state, ca_resolution := resolution,
             ca_closed_at := (if new_state = ''closed'' then Some now else ca_closed_at r)\<rparr>)) (\<lambda>_.
           bindp (if new_state = ''closed'' \<and> trigger = ''cancel'' then cancel_open_tickets cid now else ret ()) (\<lambda>_.
           bindp (stage ctx now (''case.'' @ trigger) ''case'' cid
             (JObj [(''from_state'', JStr (ca_state c)), (''to_state'', JStr new_state), (''trigger'', JStr trigger)])) (\<lambda>_.
           log_interaction env ctx now (ca_customer c) (''Case '' @ trigger @ '': '' @ ca_state c @ arrow @ new_state) (Some cid) None))))
       (\<lambda>_. crm_typed) (\<lambda>_ _. True) s"
    proof (cases "get_next_state case_transitions (ca_state c) trigger")
      case (Some st)
      show ?thesis
        unfolding Some option.case wp_bindp [of "update_case cid f" for f] wp_update_case
        by (rule wp_mono [OF keeps_wp [OF tail]]) (rule case_rows_moved [OF inv c Some], simp_all)
    qed (simp add: wp_throw)
  qed simp
  then show "wp (transition_case env ctx now cid trigger code) (\<lambda>_. crm_typed) (\<lambda>_. crm_typed) s"
    unfolding transition_case_def using inv by (simp add: wp_bindp wp_find_case wp_of_result split: option.splits sum.splits)
qed


lemma typed_update_case:
  assumes "\<And>r. ca_id (f r) = ca_id r" "\<And>r. ca_state (f r) = ca_state r" "\<And>r. ca_closed_at (f r) = ca_closed_at r"
  shows "keeps crm_typed (update_case cid f)"
proof -
  have "map ca_id (tbl_update ca_id cid f rows) = map ca_id rows" for rows by (rule map_tbl_update) (rule assms(1))
  moreover have "list_all case_typed rows \<Longrightarrow> list_all case_typed (tbl_update ca_id cid f rows)" for rows
    by (rule list_all_update) (simp_all add: case_typed_def assms)
  ultimately show ?thesis unfolding update_case_def by (intro keeps_modify) (simp add: crm_typed_def)
qed

lemma typed_cases:
  "keeps crm_typed (open_case env ctx now q)" "keeps crm_typed (close_case env ctx now cid code')"
  "keeps crm_typed (update_case_fields ctx now cid priority category)" "keeps crm_typed (add_note env ctx now cid body author)"
  unfolding open_case_def close_case_def update_case_fields_def add_note_def Let_def
  by (intro typed_rules typed_insert_case typed_transition_case typed_update_case; simp)+

lemma typed_transition_ticket: "keeps crm_typed (transition_ticket env ctx now tid trigger agent notes reason)"
proof (rule keepsI)
  fix s assume inv: "crm_typed s"
  have moved: "ticket_typed (r\<lparr>tk_state := st, tk_assignee := a, tk_notes := n, tk_resolved_at := ra,
      tk_closed_at := (if st = ''closed'' \<or> st = ''cancelled'' then Some now else tk_closed_at t)\<rparr>)"
    if "ticket_typed t" "get_next_state ticket_transitions (tk_state t) trigger = Some st" for t r st a n ra
    using that(1) ticket_moves_open [OF that(2)] next_state_status [OF that(2)] by (auto simp: ticket_typed_def ticket_over_def)
  have chain: "case Some x of None \<Rightarrow> st = ''open'' | Some y \<Rightarrow> \<exists>trigger. get_next_state ticket_transitions y trigger = Some st"
    if "get_next_state ticket_transitions x trigger = Some st" for x st using that by auto
  show "wp (transition_ticket env ctx now tid trigger agent notes reason) (\<lambda>_. crm_typed) (\<lambda>_. crm_typed) s"
  proof (cases "get_ticket s tid")
    case (Some t)
    then have typed: "ticket_typed t" using inv by (auto simp: get_ticket_def crm_typed_def list_all_iff dest: tbl_find_SomeD)
    show ?thesis
      unfolding transition_ticket_def wp_bindp [of "find_ticket tid"] wp_find_ticket Some option.case
      by (rule keeps_wp [where P = crm_typed, OF _ inv], intro typed_rules typed_ticket_row typed_history) (rule moved [OF typed] chain, assumption)+
  qed (simp add: transition_ticket_def wp_bindp wp_find_ticket inv)
qed

lemma typed_tickets:
  "keeps crm_typed (open_ticket env ctx now q)" "keeps crm_typed (update_ticket tid priority agent description)"
  unfolding open_ticket_def update_ticket_def
  by (intro typed_rules typed_insert_ticket typed_history typed_ticket_row; simp add: ticket_typed_def)+


section \<open>Ports\<close>

lemma typed_update_port:
  assumes "\<And>r. port_typed r \<Longrightarrow> port_typed (f r)"
  shows "keeps crm_typed (update_port pid f)"
  unfolding update_port_def by (rule keeps_modify) (simp add: crm_typed_def list_all_update assms)

lemma typed_insert_port: "port_typed r \<Longrightarrow> keeps crm_typed (insert_port r)"
  unfolding insert_port_def by (intro typed_rules keeps_modify) (simp add: crm_typed_def)

lemma typed_seed: "keeps crm_typed (port_number_in ctx now p)" "keeps crm_typed (port_number_out ctx now p)"
  unfolding port_number_in_def port_number_out_def Let_def
  by (intro typed_rules keeps_modify; simp add: crm_typed_def msisdn_typed_def)+

lemma typed_create_port: "keeps crm_typed (create_port_request env ctx now q)"
proof (rule keepsI)
  fix s assume inv: "crm_typed s"
  have new: "port_typed \<lparr>pq_id = pid, pq_direction = rq_direction q, pq_carrier = rq_carrier q, pq_msisdn = rq_msisdn q,
         pq_target = rq_target q, pq_date = rq_date q, pq_state = ''requested'', pq_reason = None, pq_tenant = rc_tenant ctx\<rparr>"
    if "check_direction_valid (rq_direction q) = Inr ()" "check_target_sub_required (rq_direction q) (rq_target q) = Inr ()" for pid
    using that by (auto simp: port_typed_def check_direction_valid_def check_target_sub_required_def statuses_def split: if_splits)
  show "wp (create_port_request env ctx now q) (\<lambda>_. crm_typed) (\<lambda>_. crm_typed) s"
  proof (cases "check_direction_valid (rq_direction q) = Inr () \<and> check_target_sub_required (rq_direction q) (rq_target q) = Inr ()")
    case True
    then show ?thesis
      unfolding create_port_request_def
      by (intro keeps_wp [where P = crm_typed, OF _ inv] typed_rules typed_insert_port new) simp_all
  next
    case False
    then show ?thesis using inv
      by (auto simp: create_port_request_def wp_bindp wp_of_result split: sum.splits)
  qed
qed

lemma typed_ports:
  "keeps crm_typed (approve_port_request ctx now pid)" "keeps crm_typed (reject_port_request ctx now pid why)"
  unfolding approve_port_request_def reject_port_request_def
  by (intro typed_rules typed_seed typed_update_port; simp add: port_typed_def statuses_def port_transitions_def)+

lemma typed_step: "crm_typed s \<Longrightarrow> crm_typed (crm_step env op s)"
  by (cases op) (simp_all add: typed_order_step keepsD [where P = crm_typed] typed_esims typed_customers typed_cases
    typed_transition_case typed_transition_ticket typed_tickets typed_create_port typed_ports)

text \<open>
  C8: in every run of the service, every number, eSIM profile, case, ticket and port request
  holds a status of its state machine; a case or a ticket has a closing time exactly when it is
  closed (or cancelled), a port out names the line it ends, and every line of the ticket
  history is a transition of the ticket machine.
\<close>
theorem crm_states_typed: "crm_typed s \<Longrightarrow> crm_typed (crm_run env ops s)"
  by (rule crm_run_keeps [where P = crm_typed]) (rule typed_step)

end
