(* ===== verification/CrmProps.thy ===== *)
theory CrmProps
  imports CrmTypes
begin

text \<open>
  What holds of the cases, the customers and their documents in every run of
  \<open>services/crm\<close>, and what its operations do at the edges: a number ported back, a case
  cancelled over its tickets, a verification decision used twice.
\<close>

section \<open>A closed case is final\<close>

definition notes_of :: "string \<Rightarrow> crm_db \<Rightarrow> note_row list" where
  "notes_of cid s = filter (\<lambda>n. nt_case n = cid) (cr_notes s)"

definition final_case :: "string \<Rightarrow> case_row \<Rightarrow> note_row list \<Rightarrow> crm_db \<Rightarrow> bool" where
  "final_case cid c ns s \<longleftrightarrow> get_case s cid = Some c \<and> ca_state c = ''closed'' \<and> notes_of cid s = ns"

interpretation final: quiet_view "final_case cid c ns" for cid c ns
  by unfold_locales (simp_all add: final_case_def get_case_def notes_of_def)

lemma closed_never_moves: "\<not> is_valid_transition case_transitions ''closed'' trigger"
  by (simp add: is_valid_transition_def case_transitions_def)

lemma final_frames:
  "final_case cid c ns s \<Longrightarrow> final_case cid c ns (s\<lparr>cr_customers := xc\<rparr>)"
  "final_case cid c ns s \<Longrightarrow> final_case cid c ns (s\<lparr>cr_identities := xk\<rparr>)"
  by (simp_all add: final_case_def get_case_def notes_of_def)

lemma final_insert_case: "keeps (final_case cid c ns) (insert_case r)"
  unfolding insert_case_def
  by (intro final.op_rules keeps_modify) (simp add: final_case_def get_case_def notes_of_def tbl_find_append)

lemma final_update_other:
  "cid' \<noteq> cid \<Longrightarrow> (\<And>r. ca_id (f r) = ca_id r) \<Longrightarrow> keeps (final_case cid c ns) (update_case cid' f)"
  unfolding update_case_def
  by (intro keeps_modify) (simp add: final_case_def get_case_def notes_of_def tbl_find_update)

lemma final_insert_note: "nt_case n \<noteq> cid \<Longrightarrow> keeps (final_case cid c ns) (insert_note n)"
  unfolding insert_note_def
  by (intro final.op_rules keeps_modify) (simp add: final_case_def get_case_def notes_of_def)

text \<open>An operation on a case starts by looking it up: on the closed one it is refused.\<close>

lemma final_found:
  assumes "\<And>x. cid' \<noteq> cid \<Longrightarrow> keeps (final_case cid c ns) (k x)"
    and "\<And>s. cid' = cid \<Longrightarrow> final_case cid c ns s \<Longrightarrow> wp (k c) (\<lambda>_. final_case cid c ns) (\<lambda>_. final_case cid c ns) s"
  shows "keeps (final_case cid c ns) (bindp (find_case cid') k)"
proof (rule keepsI)
  fix s assume inv: "final_case cid c ns s"
  show "wp (bindp (find_case cid') k) (\<lambda>_. final_case cid c ns) (\<lambda>_. final_case cid c ns) s"
  proof (cases "cid' = cid")
    case True
    then show ?thesis using inv assms(2) [OF True inv] by (simp add: wp_bindp wp_find_case final_case_def)
  next
    case False
    then show ?thesis using inv keeps_wp [OF assms(1) [OF False] inv]
      by (auto simp: wp_bindp wp_find_case split: option.splits)
  qed
qed

lemma final_moves:
  "keeps (final_case cid c ns) (transition_case env ctx now cid' trigger code)"
  "keeps (final_case cid c ns) (update_case_fields ctx now cid' priority category)"
  "keeps (final_case cid c ns) (add_note env ctx now cid' body author)"
proof -
  have refused: "final_case cid c ns s \<Longrightarrow> ca_state c = ''closed''" for s by (simp add: final_case_def)
  show "keeps (final_case cid c ns) (transition_case env ctx now cid' trigger code)"
    unfolding transition_case_def
    by (rule final_found)
       ((intro final.op_rules final_update_other; simp),
        simp add: refused wp_bindp wp_of_result check_case_transition_def closed_never_moves)
  show "keeps (final_case cid c ns) (update_case_fields ctx now cid' priority category)"
    unfolding update_case_fields_def Let_def
    by (rule final_found)
       ((intro final.op_rules final_update_other; simp), simp add: refused wp_bindp wp_of_result check_case_not_closed_def)
  show "keeps (final_case cid c ns) (add_note env ctx now cid' body author)"
    unfolding add_note_def
    by (rule final_found) ((intro final.op_rules final_insert_note; simp), simp add: refused wp_throw)
qed

interpretation closed: case_view "final_case cid c ns" for cid c ns
  by unfold_locales (rule final_frames final_insert_case final_moves, assumption?)+

text \<open>
  C34: a closed case is final: whatever the service is asked to do afterwards, the case and its
  notes stay as they were when it closed.
\<close>
theorem closed_case_is_final:
  assumes "get_case s cid = Some c" and "ca_state c = ''closed''"
  shows "get_case (crm_run env ops s) cid = Some c \<and> notes_of cid (crm_run env ops s) = notes_of cid s"
proof -
  have "final_case cid c (notes_of cid s) (crm_run env ops s)"
    by (rule crm_run_keeps [where P = "final_case cid c (notes_of cid s)"], rule closed.step_keeps, assumption)
       (simp add: final_case_def assms)
  then show ?thesis by (simp add: final_case_def)
qed


section \<open>Verified customers\<close>

text \<open>What an identity row rests on: a decision of the provider, or a signed payload where that is allowed.\<close>

definition corroborated :: "crm_env \<Rightarrow> corroboration_row list \<Rightarrow> identity_row \<Rightarrow> bool" where
  "corroborated env decisions r \<longleftrightarrow>
     (if ci_verified_by r = ''didit''
      then \<exists>d. d \<in> set decisions \<and> ci_corroboration r = Some (kc_id d) \<and> kc_provider d = ''didit'' \<and> kc_decision d = ''Approved''
      else cv_prebaked env \<and> jget (ci_payload r) ''signature'' \<noteq> None)"

definition document_of :: "identity_row \<Rightarrow> string \<times> string \<times> string" where
  "document_of r = (ci_tenant r, ci_type r, ci_hash r)"

definition attested :: "crm_env \<Rightarrow> crm_db \<Rightarrow> bool" where
  "attested env s \<longleftrightarrow>
     distinct (map ci_customer (cr_identities s)) \<and> distinct (map document_of (cr_identities s)) \<and>
     list_all (corroborated env (cr_corroborations s)) (cr_identities s) \<and>
     (\<forall>c\<in>set (cr_customers s). cu_kyc c = ''verified'' \<longrightarrow>
        (\<exists>r\<in>set (cr_identities s). ci_customer r = cu_id c \<and> cu_kyc_method c = Some (ci_verified_by r)))"

interpretation attested: quiet_view "attested env" for env
  by unfold_locales (simp_all add: attested_def)

lemma attested_insert_customer: "keeps (attested env) (insert_customer cid party now)"
  unfolding insert_customer_def by (intro attested.op_rules keeps_modify) (simp add: attested_def)

lemma attested_update_customer: "keeps (attested env) (update_customer env' ctx now cid st reason)"
  unfolding update_customer_def Let_def
  by (intro attested.op_rules keeps_modify) (auto simp: attested_def set_tbl_update)

interpretation attested: kyc_view "attested env" for env
  by unfold_locales (simp add: attested_def | rule attested_insert_customer attested_update_customer)+

text \<open>An attestation adds the identity and marks the customer, in one transaction.\<close>

lemma corroborated_row:
  assumes "check_attestation_signature env s now (ci_verified_by r) (ci_payload r) raw = Inr ()"
    and "case raw of None \<Rightarrow> ci_corroboration r = None | Some x \<Rightarrow> ci_corroboration r = cv_uuid env x"
  shows "corroborated env (cr_corroborations s) r"
proof (cases "ci_verified_by r = ''didit''")
  case True
  obtain x cid d where d: "raw = Some x" "cv_uuid env x = Some cid" "corroboration_row s cid = Some d" "kc_decision d = ''Approved''"
    using assms(1) True by (auto simp: check_attestation_signature_def split: option.splits if_splits)
  then have "d \<in> set (cr_corroborations s) \<and> kc_id d = cid \<and> kc_provider d = ''didit''"
    by (auto simp: corroboration_row_def find_Some_iff)
  then show ?thesis using assms(2) d True by (auto simp: corroborated_def)
next
  case False
  then show ?thesis using assms(1) by (auto simp: corroborated_def check_attestation_signature_def split: if_splits)
qed

lemma attested_added:
  assumes "attested env s" "corroborated env (cr_corroborations s) r" "tbl_find ci_customer (ci_customer r) (cr_identities s) = None"
    and "\<not> list_ex (same_document (ci_tenant r) (ci_type r) (ci_hash r)) (cr_identities s)" "ci_verified_by r = at_provider a"
  shows "attested env (s\<lparr>cr_identities := cr_identities s @ [r],
    cr_customers := tbl_update cu_id (ci_customer r) (\<lambda>c. c\<lparr>cu_kyc := ''verified'', cu_kyc_at := Some now,
      cu_kyc_method := Some (at_provider a), cu_kyc_ref := Some (at_reference a)\<rparr>) (cr_customers s)\<rparr>)"
proof -
  have fresh: "ci_customer r \<notin> ci_customer ` set (cr_identities s)" using assms(3) by (simp add: tbl_find_None_iff)
  have "document_of r \<notin> document_of ` set (cr_identities s)"
    using assms(4) by (auto simp: document_of_def same_document_def list_ex_iff)
  then show ?thesis using assms(1,2,5) fresh by (fastforce simp: attested_def set_tbl_update split: if_splits)
qed


lemma wp_attested_tx:
  "attested env s \<Longrightarrow> wp m (\<lambda>_. attested env) (\<lambda>_ _. True) s \<Longrightarrow> wp (crm_tx m) (\<lambda>_. attested env) (\<lambda>_. attested env) s"
  unfolding wp_crm_tx by (erule wp_mono) (simp_all add: rollback_def attested.on_draws attested.on_calls)

lemma wp_parse_corroboration:
  "wp (parse_corroboration env raw) Q E s \<longleftrightarrow> (case raw of None \<Rightarrow> Q None s | Some x \<Rightarrow>
     (case cv_uuid env x of None \<Rightarrow> E (BadRequestE ''bad corroboration_id'') s | Some k \<Rightarrow> Q (Some k) s))"
  by (simp add: parse_corroboration_def parsed_def wp_simps split: option.splits)

lemma attested_tx:
  assumes inv: "attested env s" and r: "corroborated env (cr_corroborations s) r" "ci_verified_by r = at_provider a" "ci_customer r = cid"
    and k: "\<And>x. keeps (attested env) (k x)"
  shows "wp (crm_tx (bindp (ret ()) (\<lambda>_. bindp (insert_identity r) (\<lambda>_. bindp (mark_verified cid now a) k))))
    (\<lambda>_. attested env) (\<lambda>_. attested env) s"
proof (rule wp_attested_tx [OF inv])
  have "attested env (s\<lparr>cr_identities := cr_identities s @ [r],
      cr_customers := tbl_update cu_id cid (\<lambda>c. c\<lparr>cu_kyc := ''verified'', cu_kyc_at := Some now,
        cu_kyc_method := Some (at_provider a), cu_kyc_ref := Some (at_reference a)\<rparr>) (cr_customers s)\<rparr>)"
    if "tbl_find ci_customer (ci_customer r) (cr_identities s) = None"
      "\<not> list_ex (same_document (ci_tenant r) (ci_type r) (ci_hash r)) (cr_identities s)"
    using attested_added [OF inv r(1) that r(2)] r(3) by simp
  then have "wp (k x) (\<lambda>_. attested env) (\<lambda>_ _. True) (s\<lparr>cr_identities := cr_identities s @ [r],
      cr_customers := tbl_update cu_id cid (\<lambda>c. c\<lparr>cu_kyc := ''verified'', cu_kyc_at := Some now,
        cu_kyc_method := Some (at_provider a), cu_kyc_ref := Some (at_reference a)\<rparr>) (cr_customers s)\<rparr>)"
    if "tbl_find ci_customer (ci_customer r) (cr_identities s) = None"
      "\<not> list_ex (same_document (ci_tenant r) (ci_type r) (ci_hash r)) (cr_identities s)" for x
    by (rule wp_mono [OF keeps_wp [OF k]]) (use that in simp_all)
  then show "wp (bindp (ret ()) (\<lambda>_. bindp (insert_identity r) (\<lambda>_. bindp (mark_verified cid now a) k))) (\<lambda>_. attested env) (\<lambda>_ _. True) s"
    by (simp add: wp_simps insert_identity_def require_def mark_verified_def)
qed

lemma attested_attest:
  assumes "\<not> cv_doc_reuse env"
  shows "keeps (attested env) (attest_kyc env ctx now cid a)"
proof (rule keepsI)
  fix s assume inv: "attested env s"
  show "wp (attest_kyc env ctx now cid a) (\<lambda>_. attested env) (\<lambda>_. attested env) s"
    unfolding attest_kyc_def wp_bindp wp_of_result wp_gets found_or_def parsed_def wp_parse_corroboration
    by (simp add: assms inv wp_ret wp_throw wp_bindp wp_gets wp_of_result wp_parse_corroboration split: sum.split prod.split option.split)
       (intro allI impI conjI; rule attested_tx [OF inv], rule corroborated_row [where raw = "at_corroboration a"];
        (intro attested.op_rules)?; simp)
qed

lemma attested_step: "\<not> cv_doc_reuse env \<Longrightarrow> attested env s \<Longrightarrow> attested env (crm_step env op s)"
  using attested.other_step_keeps [of env s op env] keepsD [OF attested_attest]
  by (cases "\<exists>ctx now cid a. op = Attest ctx now cid a") auto

text \<open>
  C7: with document reuse off, in every run every verified customer has an identity row of
  the method shown, which rests on an approved decision of the provider (or, where prebaked
  attestations are accepted, on a signed payload); no customer has two rows, and no document
  of a tenant verifies two customers.
\<close>
theorem verified_customers_are_attested:
  assumes "\<not> cv_doc_reuse env" and "attested env s"
  shows "attested env (crm_run env ops s)"
  by (rule crm_run_keeps [where P = "attested env"]) (rule attested_step [OF assms(1)] assms(2), assumption?)+

end
