(* ===== verification/CrmEdges.thy ===== *)
theory CrmEdges
  imports CrmProps SubKeep
begin

text \<open>
  The edges of \<open>services/crm\<close>: a decision of the identity provider used for two customers, a
  number brought back after it was ported out, tickets cancelled with their case, and eSIM
  profiles whose lines have ended.
\<close>

section \<open>A verification decision used twice\<close>

text \<open>What a successful attestation leaves.\<close>

definition kyc_row :: "crm_env \<Rightarrow> request_ctx \<Rightarrow> string \<Rightarrow> attestation \<Rightarrow> string \<Rightarrow> identity_row \<Rightarrow> bool" where
  "kyc_row env ctx cid a k r \<longleftrightarrow> ci_customer r = cid \<and> ci_corroboration r = Some k \<and> ci_type r = at_type a \<and>
     ci_tenant r = rc_tenant ctx \<and> (\<exists>l. reduce_document env a = Inr (l, ci_hash r))"

text \<open>An attestation of the customer that the checks accept, with a decision \<open>k\<close>.\<close>

definition acceptable :: "crm_env \<Rightarrow> request_ctx \<Rightarrow> int \<Rightarrow> string \<Rightarrow> attestation \<Rightarrow> string \<Rightarrow> crm_db \<Rightarrow> bool" where
  "acceptable env ctx now cid a k s \<longleftrightarrow>
     at_provider a = ''didit'' \<and> Option.bind (at_corroboration a) (cv_uuid env) = Some k \<and>
     (case corroboration_row s k of None \<Rightarrow> False | Some d \<Rightarrow> kc_decision d = ''Approved'' \<and> now - kc_received d \<le> seconds 1800) \<and>
     get_customer s cid \<noteq> None \<and> tbl_find ci_customer cid (cr_identities s) = None \<and>
     (case reduce_document env a of Inl _ \<Rightarrow> False
      | Inr (l, h) \<Rightarrow> length l \<le> 4 \<and> list_all (\<lambda>r. \<not> same_document (rc_tenant ctx) (at_type a) h r) (cr_identities s)) \<and>
     cv_date env (at_birth a) \<noteq> None \<and> cv_time env (at_verified a) \<noteq> None \<and>
     tbl_find ix_id (''INT-'' @ take 8 (cv_hex env (cr_draws s))) (cr_interactions s) = None"

lemma attest_succeeds:
  assumes ok: "acceptable env ctx now cid a k s"
  shows "wp (attest_kyc env ctx now cid a) (\<lambda>_ t. \<exists>r i. kyc_row env ctx cid a k r \<and> cr_identities t = cr_identities s @ [r] \<and>
      cr_customers t = tbl_update cu_id cid (\<lambda>c. c\<lparr>cu_kyc := ''verified'', cu_kyc_at := Some now,
        cu_kyc_method := Some (at_provider a), cu_kyc_ref := Some (at_reference a)\<rparr>) (cr_customers s) \<and>
      cr_corroborations t = cr_corroborations s \<and> cr_draws t = Suc (cr_draws s) \<and>
      cr_interactions t = cr_interactions s @ [i] \<and> ix_id i = ''INT-'' @ take 8 (cv_hex env (cr_draws s))) (\<lambda>_ _. False) s"
proof -
  obtain raw where raw: "at_corroboration a = Some raw" "cv_uuid env raw = Some k" and didit: "at_provider a = ''didit''"
    using ok by (cases "at_corroboration a") (auto simp: acceptable_def)
  obtain d where d: "corroboration_row s k = Some d" "kc_decision d = ''Approved''" "now - kc_received d \<le> seconds 1800"
    using ok by (cases "corroboration_row s k") (auto simp: acceptable_def)
  obtain l h where lh: "reduce_document env a = Inr (l, h)" "length l \<le> 4"
      "list_all (\<lambda>r. \<not> same_document (rc_tenant ctx) (at_type a) h r) (cr_identities s)"
    using ok by (cases "reduce_document env a") (auto simp: acceptable_def)
  obtain c where c: "get_customer s cid = Some c" using ok by (cases "get_customer s cid") (auto simp: acceptable_def)
  obtain dob vt where dates: "cv_date env (at_birth a) = Some dob" "cv_time env (at_verified a) = Some vt"
    using ok by (cases "cv_date env (at_birth a)"; cases "cv_time env (at_verified a)") (auto simp: acceptable_def)
  have new: "tbl_find ci_customer cid (cr_identities s) = None"
      "tbl_find ix_id (''INT-'' @ take 8 (cv_hex env (cr_draws s))) (cr_interactions s) = None"
    using ok by (simp_all add: acceptable_def)
  have sig: "check_attestation_signature env s now (at_provider a) (at_payload a) (Some raw) = Inr ()"
    using raw d didit by (simp add: check_attestation_signature_def)
  have none: "\<not> list_ex (same_document (rc_tenant ctx) (at_type a) h) (cr_identities s)"
    using lh(3) by (auto simp: list_ex_iff list_all_iff)
  then have unused: "kyc_find_by_hash s (rc_tenant ctx) (at_type a) h = None"
    by (auto simp: kyc_find_by_hash_def find_None_iff list_ex_iff)
  have same: "filter (\<lambda>r. \<not> same_document (rc_tenant ctx) (at_type a) h r) (cr_identities s) = cr_identities s"
    using lh(3) by (simp add: list_all_iff)
  have known: "fk (map cu_id (tbl_update cu_id cid f (cr_customers s))) (Some cid)" if "\<And>x. cu_id (f x) = cu_id x" for f
    using c tbl_find_SomeD [of cu_id cid "cr_customers s" c] map_tbl_update [of cu_id f cu_id cid "cr_customers s"] that
    by (force simp: fk_def get_customer_def list_ex_iff)
  show ?thesis
    unfolding attest_kyc_def wp_bindp wp_of_result wp_gets found_or_def parsed_def wp_parse_corroboration
    using new none unused same known
    by (simp add: raw sig lh c dates wp_simps insert_identity_def require_def mark_verified_def log_interaction_def next_crm_id_def
        draw_def insert_interaction_def stage_def kyc_row_def fk_def parse_corroboration_def parsed_def)
qed


definition document_hash :: "crm_env \<Rightarrow> attestation \<Rightarrow> string" where
  "document_hash env a = (case reduce_document env a of Inl _ \<Rightarrow> [] | Inr (l, h) \<Rightarrow> h)"

definition verified :: "string \<Rightarrow> crm_db \<Rightarrow> bool" where
  "verified cid s \<longleftrightarrow> (\<exists>c. get_customer s cid = Some c \<and> cu_kyc c = ''verified'')"

lemma kyc_row_hash: "kyc_row env ctx cid a k r \<Longrightarrow> ci_hash r = document_hash env a"
  by (auto simp: kyc_row_def document_hash_def)

lemma verified_update:
  assumes "get_customer s cid \<noteq> None" "cr_customers t = tbl_update cu_id cid (\<lambda>c. c\<lparr>cu_kyc := ''verified'', cu_kyc_at := x,
        cu_kyc_method := y, cu_kyc_ref := z\<rparr>) (cr_customers s)"
  shows "verified cid t" "verified c s \<Longrightarrow> verified c t" "get_customer s c \<noteq> None \<Longrightarrow> get_customer t c \<noteq> None"
  using assms by (auto simp: verified_def get_customer_def tbl_find_update)

text \<open>
  C35: one approved decision of the identity provider verifies two customers with two
  documents of their own choice: nothing ties the decision to a customer, to the document, or
  to a first use, and within half an hour both attestations succeed and rest on it.
\<close>
theorem one_decision_verifies_many:
  assumes "acceptable env ctx now1 c1 a1 k s" and "acceptable env ctx now2 c2 a2 k (s\<lparr>cr_draws := Suc (cr_draws s)\<rparr>)"
    and "c1 \<noteq> c2" and "(at_type a1, document_hash env a1) \<noteq> (at_type a2, document_hash env a2)"
    and "take 8 (cv_hex env (cr_draws s)) \<noteq> take 8 (cv_hex env (Suc (cr_draws s)))"
  shows "\<exists>j1 t j2 u. attest_kyc env ctx now1 c1 a1 s = (Inr j1, t) \<and> attest_kyc env ctx now2 c2 a2 t = (Inr j2, u) \<and>
    verified c1 u \<and> verified c2 u \<and>
    (\<exists>r1 r2. cr_identities u = cr_identities s @ [r1, r2] \<and> kyc_row env ctx c1 a1 k r1 \<and> kyc_row env ctx c2 a2 k r2)"
proof -
  obtain j1 t r1 i where first: "attest_kyc env ctx now1 c1 a1 s = (Inr j1, t)" "kyc_row env ctx c1 a1 k r1"
      "cr_identities t = cr_identities s @ [r1]"
      "cr_customers t = tbl_update cu_id c1 (\<lambda>c. c\<lparr>cu_kyc := ''verified'', cu_kyc_at := Some now1,
        cu_kyc_method := Some (at_provider a1), cu_kyc_ref := Some (at_reference a1)\<rparr>) (cr_customers s)"
      "cr_corroborations t = cr_corroborations s" "cr_draws t = Suc (cr_draws s)"
      "cr_interactions t = cr_interactions s @ [i]" "ix_id i = ''INT-'' @ take 8 (cv_hex env (cr_draws s))"
    using attest_succeeds [OF assms(1)] unfolding wp_def by (auto split: prod.splits sum.splits)
  have c: "get_customer s c1 \<noteq> None" "get_customer s c2 \<noteq> None" using assms(1,2) by (simp_all add: acceptable_def get_customer_def)
  have "\<not> same_document (rc_tenant ctx) (at_type a2) (document_hash env a2) r1"
    using assms(4) kyc_row_hash [OF first(2)] first(2) by (auto simp: same_document_def kyc_row_def)
  then have "acceptable env ctx now2 c2 a2 k t"
    using assms(2,3,5) first verified_update(3) [OF c(1) first(4) c(2)]
    by (auto simp: acceptable_def corroboration_row_def tbl_find_append kyc_row_def document_hash_def split: option.splits sum.splits)
  then obtain j2 u r2 where second: "attest_kyc env ctx now2 c2 a2 t = (Inr j2, u)" "kyc_row env ctx c2 a2 k r2"
      "cr_identities u = cr_identities t @ [r2]"
      "cr_customers u = tbl_update cu_id c2 (\<lambda>c. c\<lparr>cu_kyc := ''verified'', cu_kyc_at := Some now2,
        cu_kyc_method := Some (at_provider a2), cu_kyc_ref := Some (at_reference a2)\<rparr>) (cr_customers t)"
    using attest_succeeds [of env ctx now2 c2 a2 k t] unfolding wp_def by (auto split: prod.splits sum.splits)
  have c2: "get_customer t c2 \<noteq> None" by (rule verified_update(3) [OF c(1) first(4) c(2)])
  have "verified c1 u" by (rule verified_update(2) [OF c2 second(4)], rule verified_update(1) [OF c(1) first(4)])
  moreover have "verified c2 u" by (rule verified_update(1) [OF c2 second(4)])
  ultimately show ?thesis using first(1,2,3) second(1,2,3) by auto
qed


section \<open>A number ported back\<close>

definition staged_types :: "crm_db \<Rightarrow> string list" where
  "staged_types s = map ev_type (outbox s)"

text \<open>
  C36: approving a port in of a number the pool already has (say, one that was ported out)
  seeds nothing: the row stays as it is, gone or in use, and the request is still reported as
  seeded, approved and completed.
\<close>
theorem ported_back_number_stays_gone:
  assumes "get_port_request s pid = Some p" and "port_pending p" and "pq_direction p = ''port_in''"
    and "tbl_find mn_number (pq_msisdn p) (cr_msisdns s) \<noteq> None"
  shows "\<exists>t. approve_port_request ctx now pid s = (Inr (), t) \<and> cr_msisdns t = cr_msisdns s \<and>
    get_port_request t pid = Some (p\<lparr>pq_state := ''completed''\<rparr>) \<and>
    staged_types t = staged_types s @ [''inventory.msisdn.seeded_from_port_in'', ''port_request.approved'', ''port_request.completed'']"
proof -
  have go: "check_pr_transition_valid (pq_state p) ''complete'' = Inr ()"
    using assms(2) by (auto simp: port_pending_def check_pr_transition_valid_def is_valid_transition_def port_transitions_def)
  have row: "tbl_find pq_id pid (cr_ports s) = Some p" using assms(1) by (simp add: get_port_request_def)
  have "wp (approve_port_request ctx now pid) (\<lambda>_ t. cr_msisdns t = cr_msisdns s \<and>
      get_port_request t pid = Some (p\<lparr>pq_state := ''completed''\<rparr>) \<and>
      staged_types t = staged_types s @ [''inventory.msisdn.seeded_from_port_in'', ''port_request.approved'', ''port_request.completed'']) (\<lambda>_ _. False) s"
    using row assms(4)
    by (cases "pq_target p")
       (simp_all add: approve_port_request_def wp_simps assms(3) port_number_in_def go Let_def stage_def stage_event_def update_port_def
        staged_types_def get_port_request_def tbl_find_update)
  then show ?thesis unfolding wp_def by (auto split: prod.splits sum.splits)
qed

section \<open>Tickets cancelled with their case\<close>

abbreviation cancel_ticket :: "int \<Rightarrow> ticket_row \<Rightarrow> ticket_row" where
  "cancel_ticket now \<equiv> \<lambda>r. r\<lparr>tk_state := ''cancelled'', tk_closed_at := Some now\<rparr>"

definition cancelled_rows :: "int \<Rightarrow> ticket_row list \<Rightarrow> ticket_row list \<Rightarrow> ticket_row list" where
  "cancelled_rows now ts rows = fold (\<lambda>t. tbl_update tk_id (tk_id t) (cancel_ticket now)) ts rows"

lemma wp_cancel_each:
  "wp (for_each ts (\<lambda>t. modify (\<lambda>s. s\<lparr>cr_tickets := tbl_update tk_id (tk_id t) (cancel_ticket now) (cr_tickets s)\<rparr>))) Q E s
     \<longleftrightarrow> Q () (s\<lparr>cr_tickets := cancelled_rows now ts (cr_tickets s)\<rparr>)"
  by (induction ts arbitrary: s) (simp_all add: wp_simps cancelled_rows_def)

lemma cancelled_found:
  assumes "tbl_find tk_id tid rows = Some tk" "tid \<in> tk_id ` set ts \<or> tk_state tk = ''cancelled''"
  shows "\<exists>tk'. tbl_find tk_id tid (cancelled_rows now ts rows) = Some tk' \<and> tk_state tk' = ''cancelled''"
  using assms
proof (induction ts arbitrary: rows tk)
  case Nil
  then show ?case by (simp add: cancelled_rows_def)
next
  case (Cons t ts)
  have step: "cancelled_rows now (t # ts) rows = cancelled_rows now ts (tbl_update tk_id (tk_id t) (cancel_ticket now) rows)"
    by (simp add: cancelled_rows_def)
  show ?case
  proof (cases "tid = tk_id t")
    case True
    then have "tbl_find tk_id tid (tbl_update tk_id (tk_id t) (cancel_ticket now) rows) = Some (cancel_ticket now tk)"
      using Cons.prems(1) by (simp add: tbl_find_update)
    then show ?thesis unfolding step by (rule Cons.IH) simp
  next
    case False
    then have "tbl_find tk_id tid (tbl_update tk_id (tk_id t) (cancel_ticket now) rows) = Some tk"
      using Cons.prems(1) by (simp add: tbl_find_update)
    then show ?thesis unfolding step by (rule Cons.IH) (use False Cons.prems(2) in auto)
  qed
qed

lemma cancel_closes: "get_next_state case_transitions x ''cancel'' = Some st \<Longrightarrow> st = ''closed''"
  by (auto simp: get_next_state_def case_transitions_def split: if_splits)

text \<open>
  cancelling a case cancels every ticket of it that is not closed, also one that was
  already resolved and that the ticket machine refuses to cancel, and leaves no line of it in
  the ticket history.
\<close>
theorem case_cancel_overrides_tickets:
  assumes run: "transition_case env ctx now cid ''cancel'' code s = (Inr (), t)" and tk: "get_ticket s tid = Some tk"
    and "tk_case tk = Some cid" and "tk_state tk \<noteq> ''closed''"
  shows "(\<exists>tk'. get_ticket t tid = Some tk' \<and> tk_state tk' = ''cancelled'') \<and> cr_ticket_hist t = cr_ticket_hist s"
proof -
  have "tid \<in> tk_id ` set (find_open_by_case s cid) \<or> tk_state tk = ''cancelled''"
    using assms(3,4) tbl_find_SomeD [of tk_id tid "cr_tickets s" tk] tk
    by (auto simp: find_open_by_case_def ticket_is_open_def get_ticket_def)
  then have found: "\<exists>tk'. tbl_find tk_id tid (cancelled_rows now (find_open_by_case s cid) (cr_tickets s)) = Some tk' \<and> tk_state tk' = ''cancelled''"
    using tk by (intro cancelled_found) (simp_all add: get_ticket_def)
  have open_same: "find_open_by_case (s\<lparr>cr_cases := x\<rparr>) cid = find_open_by_case s cid" for x by (simp add: find_open_by_case_def)
  have "wp (transition_case env ctx now cid ''cancel'' code) (\<lambda>_ t. (\<exists>tk'. get_ticket t tid = Some tk' \<and> tk_state tk' = ''cancelled'') \<and>
      cr_ticket_hist t = cr_ticket_hist s) (\<lambda>_ _. True) s"
    using found
    by (auto simp: transition_case_def wp_simps case_resolution_def cancel_open_tickets_def wp_cancel_each open_same stage_def
        log_interaction_def next_crm_id_def draw_def insert_interaction_def require_def get_ticket_def
        dest!: cancel_closes split: option.splits sum.splits)
  then show ?thesis using run by (simp add: wp_def)
qed


section \<open>eSIM profiles of ended lines\<close>

text \<open>
  The services ask for three moves of a profile: a reservation, a release, and a recycle at
  the end of a line; no client asks for a download or an activation.
\<close>

fun asked_by_services :: "crm_op \<Rightarrow> bool" where
  "asked_by_services (MoveEsim now iccid trigger) = (trigger \<in> {''release'', ''recycle''})"
| "asked_by_services op = True"

definition dormant :: "crm_db \<Rightarrow> bool" where
  "dormant s \<longleftrightarrow> list_all (\<lambda>e. es_state e = ''available'' \<or> es_state e = ''reserved'') (cr_esims s)"

text \<open>How \<open>services/crm\<close> serves a call of \<open>services/subscription\<close>; errors are ignored by the caller.\<close>

fun inventory_serve :: "int \<Rightarrow> sub_call \<Rightarrow> crm_db \<Rightarrow> crm_db" where
  "inventory_serve now (Charge a b c d e) s = s"
| "inventory_serve now (ReleaseMsisdn m) s = snd (release_msisdn m s)"
| "inventory_serve now (RecycleEsim iccid) s = snd (transition_esim now iccid ''recycle'' s)"
| "inventory_serve now (AssignMsisdn m) s = snd (assign_msisdn m s)"
| "inventory_serve now (AssignEsim iccid m) s = snd (assign_msisdn_to_esim iccid m s)"

lemma dormant_recycle:
  assumes "dormant s"
  shows "transition_esim now iccid ''recycle'' s = (fst (transition_esim now iccid ''recycle'' s), s)"
    "isl (fst (transition_esim now iccid ''recycle'' s))"
proof -
  have "\<not> is_valid_transition esim_transitions (es_state e) ''recycle''" if "get_esim s iccid = Some e" for e
    using that assms tbl_find_SomeD [of es_iccid iccid "cr_esims s" e]
    by (auto simp: get_esim_def dormant_def list_all_iff is_valid_transition_def esim_transitions_def)
  then have "wp (transition_esim now iccid ''recycle'') (\<lambda>_ _. False) (\<lambda>_ t. t = s) s"
    by (simp add: transition_esim_def find_esim_def wp_simps rollback_def split: option.split)
  then show "transition_esim now iccid ''recycle'' s = (fst (transition_esim now iccid ''recycle'' s), s)"
    "isl (fst (transition_esim now iccid ''recycle'' s))"
    by (auto simp: wp_def split: prod.splits sum.splits)
qed

interpretation dormant: esim_view dormant
  by unfold_locales (simp_all add: dormant_def)

lemma dormant_update: "(\<And>e. es_state (f e) \<in> {''available'', ''reserved''}) \<Longrightarrow> keeps dormant (update_esim iccid f)"
  unfolding update_esim_def by (rule keeps_modify) (simp add: dormant_def list_all_update)

lemma dormant_esims:
  "keeps dormant (reserve_esim ctx now)" "keeps dormant (assign_msisdn_to_esim iccid m)" "keeps dormant (transition_esim now iccid ''release'')"
  unfolding reserve_esim_def assign_msisdn_to_esim_def transition_esim_def
  by (intro dormant.step_rules dormant_update;
      auto simp: get_next_state_def esim_transitions_def esim_side_effects_def split: if_splits)+


lemma dormant_step: "dormant s \<Longrightarrow> asked_by_services op \<Longrightarrow> dormant (crm_step env op s)"
proof -
  assume s: "dormant s" and op: "asked_by_services op"
  have move: "dormant (snd (transition_esim now iccid trigger s))" if "trigger \<in> {''release'', ''recycle''}" for now iccid trigger
    using that s dormant_recycle(1) [OF s, of now iccid] keepsD [OF dormant_esims(3) s] by (auto simp: prod_eq_iff)
  show "dormant (crm_step env op s)"
  proof (cases "\<exists>now iccid trigger. op = MoveEsim now iccid trigger")
    case True
    then show ?thesis using op move by auto
  next
    case False
    then show ?thesis
      using s dormant.other_step_keeps [OF s, of op env] keepsD [OF dormant_esims(1) s] keepsD [OF dormant_esims(2) s]
      by (cases op) simp_all
  qed
qed

lemma dormant_run: "dormant s \<Longrightarrow> list_all asked_by_services ops \<Longrightarrow> dormant (crm_run env ops s)"
  unfolding crm_run_def by (induction ops arbitrary: s) (simp_all add: dormant_step)

lemma wp_reread_any: "P s \<Longrightarrow> wp (reread i what) (\<lambda>_. P) (\<lambda>_ _. True) s"
  by (rule wp_mono [of _ "\<lambda>_. P" "\<lambda>_. P"]) (simp_all add: wp_reread)

lemma terminate_calls:
  assumes "terminate ctx now sub_id why True s = (Inr full, t)"
  shows "\<exists>r. tbl_find sb_id sub_id (sd_subs s) = Some r \<and> calls t = calls s @ [ReleaseMsisdn (sb_msisdn r), RecycleEsim (sb_iccid r)]"
proof -
  have "wp (terminate ctx now sub_id why True) (\<lambda>_ t. \<exists>r. tbl_find sb_id sub_id (sd_subs s) = Some r \<and>
      calls t = calls s @ [ReleaseMsisdn (sb_msisdn r), RecycleEsim (sb_iccid r)]) (\<lambda>_ _. True) s"
    unfolding terminate_def Let_def
    by (auto simp: wp_simps update_sub_def add_state_history_def stage_def intro!: wp_reread_any split: option.splits sum.splits)
  then show ?thesis using assms by (simp add: wp_def)
qed

text \<open>
  C37: the profile of a terminated line is never freed: while profiles are moved only as the
  services ask (no client ever reports a download or an activation), every profile is available
  or reserved, so the recycle a termination asks for is refused; serving the termination's
  calls frees the number and leaves the profile reserved and bound to that number.
\<close>
theorem terminated_line_keeps_its_profile:
  assumes "dormant c0" and "list_all asked_by_services ops" and "c = crm_run env ops c0"
    and "terminate ctx now sub_id why True s = (Inr full, t)" and "tbl_find sb_id sub_id (sd_subs s) = Some r"
    and "tbl_find mn_number (sb_msisdn r) (cr_msisdns c) = Some m" and "mn_status m = ''assigned''"
    and "get_esim c (sb_iccid r) = Some e" and "es_state e = ''reserved''"
    and "u = fold (inventory_serve now) (drop (length (calls s)) (calls t)) c"
  shows "(\<exists>m'. tbl_find mn_number (sb_msisdn r) (cr_msisdns u) = Some m' \<and> mn_status m' = ''available'') \<and>
    get_esim u (sb_iccid r) = Some e \<and> cr_esims u = cr_esims c"
proof -
  have dormant: "dormant c" unfolding assms(3) by (rule dormant_run) (rule assms)+
  have calls: "drop (length (calls s)) (calls t) = [ReleaseMsisdn (sb_msisdn r), RecycleEsim (sb_iccid r)]"
    using terminate_calls [OF assms(4)] assms(5) by auto
  let ?v = "snd (release_msisdn (sb_msisdn r) c)"
  have "wp (release_msisdn (sb_msisdn r)) (\<lambda>_ v. (\<exists>m'. tbl_find mn_number (sb_msisdn r) (cr_msisdns v) = Some m' \<and> mn_status m' = ''available'') \<and>
      cr_esims v = cr_esims c) (\<lambda>_ _. False) c"
    using assms(6,7) tbl_find_update [of mn_number "\<lambda>r :: msisdn_row. r\<lparr>mn_status := ''available'', mn_reserved_at := None, mn_sub := None\<rparr>"]
    by (simp add: release_msisdn_def wp_simps get_msisdn_def check_msisdn_releasable_def update_msisdns_def vanished_def tbl_update_def [symmetric])
  then have v: "\<exists>m'. tbl_find mn_number (sb_msisdn r) (cr_msisdns ?v) = Some m' \<and> mn_status m' = ''available''" "cr_esims ?v = cr_esims c"
    by (auto simp: wp_def split: prod.splits sum.splits)
  then have "dormant ?v" using dormant by (simp add: dormant_def)
  then have "u = ?v" using assms(10) calls dormant_recycle(1) [of ?v now "sb_iccid r"] by (simp add: prod_eq_iff)
  then show ?thesis using v assms(8) by (simp add: get_esim_def)
qed

end
