(* ===== verification/CrmWitness.thy ===== *)
theory CrmWitness
  imports CrmEdges SubWitness
begin

text \<open>Concrete runs of the customer service: each theorem with hypotheses is applied to one.\<close>

abbreviation crm_env0 :: crm_env where "crm_env0 \<equiv> InventoryProps.demo_env"

definition kyc_env :: crm_env where
  "kyc_env = crm_env0\<lparr>cv_hex := (\<lambda>n. if n = 0 then ''a'' else ''b''), cv_date := (\<lambda>_. Some 0), cv_time := (\<lambda>_. Some 0),
     cv_uuid := (\<lambda>x. Some x)\<rparr>"

definition plain_customer :: "string \<Rightarrow> customer_row" where
  "plain_customer cid = \<lparr>cu_id = cid, cu_party = ''P'', cu_status = ''active'', cu_reason = None, cu_since = None,
     cu_kyc = ''not_verified'', cu_kyc_at = None, cu_kyc_method = None, cu_kyc_ref = None\<rparr>"

definition plain_attestation :: "string \<Rightarrow> attestation" where
  "plain_attestation h = \<lparr>at_provider = ''didit'', at_reference = ''R'', at_type = ''passport'', at_number = None,
     at_last4 = Some ''1234'', at_hash = Some h, at_country = ''SG'', at_birth = ''d'', at_nationality = None,
     at_verified = ''t'', at_payload = JObj [], at_corroboration = Some ''K''\<rparr>"

definition kyc_db :: crm_db where
  "kyc_db = empty_crm\<lparr>cr_customers := [plain_customer ''C1'', plain_customer ''C2''],
     cr_corroborations := [\<lparr>kc_id = ''K'', kc_provider = ''didit'', kc_decision = ''Approved'', kc_received = 0\<rparr>]\<rparr>"

definition old_case :: case_row where
  "old_case = \<lparr>ca_id = ''CASE-1'', ca_customer = ''C1'', ca_subject = ''s'', ca_description = None, ca_state = ''closed'',
     ca_priority = None, ca_category = None, ca_resolution = Some ''fixed'', ca_opened_by = None, ca_opened_at = 0,
     ca_closed_at = Some 1, ca_transcript = None\<rparr>"

lemma crm_states_typed_witness:
  "crm_typed (crm_run crm_env0 [MoveCase default_ctx 5 ''CASE-1'' ''cancel'' None, OrderIt (PoolIt crm_env0 (Reserve default_ctx 6 ''9''))]
     (one_number\<lparr>cr_cases := [old_case]\<rparr>))"
  by (rule crm_states_typed)
     (simp add: crm_typed_def demo_simps old_case_def case_typed_def msisdn_typed_def statuses_def case_transitions_def)

lemma closed_case_is_final_witness:
  "get_case (crm_run crm_env0 [NoteCase default_ctx 2 ''CASE-1'' ''b'' None, MoveCase default_ctx 5 ''CASE-1'' ''take'' None]
     (empty_crm\<lparr>cr_cases := [old_case]\<rparr>)) ''CASE-1'' = Some old_case"
proof -
  have "get_case (empty_crm\<lparr>cr_cases := [old_case]\<rparr>) ''CASE-1'' = Some old_case" "ca_state old_case = ''closed''"
    by (simp_all add: get_case_def old_case_def)
  then show ?thesis using closed_case_is_final [of "empty_crm\<lparr>cr_cases := [old_case]\<rparr>" "''CASE-1''" old_case] by simp
qed

lemma kyc_simps: "get_customer kyc_db ''C1'' = Some (plain_customer ''C1'')" "get_customer kyc_db ''C2'' = Some (plain_customer ''C2'')"
  by (simp_all add: get_customer_def kyc_db_def plain_customer_def)

lemma verified_customers_are_attested_witness:
  "attested kyc_env (crm_run kyc_env [Attest default_ctx 5 ''C1'' (plain_attestation ''h1'')] kyc_db)"
  by (rule verified_customers_are_attested)
     (simp_all add: kyc_env_def attested_def kyc_db_def InventoryProps.demo_env_def empty_crm_def plain_customer_def)

lemma one_decision_verifies_many_witness:
  "\<exists>j1 t j2 u. attest_kyc kyc_env default_ctx 5 ''C1'' (plain_attestation ''h1'') kyc_db = (Inr j1, t) \<and>
     attest_kyc kyc_env default_ctx 7 ''C2'' (plain_attestation ''h2'') t = (Inr j2, u) \<and> verified ''C1'' u \<and> verified ''C2'' u"
proof -
  have ok: "acceptable kyc_env default_ctx 5 ''C1'' (plain_attestation ''h1'') ''K'' kyc_db"
    "acceptable kyc_env default_ctx 7 ''C2'' (plain_attestation ''h2'') ''K'' (kyc_db\<lparr>cr_draws := Suc (cr_draws kyc_db)\<rparr>)"
    using kyc_simps
    by (simp_all add: acceptable_def kyc_env_def plain_attestation_def corroboration_row_def reduce_document_def seconds_def
        get_customer_def kyc_db_def empty_crm_def)
  have "(at_type (plain_attestation ''h1''), document_hash kyc_env (plain_attestation ''h1'')) \<noteq>
      (at_type (plain_attestation ''h2''), document_hash kyc_env (plain_attestation ''h2''))"
    "take 8 (cv_hex kyc_env (cr_draws kyc_db)) \<noteq> take 8 (cv_hex kyc_env (Suc (cr_draws kyc_db)))" "''C1'' \<noteq> ''C2''"
    by (simp_all add: document_hash_def reduce_document_def plain_attestation_def kyc_env_def kyc_db_def empty_crm_def)
  then show ?thesis using one_decision_verifies_many [OF ok(1,2)] by blast
qed

definition port_back :: port_row where
  "port_back = \<lparr>pq_id = ''PORT-1'', pq_direction = ''port_in'', pq_carrier = ''X'', pq_msisdn = ''9'', pq_target = None, pq_date = 0,
     pq_state = ''requested'', pq_reason = None, pq_tenant = ''DEFAULT''\<rparr>"

definition gone_db :: crm_db where
  "gone_db = empty_crm\<lparr>cr_ports := [port_back], cr_msisdns := [(fresh_number ''DEFAULT'' ''9'')\<lparr>mn_status := ''ported_out''\<rparr>]\<rparr>"

lemma ported_back_number_stays_gone_witness:
  "\<exists>t. approve_port_request default_ctx 5 ''PORT-1'' gone_db = (Inr (), t) \<and> map mn_status (cr_msisdns t) = [''ported_out'']"
proof -
  have "get_port_request gone_db ''PORT-1'' = Some port_back" "port_pending port_back" "pq_direction port_back = ''port_in''"
    "tbl_find mn_number (pq_msisdn port_back) (cr_msisdns gone_db) \<noteq> None"
    by (simp_all add: gone_db_def get_port_request_def port_back_def port_pending_def fresh_number_def)
  from ported_back_number_stays_gone [OF this, of default_ctx 5] show ?thesis by (auto simp: gone_db_def)
qed

definition used_profile :: esim_row where
  "used_profile = \<lparr>es_iccid = ''89'', es_imsi = ''5'', es_state = ''reserved'', es_smdp = None, es_matching = None, es_code = None,
     es_msisdn = Some ''900'', es_sub = None, es_reserved_at = Some 0, es_downloaded_at = None, es_activated_at = None, es_tenant = ''DEFAULT''\<rparr>"

definition line_db :: crm_db where
  "line_db = empty_crm\<lparr>cr_esims := [used_profile], cr_msisdns := [(fresh_number ''DEFAULT'' ''900'')\<lparr>mn_status := ''assigned''\<rparr>]\<rparr>"

lemma terminated_line_keeps_its_profile_witness:
  "\<exists>full t. terminate default_ctx 5 ''SUB-0001'' ''x'' True (demo_db active_row) = (Inr full, t) \<and>
     get_esim (fold (inventory_serve 5) (calls t) line_db) ''89'' = Some used_profile"
proof -
  have "case terminate default_ctx 5 ''SUB-0001'' ''x'' True (demo_db active_row) of (r, t) \<Rightarrow> \<not> isl r" by code_simp
  then obtain full t where run: "terminate default_ctx 5 ''SUB-0001'' ''x'' True (demo_db active_row) = (Inr full, t)"
    by (cases "terminate default_ctx 5 ''SUB-0001'' ''x'' True (demo_db active_row)";
        cases "fst (terminate default_ctx 5 ''SUB-0001'' ''x'' True (demo_db active_row))") auto
  let ?m = "(fresh_number ''DEFAULT'' ''900'')\<lparr>mn_status := ''assigned''\<rparr>"
  have d: "dormant line_db" by (simp add: dormant_def line_db_def used_profile_def)
  have r: "tbl_find sb_id ''SUB-0001'' (sd_subs (demo_db active_row)) = Some active_row"
    by (simp add: demo_db_def active_row_def demo_row_def)
  have m: "tbl_find mn_number (sb_msisdn active_row) (cr_msisdns line_db) = Some ?m" "mn_status ?m = ''assigned''"
    and e: "get_esim line_db (sb_iccid active_row) = Some used_profile" "es_state used_profile = ''reserved''"
    by (simp_all add: line_db_def active_row_def demo_row_def fresh_number_def get_esim_def used_profile_def)
  have none: "list_all asked_by_services []" "line_db = crm_run crm_env0 [] line_db" by (simp_all add: crm_run_def)
  have "get_esim (fold (inventory_serve 5) (drop (length (calls (demo_db active_row))) (calls t)) line_db) (sb_iccid active_row) = Some used_profile"
    using terminated_line_keeps_its_profile [OF d none run r m e refl] by blast
  moreover have "calls (demo_db active_row) = []" "sb_iccid active_row = ''89''" by (simp_all add: demo_db_def active_row_def demo_row_def)
  ultimately show ?thesis using run by (simp only: list.size drop_0) blast
qed

end
