(* ===== verification/AuthState.thy ===== *)
theory AuthState
  imports Customers
begin

text \<open>
  The portal's authentication crate (\<open>crates/bss-portal-auth\<close>): its settings, its token
  primitives (\<open>tokens.rs\<close>), the tables of the \<open>portal_auth\<close> schema and the transactions on
  them. The schema lives in the same database as the CRM's, which two operations read and
  write: \<open>pa_crm\<close>. The bytes drawn at random and HMAC-SHA-256 are parameters; a constant-time
  comparison is a comparison. IP and user agent of tokens and pending rows, and tenants, which
  nothing reads, are omitted.
\<close>

section \<open>Settings\<close>

record auth_settings =
  se_pepper :: string
  se_public_url :: string
  se_login_token_ttl :: int
  se_stepup_token_ttl :: int
  se_stepup_grant_ttl :: int
  se_stepup_pending_ttl :: int
  se_session_ttl :: int
  se_login_per_email_max :: int
  se_login_per_email_window :: int
  se_login_per_ip_max :: int
  se_login_per_ip_window :: int
  se_verify_per_email_max :: int
  se_verify_per_email_window :: int
  se_stepup_per_session_max :: int
  se_stepup_per_session_window :: int

definition default_settings :: auth_settings where
  "default_settings = \<lparr>se_pepper = [], se_public_url = [], se_login_token_ttl = 15 * 60, se_stepup_token_ttl = 5 * 60,
     se_stepup_grant_ttl = 60, se_stepup_pending_ttl = 10 * 60, se_session_ttl = 24 * 60 * 60, se_login_per_email_max = 3,
     se_login_per_email_window = 15 * 60, se_login_per_ip_max = 10, se_login_per_ip_window = 60 * 60, se_verify_per_email_max = 10,
     se_verify_per_email_window = 15 * 60, se_stepup_per_session_max = 5, se_stepup_per_session_window = 15 * 60\<rparr>"

text \<open>
  \<open>ae_bytes n k\<close>: the \<open>k\<close> bytes of the \<open>n\<close>-th draw; \<open>ae_digits n\<close>: the six bytes below 250
  that the \<open>n\<close>-th one-time code accepts. \<open>ae_mac\<close> is HMAC-SHA-256.
\<close>

record auth_env =
  ae_settings :: auth_settings
  ae_bytes :: "nat \<Rightarrow> nat \<Rightarrow> string"
  ae_digits :: "nat \<Rightarrow> nat list"
  ae_mac :: "string \<Rightarrow> string \<Rightarrow> string"

section \<open>Tokens\<close>

definition otp_of :: "nat list \<Rightarrow> string" where
  "otp_of bs = map (\<lambda>b. char_of (48 + b mod 10)) bs"

definition url_char :: "nat \<Rightarrow> char" where
  "url_char n = ''ABCDEFGHIJKLMNOPQRSTUVWXYZabcdefghijklmnopqrstuvwxyz0123456789-_'' ! n"

definition sextets :: "nat \<Rightarrow> nat \<Rightarrow> nat \<Rightarrow> nat list" where
  "sextets a b c = (let n = a * 65536 + b * 256 + c in [n div 262144 mod 64, n div 4096 mod 64, n div 64 mod 64, n mod 64])"

fun base64url_nopad :: "string \<Rightarrow> string" where
  "base64url_nopad [] = []"
| "base64url_nopad [a] = map url_char (take 2 (sextets (of_char a) 0 0))"
| "base64url_nopad [a, b] = map url_char (take 3 (sextets (of_char a) (of_char b) 0))"
| "base64url_nopad (a # b # c # rest) = map url_char (sextets (of_char a) (of_char b) (of_char c)) @ base64url_nopad rest"

definition hash_token :: "auth_env \<Rightarrow> string \<Rightarrow> string option" where
  "hash_token env token = (if se_pepper (ae_settings env) = [] then None
     else Some (hex_bytes (ae_mac env (se_pepper (ae_settings env)) token)))"

definition verify_token :: "auth_env \<Rightarrow> string \<Rightarrow> string \<Rightarrow> bool" where
  "verify_token env token expected_hash = (case hash_token env token of None \<Rightarrow> False | Some actual \<Rightarrow> actual = expected_hash)"

text \<open>The check the portal runs at startup.\<close>

definition validate_pepper_present :: "string \<Rightarrow> string + unit" where
  "validate_pepper_present pepper =
     (if pepper = [] then Inl ''unset'' else if pepper = ''changeme'' then Inl ''sentinel''
      else if length pepper < 32 then Inl ''too short'' else Inr ())"

section \<open>Tables\<close>

record portal_identity =
  pi_id :: string
  pi_email :: string
  pi_customer :: "string option"
  pi_verified :: "int option"
  pi_status :: string
  pi_created :: int
  pi_login :: "int option"

record login_token =
  lt_id :: string
  lt_identity :: string
  lt_kind :: string
  lt_hash :: string
  lt_action :: "string option"
  lt_issued :: int
  lt_expires :: int
  lt_consumed :: "int option"

record session_row =
  ss_id :: string
  ss_identity :: string
  ss_issued :: int
  ss_expires :: int
  ss_seen :: int
  ss_ip :: "string option"
  ss_agent :: "string option"
  ss_revoked :: "int option"

record attempt_row =
  la_email :: "string option"
  la_ip :: "string option"
  la_ts :: int
  la_outcome :: string
  la_stage :: string

record change_row =
  ec_id :: string
  ec_identity :: string
  ec_email :: string
  ec_hash :: string
  ec_issued :: int
  ec_expires :: int
  ec_consumed :: "int option"
  ec_status :: string

record stash_row =
  sh_id :: string
  sh_session :: string
  sh_action :: string
  sh_target :: string
  sh_payload :: "(string \<times> string) list"
  sh_created :: int
  sh_expires :: int
  sh_consumed :: "int option"

record action_row =
  ac_ts :: int
  ac_customer :: "string option"
  ac_identity :: "string option"
  ac_action :: string
  ac_route :: string
  ac_method :: string
  ac_success :: bool
  ac_error :: "string option"
  ac_stepup :: bool
  ac_ip :: "string option"
  ac_agent :: "string option"

text \<open>The mail handed to the email adapter: the recipient, the code and the link or action.\<close>

datatype auth_mail = LoginMail string string string | StepUpMail string string string

record auth_db =
  pa_crm :: crm_db
  pa_draws :: nat
  pa_mail :: "auth_mail list"
  pa_identities :: "portal_identity list"
  pa_tokens :: "login_token list"
  pa_sessions :: "session_row list"
  pa_attempts :: "attempt_row list"
  pa_changes :: "change_row list"
  pa_stashes :: "stash_row list"
  pa_actions :: "action_row list"

text \<open>\<open>Panicked\<close>: the \<open>expect\<close> on a missing pepper.\<close>

datatype auth_error =
    AuthDb string
  | RateLimited int string
  | SessionInvalid
  | UnknownIdentity
  | AlreadyLinked string
  | Panicked string

type_synonym 'a auth_prog = "(auth_db, auth_error, 'a) prog"

text \<open>A transaction: an error undoes every row, not the mail sent nor the bytes drawn.\<close>

definition auth_tx :: "'a auth_prog \<Rightarrow> 'a auth_prog" where
  "auth_tx m s = (case m s of (Inl e, t) \<Rightarrow> (Inl e, s\<lparr>pa_draws := pa_draws t, pa_mail := pa_mail t\<rparr>) | (Inr x, t) \<Rightarrow> (Inr x, t))"

lemma wp_auth_tx [wp_simps]:
  "wp (auth_tx m) Q E = (\<lambda>s. wp m Q (\<lambda>e t. E e (s\<lparr>pa_draws := pa_draws t, pa_mail := pa_mail t\<rparr>)) s)"
  by (rule ext) (auto simp: wp_def auth_tx_def split: prod.splits sum.splits)

definition next_draw :: "nat auth_prog" where
  "next_draw = bindp (gets pa_draws) (\<lambda>n. bindp (modify (\<lambda>s. s\<lparr>pa_draws := n + 1\<rparr>)) (\<lambda>_. ret n))"

definition hex_id :: "auth_env \<Rightarrow> string \<Rightarrow> string auth_prog" where
  "hex_id env prefix = bindp next_draw (\<lambda>n. ret (prefix @ ''-'' @ hex_bytes (ae_bytes env n 8)))"

definition generate_otp :: "auth_env \<Rightarrow> string auth_prog" where
  "generate_otp env = bindp next_draw (\<lambda>n. ret (otp_of (ae_digits env n)))"

text \<open>Magic links, session ids and step-up grants.\<close>

definition generate_token :: "auth_env \<Rightarrow> string auth_prog" where
  "generate_token env = bindp next_draw (\<lambda>n. ret (base64url_nopad (ae_bytes env n 24)))"

definition send_mail :: "auth_mail \<Rightarrow> unit auth_prog" where
  "send_mail m = modify (\<lambda>s. s\<lparr>pa_mail := pa_mail s @ [m]\<rparr>)"

definition hashed :: "auth_env \<Rightarrow> string \<Rightarrow> string auth_prog" where
  "hashed env token = (case hash_token env token of None \<Rightarrow> throw (Panicked ''pepper validated at startup'') | Some h \<Rightarrow> ret h)"

definition db_require :: "bool \<Rightarrow> string \<Rightarrow> unit auth_prog" where
  "db_require b constraint = (if b then ret () else throw (AuthDb constraint))"

text \<open>Writes, with the primary keys, unique indexes and foreign keys of the schema.\<close>

definition fetch_session :: "auth_db \<Rightarrow> string \<Rightarrow> session_row option" where
  "fetch_session s sid = tbl_find ss_id sid (pa_sessions s)"

definition fetch_identity :: "auth_db \<Rightarrow> string \<Rightarrow> portal_identity option" where
  "fetch_identity s iid = tbl_find pi_id iid (pa_identities s)"

definition one_identity_per_email :: "portal_identity list \<Rightarrow> bool" where
  "one_identity_per_email rows \<longleftrightarrow> distinct (map pi_email (filter (\<lambda>r. pi_status r \<noteq> ''deleted'') rows))"

definition insert_identity_row :: "portal_identity \<Rightarrow> unit auth_prog" where
  "insert_identity_row r = bindp (gets (\<lambda>s. fetch_identity s (pi_id r) = None \<and> one_identity_per_email (pa_identities s @ [r]))) (\<lambda>ok.
     bindp (db_require ok ''portal_auth.identity'') (\<lambda>_. modify (\<lambda>s. s\<lparr>pa_identities := pa_identities s @ [r]\<rparr>)))"

definition update_identity :: "string \<Rightarrow> (portal_identity \<Rightarrow> portal_identity) \<Rightarrow> unit auth_prog" where
  "update_identity iid f = bindp (gets (\<lambda>s. one_identity_per_email (tbl_update pi_id iid f (pa_identities s)))) (\<lambda>ok.
     bindp (db_require ok ''uq_identity_email_active'') (\<lambda>_.
     modify (\<lambda>s. s\<lparr>pa_identities := tbl_update pi_id iid f (pa_identities s)\<rparr>)))"

definition insert_token :: "login_token \<Rightarrow> unit auth_prog" where
  "insert_token r = bindp (gets (\<lambda>s. tbl_find lt_id (lt_id r) (pa_tokens s) = None \<and> fetch_identity s (lt_identity r) \<noteq> None)) (\<lambda>ok.
     bindp (db_require ok ''portal_auth.login_token'') (\<lambda>_. modify (\<lambda>s. s\<lparr>pa_tokens := pa_tokens s @ [r]\<rparr>)))"

definition consume_token :: "string \<Rightarrow> int \<Rightarrow> unit auth_prog" where
  "consume_token tid now = modify (\<lambda>s. s\<lparr>pa_tokens := tbl_update lt_id tid (\<lambda>r. r\<lparr>lt_consumed := Some now\<rparr>) (pa_tokens s)\<rparr>)"

definition insert_session :: "session_row \<Rightarrow> unit auth_prog" where
  "insert_session r = bindp (gets (\<lambda>s. fetch_session s (ss_id r) = None \<and> fetch_identity s (ss_identity r) \<noteq> None)) (\<lambda>ok.
     bindp (db_require ok ''portal_auth.session'') (\<lambda>_. modify (\<lambda>s. s\<lparr>pa_sessions := pa_sessions s @ [r]\<rparr>)))"

definition update_session :: "string \<Rightarrow> (session_row \<Rightarrow> session_row) \<Rightarrow> unit auth_prog" where
  "update_session sid f = modify (\<lambda>s. s\<lparr>pa_sessions := tbl_update ss_id sid f (pa_sessions s)\<rparr>)"

definition record_attempt :: "int \<Rightarrow> string option \<Rightarrow> string option \<Rightarrow> string \<Rightarrow> string \<Rightarrow> unit auth_prog" where
  "record_attempt now email ip stage_name outcome = modify (\<lambda>s. s\<lparr>pa_attempts := pa_attempts s @
     [\<lparr>la_email = email, la_ip = ip, la_ts = now, la_outcome = outcome, la_stage = stage_name\<rparr>]\<rparr>)"

end
