(* ===== verification/Auth.thy ===== *)
theory Auth
  imports AuthState
begin

text \<open>
  The login, session, linking and step-up operations of \<open>crates/bss-portal-auth\<close>
  (\<open>service.rs\<close>). A lookup that may find several rows takes the first in insertion order.
\<close>

section \<open>Sessions\<close>

record session_view =
  vw_id :: string
  vw_identity :: string
  vw_issued :: int
  vw_expires :: int
  vw_seen :: int

definition session_view_of :: "session_row \<Rightarrow> int \<Rightarrow> session_view" where
  "session_view_of r seen = \<lparr>vw_id = ss_id r, vw_identity = ss_identity r, vw_issued = ss_issued r, vw_expires = ss_expires r, vw_seen = seen\<rparr>"

definition current_session :: "int \<Rightarrow> string \<Rightarrow> (session_view \<times> portal_identity) option auth_prog" where
  "current_session now cookie_value =
     (if cookie_value = [] then ret None
      else bindp (gets (\<lambda>s. fetch_session s cookie_value)) (\<lambda>found. case found of
        None \<Rightarrow> ret None
      | Some sess \<Rightarrow> if ss_revoked sess \<noteq> None \<or> \<not> ss_expires sess > now then ret None
          else bindp (gets (\<lambda>s. fetch_identity s (ss_identity sess))) (\<lambda>who. case who of
            None \<Rightarrow> ret None
          | Some i \<Rightarrow> if pi_status i = ''deleted'' then ret None
              else bindp (update_session (ss_id sess) (\<lambda>r. r\<lparr>ss_seen := now\<rparr>)) (\<lambda>_. ret (Some (session_view_of sess now, i))))))"

text \<open>\<open>num_seconds\<close> of a difference of two instants.\<close>

definition num_seconds :: "int \<Rightarrow> int" where
  "num_seconds d = (if d \<ge> 0 then d div 1000000 else - ((- d) div 1000000))"

definition rotate_if_due :: "auth_env \<Rightarrow> int \<Rightarrow> string \<Rightarrow> session_view option auth_prog" where
  "rotate_if_due env now session_id =
     (let ttl = se_session_ttl (ae_settings env) in
      bindp (gets (\<lambda>s. fetch_session s session_id)) (\<lambda>found. case found of
        None \<Rightarrow> ret None
      | Some sess \<Rightarrow>
          if ss_revoked sess \<noteq> None then ret None
          else if 2 * num_seconds (now - ss_issued sess) < ttl then ret None
          else
            bindp (generate_token env) (\<lambda>new_id.
            let expires_at = now + seconds ttl in
            bindp (auth_tx (
              bindp (insert_session \<lparr>ss_id = new_id, ss_identity = ss_identity sess, ss_issued = now, ss_expires = expires_at,
                ss_seen = now, ss_ip = ss_ip sess, ss_agent = ss_agent sess, ss_revoked = None\<rparr>) (\<lambda>_.
              update_session session_id (\<lambda>r. r\<lparr>ss_revoked := Some now\<rparr>)))) (\<lambda>_.
            ret (Some \<lparr>vw_id = new_id, vw_identity = ss_identity sess, vw_issued = now, vw_expires = expires_at, vw_seen = now\<rparr>)))))"

definition revoke_session :: "int \<Rightarrow> string \<Rightarrow> unit auth_prog" where
  "revoke_session now session_id = update_session session_id (\<lambda>r. if ss_revoked r = None then r\<lparr>ss_revoked := Some now\<rparr> else r)"

section \<open>Rate limits\<close>

text \<open>The attempts of one stage counted from the start of a window on, and the earliest of them.\<close>

definition in_window :: "(attempt_row \<Rightarrow> string option) \<Rightarrow> string \<Rightarrow> string \<Rightarrow> int \<Rightarrow> int \<Rightarrow> attempt_row \<Rightarrow> bool" where
  "in_window col v stage_name window_s until r \<longleftrightarrow> col r = Some v \<and> la_stage r = stage_name \<and> la_ts r \<ge> until - seconds window_s"

definition count_in_window :: "auth_db \<Rightarrow> (attempt_row \<Rightarrow> string option) \<Rightarrow> string \<Rightarrow> string \<Rightarrow> int \<Rightarrow> int \<Rightarrow> int \<times> int option" where
  "count_in_window s col v stage_name window_s until =
     (let ts = map la_ts (filter (in_window col v stage_name window_s until) (pa_attempts s)) in
      (int (length ts), case ts of [] \<Rightarrow> None | t # rest \<Rightarrow> Some (fold min rest t)))"

definition retry_after_s :: "int option \<Rightarrow> int \<Rightarrow> int \<Rightarrow> int" where
  "retry_after_s oldest now window_s = (case oldest of None \<Rightarrow> window_s | Some o' \<Rightarrow> max (window_s - num_seconds (now - o')) 1)"

definition limit_check :: "(attempt_row \<Rightarrow> string option) \<Rightarrow> string \<Rightarrow> string \<Rightarrow> int \<Rightarrow> int \<Rightarrow> int \<Rightarrow> string \<Rightarrow> unit auth_prog" where
  "limit_check col v stage_name max_n window_s now scope =
     bindp (gets (\<lambda>s. count_in_window s col v stage_name window_s now)) (\<lambda>(c, oldest).
     if c \<ge> max_n then throw (RateLimited (retry_after_s oldest now window_s) scope) else ret ())"

definition enforce_login_start :: "auth_env \<Rightarrow> int \<Rightarrow> string \<Rightarrow> string option \<Rightarrow> unit auth_prog" where
  "enforce_login_start env now email ip =
     (let c = ae_settings env in
      bindp (limit_check la_email email ''login_start'' (se_login_per_email_max c) (se_login_per_email_window c) now ''login_start_per_email'') (\<lambda>_.
      case ip of None \<Rightarrow> ret ()
      | Some a \<Rightarrow> limit_check la_ip a ''login_start'' (se_login_per_ip_max c) (se_login_per_ip_window c) now ''login_start_per_ip''))"

definition enforce_login_verify :: "auth_env \<Rightarrow> int \<Rightarrow> string \<Rightarrow> unit auth_prog" where
  "enforce_login_verify env now email =
     (let c = ae_settings env in
      limit_check la_email email ''login_verify'' (se_verify_per_email_max c) (se_verify_per_email_window c) now ''login_verify_per_email'')"

section \<open>Login\<close>

definition url_keep :: "char \<Rightarrow> bool" where
  "url_keep c \<longleftrightarrow> (let n = of_char c :: nat in (48 \<le> n \<and> n \<le> 57) \<or> (65 \<le> n \<and> n \<le> 90) \<or> (97 \<le> n \<and> n \<le> 122)) \<or> c \<in> set ''-_.~/''"

definition upper_hex :: "nat \<Rightarrow> char" where
  "upper_hex d = (if d < 10 then char_of (48 + d) else char_of (55 + d))"

definition urlencode :: "string \<Rightarrow> string" where
  "urlencode x = concat (map (\<lambda>c. if url_keep c then [c] else [CHR ''%'', upper_hex (of_char c div 16), upper_hex (of_char c mod 16)]) x)"

definition trim_end_slash :: "string \<Rightarrow> string" where
  "trim_end_slash x = rev (dropWhile (\<lambda>c. c = CHR ''/'') (rev x))"

definition build_magic_link_url :: "string \<Rightarrow> string \<Rightarrow> string \<Rightarrow> string" where
  "build_magic_link_url public_url email token =
     (if public_url = [] then token
      else trim_end_slash public_url @ ''/auth/verify?email='' @ urlencode email @ ''&token='' @ urlencode token)"

definition identity_by_email :: "auth_db \<Rightarrow> string \<Rightarrow> portal_identity option" where
  "identity_by_email s email = tbl_find pi_email email (pa_identities s)"

definition reuse_or_create :: "auth_env \<Rightarrow> int \<Rightarrow> string \<Rightarrow> string auth_prog" where
  "reuse_or_create env now email = bindp (gets (\<lambda>s. identity_by_email s email)) (\<lambda>existing. case existing of
     Some i \<Rightarrow> ret (pi_id i)
   | None \<Rightarrow> bindp (hex_id env ''IDN'') (\<lambda>iid.
       bindp (insert_identity_row \<lparr>pi_id = iid, pi_email = email, pi_customer = None, pi_verified = None, pi_status = ''unverified'',
         pi_created = now, pi_login = None\<rparr>) (\<lambda>_. ret iid)))"

definition issue_token :: "auth_env \<Rightarrow> string \<Rightarrow> string \<Rightarrow> string \<Rightarrow> string option \<Rightarrow> int \<Rightarrow> int \<Rightarrow> unit auth_prog" where
  "issue_token env identity_id kind hash label now expires =
     bindp (hex_id env ''LTK'') (\<lambda>tid.
     insert_token \<lparr>lt_id = tid, lt_identity = identity_id, lt_kind = kind, lt_hash = hash, lt_action = label,
       lt_issued = now, lt_expires = expires, lt_consumed = None\<rparr>)"

record login_challenge =
  lc_identity :: string
  lc_expires :: int

definition start_email_login :: "auth_env \<Rightarrow> int \<Rightarrow> string \<Rightarrow> string option \<Rightarrow> login_challenge auth_prog" where
  "start_email_login env now email ip =
     bindp (enforce_login_start env now email ip) (\<lambda>_.
     let expires = now + seconds (se_login_token_ttl (ae_settings env)) in
     bindp (auth_tx (
       bindp (reuse_or_create env now email) (\<lambda>identity_id.
       bindp (generate_otp env) (\<lambda>otp.
       bindp (generate_token env) (\<lambda>magic.
       bindp (for_each [(''otp'', otp), (''magic_link'', magic)] (\<lambda>(kind, code).
         bindp (hashed env code) (\<lambda>hash. issue_token env identity_id kind hash None now expires))) (\<lambda>_.
       bindp (record_attempt now (Some email) ip ''login_start'' ''issued'') (\<lambda>_.
       ret (identity_id, otp, magic)))))))) (\<lambda>(identity_id, otp, magic).
     bindp (send_mail (LoginMail email otp (build_magic_link_url (se_public_url (ae_settings env)) email magic))) (\<lambda>_.
     ret \<lparr>lc_identity = identity_id, lc_expires = expires\<rparr>)))"

datatype verify_outcome = LoggedIn session_view | LoginFailed string

definition active_tokens :: "(login_token \<Rightarrow> bool) \<Rightarrow> string \<Rightarrow> auth_db \<Rightarrow> login_token list" where
  "active_tokens sel identity_id s = filter (\<lambda>r. lt_identity r = identity_id \<and> sel r \<and> lt_consumed r = None) (pa_tokens s)"

definition login_kind :: "login_token \<Rightarrow> bool" where
  "login_kind r \<longleftrightarrow> lt_kind r = ''otp'' \<or> lt_kind r = ''magic_link''"

definition matching_token :: "auth_env \<Rightarrow> int \<Rightarrow> string \<Rightarrow> login_token list \<Rightarrow> login_token option" where
  "matching_token env now code rows = find (\<lambda>r. lt_expires r > now \<and> verify_token env code (lt_hash r)) rows"

definition no_match_reason :: "int \<Rightarrow> login_token list \<Rightarrow> string" where
  "no_match_reason now rows = (if list_ex (\<lambda>r. lt_expires r > now) rows then ''wrong_code'' else ''expired'')"

text \<open>The CRM customer whose active email medium has the address.\<close>

definition customer_for_email :: "crm_db \<Rightarrow> string \<Rightarrow> string option" where
  "customer_for_email c email = (case find (active_email email) (cr_mediums c) of None \<Rightarrow> None
     | Some m \<Rightarrow> map_option cu_id (find (\<lambda>r. cu_party r = cm_party m) (cr_customers c)))"

definition login_status :: "portal_identity \<Rightarrow> string option \<Rightarrow> string" where
  "login_status i customer_id =
     (if pi_verified i = None then (if customer_id \<noteq> None then ''registered'' else ''verified'')
      else if customer_id \<noteq> None \<and> pi_status i \<noteq> ''registered'' then ''registered''
      else pi_status i)"

definition login_failed :: "int \<Rightarrow> string \<Rightarrow> string option \<Rightarrow> string \<Rightarrow> verify_outcome auth_prog" where
  "login_failed now email ip reason = bindp (record_attempt now (Some email) ip ''login_verify'' reason) (\<lambda>_. ret (LoginFailed reason))"

definition verify_email_login :: "auth_env \<Rightarrow> int \<Rightarrow> string \<Rightarrow> string \<Rightarrow> string option \<Rightarrow> string option \<Rightarrow> verify_outcome auth_prog" where
  "verify_email_login env now email code ip agent =
     bindp (enforce_login_verify env now email) (\<lambda>_.
     auth_tx (
       bindp (gets (\<lambda>s. identity_by_email s email)) (\<lambda>ident. case ident of
         None \<Rightarrow> login_failed now email ip ''no_such_identity''
       | Some i \<Rightarrow>
           bindp (gets (active_tokens login_kind (pi_id i))) (\<lambda>rows.
           if rows = [] then login_failed now email ip ''no_active_token''
           else (case matching_token env now code rows of
             None \<Rightarrow> login_failed now email ip (no_match_reason now rows)
           | Some tok \<Rightarrow>
               bindp (consume_token (lt_id tok) now) (\<lambda>_.
               bindp (gets (\<lambda>s. case pi_customer i of None \<Rightarrow> customer_for_email (pa_crm s) email | Some c \<Rightarrow> Some c)) (\<lambda>customer_id.
               bindp (update_identity (pi_id i) (\<lambda>r. r\<lparr>pi_customer := customer_id,
                 pi_verified := (case pi_verified i of None \<Rightarrow> Some now | v \<Rightarrow> v), pi_status := login_status i customer_id, pi_login := Some now\<rparr>)) (\<lambda>_.
               bindp (generate_token env) (\<lambda>session_id.
               let expires_at = now + seconds (se_session_ttl (ae_settings env)) in
               bindp (insert_session \<lparr>ss_id = session_id, ss_identity = pi_id i, ss_issued = now, ss_expires = expires_at, ss_seen = now,
                 ss_ip = ip, ss_agent = agent, ss_revoked = None\<rparr>) (\<lambda>_.
               bindp (record_attempt now (Some email) ip ''login_verify'' ''success'') (\<lambda>_.
               ret (LoggedIn \<lparr>vw_id = session_id, vw_identity = pi_id i, vw_issued = now, vw_expires = expires_at, vw_seen = now\<rparr>))))))))))))"

section \<open>Links to customers\<close>

definition link_to_customer :: "string \<Rightarrow> string \<Rightarrow> unit auth_prog" where
  "link_to_customer identity_id customer_id =
     bindp (gets (\<lambda>s. fetch_identity s identity_id)) (\<lambda>existing. case existing of
       None \<Rightarrow> throw UnknownIdentity
     | Some i \<Rightarrow> (case pi_customer i of
         Some current \<Rightarrow> if current = customer_id then ret () else throw (AlreadyLinked current)
       | None \<Rightarrow> update_identity identity_id (\<lambda>r. r\<lparr>pi_customer := Some customer_id, pi_status := ''registered''\<rparr>)))"

definition relink_orphaned_to_customer :: "string \<Rightarrow> string \<Rightarrow> string \<Rightarrow> unit auth_prog" where
  "relink_orphaned_to_customer identity_id orphaned new_customer =
     bindp (gets (\<lambda>s. list_ex (\<lambda>r. pi_id r = identity_id \<and> pi_customer r = Some orphaned) (pa_identities s))) (\<lambda>hit.
     if hit then update_identity identity_id (\<lambda>r. if pi_customer r = Some orphaned
       then r\<lparr>pi_customer := Some new_customer, pi_status := ''registered''\<rparr> else r)
     else bindp (gets (\<lambda>s. fetch_identity s identity_id)) (\<lambda>existing. case existing of
       None \<Rightarrow> throw UnknownIdentity
     | Some i \<Rightarrow> (case pi_customer i of
         Some current \<Rightarrow> throw (AlreadyLinked current)
       | None \<Rightarrow> link_to_customer identity_id new_customer)))"

section \<open>Step-up\<close>

definition session_key :: "string \<Rightarrow> string" where
  "session_key session_id = ''session:'' @ session_id"

record stepup_challenge =
  sc_session :: string
  sc_action :: string
  sc_expires :: int

definition start_step_up :: "auth_env \<Rightarrow> int \<Rightarrow> string \<Rightarrow> string \<Rightarrow> stepup_challenge auth_prog" where
  "start_step_up env now session_id label =
     (let c = ae_settings env; key = session_key session_id in
      bindp (limit_check la_ip key ''step_up_start'' (se_stepup_per_session_max c) (se_stepup_per_session_window c) now ''step_up_per_session'') (\<lambda>_.
      bindp (gets (\<lambda>s. fetch_session s session_id)) (\<lambda>found. case found of
        None \<Rightarrow> throw SessionInvalid
      | Some sess \<Rightarrow>
          if ss_revoked sess \<noteq> None then throw SessionInvalid
          else bindp (gets (\<lambda>s. fetch_identity s (ss_identity sess))) (\<lambda>who. case who of
            None \<Rightarrow> throw SessionInvalid
          | Some i \<Rightarrow>
              bindp (generate_otp env) (\<lambda>otp.
              let expires = now + seconds (se_stepup_token_ttl c) in
              bindp (hashed env otp) (\<lambda>hash.
              bindp (auth_tx (
                bindp (issue_token env (ss_identity sess) ''step_up'' hash (Some label) now expires) (\<lambda>_.
                record_attempt now (Some (pi_email i)) (Some key) ''step_up_start'' ''issued''))) (\<lambda>_.
              bindp (send_mail (StepUpMail (pi_email i) otp label)) (\<lambda>_.
              ret \<lparr>sc_session = session_id, sc_action = label, sc_expires = expires\<rparr>))))))))"

text \<open>The identity of a session that is not revoked.\<close>

definition session_identity_if_active :: "auth_db \<Rightarrow> string \<Rightarrow> string option" where
  "session_identity_if_active s session_id = (case fetch_session s session_id of
      Some r \<Rightarrow> if ss_revoked r = None then Some (ss_identity r) else None | None \<Rightarrow> None)"

definition scoped :: "string \<Rightarrow> string \<Rightarrow> login_token \<Rightarrow> bool" where
  "scoped kind label r \<longleftrightarrow> lt_kind r = kind \<and> lt_action r = Some label"

datatype stepup_outcome = Granted string int string | StepUpFailed string

definition verify_step_up :: "auth_env \<Rightarrow> int \<Rightarrow> string \<Rightarrow> string \<Rightarrow> string \<Rightarrow> stepup_outcome auth_prog" where
  "verify_step_up env now session_id code label =
     bindp (gets (\<lambda>s. session_identity_if_active s session_id)) (\<lambda>who. case who of
       None \<Rightarrow> ret (StepUpFailed ''no_active_token'')
     | Some identity_id \<Rightarrow>
         bindp (gets (active_tokens (scoped ''step_up'' label) identity_id)) (\<lambda>rows.
         if rows = [] then ret (StepUpFailed ''no_active_token'')
         else (case matching_token env now code rows of
           None \<Rightarrow> ret (StepUpFailed (no_match_reason now rows))
         | Some tok \<Rightarrow>
             bindp (generate_token env) (\<lambda>grant.
             let grant_expires = now + seconds (se_stepup_grant_ttl (ae_settings env)) in
             bindp (hashed env grant) (\<lambda>grant_hash.
             bindp (auth_tx (
               bindp (consume_token (lt_id tok) now) (\<lambda>_.
               issue_token env identity_id ''step_up_grant'' grant_hash (Some label) now grant_expires))) (\<lambda>_.
             ret (Granted grant grant_expires label)))))))"

definition consume_step_up_token :: "auth_env \<Rightarrow> int \<Rightarrow> string \<Rightarrow> string \<Rightarrow> string \<Rightarrow> bool auth_prog" where
  "consume_step_up_token env now session_id token label =
     bindp (gets (\<lambda>s. session_identity_if_active s session_id)) (\<lambda>who. case who of
       None \<Rightarrow> ret False
     | Some identity_id \<Rightarrow>
         bindp (gets (active_tokens (scoped ''step_up_grant'' label) identity_id)) (\<lambda>rows.
         case matching_token env now token rows of
           None \<Rightarrow> ret False
         | Some tok \<Rightarrow> bindp (consume_token (lt_id tok) now) (\<lambda>_. ret True)))"

end
