(* ===== verification/AuthFlows.thy ===== *)
theory AuthFlows
  imports Auth
begin

text \<open>
  The flows around a session in \<open>crates/bss-portal-auth\<close>: the change of an email address
  (\<open>email_change.rs\<close>, on the wall clock), the form stashed across a step-up
  (\<open>pending_action.rs\<close>) and the action log (\<open>audit.rs\<close>); and the portal's session middleware
  and step-up gate (\<open>portals/self-serve\<close>), which ignore the errors of the calls they make.
\<close>

section \<open>Email change\<close>

datatype change_start = ChangeStarted string string | ChangeNotStarted string

datatype change_outcome = ChangeApplied string | ChangeFailed string

definition cancel_pending :: "string \<Rightarrow> unit auth_prog" where
  "cancel_pending identity_id = modify (\<lambda>s. s\<lparr>pa_changes := map (\<lambda>r. if ec_identity r = identity_id \<and> ec_status r = ''pending''
     then r\<lparr>ec_status := ''cancelled''\<rparr> else r) (pa_changes s)\<rparr>)"

definition pending_change :: "auth_db \<Rightarrow> string \<Rightarrow> change_row option" where
  "pending_change s identity_id = find (\<lambda>r. ec_identity r = identity_id \<and> ec_status r = ''pending'') (pa_changes s)"

definition insert_change :: "change_row \<Rightarrow> unit auth_prog" where
  "insert_change r = bindp (gets (\<lambda>s. tbl_find ec_id (ec_id r) (pa_changes s) = None \<and> pending_change s (ec_identity r) = None \<and>
       fetch_identity s (ec_identity r) \<noteq> None)) (\<lambda>ok.
     bindp (db_require ok ''portal_auth.email_change_pending'') (\<lambda>_. modify (\<lambda>s. s\<lparr>pa_changes := pa_changes s @ [r]\<rparr>)))"

definition start_email_change :: "auth_env \<Rightarrow> int \<Rightarrow> string \<Rightarrow> string \<Rightarrow> change_start auth_prog" where
  "start_email_change env now identity_id requested =
     (let new_email = to_lowercase (trim requested) in
      bindp (gets (\<lambda>s. list_ex (active_email new_email) (cr_mediums (pa_crm s)))) (\<lambda>in_use.
      if in_use then ret (ChangeNotStarted ''email_in_use'')
      else
        bindp (generate_otp env) (\<lambda>otp.
        bindp (hashed env otp) (\<lambda>hash.
        bindp (hex_id env ''ECP'') (\<lambda>pid.
        bindp (auth_tx (
          bindp (cancel_pending identity_id) (\<lambda>_.
          insert_change \<lparr>ec_id = pid, ec_identity = identity_id, ec_email = new_email, ec_hash = hash, ec_issued = now,
            ec_expires = now + seconds (24 * 3600), ec_consumed = None, ec_status = ''pending''\<rparr>))) (\<lambda>_.
        bindp (send_mail (StepUpMail new_email otp ''email_change'')) (\<lambda>_.
        ret (ChangeStarted pid new_email))))))))"

definition set_change :: "string \<Rightarrow> (change_row \<Rightarrow> change_row) \<Rightarrow> unit auth_prog" where
  "set_change pid f = modify (\<lambda>s. s\<lparr>pa_changes := tbl_update ec_id pid f (pa_changes s)\<rparr>)"

text \<open>The party's email medium: identity, customer, party, then its active email.\<close>

definition email_medium :: "auth_db \<Rightarrow> string \<Rightarrow> medium_row option" where
  "email_medium s identity_id = (case Option.bind (fetch_identity s identity_id) pi_customer of None \<Rightarrow> None
     | Some cid \<Rightarrow> (case get_customer (pa_crm s) cid of None \<Rightarrow> None
       | Some c \<Rightarrow> find (\<lambda>r. cm_party r = cu_party c \<and> cm_type r = ''email'' \<and> cm_to r = None) (cr_mediums (pa_crm s))))"

text \<open>The write to the CRM's table, with its unique index on active email mediums.\<close>

definition one_medium_per_email :: "medium_row list \<Rightarrow> bool" where
  "one_medium_per_email rows \<longleftrightarrow> distinct (map cm_value (filter (\<lambda>r. cm_type r = ''email'' \<and> cm_to r = None) rows))"

definition set_medium_value :: "string \<Rightarrow> string \<Rightarrow> unit auth_prog" where
  "set_medium_value mid v = bindp (gets (\<lambda>s. tbl_update cm_id mid (\<lambda>r. r\<lparr>cm_value := v\<rparr>) (cr_mediums (pa_crm s)))) (\<lambda>rows.
     bindp (db_require (one_medium_per_email rows) ''uq_contact_medium_email_active'') (\<lambda>_.
     modify (\<lambda>s. s\<lparr>pa_crm := (pa_crm s)\<lparr>cr_mediums := rows\<rparr>\<rparr>)))"

definition verify_email_change :: "auth_env \<Rightarrow> int \<Rightarrow> string \<Rightarrow> string \<Rightarrow> change_outcome auth_prog" where
  "verify_email_change env now identity_id code =
     auth_tx (
       bindp (gets (\<lambda>s. pending_change s identity_id)) (\<lambda>found. case found of
         None \<Rightarrow> ret (ChangeFailed ''no_active_pending'')
       | Some p \<Rightarrow>
           if ec_expires p \<le> now then bindp (set_change (ec_id p) (\<lambda>r. r\<lparr>ec_status := ''expired''\<rparr>)) (\<lambda>_. ret (ChangeFailed ''expired''))
           else if \<not> verify_token env (trim code) (ec_hash p) then ret (ChangeFailed ''wrong_code'')
           else bindp (gets (\<lambda>s. email_medium s identity_id)) (\<lambda>medium. case medium of
             None \<Rightarrow> ret (ChangeFailed ''no_active_pending'')
           | Some m \<Rightarrow>
               bindp (set_medium_value (cm_id m) (ec_email p)) (\<lambda>_.
               bindp (update_identity identity_id (\<lambda>r. r\<lparr>pi_email := ec_email p\<rparr>)) (\<lambda>_.
               bindp (set_change (ec_id p) (\<lambda>r. r\<lparr>ec_status := ''consumed'', ec_consumed := Some now\<rparr>)) (\<lambda>_.
               ret (ChangeApplied (ec_email p))))))))"

definition cancel_pending_email_change :: "string \<Rightarrow> bool auth_prog" where
  "cancel_pending_email_change identity_id =
     bindp (gets (\<lambda>s. pending_change s identity_id \<noteq> None)) (\<lambda>hit. bindp (cancel_pending identity_id) (\<lambda>_. ret hit))"

section \<open>Stashed forms\<close>

definition in_flight :: "string \<Rightarrow> string \<Rightarrow> stash_row \<Rightarrow> bool" where
  "in_flight session_id label r \<longleftrightarrow> sh_session r = session_id \<and> sh_action r = label \<and> sh_consumed r = None"

definition insert_stash :: "stash_row \<Rightarrow> unit auth_prog" where
  "insert_stash r = bindp (gets (\<lambda>s. tbl_find sh_id (sh_id r) (pa_stashes s) = None \<and> \<not> list_ex (in_flight (sh_session r) (sh_action r)) (pa_stashes s) \<and>
       fetch_session s (sh_session r) \<noteq> None)) (\<lambda>ok.
     bindp (db_require ok ''portal_auth.step_up_pending_action'') (\<lambda>_. modify (\<lambda>s. s\<lparr>pa_stashes := pa_stashes s @ [r]\<rparr>)))"

text \<open>A JSON object of the fields: the last value of a repeated name stays. The order the column keeps is not modelled.\<close>

definition form_object :: "(string \<times> string) list \<Rightarrow> (string \<times> string) list" where
  "form_object form = fold (\<lambda>(k, v) obj. if list_ex (\<lambda>p. fst p = k) obj then map (\<lambda>p. if fst p = k then (k, v) else p) obj else obj @ [(k, v)])
     (filter (\<lambda>p. fst p \<noteq> ''step_up_token'') form) []"

definition stash_pending_action :: "auth_env \<Rightarrow> int \<Rightarrow> string \<Rightarrow> string \<Rightarrow> string \<Rightarrow> (string \<times> string) list \<Rightarrow> int option \<Rightarrow> string auth_prog" where
  "stash_pending_action env now session_id label target form ttl =
     bindp (gets (\<lambda>s. session_identity_if_active s session_id)) (\<lambda>active.
     if active = None then throw SessionInvalid
     else
       let expires = now + seconds (unwrap_or (se_stepup_pending_ttl (ae_settings env)) ttl) in
       auth_tx (
         bindp (modify (\<lambda>s. s\<lparr>pa_stashes := map (\<lambda>r. if in_flight session_id label r then r\<lparr>sh_consumed := Some now\<rparr> else r) (pa_stashes s)\<rparr>)) (\<lambda>_.
         bindp (hex_id env ''SUP'') (\<lambda>rid.
         bindp (insert_stash \<lparr>sh_id = rid, sh_session = session_id, sh_action = label, sh_target = target, sh_payload = form_object form,
           sh_created = now, sh_expires = expires, sh_consumed = None\<rparr>) (\<lambda>_. ret rid)))))"

definition consume_pending_action :: "int \<Rightarrow> string \<Rightarrow> string \<Rightarrow> stash_row option auth_prog" where
  "consume_pending_action now session_id label =
     bindp (gets (\<lambda>s. find (\<lambda>r. in_flight session_id label r \<and> sh_expires r > now) (pa_stashes s))) (\<lambda>found. case found of
       None \<Rightarrow> ret None
     | Some r \<Rightarrow> bindp (modify (\<lambda>s. s\<lparr>pa_stashes := tbl_update sh_id (sh_id r) (\<lambda>x. x\<lparr>sh_consumed := Some now\<rparr>) (pa_stashes s)\<rparr>)) (\<lambda>_. ret (Some r)))"

definition record_portal_action :: "action_row \<Rightarrow> unit auth_prog" where
  "record_portal_action r = modify (\<lambda>s. s\<lparr>pa_actions := pa_actions s @ [r]\<rparr>)"

section \<open>The portal\<close>

text \<open>An error of the call is logged and replaced.\<close>

definition or_else :: "'a \<Rightarrow> 'a auth_prog \<Rightarrow> 'a auth_prog" where
  "or_else fallback m s = (case m s of (Inl e, t) \<Rightarrow> (Inr fallback, t) | (Inr x, t) \<Rightarrow> (Inr x, t))"

text \<open>\<open>session_layer\<close>: the session and identity of a request; a session past half its life is replaced.\<close>

definition session_layer :: "auth_env \<Rightarrow> int \<Rightarrow> string \<Rightarrow> (session_view \<times> portal_identity) option auth_prog" where
  "session_layer env now cookie =
     bindp (or_else None (current_session now cookie)) (\<lambda>found. case found of
       None \<Rightarrow> ret None
     | Some (sess, i) \<Rightarrow> bindp (or_else None (rotate_if_due env now (vw_id sess))) (\<lambda>rotated. case rotated of
         None \<Rightarrow> ret (Some (sess, i))
       | Some fresh \<Rightarrow> ret (Some (fresh, i))))"

text \<open>\<open>check_step_up\<close>: whether the sensitive action may go on; if not, its form is stashed.\<close>

definition check_step_up :: "auth_env \<Rightarrow> int \<Rightarrow> string \<Rightarrow> string \<Rightarrow> string option \<Rightarrow> string \<Rightarrow> (string \<times> string) list \<Rightarrow> bool auth_prog" where
  "check_step_up env now session_id label token target form =
     bindp (case token of None \<Rightarrow> ret False
       | Some tok \<Rightarrow> if tok = [] then ret False else or_else False (consume_step_up_token env now session_id tok label)) (\<lambda>ok.
     if ok then ret True
     else bindp (or_else [] (stash_pending_action env now session_id label target form None)) (\<lambda>_. ret False))"

text \<open>\<open>POST /auth/step-up/verify\<close>: the grant, and the stashed form to replay.\<close>

definition step_up_verify :: "auth_env \<Rightarrow> int \<Rightarrow> string \<Rightarrow> string \<Rightarrow> string \<Rightarrow> (string \<times> stash_row option) option auth_prog" where
  "step_up_verify env now session_id code label =
     bindp (verify_step_up env now session_id (trim code) label) (\<lambda>r. case r of
       StepUpFailed _ \<Rightarrow> ret None
     | Granted grant expires lbl \<Rightarrow> bindp (or_else None (consume_pending_action now session_id label)) (\<lambda>p. ret (Some (grant, p))))"

end
