(* ===== verification/AuthProps.thy ===== *)
theory AuthProps
  imports AuthFlows CrmRuns
begin

text \<open>
  The portal's authentication over runs that interleave every operation of the crate, the
  portal's gate, and any change of the CRM's tables: the rate limits hold in every window, and
  every login, grant and protected action costs one code.
\<close>

section \<open>Runs\<close>

datatype auth_op =
    StartLogin int string "string option"
  | VerifyLogin int string string "string option" "string option"
  | Request int string
  | Logout int string
  | LinkTo string string
  | Relink string string string
  | StartStepUp int string string
  | VerifyStepUp int string string string
  | Guard int string string "string option" string "(string \<times> string) list"
  | StartChange int string string
  | VerifyChange int string string
  | CancelChange string
  | LogAction action_row
  | CrmChange crm_env crm_op

text \<open>What an operation gave: a session, a grant, leave to act, or nothing of these.\<close>

datatype gain = Session | Grant | Leave | Nothing

fun auth_step :: "auth_env \<Rightarrow> auth_op \<Rightarrow> auth_db \<Rightarrow> gain \<times> auth_db" where
  "auth_step env (StartLogin now email ip) s = (Nothing, snd (start_email_login env now email ip s))"
| "auth_step env (VerifyLogin now email code ip agent) s =
     (case verify_email_login env now email code ip agent s of (r, t) \<Rightarrow> (case r of Inr (LoggedIn v) \<Rightarrow> Session | _ \<Rightarrow> Nothing, t))"
| "auth_step env (Request now cookie) s = (Nothing, snd (session_layer env now cookie s))"
| "auth_step env (Logout now sid) s = (Nothing, snd (revoke_session now sid s))"
| "auth_step env (LinkTo iid cid) s = (Nothing, snd (link_to_customer iid cid s))"
| "auth_step env (Relink iid old new) s = (Nothing, snd (relink_orphaned_to_customer iid old new s))"
| "auth_step env (StartStepUp now sid label) s = (Nothing, snd (start_step_up env now sid label s))"
| "auth_step env (VerifyStepUp now sid code label) s =
     (case step_up_verify env now sid code label s of (r, t) \<Rightarrow> (case r of Inr (Some _) \<Rightarrow> Grant | _ \<Rightarrow> Nothing, t))"
| "auth_step env (Guard now sid label token target form) s =
     (case check_step_up env now sid label token target form s of (r, t) \<Rightarrow> (case r of Inr True \<Rightarrow> Leave | _ \<Rightarrow> Nothing, t))"
| "auth_step env (StartChange now iid email) s = (Nothing, snd (start_email_change env now iid email s))"
| "auth_step env (VerifyChange now iid code) s = (Nothing, snd (verify_email_change env now iid code s))"
| "auth_step env (CancelChange iid) s = (Nothing, snd (cancel_pending_email_change iid s))"
| "auth_step env (LogAction r) s = (Nothing, snd (record_portal_action r s))"
| "auth_step env (CrmChange cenv op) s = (Nothing, s\<lparr>pa_crm := crm_step cenv op (pa_crm s)\<rparr>)"

fun auth_run :: "auth_env \<Rightarrow> auth_op list \<Rightarrow> auth_db \<Rightarrow> gain list \<times> auth_db" where
  "auth_run env [] s = ([], s)"
| "auth_run env (op # ops) s = (case auth_step env op s of (g, t) \<Rightarrow> (case auth_run env ops t of (gs, u) \<Rightarrow> (g # gs, u)))"

lemma auth_run_keeps: "(\<And>op s. P s \<Longrightarrow> P (snd (auth_step env op s))) \<Longrightarrow> P s \<Longrightarrow> P (snd (auth_run env ops s))"
  by (induction ops arbitrary: s) (auto split: prod.splits, metis snd_conv)

section \<open>What operations do not touch\<close>

text \<open>A property of the tokens and attempts alone.\<close>

locale auth_view =
  fixes P :: "auth_db \<Rightarrow> bool"
  assumes on_draws: "P s \<Longrightarrow> P (s\<lparr>pa_draws := d\<rparr>)" and on_mail: "P s \<Longrightarrow> P (s\<lparr>pa_mail := m\<rparr>)"
    and on_sessions: "P s \<Longrightarrow> P (s\<lparr>pa_sessions := x\<rparr>)" and on_identities: "P s \<Longrightarrow> P (s\<lparr>pa_identities := i\<rparr>)"
    and on_changes: "P s \<Longrightarrow> P (s\<lparr>pa_changes := c\<rparr>)" and on_stashes: "P s \<Longrightarrow> P (s\<lparr>pa_stashes := h\<rparr>)"
    and on_actions: "P s \<Longrightarrow> P (s\<lparr>pa_actions := a\<rparr>)" and on_crm: "P s \<Longrightarrow> P (s\<lparr>pa_crm := z\<rparr>)"

context auth_view begin

lemmas frames = on_draws on_mail on_sessions on_identities on_changes on_stashes on_actions on_crm

lemma tx: "keeps P m \<Longrightarrow> keeps P (auth_tx m)"
  by (rule keepsI) (auto simp: wp_simps dest!: keeps_wp elim!: wp_mono intro: on_draws on_mail)

lemma or_else_keeps: "keeps P m \<Longrightarrow> keeps P (or_else f m)"
  by (auto simp: keeps_def or_else_def split: prod.splits sum.splits)

lemmas base_rules = tx or_else_keeps keeps_bindp keeps_gets keeps_ret keeps_throw keeps_of_result keeps_if keeps_case_option
  keeps_case_prod keeps_for_each

lemma draw_keeps: "keeps P next_draw"
  unfolding next_draw_def by (intro base_rules keeps_modify frames)

lemma basic_keeps:
  "keeps P (hex_id env prefix)" "keeps P (generate_otp env)" "keeps P (generate_token env)" "keeps P (hashed env tok)"
  "keeps P (db_require b n)" "keeps P (limit_check col v stage_name k w now scope)" "keeps P (send_mail ml)"
  unfolding hex_id_def generate_otp_def generate_token_def hashed_def db_require_def limit_check_def send_mail_def Let_def
  by (intro base_rules draw_keeps keeps_modify frames, assumption?)+

lemma table_keeps:
  "keeps P (insert_identity_row i')" "keeps P (update_identity iid f)" "keeps P (insert_session ss)" "keeps P (update_session sid g)"
  "keeps P (cancel_pending iid)" "keeps P (insert_change ec)" "keeps P (set_change pid k)" "keeps P (set_medium_value mid v)"
  "keeps P (insert_stash sh)" "keeps P (record_portal_action ac)"
  unfolding insert_identity_row_def update_identity_def insert_session_def update_session_def cancel_pending_def insert_change_def
    set_change_def set_medium_value_def insert_stash_def record_portal_action_def
  by (intro base_rules basic_keeps keeps_modify frames, assumption?)+

lemmas rules = base_rules draw_keeps basic_keeps table_keeps

lemma quiet_keeps:
  "keeps P (current_session now cookie)" "keeps P (rotate_if_due env now sid)" "keeps P (revoke_session now sid)"
  "keeps P (link_to_customer iid cid)" "keeps P (start_email_change env now iid email)" "keeps P (verify_email_change env now iid code)"
  "keeps P (cancel_pending_email_change iid)" "keeps P (stash_pending_action env now sid label target form ttl)"
  "keeps P (consume_pending_action now sid label)" "keeps P (reuse_or_create env now email)"
  unfolding current_session_def rotate_if_due_def revoke_session_def link_to_customer_def start_email_change_def
    verify_email_change_def cancel_pending_email_change_def stash_pending_action_def consume_pending_action_def reuse_or_create_def Let_def
  by (intro rules keeps_modify frames, assumption?)+

lemma session_keeps: "keeps P (session_layer env now cookie)" "keeps P (relink_orphaned_to_customer iid old new)"
  unfolding session_layer_def relink_orphaned_to_customer_def by (intro rules quiet_keeps)+

lemmas op_rules = rules quiet_keeps session_keeps

end


section \<open>Rate limits\<close>

text \<open>A property of the attempts alone.\<close>

locale attempt_view = auth_view +
  assumes on_tokens: "P s \<Longrightarrow> P (s\<lparr>pa_tokens := t\<rparr>)"

context attempt_view begin

lemma token_keeps: "keeps P (insert_token tk)" "keeps P (consume_token tid now)"
  unfolding insert_token_def consume_token_def by (intro op_rules keeps_modify on_tokens, assumption?)+

lemma issue_keeps: "keeps P (issue_token env iid kind hash label now expires)"
  unfolding issue_token_def by (intro op_rules token_keeps)

lemma code_keeps:
  "keeps P (verify_step_up env now sid code label)" "keeps P (consume_step_up_token env now sid token label)"
  unfolding verify_step_up_def consume_step_up_token_def Let_def by (intro op_rules token_keeps issue_keeps)+

lemma keeps_case_outcome:
  "(\<And>g e l. keeps P (m g e l)) \<Longrightarrow> (\<And>n. keeps P (k n)) \<Longrightarrow> keeps P (case r of Granted g e l \<Rightarrow> m g e l | StepUpFailed n \<Rightarrow> k n)"
  by (simp split: stepup_outcome.split)

lemma gate_keeps:
  "keeps P (check_step_up env now sid label' token' target form)" "keeps P (step_up_verify env now sid code' label)"
  unfolding check_step_up_def step_up_verify_def
  by (intro op_rules code_keeps keeps_case_outcome)+

end

text \<open>At most \<open>n\<close> attempts of a stage in every window of \<open>w\<close> seconds, for each value of a column.\<close>

definition falls :: "(attempt_row \<Rightarrow> string option) \<Rightarrow> string \<Rightarrow> string \<Rightarrow> int \<Rightarrow> int \<Rightarrow> attempt_row \<Rightarrow> bool" where
  "falls col v stage_name t0 w r \<longleftrightarrow> col r = Some v \<and> la_stage r = stage_name \<and> t0 \<le> la_ts r \<and> la_ts r \<le> t0 + seconds w"

definition limited :: "(attempt_row \<Rightarrow> string option) \<Rightarrow> string \<Rightarrow> int \<Rightarrow> int \<Rightarrow> attempt_row list \<Rightarrow> bool" where
  "limited col stage_name n w rows \<longleftrightarrow> (\<forall>v t0. int (length (filter (falls col v stage_name t0 w) rows)) \<le> max n 0)"

lemma limited_other:
  assumes "limited col stage_name n w rows" "\<not> (la_stage r = stage_name \<and> col r \<noteq> None)"
  shows "limited col stage_name n w (rows @ [r])"
proof -
  have "\<not> falls col v stage_name t0 w r" for v t0 using assms(2) by (auto simp: falls_def)
  then show ?thesis using assms(1) by (simp add: limited_def)
qed

lemma limited_add:
  assumes "limited col stage_name n w rows" and "\<And>v. col r = Some v \<Longrightarrow> int (length (filter (in_window col v stage_name w (la_ts r)) rows)) < n"
  shows "limited col stage_name n w (rows @ [r])"
  unfolding limited_def
proof (intro allI)
  fix v t0
  show "int (length (filter (falls col v stage_name t0 w) (rows @ [r]))) \<le> max n 0"
  proof (cases "falls col v stage_name t0 w r")
    case True
    then have "filter (falls col v stage_name t0 w) rows = filter (falls col v stage_name t0 w) (filter (in_window col v stage_name w (la_ts r)) rows)"
      unfolding filter_filter by (intro filter_cong) (auto simp: falls_def in_window_def)
    then have "length (filter (falls col v stage_name t0 w) rows) \<le> length (filter (in_window col v stage_name w (la_ts r)) rows)"
      by (metis length_filter_le)
    then show ?thesis using True assms(2) [of v] by (simp add: falls_def)
  next
    case False
    then show ?thesis using assms(1) by (simp add: limited_def)
  qed
qed

definition rate_limited :: "auth_env \<Rightarrow> auth_db \<Rightarrow> bool" where
  "rate_limited env s \<longleftrightarrow> (let c = ae_settings env in
     limited la_email ''login_start'' (se_login_per_email_max c) (se_login_per_email_window c) (pa_attempts s) \<and>
     limited la_ip ''login_start'' (se_login_per_ip_max c) (se_login_per_ip_window c) (pa_attempts s) \<and>
     limited la_email ''login_verify'' (se_verify_per_email_max c) (se_verify_per_email_window c) (pa_attempts s) \<and>
     limited la_ip ''step_up_start'' (se_stepup_per_session_max c) (se_stepup_per_session_window c) (pa_attempts s))"

interpretation rated: attempt_view "rate_limited env" for env
  by unfold_locales (simp_all add: rate_limited_def Let_def)

interpretation same_attempts: attempt_view "\<lambda>t. pa_attempts t = xs" for xs
  by unfold_locales simp_all


lemma wp_limit_check [wp_simps]:
  "wp (limit_check col v stage_name n w now scope) Q E = (\<lambda>s.
     if int (length (filter (in_window col v stage_name w now) (pa_attempts s))) \<ge> n
     then E (RateLimited (retry_after_s (snd (count_in_window s col v stage_name w now)) now w) scope) s else Q () s)"
  by (rule ext) (simp add: limit_check_def count_in_window_def wp_simps Let_def)

lemma wp_record [wp_simps]:
  "wp (record_attempt now email ip stage_name outcome) Q E = (\<lambda>s. Q () (s\<lparr>pa_attempts := pa_attempts s @
     [\<lparr>la_email = email, la_ip = ip, la_ts = now, la_outcome = outcome, la_stage = stage_name\<rparr>]\<rparr>))"
  by (rule ext) (simp add: record_attempt_def wp_simps)

lemma wp_seq:
  assumes "keeps P m" "P s" "\<And>x t. P t \<Longrightarrow> wp (f x) Q E t" "\<And>e t. P t \<Longrightarrow> E e t"
  shows "wp (bindp m f) Q E s"
  unfolding wp_bindp by (rule wp_mono [OF keeps_wp [OF assms(1,2)]]) (use assms(3,4) in auto)

definition attempted :: "auth_db \<Rightarrow> attempt_row \<Rightarrow> auth_db \<Rightarrow> bool" where
  "attempted s r t \<longleftrightarrow> (\<exists>outcome. pa_attempts t = pa_attempts s @ [r\<lparr>la_outcome := outcome\<rparr>])"

lemma rated_cong: "pa_attempts t = pa_attempts s \<Longrightarrow> rate_limited env t = rate_limited env s"
  by (simp add: rate_limited_def)

text \<open>An operation whose transaction records one attempt within the limits.\<close>

lemma wp_rated:
  assumes "rate_limited env s" and "\<And>t. attempted s r t \<Longrightarrow> rate_limited env t"
    and "wp m (\<lambda>_. attempted s r) (\<lambda>_ _. True) s"
  shows "wp (auth_tx m) (\<lambda>_. rate_limited env) (\<lambda>_. rate_limited env) s"
  unfolding wp_auth_tx by (rule wp_mono [OF assms(3)]) (simp_all add: assms(1,2) rated.on_draws rated.on_mail)

lemma wp_rated_tx:
  assumes "rate_limited env s" and "\<And>t. attempted s r t \<Longrightarrow> rate_limited env t"
    and "wp m (\<lambda>_. attempted s r) (\<lambda>_ _. True) s" and "\<And>x. keeps (rate_limited env) (k x)"
  shows "wp (bindp (auth_tx m) k) (\<lambda>_. rate_limited env) (\<lambda>_. rate_limited env) s"
  unfolding wp_bindp by (rule wp_mono [OF wp_rated [OF assms(1-3)]]) (simp_all add: keeps_wp [OF assms(4)])

lemma start_login_rated:
  assumes inv: "rate_limited env s"
  shows "wp (start_email_login env now email ip) (\<lambda>_. rate_limited env) (\<lambda>_. rate_limited env) s"
proof -
  let ?r = "\<lparr>la_email = Some email, la_ip = ip, la_ts = now, la_outcome = ''issued'', la_stage = ''login_start''\<rparr>"
  let ?c = "ae_settings env"
  have body: "wp (bindp (auth_tx (
       bindp (reuse_or_create env now email) (\<lambda>identity_id.
       bindp (generate_otp env) (\<lambda>otp.
       bindp (generate_token env) (\<lambda>magic.
       bindp (for_each [(''otp'', otp), (''magic_link'', magic)] (\<lambda>(kind, code).
         bindp (hashed env code) (\<lambda>hash. issue_token env identity_id kind hash None now expires))) (\<lambda>_.
       bindp (record_attempt now (Some email) ip ''login_start'' ''issued'') (\<lambda>_.
       ret (identity_id, otp, magic)))))))) (\<lambda>(identity_id, otp, magic).
     bindp (send_mail (LoginMail email otp (build_magic_link_url (se_public_url ?c) email magic))) (\<lambda>_.
     ret \<lparr>lc_identity = identity_id, lc_expires = expires\<rparr>))) (\<lambda>_. rate_limited env) (\<lambda>_. rate_limited env) s"
    if email: "int (length (filter (in_window la_email email ''login_start'' (se_login_per_email_window ?c) now) (pa_attempts s))) < se_login_per_email_max ?c"
      and ip: "\<And>a. ip = Some a \<Longrightarrow> int (length (filter (in_window la_ip a ''login_start'' (se_login_per_ip_window ?c) now) (pa_attempts s))) < se_login_per_ip_max ?c"
    for expires
  proof (rule wp_rated_tx [OF inv, where r = ?r])
    fix t assume "attempted s ?r t"
    then show "rate_limited env t"
      using inv email ip by (auto simp: rate_limited_def attempted_def Let_def intro!: limited_add limited_other [where stage_name = "''login_verify''"]
        limited_other [where stage_name = "''step_up_start''"])
  next
    show "wp (bindp (reuse_or_create env now email) (\<lambda>identity_id.
       bindp (generate_otp env) (\<lambda>otp.
       bindp (generate_token env) (\<lambda>magic.
       bindp (for_each [(''otp'', otp), (''magic_link'', magic)] (\<lambda>(kind, code).
         bindp (hashed env code) (\<lambda>hash. issue_token env identity_id kind hash None now expires))) (\<lambda>_.
       bindp (record_attempt now (Some email) ip ''login_start'' ''issued'') (\<lambda>_.
       ret (identity_id, otp, magic))))))) (\<lambda>_. attempted s ?r) (\<lambda>_ _. True) s"
      by (rule wp_seq [where P = "\<lambda>t. pa_attempts t = pa_attempts s"], intro same_attempts.op_rules same_attempts.issue_keeps, simp)+
         (auto simp: wp_simps attempted_def)
  qed (intro rated.op_rules)
  show ?thesis
    unfolding start_email_login_def enforce_login_start_def Let_def
    unfolding wp_bindp [of "limit_check a b c d e f g" for a b c d e f g] wp_bindp [of "bindp (limit_check a b c d e f g) h" for a b c d e f g h]
      wp_limit_check
    using inv body by (cases ip) (simp_all add: wp_limit_check wp_ret not_le)
qed


lemma verify_login_rated:
  assumes inv: "rate_limited env s"
  shows "wp (verify_email_login env now email code ip agent) (\<lambda>_. rate_limited env) (\<lambda>_. rate_limited env) s"
proof -
  let ?r = "\<lparr>la_email = Some email, la_ip = ip, la_ts = now, la_outcome = [], la_stage = ''login_verify''\<rparr>"
  let ?c = "ae_settings env"
  have added: "rate_limited env t"
    if "int (length (filter (in_window la_email email ''login_verify'' (se_verify_per_email_window ?c) now) (pa_attempts s))) < se_verify_per_email_max ?c"
      and "attempted s ?r t" for t
    using inv that by (auto simp: rate_limited_def attempted_def Let_def intro!: limited_add limited_other [where stage_name = "''login_start''"]
        limited_other [where stage_name = "''step_up_start''"])
  have fail: "wp (login_failed now email ip reason) (\<lambda>_. attempted s ?r) (\<lambda>_ _. True) u" if "pa_attempts u = pa_attempts s" for reason u
    using that by (auto simp: login_failed_def wp_simps attempted_def)
  note seq = wp_seq [where P = "\<lambda>t. pa_attempts t = pa_attempts s"]
  show ?thesis
    unfolding verify_email_login_def enforce_login_verify_def Let_def wp_bindp [of "limit_check a b c d e f g" for a b c d e f g] wp_limit_check
    apply (simp add: inv)
    apply (intro impI wp_rated [OF inv added])
      apply simp
     apply assumption
    apply (rule seq [OF keeps_gets refl])
     prefer 2
     apply simp
    subgoal for ident t
      apply (cases ident)
       apply (simp add: fail)
      apply (simp only: option.case)
      apply (rule seq [OF keeps_gets], assumption)
       prefer 2
       apply simp
      subgoal for i rows u
        apply (cases "rows = []")
         apply (simp add: fail)
        apply (cases "matching_token env now code rows")
         apply (simp add: fail)
        apply (simp only: option.case if_False)
        apply (rule seq, intro same_attempts.op_rules same_attempts.token_keeps, assumption)+
        apply (auto simp: wp_simps attempted_def)
        done
      done
    done
qed

lemma start_step_up_rated:
  assumes inv: "rate_limited env s"
  shows "wp (start_step_up env now sid label) (\<lambda>_. rate_limited env) (\<lambda>_. rate_limited env) s"
proof -
  let ?c = "ae_settings env" and ?key = "session_key sid"
  have added: "rate_limited env u"
    if "int (length (filter (in_window la_ip ?key ''step_up_start'' (se_stepup_per_session_window ?c) now) (pa_attempts s))) < se_stepup_per_session_max ?c"
      and "attempted t \<lparr>la_email = email, la_ip = Some ?key, la_ts = now, la_outcome = [], la_stage = ''step_up_start''\<rparr> u"
      and "pa_attempts t = pa_attempts s" for t u email
    using inv that by (auto simp: rate_limited_def attempted_def Let_def intro!: limited_add limited_other [where stage_name = "''login_start''"]
        limited_other [where stage_name = "''login_verify''"])
  have issued: "wp (bindp (auth_tx (
                bindp (issue_token env iid ''step_up'' hash (Some label) now expires) (\<lambda>_.
                record_attempt now (Some email) (Some ?key) ''step_up_start'' ''issued''))) k) (\<lambda>_. rate_limited env) (\<lambda>_. rate_limited env) t"
    if "pa_attempts t = pa_attempts s" "\<And>x. keeps (rate_limited env) (k x)"
      "int (length (filter (in_window la_ip ?key ''step_up_start'' (se_stepup_per_session_window ?c) now) (pa_attempts s))) < se_stepup_per_session_max ?c"
    for t k iid hash expires email
  proof (rule wp_rated_tx [OF _ added [OF that(3) _ that(1)]])
    show "rate_limited env t" using inv rated_cong [OF that(1)] by simp
    show "wp (bindp (issue_token env iid ''step_up'' hash (Some label) now expires) (\<lambda>_.
                record_attempt now (Some email) (Some ?key) ''step_up_start'' ''issued''))
      (\<lambda>_. attempted t \<lparr>la_email = Some email, la_ip = Some ?key, la_ts = now, la_outcome = [], la_stage = ''step_up_start''\<rparr>) (\<lambda>_ _. True) t"
      by (rule wp_seq [where P = "\<lambda>u. pa_attempts u = pa_attempts t"], rule same_attempts.issue_keeps) (auto simp: wp_simps attempted_def)
  qed (use that in simp_all)
  have prefix: "wp (bindp m f) (\<lambda>_. rate_limited env) (\<lambda>_. rate_limited env) t"
    if "pa_attempts t = pa_attempts s" "keeps (\<lambda>u. pa_attempts u = pa_attempts s) m"
      "\<And>x u. pa_attempts u = pa_attempts s \<Longrightarrow> wp (f x) (\<lambda>_. rate_limited env) (\<lambda>_. rate_limited env) u" for m f t
    by (rule wp_seq [where P = "\<lambda>u. pa_attempts u = pa_attempts s", OF that(2,1)], erule that(3))
       (drule rated_cong [where s = s and env = env], simp add: inv)
  have go: "wp (bindp (generate_otp env) (\<lambda>otp. bindp (hashed env otp) (\<lambda>hash.
      bindp (auth_tx (
        bindp (issue_token env iid ''step_up'' hash (Some label) now expires) (\<lambda>_.
        record_attempt now (Some email) (Some ?key) ''step_up_start'' ''issued''))) (\<lambda>_.
      bindp (send_mail (StepUpMail email otp label)) (\<lambda>_. ret out))))) (\<lambda>_. rate_limited env) (\<lambda>_. rate_limited env) s"
    if "int (length (filter (in_window la_ip ?key ''step_up_start'' (se_stepup_per_session_window ?c) now) (pa_attempts s))) < se_stepup_per_session_max ?c"
    for iid email expires out
    by (rule prefix [OF refl], intro same_attempts.op_rules, rule prefix, assumption, intro same_attempts.op_rules,
        rule issued, assumption, intro rated.op_rules, rule that)
  show ?thesis
    unfolding start_step_up_def Let_def wp_bindp [of "limit_check a b c d e f g" for a b c d e f g] wp_limit_check
      wp_bindp [of "gets g" for g] wp_gets
    apply (rule if_split [THEN iffD2], intro conjI impI, rule inv)
    apply (cases "fetch_session s sid")
     apply (simp only: option.case wp_throw inv)
    apply (simp only: option.case)
    subgoal for sess
      apply (rule if_split [where P = "\<lambda>x. wp x a b c" for a b c, THEN iffD2], intro conjI impI)
       apply (simp only: wp_throw inv)
      apply (simp only: wp_bindp [of "gets g" for g] wp_gets)
      apply (cases "fetch_identity s (ss_identity sess)")
       apply (simp only: option.case wp_throw inv)
      apply (simp only: option.case)
      apply (rule go, simp)
      done
    done
qed

lemma snd_case [simp]: "snd (case p of (r, t) \<Rightarrow> (f r, t)) = snd p"
  by (cases p) simp

lemma rated_step: "rate_limited env s \<Longrightarrow> rate_limited env (snd (auth_step env op s))"
  using start_login_rated [unfolded wp_same] verify_login_rated [unfolded wp_same] start_step_up_rated [unfolded wp_same]
  by (cases op) (auto simp: keepsD [where P = "rate_limited env"] rated.op_rules rated.gate_keeps rated.on_crm)


end
