(* ===== verification/AuthLedger.thy ===== *)
theory AuthLedger
  imports AuthProps
begin

text \<open>
  What codes buy at the portal: over every run each login spends one login code, each grant
  one step-up code, each protected action one grant. What no limit guards: the codes of a
  step-up. And the change of an email address, in both schemas or in neither.
\<close>

section \<open>The ledger of codes\<close>

definition of_kind :: "string \<Rightarrow> login_token \<Rightarrow> bool" where
  "of_kind kind r \<longleftrightarrow> lt_kind r = kind"

definition spent :: "(login_token \<Rightarrow> bool) \<Rightarrow> auth_db \<Rightarrow> nat" where
  "spent sel s = length (filter (\<lambda>r. sel r \<and> lt_consumed r \<noteq> None) (pa_tokens s))"

definition issued :: "(login_token \<Rightarrow> bool) \<Rightarrow> auth_db \<Rightarrow> nat" where
  "issued sel s = length (filter sel (pa_tokens s))"

definition booked :: "nat \<Rightarrow> nat \<Rightarrow> nat \<Rightarrow> nat \<Rightarrow> auth_db \<Rightarrow> bool" where
  "booked logins stepups grants acts s \<longleftrightarrow> distinct (map lt_id (pa_tokens s)) \<and> spent login_kind s = logins \<and>
     spent (of_kind ''step_up'') s = stepups \<and> issued (of_kind ''step_up_grant'') s = grants \<and> spent (of_kind ''step_up_grant'') s = acts"

interpretation booked: auth_view "booked a b c d" for a b c d
  by unfold_locales (simp_all add: booked_def spent_def issued_def)

lemma booked_attempt: "keeps (booked a b c d) (record_attempt now email ip stage_name outcome)"
  unfolding record_attempt_def by (rule keeps_modify) (simp add: booked_def spent_def issued_def)

lemma wp_issue:
  assumes "booked a b c d s" and "\<And>t. booked a b (if kind = ''step_up_grant'' then c + 1 else c) d t \<Longrightarrow> Q () t"
    and "\<And>e t. booked a b c d t \<Longrightarrow> E e t"
  shows "wp (issue_token env iid kind hash label now expires) Q E s"
  unfolding issue_token_def
proof (rule wp_seq [where P = "booked a b c d"])
  fix tid t assume b: "booked a b c d t"
  let ?r = "\<lparr>lt_id = tid, lt_identity = iid, lt_kind = kind, lt_hash = hash, lt_action = label, lt_issued = now,
      lt_expires = expires, lt_consumed = None\<rparr>"
  have "booked a b (if kind = ''step_up_grant'' then c + 1 else c) d (t\<lparr>pa_tokens := pa_tokens t @ [?r]\<rparr>)"
    if "tbl_find lt_id tid (pa_tokens t) = None"
    using b that by (auto simp: booked_def spent_def issued_def of_kind_def tbl_find_None_iff)
  then show "wp (insert_token ?r) Q E t"
    using b assms(2,3) by (auto simp: insert_token_def wp_simps db_require_def)
qed (auto intro: assms booked.op_rules)

lemma issue_booked: "kind \<noteq> ''step_up_grant'' \<Longrightarrow> keeps (booked a b c d) (issue_token env iid kind hash label now expires)"
  by (rule keepsI) (erule wp_issue, simp_all)

lemma spent_consumed:
  assumes "distinct (map lt_id rows)" "tok \<in> set rows" "lt_consumed tok = None" "\<And>r x. sel (r\<lparr>lt_consumed := x\<rparr>) = sel r"
  shows "length (filter (\<lambda>r. sel r \<and> lt_consumed r \<noteq> None) (tbl_update lt_id (lt_id tok) (\<lambda>r. r\<lparr>lt_consumed := Some now\<rparr>) rows)) =
    length (filter (\<lambda>r. sel r \<and> lt_consumed r \<noteq> None) rows) + (if sel tok then 1 else 0)"
  using assms
proof (induction rows)
  case (Cons r rows)
  then show ?case
    using tbl_update_other [of "lt_id tok" lt_id rows] by (cases "r = tok") auto
qed simp

lemma wp_consume:
  assumes "booked a b c d s" "tok \<in> set (pa_tokens s)" "lt_consumed tok = None"
    and "\<And>t. booked (a + (if login_kind tok then 1 else 0)) (b + (if of_kind ''step_up'' tok then 1 else 0)) c
      (d + (if of_kind ''step_up_grant'' tok then 1 else 0)) t \<Longrightarrow> Q () t"
  shows "wp (consume_token (lt_id tok) now) Q E s"
proof -
  let ?t = "s\<lparr>pa_tokens := tbl_update lt_id (lt_id tok) (\<lambda>r. r\<lparr>lt_consumed := Some now\<rparr>) (pa_tokens s)\<rparr>"
  have ids: "distinct (map lt_id (pa_tokens s))" using assms(1) by (simp add: booked_def)
  have "map lt_id (pa_tokens ?t) = map lt_id (pa_tokens s)" "map lt_kind (pa_tokens ?t) = map lt_kind (pa_tokens s)"
    by (simp_all add: map_tbl_update)
  moreover have "length (filter (of_kind k) rows) = length (filter (\<lambda>x. x = k) (map lt_kind rows))" for k rows
    by (simp add: of_kind_def [abs_def] filter_map comp_def)
  ultimately have "issued (of_kind k) ?t = issued (of_kind k) s" for k by (simp only: issued_def)
  moreover note \<open>map lt_id (pa_tokens ?t) = map lt_id (pa_tokens s)\<close>
  ultimately have "booked (a + (if login_kind tok then 1 else 0)) (b + (if of_kind ''step_up'' tok then 1 else 0)) c
      (d + (if of_kind ''step_up_grant'' tok then 1 else 0)) ?t"
    using assms(1) spent_consumed [OF ids assms(2,3), of login_kind now] spent_consumed [OF ids assms(2,3), of "of_kind ''step_up''" now]
      spent_consumed [OF ids assms(2,3), of "of_kind ''step_up_grant''" now]
    by (simp add: booked_def spent_def login_kind_def of_kind_def)
  then show ?thesis using assms(4) by (simp add: consume_token_def wp_simps)
qed


lemma matching_active:
  assumes "matching_token env now code (active_tokens sel iid s) = Some tok"
  shows "tok \<in> set (pa_tokens s)" "lt_consumed tok = None" "sel tok"
  using assms by (auto simp: matching_token_def active_tokens_def find_Some_iff in_set_conv_nth [symmetric] dest: nth_mem)

lemma wp_booked_tx:
  "booked a b c d s \<Longrightarrow> wp m Q (\<lambda>_ _. True) s \<Longrightarrow> (\<And>e t. booked a b c d t \<Longrightarrow> E e t) \<Longrightarrow> wp (auth_tx m) Q E s"
  unfolding wp_auth_tx by (erule wp_mono) (simp_all add: booked.on_draws booked.on_mail)

lemma start_login_booked: "keeps (booked a b c d) (start_email_login env now email ip)"
  unfolding start_email_login_def enforce_login_start_def Let_def for_each.simps prod.case
  by (intro booked.op_rules booked_attempt issue_booked) simp_all

lemma start_step_up_booked: "keeps (booked a b c d) (start_step_up env now sid label)"
  unfolding start_step_up_def Let_def
  by (intro booked.op_rules booked_attempt issue_booked) simp

lemma verify_login_booked:
  assumes inv: "booked a b c d s"
  shows "wp (verify_email_login env now email code ip agent)
    (\<lambda>r. booked (a + (case r of LoggedIn v \<Rightarrow> 1 | LoginFailed n \<Rightarrow> 0)) b c d) (\<lambda>_. booked a b c d) s"
proof -
  have fail: "wp (login_failed now email ip reason) (\<lambda>r. booked (a + (case r of LoggedIn v \<Rightarrow> 1 | LoginFailed n \<Rightarrow> 0)) b c d) (\<lambda>_ _. True) s" for reason
    unfolding login_failed_def wp_bindp by (rule wp_mono [OF keeps_wp [OF booked_attempt inv]]) (simp_all add: wp_ret)
  have tail: "wp (bindp (update_identity iid f) (\<lambda>_. bindp (generate_token env) (\<lambda>x. bindp (insert_session (g x)) (\<lambda>_.
      bindp (record_attempt now (Some email) ip ''login_verify'' ''success'') (\<lambda>_. ret (LoggedIn (h x)))))))
      (\<lambda>r. booked (a + (case r of LoggedIn v \<Rightarrow> 1 | LoginFailed n \<Rightarrow> 0)) b c d) (\<lambda>_ _. True) t" if "booked (Suc a) b c d t" for t f g h iid
    by (rule wp_seq [where P = "booked (Suc a) b c d"], intro booked.op_rules, rule that, rule wp_seq [where P = "booked (Suc a) b c d"],
        intro booked.op_rules, assumption, rule wp_seq [where P = "booked (Suc a) b c d"], intro booked.op_rules, assumption,
        rule wp_seq [where P = "booked (Suc a) b c d"], rule booked_attempt) (simp_all add: wp_ret)
  have body: "wp (bindp (consume_token (lt_id tok) now) (\<lambda>_. bindp (gets k) (\<lambda>cu.
      bindp (update_identity iid (f cu)) (\<lambda>_. bindp (generate_token env) (\<lambda>x. bindp (insert_session (g x)) (\<lambda>_.
      bindp (record_attempt now (Some email) ip ''login_verify'' ''success'') (\<lambda>_. ret (LoggedIn (h x)))))))))
      (\<lambda>r. booked (a + (case r of LoggedIn v \<Rightarrow> 1 | LoginFailed n \<Rightarrow> 0)) b c d) (\<lambda>_ _. True) s"
    if "matching_token env now code (active_tokens login_kind i s) = Some tok" for tok i iid f g h k
    unfolding wp_bindp [of "consume_token a b" for a b]
    by (rule wp_consume [OF inv matching_active(1,2) [OF that]], unfold wp_bindp [of "gets g" for g] wp_gets, rule tail)
       (use matching_active(3) [OF that] in \<open>auto simp: login_kind_def of_kind_def\<close>)
  show ?thesis
    unfolding verify_email_login_def enforce_login_verify_def Let_def wp_bindp [of "limit_check a b c d e f g" for a b c d e f g] wp_limit_check
    apply (rule if_split [THEN iffD2], intro conjI impI, rule inv)
    apply (rule wp_booked_tx [OF inv _ ])
     apply (unfold wp_bindp [of "gets g" for g] wp_gets)
     apply (cases "identity_by_email s email")
      apply (simp only: option.case fail)
     apply (simp only: option.case)
     apply (unfold wp_bindp [of "gets (active_tokens a b)" for a b] wp_gets)
    subgoal for i
      apply (cases "active_tokens login_kind (pi_id i) s = []")
       apply (simp only: if_True simp_thms fail)
      apply (simp only: if_False simp_thms)
      apply (cases "matching_token env now code (active_tokens login_kind (pi_id i) s)")
       apply (simp only: option.case fail)
      apply (simp only: option.case)
      apply (rule body, assumption)
      done
    apply assumption
    done
qed


interpretation same_tokens: auth_view "\<lambda>t. pa_tokens t = xs" for xs
  by unfold_locales simp_all

lemma booked_cong: "pa_tokens t = pa_tokens s \<Longrightarrow> booked a b c d t = booked a b c d s"
  by (simp add: booked_def spent_def issued_def)

lemma verify_step_up_booked:
  assumes inv: "booked a b c d s"
  shows "wp (verify_step_up env now sid code label)
    (\<lambda>r. case r of Granted g e l \<Rightarrow> booked a (Suc b) (Suc c) d | StepUpFailed n \<Rightarrow> booked a b c d) (\<lambda>_. booked a b c d) s"
proof -
  let ?Q = "\<lambda>r. case r of Granted g e l \<Rightarrow> booked a (Suc b) (Suc c) d | StepUpFailed n \<Rightarrow> booked a b c d"
  have body: "wp (bindp (generate_token env) (\<lambda>grant. bindp (hashed env grant) (\<lambda>h. bindp (auth_tx (bindp (consume_token (lt_id tok) now) (\<lambda>_.
      issue_token env iid ''step_up_grant'' h (Some label) now expires))) (\<lambda>_. ret (Granted grant expires label))))) ?Q (\<lambda>_. booked a b c d) s"
    if m: "matching_token env now code (active_tokens (scoped ''step_up'' label) i s) = Some tok" for tok i iid expires
  proof (rule wp_seq [where P = "\<lambda>t. pa_tokens t = pa_tokens s"], intro same_tokens.op_rules, simp,
      rule wp_seq [where P = "\<lambda>t. pa_tokens t = pa_tokens s"], intro same_tokens.op_rules, assumption)
    fix grant h and t :: auth_db assume t: "pa_tokens t = pa_tokens s"
    have bt: "booked a b c d t" using inv booked_cong [OF t] by simp
    have k: "lt_kind tok = ''step_up''" using matching_active(3) [OF m] by (simp add: scoped_def)
    show "wp (bindp (auth_tx (bindp (consume_token (lt_id tok) now) (\<lambda>_.
      issue_token env iid ''step_up_grant'' h (Some label) now expires))) (\<lambda>_. ret (Granted grant expires label))) ?Q (\<lambda>_. booked a b c d) t"
      unfolding wp_bindp [of "auth_tx m" for m]
    proof (rule wp_booked_tx [OF bt])
      show "wp (bindp (consume_token (lt_id tok) now) (\<lambda>_. issue_token env iid ''step_up_grant'' h (Some label) now expires))
          (\<lambda>x. wp (ret (Granted grant expires label)) ?Q (\<lambda>_. booked a b c d)) (\<lambda>_ _. True) t"
        unfolding wp_bindp
        by (rule wp_consume [OF bt], use t matching_active(1) [OF m] in simp, rule matching_active(2) [OF m])
           (rule wp_issue, assumption, simp_all add: wp_ret k login_kind_def of_kind_def)
    qed
  next
    fix e and t :: auth_db assume "pa_tokens t = pa_tokens s"
    then show "booked a b c d t" "booked a b c d t" using inv booked_cong by blast+
  qed
  show ?thesis
    unfolding verify_step_up_def Let_def wp_bindp [of "gets g" for g] wp_gets
    apply (cases "session_identity_if_active s sid")
     apply (simp add: wp_ret inv)
    apply (simp only: option.case)
    apply (unfold wp_bindp [of "gets (active_tokens a b)" for a b] wp_gets)
    subgoal for i
      apply (cases "active_tokens (scoped ''step_up'' label) i s = []")
       apply (simp add: wp_ret inv)
      apply (simp only: if_False simp_thms)
      apply (cases "matching_token env now code (active_tokens (scoped ''step_up'' label) i s)")
       apply (simp add: wp_ret inv)
      apply (simp only: option.case)
      apply (rule body, assumption)
      done
    done
qed

lemma consume_booked:
  assumes inv: "booked a b c d s"
  shows "wp (consume_step_up_token env now sid token label) (\<lambda>ok. booked a b c (d + (if ok then 1 else 0))) (\<lambda>_. booked a b c d) s"
proof -
  have "wp (consume_token (lt_id tok) now) (\<lambda>x. wp (ret True) (\<lambda>ok. booked a b c (d + (if ok then 1 else 0))) (\<lambda>_. booked a b c d)) (\<lambda>_. booked a b c d) s"
    if m: "matching_token env now token (active_tokens (scoped ''step_up_grant'' label) i s) = Some tok" for tok i
  proof (rule wp_consume [OF inv matching_active(1,2) [OF m]])
    fix t
    have "lt_kind tok = ''step_up_grant''" using matching_active(3) [OF m] by (simp add: scoped_def)
    then show "booked (a + (if login_kind tok then 1 else 0)) (b + (if of_kind ''step_up'' tok then 1 else 0)) c
        (d + (if of_kind ''step_up_grant'' tok then 1 else 0)) t \<Longrightarrow> wp (ret True) (\<lambda>ok. booked a b c (d + (if ok then 1 else 0))) (\<lambda>_. booked a b c d) t"
      by (simp add: wp_ret login_kind_def of_kind_def)
  qed
  then show ?thesis
    unfolding consume_step_up_token_def
    using inv by (simp add: wp_bindp wp_gets wp_ret split: option.split)
qed


lemma wp_or_else: "wp (or_else f m) Q E = (\<lambda>s. wp m Q (\<lambda>_. Q f) s)"
  by (rule ext) (auto simp: wp_def or_else_def split: prod.splits sum.splits)

definition gained :: "nat \<Rightarrow> nat \<Rightarrow> nat \<Rightarrow> nat \<Rightarrow> gain \<Rightarrow> auth_db \<Rightarrow> bool" where
  "gained a b c d g = booked (a + (if g = Session then 1 else 0)) (b + (if g = Grant then 1 else 0)) (c + (if g = Grant then 1 else 0))
     (d + (if g = Leave then 1 else 0))"

lemma gained_simps:
  "gained a b c d Nothing = booked a b c d" "gained a b c d Session = booked (Suc a) b c d"
  "gained a b c d Grant = booked a (Suc b) (Suc c) d" "gained a b c d Leave = booked a b c (Suc d)"
  by (simp_all add: gained_def)

lemma wp_gain:
  assumes "wp m (\<lambda>r. gained a b c d (g (Inr r))) (\<lambda>e. gained a b c d (g (Inl e))) s"
  shows "case (case m s of (r, t) \<Rightarrow> (g r, t)) of (x, t) \<Rightarrow> gained a b c d x t"
  using assms by (auto simp: wp_def split: prod.splits sum.splits)

lemma gate_booked:
  assumes inv: "booked a b c d s"
  shows "wp (check_step_up env now sid label token target form) (\<lambda>ok. gained a b c d (if ok then Leave else Nothing)) (\<lambda>_. booked a b c d) s"
proof -
  have rest: "wp (bindp (or_else [] (stash_pending_action env now sid label target form None)) (\<lambda>_. ret False))
      (\<lambda>ok. gained a b c d (if ok then Leave else Nothing)) (\<lambda>_. booked a b c d) t" if "booked a b c d t" for t
    by (rule wp_seq [where P = "booked a b c d"], intro booked.op_rules) (use that in \<open>simp_all add: wp_ret gained_simps\<close>)
  have use: "wp (or_else False (consume_step_up_token env now sid tok label))
      (\<lambda>ok. wp (if ok then ret True else bindp (or_else [] (stash_pending_action env now sid label target form None)) (\<lambda>_. ret False))
        (\<lambda>ok. gained a b c d (if ok then Leave else Nothing)) (\<lambda>_. booked a b c d)) (\<lambda>_. booked a b c d) s" for tok
    unfolding wp_or_else
    by (rule wp_mono [OF consume_booked [OF inv]]) (auto simp: wp_ret gained_simps rest split: if_splits)
  show ?thesis
    unfolding check_step_up_def wp_bindp [of "case_option m n x" for m n x]
    using use rest [OF inv] by (cases token) (simp_all add: wp_ret)
qed

lemma grant_booked:
  assumes inv: "booked a b c d s"
  shows "wp (step_up_verify env now sid code label) (\<lambda>r. gained a b c d (case r of None \<Rightarrow> Nothing | Some _ \<Rightarrow> Grant)) (\<lambda>_. booked a b c d) s"
proof -
  have rest: "wp (bindp (or_else None (consume_pending_action now sid label)) (\<lambda>p. ret (Some (grant, p))))
      (\<lambda>r. gained a b c d (case r of None \<Rightarrow> Nothing | Some _ \<Rightarrow> Grant)) (\<lambda>_. booked a b c d) t" if "booked a (Suc b) (Suc c) d t" for grant t
    unfolding wp_bindp wp_or_else
    by (rule wp_mono [OF keeps_wp [where P = "booked a (Suc b) (Suc c) d", OF _ that]], intro booked.op_rules)
       (simp_all add: wp_ret gained_simps)
  show ?thesis
    unfolding step_up_verify_def wp_bindp [of "verify_step_up e n i x l" for e n i x l]
    by (rule wp_mono [OF verify_step_up_booked [OF inv]]) (auto simp: wp_ret gained_simps rest split: stepup_outcome.splits)
qed

lemma step_booked:
  assumes inv: "booked a b c d s"
  shows "case auth_step env op s of (g, t) \<Rightarrow> gained a b c d g t"
proof (cases op)
  case (VerifyLogin now email code ip agent)
  have "wp (verify_email_login env now email code ip agent)
      (\<lambda>r. gained a b c d (case (Inr r :: auth_error + verify_outcome) of Inr (LoggedIn v) \<Rightarrow> Session | _ \<Rightarrow> Nothing))
      (\<lambda>e. gained a b c d (case (Inl e :: auth_error + verify_outcome) of Inr (LoggedIn v) \<Rightarrow> Session | _ \<Rightarrow> Nothing)) s"
    by (rule wp_mono [OF verify_login_booked [OF inv]]) (auto simp: gained_simps split: verify_outcome.splits)
  from wp_gain [OF this] show ?thesis unfolding VerifyLogin auth_step.simps .
next
  case (VerifyStepUp now sid code label)
  have "wp (step_up_verify env now sid code label)
      (\<lambda>r. gained a b c d (case (Inr r :: auth_error + (string \<times> stash_row option) option) of Inr (Some _) \<Rightarrow> Grant | _ \<Rightarrow> Nothing))
      (\<lambda>e. gained a b c d (case (Inl e :: auth_error + (string \<times> stash_row option) option) of Inr (Some _) \<Rightarrow> Grant | _ \<Rightarrow> Nothing)) s"
    by (rule wp_mono [OF grant_booked [OF inv]]) (auto simp: gained_simps split: option.splits if_splits)
  from wp_gain [OF this] show ?thesis unfolding VerifyStepUp auth_step.simps .
next
  case (Guard now sid label token target form)
  have "wp (check_step_up env now sid label token target form)
      (\<lambda>r. gained a b c d (case (Inr r :: auth_error + bool) of Inr True \<Rightarrow> Leave | _ \<Rightarrow> Nothing))
      (\<lambda>e. gained a b c d (case (Inl e :: auth_error + bool) of Inr True \<Rightarrow> Leave | _ \<Rightarrow> Nothing)) s"
    by (rule wp_mono [OF gate_booked [OF inv]]) (auto simp: gained_simps split: bool.splits if_splits)
  from wp_gain [OF this] show ?thesis unfolding Guard auth_step.simps .
qed (simp_all add: gained_simps keepsD [where P = "booked a b c d", OF _ inv] inv start_login_booked start_step_up_booked
    booked.op_rules booked.on_crm)

text \<open>
  C6: every gain at the portal is paid for with a code: over any run, as many login codes are
  newly spent as sessions are opened by login, as many step-up codes as grants are given, and
  as many grants as protected actions are let through; no code or grant is spent twice.
\<close>
theorem codes_pay_for_gains:
  assumes "distinct (map lt_id (pa_tokens s))" and "auth_run env ops s = (gains, t)"
  shows "spent login_kind t = spent login_kind s + count_list gains Session \<and>
    spent (of_kind ''step_up'') t = spent (of_kind ''step_up'') s + count_list gains Grant \<and>
    issued (of_kind ''step_up_grant'') t = issued (of_kind ''step_up_grant'') s + count_list gains Grant \<and>
    spent (of_kind ''step_up_grant'') t = spent (of_kind ''step_up_grant'') s + count_list gains Leave"
proof -
  have "booked a b c d s \<Longrightarrow> auth_run env ops s = (gains, t) \<Longrightarrow>
      booked (a + count_list gains Session) (b + count_list gains Grant) (c + count_list gains Grant) (d + count_list gains Leave) t"
    for a b c d s gains t
  proof (induction ops arbitrary: a b c d s gains)
    case (Cons op ops)
    obtain g u gs where run: "auth_step env op s = (g, u)" "auth_run env ops u = (gs, t)" "gains = g # gs"
      using Cons.prems(2) by (auto split: prod.splits)
    have "gained a b c d g u" using step_booked [OF Cons.prems(1), of env op] run(1) by simp
    from Cons.IH [OF this [unfolded gained_def] run(2)] show ?case unfolding run(3) by (cases g) simp_all
  qed simp
  from this [OF _ assms(2)] show ?thesis using assms(1) by (simp add: booked_def)
qed


section \<open>Step-up codes can be guessed\<close>

primrec guess_all :: "auth_env \<Rightarrow> string \<Rightarrow> string \<Rightarrow> (int \<times> string) list \<Rightarrow> auth_db \<Rightarrow> (string \<times> auth_db) option" where
  "guess_all env sid label [] s = None"
| "guess_all env sid label (x # xs) s = (case verify_step_up env (fst x) sid (snd x) label s of
     (Inr (Granted g e l), t) \<Rightarrow> Some (g, t) | (_, t) \<Rightarrow> guess_all env sid label xs t)"

lemma wrong_guess:
  assumes "session_identity_if_active s sid = Some iid" "matching_token env now code (active_tokens (scoped ''step_up'' label) iid s) = None"
  shows "\<exists>n. verify_step_up env now sid code label s = (Inr (StepUpFailed n), s)"
proof -
  have "wp (verify_step_up env now sid code label) (\<lambda>r t. (\<exists>n. r = StepUpFailed n) \<and> t = s) (\<lambda>_ _. False) s"
    using assms by (auto simp: verify_step_up_def wp_simps)
  then show ?thesis by (auto simp: wp_def split: prod.splits sum.splits)
qed

lemma still_fresh:
  "tbl_find lt_id k rows = None \<Longrightarrow> tbl_find lt_id k (tbl_update lt_id i (\<lambda>r. r\<lparr>lt_consumed := x\<rparr>) rows) = None"
  by (cases "k = i") (simp_all add: tbl_find_update)

lemma right_guess:
  assumes "session_identity_if_active s sid = Some iid" "matching_token env now code (active_tokens (scoped ''step_up'' label) iid s) = Some tok"
    and "fetch_identity s iid \<noteq> None" "tbl_find lt_id (''LTK-'' @ hex_bytes (ae_bytes env (Suc (pa_draws s)) 8)) (pa_tokens s) = None"
  shows "\<exists>g e l t. verify_step_up env now sid code label s = (Inr (Granted g e l), t) \<and> pa_attempts t = pa_attempts s"
proof -
  have some: "active_tokens (scoped ''step_up'' label) iid s \<noteq> []" using assms(2) by (auto simp: matching_token_def)
  have pepper: "se_pepper (ae_settings env) \<noteq> []"
    using assms(2) by (auto simp: matching_token_def find_Some_iff verify_token_def hash_token_def)
  have fresh: "tbl_find lt_id (''LTK-'' @ hex_bytes (ae_bytes env (Suc (pa_draws s)) 8))
      (tbl_update lt_id (lt_id tok) (\<lambda>r. r\<lparr>lt_consumed := Some now\<rparr>) (pa_tokens s)) = None"
    by (rule still_fresh [OF assms(4)])
  have "wp (verify_step_up env now sid code label) (\<lambda>r t. (\<exists>g e l. r = Granted g e l) \<and> pa_attempts t = pa_attempts s) (\<lambda>_ _. False) s"
    using assms(1-3) some pepper fresh
    by (auto simp: verify_step_up_def wp_simps generate_token_def next_draw_def hashed_def hash_token_def consume_token_def issue_token_def
        hex_id_def insert_token_def db_require_def fetch_identity_def Let_def)
  then show ?thesis by (auto simp: wp_def split: prod.splits sum.splits)
qed

text \<open>
  C39: nothing limits the guesses at a step-up code: while a code is out, any list of guesses
  that contains it (all six-digit codes, say) ends in a grant, however long it is, and leaves
  no attempt recorded.
\<close>
theorem step_up_guessing_succeeds:
  assumes "session_identity_if_active s sid = Some iid" and "fetch_identity s iid \<noteq> None"
    and "tok \<in> set (active_tokens (scoped ''step_up'' label) iid s)" and "verify_token env code (lt_hash tok)"
    and "code \<in> snd ` set guesses" and "list_all (\<lambda>x. fst x < lt_expires tok) guesses"
    and "tbl_find lt_id (''LTK-'' @ hex_bytes (ae_bytes env (Suc (pa_draws s)) 8)) (pa_tokens s) = None"
  shows "\<exists>g t. guess_all env sid label guesses s = Some (g, t) \<and> pa_attempts t = pa_attempts s"
  using assms(5,6)
proof (induction guesses)
  case (Cons x xs)
  show ?case
  proof (cases "matching_token env (fst x) (snd x) (active_tokens (scoped ''step_up'' label) iid s)")
    case None
    have "snd x \<noteq> code"
    proof
      assume "snd x = code"
      then have "\<exists>r\<in>set (active_tokens (scoped ''step_up'' label) iid s). lt_expires r > fst x \<and> verify_token env (snd x) (lt_hash r)"
        using assms(3,4) Cons.prems(2) by auto
      then show False using None by (auto simp: matching_token_def find_None_iff)
    qed
    moreover obtain n where "verify_step_up env (fst x) sid (snd x) label s = (Inr (StepUpFailed n), s)"
      using wrong_guess [OF assms(1) None] by blast
    ultimately show ?thesis using Cons by auto
  next
    case (Some m)
    from right_guess [OF assms(1) Some assms(2,7)] show ?thesis by auto
  qed
qed simp

section \<open>Changing an email address\<close>

lemma find_map_same: "(\<And>r. P (f r) = P r) \<Longrightarrow> find P (map f rows) = map_option f (find P rows)"
  by (induction rows) auto

lemma auth_row_update:
  assumes "\<And>r. P (f r) = P r"
  shows "find P (tbl_update key k f rows) = map_option (\<lambda>r. if key r = k then f r else r) (find P rows)"
  unfolding tbl_update_def by (rule find_map_same) (simp add: assms)

text \<open>What an applied change leaves, and what any other outcome leaves.\<close>

fun change_effect :: "auth_db \<Rightarrow> string \<Rightarrow> auth_error + change_outcome \<Rightarrow> auth_db \<Rightarrow> bool" where
  "change_effect s iid (Inr (ChangeApplied e)) t = (\<exists>i m p x. fetch_identity t iid = Some i \<and> pi_email i = e \<and>
     email_medium t iid = Some m \<and> cm_value m = e \<and> pending_change s iid = Some p \<and> ec_email p = e \<and>
     tbl_find ec_id (ec_id p) (pa_changes t) = Some x \<and> ec_status x = ''consumed'')"
| "change_effect s iid r t = (pa_identities t = pa_identities s \<and> pa_crm t = pa_crm s)"

lemma pending_found: "pending_change s iid = Some p \<Longrightarrow> \<exists>x. tbl_find ec_id (ec_id p) (pa_changes s) = Some x"
  using tbl_find_None_iff [of ec_id "ec_id p" "pa_changes s"]
  by (cases "tbl_find ec_id (ec_id p) (pa_changes s)") (auto simp: pending_change_def find_Some_iff)

lemma medium_changed:
  assumes "email_medium s iid = Some m" "fetch_identity t iid = map_option f (fetch_identity s iid)" "\<And>i. pi_customer (f i) = pi_customer i"
    and "pa_crm t = (pa_crm s)\<lparr>cr_mediums := tbl_update cm_id (cm_id m) (\<lambda>r. r\<lparr>cm_value := e\<rparr>) (cr_mediums (pa_crm s))\<rparr>"
  shows "email_medium t iid = Some (m\<lparr>cm_value := e\<rparr>)"
  using assms
  by (auto simp: email_medium_def get_customer_def auth_row_update split: option.splits Option.bind_splits)

text \<open>
  C40: a verified change of an email address takes effect in both schemas or in neither: if it
  is applied, the identity and the customer's email medium carry the requested address and the
  request is consumed; whatever else comes of it (a wrong or late code, no customer, a
  conflict in either schema), the identities and the CRM's tables are as they were.
\<close>
theorem email_change_all_or_nothing:
  "case verify_email_change env now iid code s of (r, t) \<Rightarrow> change_effect s iid r t"
proof -
  have "wp (verify_email_change env now iid code) (\<lambda>r. change_effect s iid (Inr r)) (\<lambda>e. change_effect s iid (Inl e)) s"
  proof (cases "pending_change s iid")
    case (Some p)
    show ?thesis
    proof (cases "email_medium s iid")
      case None
      then show ?thesis using Some by (simp add: verify_email_change_def wp_simps set_change_def)
    next
      case medium: (Some m)
      obtain i where i: "fetch_identity s iid = Some i" using medium by (cases "fetch_identity s iid") (auto simp: email_medium_def)
      obtain x where x: "tbl_find ec_id (ec_id p) (pa_changes s) = Some x" using pending_found [OF Some] by blast
      let ?t = "s\<lparr>pa_crm := (pa_crm s)\<lparr>cr_mediums := tbl_update cm_id (cm_id m) (\<lambda>r. r\<lparr>cm_value := ec_email p\<rparr>) (cr_mediums (pa_crm s))\<rparr>,
        pa_identities := tbl_update pi_id iid (\<lambda>r. r\<lparr>pi_email := ec_email p\<rparr>) (pa_identities s),
        pa_changes := tbl_update ec_id (ec_id p) (\<lambda>r. r\<lparr>ec_status := ''consumed'', ec_consumed := Some now\<rparr>) (pa_changes s)\<rparr>"
      have new: "fetch_identity ?t iid = map_option (\<lambda>r. r\<lparr>pi_email := ec_email p\<rparr>) (fetch_identity s iid)"
        by (simp add: fetch_identity_def tbl_find_update)
      have "email_medium ?t iid = Some (m\<lparr>cm_value := ec_email p\<rparr>)" by (rule medium_changed [OF medium new]) simp_all
      then have "change_effect s iid (Inr (ChangeApplied (ec_email p))) ?t" using new i x Some by (simp add: tbl_find_update)
      then show ?thesis using Some medium
        by (simp add: verify_email_change_def wp_simps set_change_def set_medium_value_def update_identity_def db_require_def)
    qed
  qed (simp add: verify_email_change_def wp_simps)
  then show ?thesis by (auto simp: wp_def split: prod.splits sum.splits)
qed

end
