(* ===== verification/AuthWitness.thy ===== *)
theory AuthWitness
  imports AuthLedger InventoryProps
begin

text \<open>Concrete runs of the portal's authentication: each theorem with hypotheses is applied to one.\<close>

definition portal_env :: auth_env where
  "portal_env = \<lparr>ae_settings = default_settings\<lparr>se_pepper := ''k''\<rparr>, ae_bytes = (\<lambda>n k. []),
     ae_digits = (\<lambda>n. [1, 2, 3, 4, 5, 6]), ae_mac = (\<lambda>k x. x)\<rparr>"

definition empty_portal :: auth_db where
  "empty_portal = \<lparr>pa_crm = empty_crm, pa_draws = 0, pa_mail = [], pa_identities = [], pa_tokens = [], pa_sessions = [],
     pa_attempts = [], pa_changes = [], pa_stashes = [], pa_actions = []\<rparr>"


definition signed_in :: auth_db where
  "signed_in = empty_portal\<lparr>
     pa_identities := [\<lparr>pi_id = ''IDN-1'', pi_email = ''a@b'', pi_customer = None, pi_verified = Some 0, pi_status = ''verified'', pi_created = 0, pi_login = None\<rparr>],
     pa_sessions := [\<lparr>ss_id = ''S'', ss_identity = ''IDN-1'', ss_issued = 0, ss_expires = 9000000, ss_seen = 0, ss_ip = None, ss_agent = None, ss_revoked = None\<rparr>],
     pa_tokens := [\<lparr>lt_id = ''LTK-a'', lt_identity = ''IDN-1'', lt_kind = ''step_up'', lt_hash = hex_bytes ''123456'', lt_action = Some ''pay'',
        lt_issued = 0, lt_expires = 9000000, lt_consumed = None\<rparr>,
       \<lparr>lt_id = ''LTK-b'', lt_identity = ''IDN-1'', lt_kind = ''otp'', lt_hash = hex_bytes ''654321'', lt_action = None,
        lt_issued = 0, lt_expires = 9000000, lt_consumed = None\<rparr>]\<rparr>"

lemma codes_pay_for_gains_witness:
  "\<exists>t. auth_run portal_env [VerifyLogin 1 ''a@b'' ''654321'' None None, VerifyLogin 2 ''a@b'' ''654321'' None None] signed_in = ([Session, Nothing], t) \<and>
     spent login_kind t = 1"
proof -
  let ?ops = "[VerifyLogin 1 ''a@b'' ''654321'' None None, VerifyLogin 2 ''a@b'' ''654321'' None None]"
  have gains: "fst (auth_run portal_env ?ops signed_in) = [Session, Nothing]" by code_simp
  have ids: "distinct (map lt_id (pa_tokens signed_in))" and none: "spent login_kind signed_in = 0" by code_simp+
  have "auth_run portal_env ?ops signed_in = ([Session, Nothing], snd (auth_run portal_env ?ops signed_in))"
    unfolding gains [symmetric] by (rule prod.collapse [symmetric])
  from this codes_pay_for_gains [OF ids this] none show ?thesis by auto
qed

lemma step_up_guessing_succeeds_witness:
  "\<exists>g t. guess_all portal_env ''S'' ''pay'' [(1, ''000000''), (2, ''111111''), (3, ''123456'')] signed_in = Some (g, t) \<and> pa_attempts t = []"
proof -
  let ?tok = "hd (pa_tokens signed_in)"
  have "session_identity_if_active signed_in ''S'' = Some ''IDN-1''" "fetch_identity signed_in ''IDN-1'' \<noteq> None"
    "?tok \<in> set (active_tokens (scoped ''step_up'' ''pay'') ''IDN-1'' signed_in)" "verify_token portal_env ''123456'' (lt_hash ?tok)"
    "''123456'' \<in> snd ` set [(1, ''000000''), (2, ''111111''), (3, ''123456'')]"
    "list_all (\<lambda>x. fst x < lt_expires ?tok) [(1, ''000000''), (2, ''111111''), (3, ''123456'')]"
    "tbl_find lt_id (''LTK-'' @ hex_bytes (ae_bytes portal_env (Suc (pa_draws signed_in)) 8)) (pa_tokens signed_in) = None"
    by code_simp+
  from step_up_guessing_succeeds [OF this] show ?thesis by (simp add: signed_in_def empty_portal_def)
qed

end
