(* ===== verification/Spec2Isabelle.thy ===== *)
theory Spec2Isabelle
  imports DeliveryProps EndToEnd Charging CrmWitness AuthWitness
begin

text \<open>Root of the development.\<close>

end
